(* ===== verification/Prelude.thy ===== *)
theory Prelude
  imports Main
begin

text \<open>
  What every component shares: the collections the proofs draw on, results and the
  outcome of a fallible call, and the interfaces (locales) several components implement:
  a codec (encode and decode with their round trip), a keyed table (the rows of one SQL
  table, with a primary key the database assigns), and a machine with an invariant.
\<close>

section \<open>Collections of facts\<close>

named_theorems sql_simps \<open>how a statement changes the tables it reads and writes\<close>
named_theorems wf_intros \<open>introduction rules for the well-formedness invariants\<close>
named_theorems str_simps \<open>facts about Go's string functions\<close>

section \<open>Results\<close>

text \<open>
  A Go function that returns \<open>(value, error)\<close> returns \<open>'e + 'a\<close> here: \<open>Inl\<close> the error,
  \<open>Inr\<close> the value.
\<close>

abbreviation Err :: "'e \<Rightarrow> 'e + 'a" where "Err \<equiv> Inl"
abbreviation Ok :: "'a \<Rightarrow> 'e + 'a" where "Ok \<equiv> Inr"

definition is_ok :: "'e + 'a \<Rightarrow> bool" where
  "is_ok r = (case r of Inl _ \<Rightarrow> False | Inr _ \<Rightarrow> True)"

lemma is_ok_simps [simp]: "is_ok (Inr a)" "\<not> is_ok (Inl e)"
  by (simp_all add: is_ok_def)

lemma is_ok_iff: "is_ok r \<longleftrightarrow> (\<exists>a. r = Inr a)"
  by (cases r) auto

section \<open>Interface: a codec\<close>

text \<open>
  An encoder and a decoder over a domain of valid values. The two clients are the
  encodings of the token (base64 over JSON) and of the numbers in text (decimal).
\<close>

locale codec =
  fixes valid :: "'a \<Rightarrow> bool"
    and enc :: "'a \<Rightarrow> 'b"
    and dec :: "'b \<Rightarrow> 'a option"
  assumes dec_enc: "valid x \<Longrightarrow> dec (enc x) = Some x"
begin

lemma enc_inject: "valid x \<Longrightarrow> valid y \<Longrightarrow> enc x = enc y \<longleftrightarrow> x = y"
  by (metis dec_enc option.inject)

lemma dec_enc_iff: "valid x \<Longrightarrow> valid y \<Longrightarrow> dec (enc x) = Some y \<longleftrightarrow> x = y"
  by (auto simp: dec_enc)

lemma enc_not_none: "valid x \<Longrightarrow> dec (enc x) \<noteq> None"
  by (simp add: dec_enc)

end

text \<open>Two codecs in sequence: the outer one carries what the inner one writes.\<close>

locale codec_chain = inner: codec valid enc dec + outer: codec valid' enc' dec'
  for valid :: "'a \<Rightarrow> bool" and enc :: "'a \<Rightarrow> 'b" and dec
    and valid' and enc' :: "'b \<Rightarrow> 'c" and dec' +
  assumes inner_valid: "valid x \<Longrightarrow> valid' (enc x)"
begin

lemma chain_dec_enc: "valid x \<Longrightarrow> Option.bind (dec' (enc' (enc x))) dec = Some x"
  by (simp add: inner_valid outer.dec_enc inner.dec_enc)

end

sublocale codec_chain \<subseteq> chain: codec valid "\<lambda>x. enc' (enc x)" "\<lambda>y. Option.bind (dec' y) dec"
  by unfold_locales (rule chain_dec_enc)

section \<open>Interface: a machine with an invariant\<close>

text \<open>
  A step relation whose every step keeps an invariant keeps it along every run; a
  relation between states that every step respects (some field only grows, some row is
  never revived) holds between any two states of a run.
\<close>

inductive runs :: "('s \<Rightarrow> 's \<Rightarrow> bool) \<Rightarrow> 's \<Rightarrow> 's \<Rightarrow> bool" for step where
  runs_refl: "runs step s s"
| runs_step: "runs step s t \<Longrightarrow> step t u \<Longrightarrow> runs step s u"

lemma runs_one: "step s t \<Longrightarrow> runs step s t"
  by (rule runs_step [OF runs_refl])

lemma runs_trans: "runs step s t \<Longrightarrow> runs step t u \<Longrightarrow> runs step s u"
  by (rotate_tac, induction rule: runs.induct) (auto intro: runs.intros)

locale invariant_machine =
  fixes step :: "'s \<Rightarrow> 's \<Rightarrow> bool"
    and inv :: "'s \<Rightarrow> bool"
  assumes step_inv: "inv s \<Longrightarrow> step s t \<Longrightarrow> inv t"
begin

lemma runs_inv: "runs step s t \<Longrightarrow> inv s \<Longrightarrow> inv t"
  by (induction rule: runs.induct) (auto intro: step_inv)

end

locale monotone_machine = invariant_machine +
  fixes rel :: "'s \<Rightarrow> 's \<Rightarrow> bool"
  assumes rel_refl: "rel s s"
    and rel_trans: "rel s t \<Longrightarrow> rel t u \<Longrightarrow> rel s u"
    and step_rel: "inv s \<Longrightarrow> step s t \<Longrightarrow> rel s t"
begin

lemma runs_rel: "runs step s t \<Longrightarrow> inv s \<Longrightarrow> rel s t"
proof (induction rule: runs.induct)
  case runs_refl
  show ?case by (rule rel_refl)
next
  case (runs_step s t u)
  then show ?case by (blast intro: rel_trans step_rel runs_inv)
qed

end

section \<open>Interface: a keyed table\<close>

text \<open>
  A table is the list of its rows in the order they were inserted. The model's tables use
  four operations: the first row with a key (\<open>row\<close>), an update of the rows that satisfy a
  condition (\<open>upd\<close>), the number the database gives the next row (\<open>next_id\<close>) and an append.
\<close>

definition row :: "('r \<Rightarrow> 'k) \<Rightarrow> 'k \<Rightarrow> 'r list \<Rightarrow> 'r option" where
  "row key k rs = find (\<lambda>r. key r = k) rs"

definition upd :: "('r \<Rightarrow> bool) \<Rightarrow> ('r \<Rightarrow> 'r) \<Rightarrow> 'r list \<Rightarrow> 'r list" where
  "upd P f rs = map (\<lambda>r. if P r then f r else r) rs"

text \<open>
  SQLite numbers a row of a table with an \<open>INTEGER PRIMARY KEY\<close> one above the largest
  number in use, and the first row 1.
\<close>

definition next_id :: "('r \<Rightarrow> int) \<Rightarrow> 'r list \<Rightarrow> int" where
  "next_id key rs = foldr max (map key rs) 0 + 1"

lemma row_Nil [simp]: "row key k [] = None"
  by (simp add: row_def)

lemma row_Cons [simp]: "row key k (r # rs) = (if key r = k then Some r else row key k rs)"
  by (simp add: row_def)

lemma row_append: "row key k (xs @ ys) = (case row key k xs of None \<Rightarrow> row key k ys | Some r \<Rightarrow> Some r)"
  by (induction xs) auto

lemma row_SomeD: "row key k rs = Some r \<Longrightarrow> r \<in> set rs \<and> key r = k"
  by (induction rs) (auto split: if_splits)

lemma row_None_iff: "row key k rs = None \<longleftrightarrow> k \<notin> key ` set rs"
  by (induction rs) auto

lemma row_eq_Some_iff: "distinct (map key rs) \<Longrightarrow> row key k rs = Some r \<longleftrightarrow> r \<in> set rs \<and> key r = k"
  by (induction rs) (auto simp: image_iff)

lemma upd_simps [simp]:
  "upd P f [] = []"
  "upd P f (r # rs) = (if P r then f r else r) # upd P f rs"
  "upd P f (xs @ ys) = upd P f xs @ upd P f ys"
  "length (upd P f rs) = length rs"
  by (simp_all add: upd_def)

lemma upd_none: "(\<And>r. r \<in> set rs \<Longrightarrow> \<not> P r) \<Longrightarrow> upd P f rs = rs"
  by (induction rs) auto

lemma set_upd: "set (upd P f rs) = (\<lambda>r. if P r then f r else r) ` set rs"
  by (simp add: upd_def)

lemma upd_set_cases:
  assumes "r \<in> set (upd P f rs)"
  obtains (kept) "r \<in> set rs" "\<not> P r" | (changed) q where "q \<in> set rs" "P q" "r = f q"
  using assms by (auto simp: set_upd split: if_splits)

lemma map_upd: "(\<And>r. P r \<Longrightarrow> g (f r) = g r) \<Longrightarrow> map g (upd P f rs) = map g rs"
  by (induction rs) auto

lemma row_upd:
  assumes "\<And>r. P r \<Longrightarrow> key (f r) = key r"
  shows "row key k (upd P f rs) = map_option (\<lambda>r. if P r then f r else r) (row key k rs)"
  using assms by (induction rs) auto

lemma filter_upd: "filter Q (upd P f rs) = upd P f (filter (\<lambda>r. Q (if P r then f r else r)) rs)"
  by (induction rs) auto

lemma next_id_greater: "r \<in> set rs \<Longrightarrow> key r < next_id key rs"
  by (induction rs) (auto simp: next_id_def)

lemma next_id_pos: "0 < next_id key rs"
  by (induction rs) (auto simp: next_id_def)

lemma next_id_fresh: "next_id key rs \<notin> key ` set rs"
  using next_id_greater [of _ rs key] by force

lemma row_next_id: "row key (next_id key rs) rs = None"
  by (simp add: row_None_iff next_id_fresh)

lemma row_insert: "key r = next_id key rs \<Longrightarrow> row key (next_id key rs) (rs @ [r]) = Some r"
  by (simp add: row_append row_next_id)

lemma distinct_insert: "key r = next_id key rs \<Longrightarrow> distinct (map key rs) \<Longrightarrow> distinct (map key (rs @ [r]))"
  using next_id_fresh [of key rs] by simp

text \<open>
  The contract of a table whose rows are numbered by the database: a column \<open>key\<close> with
  the primary key and an operation \<open>with_key\<close> that builds the row the database stores.
  Numbers are positive and distinct, and an insert gives a new one.
\<close>

locale keyed_table =
  fixes key :: "'r \<Rightarrow> int"
    and with_key :: "int \<Rightarrow> 'r \<Rightarrow> 'r"
  assumes key_with_key: "key (with_key i r) = i"
begin

abbreviation insert_row :: "'r \<Rightarrow> 'r list \<Rightarrow> 'r list" where
  "insert_row r rs \<equiv> rs @ [with_key (next_id key rs) r]"

abbreviation keyed :: "'r list \<Rightarrow> bool" where
  "keyed rs \<equiv> distinct (map key rs) \<and> (\<forall>r \<in> set rs. 0 < key r)"

lemma keyed_insert: "keyed rs \<Longrightarrow> keyed (insert_row r rs)"
  using next_id_fresh [of key rs] by (auto simp: key_with_key next_id_pos)

lemma keyed_upd: "(\<And>r. P r \<Longrightarrow> key (f r) = key r) \<Longrightarrow> keyed rs \<Longrightarrow> keyed (upd P f rs)"
  by (auto simp: map_upd set_upd)

lemma lookup_inserted: "row key (next_id key rs) (insert_row r rs) = Some (with_key (next_id key rs) r)"
  by (simp add: row_append row_next_id key_with_key)

lemma lookup_other: "row key k rs = Some q \<Longrightarrow> row key k (insert_row r rs) = Some q"
  by (simp add: row_append)

lemma lookup_insert:
  "row key k (insert_row r rs) =
     (if k = next_id key rs then Some (with_key k r) else row key k rs)"
  by (auto simp: row_append key_with_key row_next_id split: option.splits)

lemma keyed_row_iff: "keyed rs \<Longrightarrow> row key k rs = Some r \<longleftrightarrow> r \<in> set rs \<and> key r = k"
  by (simp add: row_eq_Some_iff)

lemma keyed_unique: "keyed rs \<Longrightarrow> r \<in> set rs \<Longrightarrow> q \<in> set rs \<Longrightarrow> key r = key q \<Longrightarrow> r = q"
  by (auto simp: distinct_map inj_on_def)

lemma key_zero_unused: "keyed rs \<Longrightarrow> row key 0 rs = None"
  by (auto simp: row_None_iff)

end

end
