(* ===== verification/Go_Utf8.thy ===== *)
theory Go_Utf8
  imports Prelude
begin

text \<open>
  Go's \<open>unicode/utf8\<close>: decoding a string into runes, encoding runes, and the round trip.
  A Go string is a sequence of bytes: here a \<open>string\<close> (a list of \<open>char\<close>, which has 256
  values), so \<open>length\<close> counts bytes as \<open>len\<close> does.
\<close>

section \<open>Bytes and runes\<close>

abbreviation byte :: "char \<Rightarrow> nat" where "byte c \<equiv> of_char c"

abbreviation chr :: "nat \<Rightarrow> char" where "chr n \<equiv> char_of n"

lemma byte_less [simp]: "byte c < 256"
  by (metis of_char_mod_256 mod_less_divisor zero_less_numeral)

lemma byte_chr [simp]: "n < 256 \<Longrightarrow> byte (chr n) = n"
  by simp

lemma chr_byte [simp]: "chr (byte c) = c"
  by simp

lemma chr_eq_iff: "m < 256 \<Longrightarrow> n < 256 \<Longrightarrow> chr m = chr n \<longleftrightarrow> m = n"
  by (metis byte_chr)

type_synonym rune = nat

abbreviation rune_error :: rune where "rune_error \<equiv> 0xFFFD"

definition ascii :: "char \<Rightarrow> bool" where
  "ascii c \<longleftrightarrow> byte c < 0x80"

text \<open>A continuation byte of UTF-8.\<close>

definition cont :: "char \<Rightarrow> bool" where
  "cont c \<longleftrightarrow> 0x80 \<le> byte c \<and> byte c < 0xC0"

text \<open>
  \<open>utf8.DecodeRuneInString\<close> on the string \<open>c # s\<close>: the rune and the bytes after it, or
  \<open>None\<close> with one byte consumed for an invalid encoding (overlong, surrogate, too large,
  truncated), where Go returns \<open>(RuneError, 1)\<close>.
\<close>

definition next_rune :: "char \<Rightarrow> string \<Rightarrow> rune option \<times> string" where
  "next_rune c s =
     (let b = byte c in
      if b < 0x80 then (Some b, s)
      else if 0xC2 \<le> b \<and> b < 0xE0 then
        (case s of
           c1 # s1 \<Rightarrow> if cont c1 then (Some ((b - 0xC0) * 64 + (byte c1 - 0x80)), s1) else (None, s)
         | [] \<Rightarrow> (None, s))
      else if 0xE0 \<le> b \<and> b < 0xF0 then
        (case s of
           c1 # c2 # s2 \<Rightarrow>
             let r = (b - 0xE0) * 4096 + (byte c1 - 0x80) * 64 + (byte c2 - 0x80) in
             if cont c1 \<and> cont c2 \<and> 0x800 \<le> r \<and> \<not> (0xD800 \<le> r \<and> r < 0xE000)
             then (Some r, s2) else (None, s)
         | _ \<Rightarrow> (None, s))
      else if 0xF0 \<le> b \<and> b < 0xF5 then
        (case s of
           c1 # c2 # c3 # s3 \<Rightarrow>
             let r = (b - 0xF0) * 262144 + (byte c1 - 0x80) * 4096 + (byte c2 - 0x80) * 64 + (byte c3 - 0x80) in
             if cont c1 \<and> cont c2 \<and> cont c3 \<and> 0x10000 \<le> r \<and> r < 0x110000
             then (Some r, s3) else (None, s)
         | _ \<Rightarrow> (None, s))
      else (None, s))"

lemma next_rune_length: "length (snd (next_rune c s)) \<le> length s"
  by (auto simp: next_rune_def Let_def split: list.splits)

lemma next_rune_shorter: "(r, rest) = next_rune c s \<Longrightarrow> length rest < Suc (length s)"
  by (metis le_imp_less_Suc next_rune_length snd_conv)

text \<open>The runes of a string, as \<open>for _, r := range s\<close> meets them.\<close>

function runes :: "string \<Rightarrow> rune list" where
  "runes [] = []"
| "runes (c # s) =
     (case next_rune c s of (r, rest) \<Rightarrow> (case r of None \<Rightarrow> rune_error | Some x \<Rightarrow> x) # runes rest)"
  by pat_completeness auto
termination
  by (relation "measure length") (simp_all add: next_rune_shorter)

text \<open>\<open>utf8.ValidString\<close>\<close>

function utf8_valid :: "string \<Rightarrow> bool" where
  "utf8_valid [] = True"
| "utf8_valid (c # s) = (case next_rune c s of (r, rest) \<Rightarrow> r \<noteq> None \<and> utf8_valid rest)"
  by pat_completeness auto
termination
  by (relation "measure length") (simp_all add: next_rune_shorter)


text \<open>\<open>utf8.AppendRune\<close>: surrogates and numbers above the last code point become \<open>RuneError\<close>.\<close>

definition scalar :: "rune \<Rightarrow> bool" where
  "scalar r \<longleftrightarrow> r < 0xD800 \<or> 0xE000 \<le> r \<and> r < 0x110000"

definition encode_rune :: "rune \<Rightarrow> string" where
  "encode_rune r0 =
     (let r = (if scalar r0 then r0 else rune_error) in
      if r < 0x80 then [chr r]
      else if r < 0x800 then [chr (0xC0 + r div 64), chr (0x80 + r mod 64)]
      else if r < 0x10000 then
        [chr (0xE0 + r div 4096), chr (0x80 + r div 64 mod 64), chr (0x80 + r mod 64)]
      else
        [chr (0xF0 + r div 262144), chr (0x80 + r div 4096 mod 64),
         chr (0x80 + r div 64 mod 64), chr (0x80 + r mod 64)])"

lemma encode_rune_nonempty [simp]: "encode_rune r \<noteq> []"
  by (simp add: encode_rune_def Let_def)

lemma encode_ascii: "r < 0x80 \<Longrightarrow> encode_rune r = [chr r]"
  by (simp add: encode_rune_def scalar_def)

text \<open>The six-bit digits of a rune.\<close>

lemma digit64:
  fixes l a :: nat
  assumes "l < 64"
  shows "(a * 64 + l) div 64 = a" "(a * 64 + l) mod 64 = l"
  using assms by simp_all

lemma base64_digits:
  fixes k l m :: nat
  assumes "k < 64" "l < 64"
  shows "(m * 4096 + k * 64 + l) div 4096 = m" "(m * 4096 + k * 64 + l) div 64 mod 64 = k"
    "(m * 4096 + k * 64 + l) mod 64 = l"
proof -
  have e: "m * 4096 + k * 64 + l = (m * 64 + k) * 64 + l" by simp
  have d: "n div 4096 = n div 64 div 64" for n :: nat by (simp add: div_mult2_eq [symmetric])
  show "(m * 4096 + k * 64 + l) div 4096 = m" "(m * 4096 + k * 64 + l) div 64 mod 64 = k"
    "(m * 4096 + k * 64 + l) mod 64 = l"
    unfolding e d by (simp_all only: digit64 assms)
qed

lemma base64_split:
  fixes r :: nat
  obtains m k l where "r = m * 4096 + k * 64 + l" "k < 64" "l < 64"
proof -
  obtain q l where r: "r = q * 64 + l" "l < 64"
    by (rule that [of "r div 64" "r mod 64"]) simp_all
  obtain m k where q: "q = m * 64 + k" "k < 64"
    by (rule that [of "q div 64" "q mod 64"]) simp_all
  from r q show thesis by (intro that [of m k l]) simp_all
qed

text \<open>Decoding what \<open>encode_rune\<close> wrote gives the rune back, whatever follows.\<close>

lemma next_rune_encode:
  assumes "scalar r"
  shows "\<exists>c s'. encode_rune r @ s = c # s' \<and> next_rune c s' = (Some r, s)"
proof -
  consider "r < 0x80" | "0x80 \<le> r" "r < 0x800" | "0x800 \<le> r" "r < 0x10000" | "0x10000 \<le> r" "r < 0x110000"
    using assms unfolding scalar_def by linarith
  then show ?thesis
  proof cases
    case 1
    then show ?thesis by (simp add: encode_ascii next_rune_def)
  next
    case 2
    obtain q l where r: "r = q * 64 + l" "l < 64"
      by (rule that [of "r div 64" "r mod 64"]) simp_all
    with 2 have "2 \<le> q" "q < 32" "\<not> q * 64 + l < 0x80" by auto
    with r 2 assms show ?thesis
      by (simp add: encode_rune_def next_rune_def cont_def digit64)
  next
    case 3
    obtain m k l where r: "r = m * 4096 + k * 64 + l" "k < 64" "l < 64" by (rule base64_split)
    with 3 have "m < 16" by auto
    with r 3 assms show ?thesis
      by (auto simp: encode_rune_def next_rune_def cont_def scalar_def base64_digits Let_def)
  next
    case 4
    obtain q l n where r: "r = q * 4096 + l * 64 + n" "l < 64" "n < 64" by (rule base64_split)
    obtain m k where q: "q = m * 64 + k" "k < 64"
      by (rule that [of "q div 64" "q mod 64"]) simp_all
    from r q 4 have m: "m < 5" by auto
    have d: "r div 262144 = r div 4096 div 64" by (simp add: div_mult2_eq [symmetric])
    have "r div 262144 = m" "r div 4096 mod 64 = k" "r div 64 mod 64 = l" "r mod 64 = n"
      unfolding d unfolding r(1) base64_digits [OF r(2,3)] by (simp_all add: q digit64)
    with m r q 4 assms show ?thesis
      by (simp add: encode_rune_def next_rune_def cont_def)
  qed
qed

lemma runes_encode: "scalar r \<Longrightarrow> runes (encode_rune r @ s) = r # runes s"
  using next_rune_encode [of r s] by auto

lemma runes_encodes: "\<forall>r \<in> set rs. scalar r \<Longrightarrow> runes (concat (map encode_rune rs)) = rs"
  by (induction rs) (auto simp: runes_encode)

lemma utf8_valid_encode: "scalar r \<Longrightarrow> utf8_valid (encode_rune r @ s) = utf8_valid s"
  using next_rune_encode [of r s] by auto

text \<open>Conversely a rune that was decoded is a scalar value, and was encoded in these bytes.\<close>

lemma cont_decompose: "cont c \<Longrightarrow> \<exists>k < 64. c = chr (0x80 + k)"
  by (rule exI [of _ "byte c - 0x80"]) (auto simp: cont_def)

lemma lead_decompose: "b = byte c \<Longrightarrow> d \<le> b \<Longrightarrow> b < d + n \<Longrightarrow> \<exists>k < n. c = chr (d + k) \<and> b = d + k"
  by (rule exI [of _ "b - d"]) auto

lemma next_rune_sound:
  assumes "next_rune c s = (Some r, rest)"
  shows "scalar r \<and> c # s = encode_rune r @ rest"
proof -
  let ?b = "byte c"
  consider "?b < 0x80" | "0xC2 \<le> ?b" "?b < 0xE0" | "0xE0 \<le> ?b" "?b < 0xF0" | "0xF0 \<le> ?b" "?b < 0xF5"
    using assms by (cases "?b < 0x80"; cases "0xC2 \<le> ?b \<and> ?b < 0xE0"; cases "0xE0 \<le> ?b \<and> ?b < 0xF0"; cases "0xF0 \<le> ?b \<and> ?b < 0xF5")
      (auto simp: next_rune_def Let_def)
  then show ?thesis
  proof cases
    case 1
    with assms show ?thesis by (auto simp: next_rune_def encode_ascii scalar_def)
  next
    case 2
    with assms obtain c1 where s: "s = c1 # rest" "cont c1"
      and r: "r = (?b - 0xC0) * 64 + (byte c1 - 0x80)"
      by (auto simp: next_rune_def split: list.splits if_splits)
    obtain k where k: "k < 64" "c1 = chr (0x80 + k)" using cont_decompose s by blast
    obtain m where m: "m < 32" "2 \<le> m" "c = chr (0xC0 + m)" "?b = 0xC0 + m"
      using lead_decompose [of ?b c "0xC0" 32] 2 by auto
    from k m r have "r = m * 64 + k" by simp
    with k m s show ?thesis by (auto simp: encode_rune_def scalar_def Let_def)
  next
    case 3
    with assms obtain c1 c2 where s: "s = c1 # c2 # rest" "cont c1" "cont c2"
      and r: "r = (?b - 0xE0) * 4096 + (byte c1 - 0x80) * 64 + (byte c2 - 0x80)"
      and rr: "0x800 \<le> r" "\<not> (0xD800 \<le> r \<and> r < 0xE000)"
      by (auto simp: next_rune_def Let_def split: list.splits if_splits)
    obtain k where k: "k < 64" "c1 = chr (0x80 + k)" using cont_decompose s by blast
    obtain l where l: "l < 64" "c2 = chr (0x80 + l)" using cont_decompose s by blast
    obtain m where m: "m < 16" "c = chr (0xE0 + m)" "?b = 0xE0 + m"
      using lead_decompose [of ?b c "0xE0" 16] 3 by auto
    from k l m r have r': "r = m * 4096 + k * 64 + l" by simp
    with k l m have "r div 4096 = m" "r div 64 mod 64 = k" "r mod 64 = l" "r < 0x10000"
      by (simp_all add: base64_digits)
    with rr k l m s show ?thesis by (auto simp: encode_rune_def scalar_def Let_def)
  next
    case 4
    with assms obtain c1 c2 c3 where s: "s = c1 # c2 # c3 # rest" "cont c1" "cont c2" "cont c3"
      and r: "r = (?b - 0xF0) * 262144 + (byte c1 - 0x80) * 4096 + (byte c2 - 0x80) * 64 + (byte c3 - 0x80)"
      and rr: "0x10000 \<le> r" "r < 0x110000"
      by (auto simp: next_rune_def Let_def split: list.splits if_splits)
    obtain k where k: "k < 64" "c1 = chr (0x80 + k)" using cont_decompose s by blast
    obtain l where l: "l < 64" "c2 = chr (0x80 + l)" using cont_decompose s by blast
    obtain n where n: "n < 64" "c3 = chr (0x80 + n)" using cont_decompose s by blast
    obtain m where m: "m < 5" "c = chr (0xF0 + m)" "?b = 0xF0 + m"
      using lead_decompose [of ?b c "0xF0" 5] 4 by auto
    from k l m n r have r': "r = m * 262144 + k * 4096 + l * 64 + n" by simp
    then have "r = (m * 64 + k) * 4096 + l * 64 + n" by simp
    with l n have "r div 4096 = m * 64 + k" "r div 64 mod 64 = l" "r mod 64 = n"
      by (simp_all only: base64_digits)
    moreover from this k have "r div 262144 = m" "r div 4096 mod 64 = k"
      using div_mult2_eq [of r 4096 64] by simp_all
    ultimately have "r div 262144 = m" "r div 4096 mod 64 = k" "r div 64 mod 64 = l" "r mod 64 = n"
      by simp_all
    with rr k l m n s show ?thesis by (auto simp: encode_rune_def scalar_def Let_def)
  qed
qed

lemma utf8_valid_runes: "utf8_valid s \<Longrightarrow> concat (map encode_rune (runes s)) = s \<and> (\<forall>r \<in> set (runes s). scalar r)"
proof (induction s rule: utf8_valid.induct)
  case 1
  show ?case by simp
next
  case (2 c s)
  obtain r rest where nr: "next_rune c s = (r, rest)" by fastforce
  with "2.prems" obtain x where x: "r = Some x" and v: "utf8_valid rest" by auto
  with nr have "scalar x" "c # s = encode_rune x @ rest" using next_rune_sound by blast+
  moreover have "concat (map encode_rune (runes rest)) = rest \<and> (\<forall>r \<in> set (runes rest). scalar r)"
    using "2.IH" nr v by simp
  ultimately show ?case by (simp add: runes_encode del: runes.simps)
qed

end
