(* ===== verification/Go_Strings.thy ===== *)
theory Go_Strings
  imports Go_Utf8 "HOL-Library.Sublist"
begin

text \<open>
  The functions of Go's \<open>strings\<close>, \<open>unicode\<close> and \<open>strconv\<close> packages the program calls, on
  byte strings. Case mapping of code points above ASCII is read from Go's generated Unicode
  tables, which are not part of the program: where the source calls \<open>strings.ToLower\<close> the
  model takes that table as an argument \<open>uc\<close>.
\<close>

section \<open>Classes of runes, trimming\<close>

text \<open>\<open>unicode.IsControl\<close>\<close>

definition is_control :: "rune \<Rightarrow> bool" where
  "is_control r \<longleftrightarrow> r < 0x20 \<or> 0x7F \<le> r \<and> r < 0xA0"

text \<open>The runes of \<open>unicode.IsSpace\<close> and their encodings.\<close>

definition space_runes :: "rune list" where
  "space_runes =
     [9, 10, 11, 12, 13, 32, 0x85, 0xA0, 0x1680, 0x2000, 0x2001, 0x2002, 0x2003, 0x2004, 0x2005,
      0x2006, 0x2007, 0x2008, 0x2009, 0x200A, 0x2028, 0x2029, 0x202F, 0x205F, 0x3000]"

definition space_seqs :: "string list" where
  "space_seqs = map encode_rune space_runes"

text \<open>
  Drop the sequences \<open>es\<close> from the start of a string as long as one is there. UTF-8 has one
  encoding per rune, so a string starts with a space rune exactly when it starts with one of
  \<open>space_seqs\<close>, and ends with one exactly when its reversal starts with a reversed sequence.
\<close>

function strip :: "string list \<Rightarrow> string \<Rightarrow> string" where
  "strip es s =
     (case find (\<lambda>e. e \<noteq> [] \<and> prefix e s) es of
        None \<Rightarrow> s
      | Some e \<Rightarrow> strip es (drop (length e) s))"
  by pat_completeness auto
termination
  by (relation "measure (\<lambda>(es, s). length s)") (auto simp: find_Some_iff prefix_def)

declare strip.simps [simp del]

text \<open>\<open>strings.TrimSpace\<close>\<close>

definition trim_space :: "string \<Rightarrow> string" where
  "trim_space s = rev (strip (map rev space_seqs) (rev (strip space_seqs s)))"

lemma strip_none: "(\<And>e. e \<in> set es \<Longrightarrow> e \<noteq> [] \<Longrightarrow> \<not> prefix e s) \<Longrightarrow> strip es s = s"
  by (subst strip.simps) (auto simp: find_Some_iff split: option.splits dest: nth_mem)

lemma strip_suffix: "suffix (strip es s) s"
proof (induction es s rule: strip.induct)
  case (1 es s)
  then show ?case
    by (subst strip.simps) (auto split: option.splits intro: suffix_order.trans suffix_drop)
qed

lemma strip_done: "e \<in> set es \<Longrightarrow> e \<noteq> [] \<Longrightarrow> \<not> prefix e (strip es s)"
proof (induction es s rule: strip.induct)
  case (1 es s)
  then show ?case
    by (subst strip.simps) (auto simp: find_None_iff split: option.splits)
qed

lemma strip_Nil [simp]: "strip es [] = []"
  by (rule strip_none) (auto simp: prefix_def)


text \<open>A visible ASCII byte: neither the first nor the last byte of an encoded space.\<close>

definition visible :: "char \<Rightarrow> bool" where
  "visible c \<longleftrightarrow> 0x21 \<le> byte c \<and> byte c < 0x7F"

lemma space_seqs_ends:
  assumes "e \<in> set space_seqs"
  shows "e \<noteq> [] \<and> \<not> visible (hd e) \<and> \<not> visible (last e)"
proof -
  have "list_all (\<lambda>e. e \<noteq> [] \<and> \<not> visible (hd e) \<and> \<not> visible (last e)) space_seqs"
    by (simp add: space_seqs_def space_runes_def encode_rune_def scalar_def visible_def)
  with assms show ?thesis by (simp add: list_all_iff)
qed

lemma strip_visible: "s \<noteq> [] \<Longrightarrow> visible (hd s) \<Longrightarrow> strip space_seqs s = s"
  by (rule strip_none) (metis hd_append2 prefix_def space_seqs_ends)

lemma strip_rev_visible:
  assumes "s \<noteq> []" "visible (last s)"
  shows "strip (map rev space_seqs) (rev s) = rev s"
proof (rule strip_none)
  fix e
  assume "e \<in> set (map rev space_seqs)"
  then obtain x where x: "e = rev x" "x \<in> set space_seqs" by auto
  show "\<not> prefix e (rev s)"
  proof
    assume "prefix e (rev s)"
    then obtain t where t: "rev s = rev x @ t" using x by (auto simp: prefix_def)
    have "last s = last x"
      using t space_seqs_ends [OF x(2)] by (metis hd_append2 hd_rev rev_is_Nil_conv)
    with assms space_seqs_ends [OF x(2)] show False by simp
  qed
qed

lemma trim_space_visible: "s \<noteq> [] \<Longrightarrow> visible (hd s) \<Longrightarrow> visible (last s) \<Longrightarrow> trim_space s = s"
  by (simp add: trim_space_def strip_visible strip_rev_visible)

lemma trim_space_Nil [simp]: "trim_space [] = []"
  by (simp add: trim_space_def)

lemma trim_space_prefix: "prefix (trim_space s) (strip space_seqs s)"
  unfolding trim_space_def using strip_suffix [of _ "rev (strip space_seqs s)"]
  by (metis rev_rev_ident suffix_to_prefix)

lemma trim_space_idem [simp]: "trim_space (trim_space s) = trim_space s"
proof -
  have "strip space_seqs (trim_space s) = trim_space s"
  proof (rule strip_none)
    fix e
    assume "e \<in> set space_seqs" "e \<noteq> []"
    then show "\<not> prefix e (trim_space s)"
      using strip_done [of e space_seqs s] trim_space_prefix [of s] prefix_order.trans by blast
  qed
  moreover have "strip (map rev space_seqs) (rev (trim_space s)) = rev (trim_space s)"
    by (rule strip_none) (simp add: trim_space_def strip_done)
  ultimately show ?thesis by (simp add: trim_space_def [of "trim_space s"])
qed

lemma trim_space_set: "set (trim_space s) \<subseteq> set s"
  using trim_space_prefix [of s] strip_suffix [of space_seqs s]
  by (meson dual_order.trans set_mono_prefix set_mono_suffix)

text \<open>\<open>strings.Trim(s, cutset)\<close> with a cutset of ASCII characters.\<close>

definition trim_set :: "string \<Rightarrow> string \<Rightarrow> string" where
  "trim_set cs s = rev (dropWhile (\<lambda>c. c \<in> set cs) (rev (dropWhile (\<lambda>c. c \<in> set cs) s)))"

section \<open>Case\<close>

definition lower_ascii :: "rune \<Rightarrow> rune" where
  "lower_ascii r = (if 65 \<le> r \<and> r \<le> 90 then r + 32 else r)"

text \<open>
  \<open>strings.ToLower\<close>: byte by byte for an ASCII string; otherwise rune by rune, where an
  invalid encoding becomes an encoded \<open>RuneError\<close>. \<open>uc\<close> is \<open>unicode.ToLower\<close> on the code
  points from 0x80 on.
\<close>

definition to_lower :: "(rune \<Rightarrow> rune) \<Rightarrow> string \<Rightarrow> string" where
  "to_lower uc s =
     (if list_all ascii s then map (\<lambda>c. chr (lower_ascii (byte c))) s
      else concat (map (\<lambda>r. encode_rune (if r < 0x80 then lower_ascii r else uc r)) (runes s)))"

text \<open>
  \<open>strings.EqualFold(s, t)\<close> for an ASCII text \<open>t\<close>. Two code points above ASCII fold to an
  ASCII letter: the Kelvin sign to \<open>k\<close> and the long s to \<open>s\<close>.
\<close>

definition fold_rune :: "rune \<Rightarrow> rune" where
  "fold_rune r = (if r = 0x212A then 107 else if r = 0x17F then 115 else lower_ascii r)"

definition equal_fold :: "string \<Rightarrow> string \<Rightarrow> bool" where
  "equal_fold s t \<longleftrightarrow> map fold_rune (runes s) = map (\<lambda>c. lower_ascii (byte c)) t"

lemma lower_ascii_idem [simp]: "lower_ascii (lower_ascii r) = lower_ascii r"
  by (simp add: lower_ascii_def)

lemma lower_ascii_less [simp]: "r < 0x80 \<Longrightarrow> lower_ascii r < 0x80"
  by (auto simp: lower_ascii_def)

lemma runes_ascii: "list_all ascii s \<Longrightarrow> runes s = map byte s"
  by (induction s) (auto simp: next_rune_def ascii_def)

lemma to_lower_ascii: "list_all ascii s \<Longrightarrow> to_lower uc s = map (\<lambda>c. chr (lower_ascii (byte c))) s"
  by (simp add: to_lower_def)

section \<open>Splitting and searching\<close>

text \<open>\<open>strings.Split\<close>, \<open>strings.Join\<close> and \<open>strings.Cut\<close> with a separator of one byte.\<close>

fun split_on :: "char \<Rightarrow> string \<Rightarrow> string list" where
  "split_on d [] = [[]]"
| "split_on d (c # s) =
     (if c = d then [] # split_on d s
      else (case split_on d s of [] \<Rightarrow> [[c]] | x # xs \<Rightarrow> (c # x) # xs))"

fun join_with :: "string \<Rightarrow> string list \<Rightarrow> string" where
  "join_with d [] = []"
| "join_with d [x] = x"
| "join_with d (x # y # xs) = x @ d @ join_with d (y # xs)"

fun cut :: "char \<Rightarrow> string \<Rightarrow> (string \<times> string) option" where
  "cut d [] = None"
| "cut d (c # s) =
     (if c = d then Some ([], s) else map_option (\<lambda>(x, y). (c # x, y)) (cut d s))"

text \<open>\<open>strings.LastIndex(s, d)\<close> and the text before and after that position.\<close>

definition last_index :: "char \<Rightarrow> string \<Rightarrow> int" where
  "last_index d s =
     (if d \<in> set s then int (length s) - 1 - int (length (takeWhile (\<lambda>c. c \<noteq> d) (rev s))) else - 1)"

definition contains_any :: "string \<Rightarrow> string \<Rightarrow> bool" where
  "contains_any s cs \<longleftrightarrow> list_ex (\<lambda>c. c \<in> set cs) s"

text \<open>\<open>strings.TrimPrefix\<close>, \<open>strings.TrimSuffix\<close>, \<open>strings.Contains\<close>\<close>

definition trim_prefix :: "string \<Rightarrow> string \<Rightarrow> string" where
  "trim_prefix p s = (if prefix p s then drop (length p) s else s)"

definition trim_suffix :: "string \<Rightarrow> string \<Rightarrow> string" where
  "trim_suffix p s = (if suffix p s then take (length s - length p) s else s)"

definition contains :: "string \<Rightarrow> string \<Rightarrow> bool" where
  "contains s p \<longleftrightarrow> sublist p s"

lemma split_on_free: "d \<notin> set s \<Longrightarrow> split_on d s = [s]"
  by (induction s) auto

lemma split_on_append: "d \<notin> set x \<Longrightarrow> split_on d (x @ d # y) = x # split_on d y"
  by (induction x) auto

lemma split_on_join:
  "xs \<noteq> [] \<Longrightarrow> \<forall>x \<in> set xs. d \<notin> set x \<Longrightarrow> split_on d (join_with [d] xs) = xs"
  by (induction "[d]" xs rule: join_with.induct) (auto simp: split_on_free split_on_append)

lemma join_split: "join_with [d] (split_on d s) = s"
proof (induction s)
  case (Cons c s)
  then show ?case
    by (cases "split_on d s" rule: remdups_adj.cases) (auto split: list.splits)
qed simp

lemma split_on_parts: "x \<in> set (split_on d s) \<Longrightarrow> d \<notin> set x \<and> set x \<subseteq> set s"
  by (induction s arbitrary: x) (auto split: list.splits if_splits, fastforce+)

lemma split_on_nonempty [simp]: "split_on d s \<noteq> []"
  by (induction s) (auto split: list.splits)

lemma cut_append: "d \<notin> set x \<Longrightarrow> cut d (x @ d # y) = Some (x, y)"
  by (induction x) auto

lemma cut_SomeD: "cut d s = Some (x, y) \<Longrightarrow> s = x @ d # y \<and> d \<notin> set x"
  by (induction s arbitrary: x) (auto split: if_splits)

lemma cut_None_iff: "cut d s = None \<longleftrightarrow> d \<notin> set s"
  by (induction s) auto

lemma last_index_append: "d \<notin> set y \<Longrightarrow> last_index d (x @ d # y) = int (length x)"
proof -
  assume "d \<notin> set y"
  then have "takeWhile (\<lambda>c. c \<noteq> d) (rev y @ d # rev x) = rev y"
    by (subst takeWhile_append2) auto
  then show ?thesis by (simp add: last_index_def)
qed

end
