(* ===== verification/Go_Strconv.thy ===== *)
theory Go_Strconv
  imports Go_Strings
begin

text \<open>
  Go's \<open>strconv\<close> on decimal numbers (\<open>ParseUint\<close>, \<open>ParseInt\<close>, \<open>Atoi\<close>, \<open>FormatInt\<close>,
  \<open>Itoa\<close>, all on 64 bits) and \<open>encoding/hex\<close>. Both directions of each are interpretations
  of the codec interface.
\<close>

section \<open>Digits\<close>

definition is_digit :: "char \<Rightarrow> bool" where
  "is_digit c \<longleftrightarrow> 48 \<le> byte c \<and> byte c \<le> 57"

definition digit_val :: "char \<Rightarrow> nat" where
  "digit_val c = byte c - 48"

definition digit_char :: "nat \<Rightarrow> char" where
  "digit_char n = chr (48 + n)"

lemma digit_char_props [simp]:
  "n < 10 \<Longrightarrow> is_digit (digit_char n)"
  "n < 10 \<Longrightarrow> digit_val (digit_char n) = n"
  "n < 10 \<Longrightarrow> byte (digit_char n) = 48 + n"
  by (simp_all add: is_digit_def digit_val_def digit_char_def)

lemma digit_val_less: "is_digit c \<Longrightarrow> digit_val c < 10"
  by (auto simp: is_digit_def digit_val_def)

lemma is_digit_visible: "is_digit c \<Longrightarrow> visible c"
  by (auto simp: is_digit_def visible_def)

section \<open>Parsing numbers\<close>

datatype num_error = Err_Syntax | Err_Range

abbreviation max_uint64 :: nat where "max_uint64 \<equiv> 18446744073709551615"

text \<open>
  \<open>strconv.ParseUint(s, 10, 64)\<close>: an empty text or a byte that is no digit is a syntax
  error, a value above \<open>2^64 - 1\<close> a range error, whichever is met first.
\<close>

fun uint_loop :: "nat \<Rightarrow> string \<Rightarrow> num_error + nat" where
  "uint_loop n [] = Ok n"
| "uint_loop n (c # s) =
     (if is_digit c
      then (let m = n * 10 + digit_val c in
            if max_uint64 < m then Err Err_Range else uint_loop m s)
      else Err Err_Syntax)"

definition parse_uint :: "string \<Rightarrow> num_error + nat" where
  "parse_uint s = (if s = [] then Err Err_Syntax else uint_loop 0 s)"

text \<open>
  \<open>strconv.ParseInt(s, 10, 64)\<close> and \<open>strconv.Atoi\<close>: the value Go returns beside the error
  is 0 after a syntax error and the nearest representable value after a range error; the
  callers that drop the error use it.
\<close>

abbreviation max_int64 :: int where "max_int64 \<equiv> 9223372036854775807"
abbreviation min_int64 :: int where "min_int64 \<equiv> - 9223372036854775808"

definition parse_int :: "string \<Rightarrow> int \<times> num_error option" where
  "parse_int s =
     (case s of
        [] \<Rightarrow> (0, Some Err_Syntax)
      | c # rest \<Rightarrow>
          let neg = (c = CHR ''-'');
              body = (if c = CHR ''-'' \<or> c = CHR ''+'' then rest else s)
          in (case parse_uint body of
                Inl Err_Syntax \<Rightarrow> (0, Some Err_Syntax)
              | Inl Err_Range \<Rightarrow> (if neg then min_int64 else max_int64, Some Err_Range)
              | Inr n \<Rightarrow>
                  if \<not> neg \<and> max_int64 < int n then (max_int64, Some Err_Range)
                  else if neg \<and> max_int64 + 1 < int n then (min_int64, Some Err_Range)
                  else (if neg then - int n else int n, None)))"

definition parse_int_value :: "string \<Rightarrow> int" where
  "parse_int_value s = fst (parse_int s)"

definition atoi :: "string \<Rightarrow> int option" where
  "atoi s = (case parse_int s of (n, None) \<Rightarrow> Some n | _ \<Rightarrow> None)"

lemma parse_int_bounds: "parse_int s = (n, e) \<Longrightarrow> min_int64 \<le> n \<and> n \<le> max_int64"
  by (auto simp: parse_int_def Let_def split: list.splits sum.splits num_error.splits if_splits)

lemma atoi_value: "atoi s = Some n \<Longrightarrow> parse_int_value s = n"
  by (auto simp: atoi_def parse_int_value_def split: prod.splits option.splits)

section \<open>Formatting numbers\<close>

fun nat_digits :: "nat \<Rightarrow> string" where
  "nat_digits n = (if n < 10 then [digit_char n] else nat_digits (n div 10) @ [digit_char (n mod 10)])"

declare nat_digits.simps [simp del]

definition itoa :: "int \<Rightarrow> string" where
  "itoa i = (if i < 0 then CHR ''-'' # nat_digits (nat (- i)) else nat_digits (nat i))"

lemma nat_digits_nonempty [simp]: "nat_digits n \<noteq> []"
  by (subst nat_digits.simps) simp

lemma nat_digits_digits: "c \<in> set (nat_digits n) \<Longrightarrow> is_digit c"
proof (induction n rule: nat_digits.induct)
  case (1 n)
  then show ?case by (cases "n < 10") (auto simp: nat_digits.simps [of n])
qed

lemma uint_loop_append:
  "uint_loop n (s @ [c]) =
     (case uint_loop n s of Inl e \<Rightarrow> Inl e
      | Inr m \<Rightarrow> if is_digit c
                 then (if max_uint64 < m * 10 + digit_val c then Inl Err_Range else Inr (m * 10 + digit_val c))
                 else Inl Err_Syntax)"
  by (induction s arbitrary: n) (auto simp: Let_def)

lemma uint_loop_digits: "n \<le> max_uint64 \<Longrightarrow> uint_loop 0 (nat_digits n) = Inr n"
proof (induction n rule: nat_digits.induct)
  case (1 n)
  show ?case
  proof (cases "n < 10")
    case True
    then show ?thesis by (simp add: nat_digits.simps [of n])
  next
    case False
    with 1 have "uint_loop 0 (nat_digits (n div 10)) = Inr (n div 10)" by simp
    with False "1.prems" show ?thesis
      by (simp add: nat_digits.simps [of n] uint_loop_append)
  qed
qed

lemma hd_nat_digits_nonzero: "0 < n \<Longrightarrow> hd (nat_digits n) \<noteq> CHR ''0''"
proof (induction n rule: nat_digits.induct)
  case (1 n)
  show ?case
  proof (cases "n < 10")
    case True
    with "1.prems" show ?thesis
      using digit_char_props(3) [of n] by (auto simp: nat_digits.simps [of n] simp del: digit_char_props)
  next
    case False
    with 1 show ?thesis by (simp add: nat_digits.simps [of n])
  qed
qed

lemma hd_nat_digits: "is_digit (hd (nat_digits n))"
  by (rule nat_digits_digits) (rule hd_in_set, simp)

lemma parse_int_itoa:
  assumes "min_int64 \<le> i" "i \<le> max_int64"
  shows "parse_int (itoa i) = (i, None)"
proof (cases "i < 0")
  case True
  then have "uint_loop 0 (nat_digits (nat (- i))) = Inr (nat (- i))"
    using assms by (intro uint_loop_digits) simp
  with True assms show ?thesis by (simp add: itoa_def parse_int_def parse_uint_def)
next
  case False
  obtain c t where ct: "nat_digits (nat i) = c # t" by (cases "nat_digits (nat i)") auto
  then have "is_digit c" using hd_nat_digits [of "nat i"] by simp
  then have sign: "c \<noteq> CHR ''-''" "c \<noteq> CHR ''+''" by (auto simp: is_digit_def)
  have "uint_loop 0 (nat_digits (nat i)) = Inr (nat i)"
    using False assms by (intro uint_loop_digits) simp
  with False assms ct sign show ?thesis by (simp add: itoa_def parse_int_def parse_uint_def)
qed

lemma itoa_nonempty [simp]: "itoa i \<noteq> []"
  by (simp add: itoa_def)

lemma itoa_chars: "c \<in> set (itoa i) \<Longrightarrow> is_digit c \<or> c = CHR ''-''"
  by (auto simp: itoa_def dest: nat_digits_digits split: if_splits)

text \<open>Decimal text is a codec for the 64-bit integers.\<close>

definition int64 :: "int \<Rightarrow> bool" where
  "int64 i \<longleftrightarrow> min_int64 \<le> i \<and> i \<le> max_int64"

interpretation decimal: codec int64 itoa atoi
  by unfold_locales (simp add: int64_def atoi_def parse_int_itoa)

section \<open>Hexadecimal\<close>

text \<open>\<open>hex.EncodeToString\<close> and \<open>hex.DecodeString\<close> (either case, an even number of digits).\<close>

definition hex_char :: "nat \<Rightarrow> char" where
  "hex_char n = (if n < 10 then chr (48 + n) else chr (87 + n))"

definition hex_val :: "char \<Rightarrow> nat option" where
  "hex_val c =
     (let b = byte c in
      if 48 \<le> b \<and> b \<le> 57 then Some (b - 48)
      else if 97 \<le> b \<and> b \<le> 102 then Some (b - 87)
      else if 65 \<le> b \<and> b \<le> 70 then Some (b - 55)
      else None)"

fun hex_encode :: "string \<Rightarrow> string" where
  "hex_encode [] = []"
| "hex_encode (c # s) = hex_char (byte c div 16) # hex_char (byte c mod 16) # hex_encode s"

fun hex_decode :: "string \<Rightarrow> string option" where
  "hex_decode [] = Some []"
| "hex_decode [c] = None"
| "hex_decode (a # b # s) =
     (case (hex_val a, hex_val b, hex_decode s) of
        (Some x, Some y, Some t) \<Rightarrow> Some (chr (x * 16 + y) # t)
      | _ \<Rightarrow> None)"

lemma hex_val_char: "n < 16 \<Longrightarrow> hex_val (hex_char n) = Some n"
  by (auto simp: hex_val_def hex_char_def)

lemma byte_nibbles: "byte c div 16 < 16" "byte c mod 16 < 16"
  by (rule less_mult_imp_div_less, simp) simp

lemma hex_decode_encode: "hex_decode (hex_encode s) = Some s"
proof (induction s)
  case (Cons c s)
  have "byte c div 16 * 16 + byte c mod 16 = byte c" by simp
  then show ?case using Cons byte_nibbles [of c] by (simp add: hex_val_char)
qed simp

interpretation hex: codec "\<lambda>_. True" hex_encode hex_decode
  by unfold_locales (rule hex_decode_encode)

lemma hex_encode_length [simp]: "length (hex_encode s) = 2 * length s"
  by (induction s) auto

lemma hex_char_visible: "n < 16 \<Longrightarrow> visible (hex_char n) \<and> hex_char n \<noteq> CHR ''.''"
  by (auto simp: hex_char_def visible_def dest: arg_cong [where f = byte])

lemma hex_encode_chars: "c \<in> set (hex_encode s) \<Longrightarrow> visible c \<and> c \<noteq> CHR ''.''"
proof (induction s)
  case (Cons d s)
  with byte_nibbles [of d] show ?case by (auto simp: hex_char_visible)
qed simp

end
