(* ===== verification/Go_Json.thy ===== *)
theory Go_Json
  imports Go_Strconv
begin

text \<open>
  Go's \<open>encoding/json\<close> as the program uses it: parsing a text into a value
  (\<open>json.Unmarshal\<close> with its validity check, and the first value of a stream as
  \<open>json.Decoder\<close> reads it), storing a value into the fields of a struct, and quoting a string
  as \<open>json.Marshal\<close> does.
\<close>

datatype json =
    JNull
  | JBool bool
  | JNum string
  | JStr string
  | JArr "json list"
  | JObj "(string \<times> json) list"

section \<open>Reading a string literal\<close>

definition is_json_ws :: "char \<Rightarrow> bool" where
  "is_json_ws c \<longleftrightarrow> c \<in> {CHR '' '', chr 9, chr 10, chr 13}"

definition skip_ws :: "string \<Rightarrow> string" where
  "skip_ws s = dropWhile is_json_ws s"

definition hex4 :: "string \<Rightarrow> (rune \<times> string) option" where
  "hex4 s =
     (case s of
        a # b # c # d # rest \<Rightarrow>
          (case (hex_val a, hex_val b, hex_val c, hex_val d) of
             (Some w, Some x, Some y, Some z) \<Rightarrow> Some (w * 4096 + x * 256 + y * 16 + z, rest)
           | _ \<Rightarrow> None)
      | _ \<Rightarrow> None)"

text \<open>
  A \<open>\u\<close> escape: a surrogate pair is one rune; a surrogate without its partner is
  \<open>RuneError\<close>, and what follows is read on its own.
\<close>

definition json_u :: "string \<Rightarrow> (string \<times> string) option" where
  "json_u s =
     (case hex4 s of
        None \<Rightarrow> None
      | Some (v, rest) \<Rightarrow>
          if 0xD800 \<le> v \<and> v < 0xE000 then
            (case rest of
               p # q # rest1 \<Rightarrow>
                 (if p = CHR 0x5C \<and> q = CHR ''u'' then
                    (case hex4 rest1 of
                       Some (w, rest2) \<Rightarrow>
                         if v < 0xDC00 \<and> 0xDC00 \<le> w \<and> w < 0xE000
                         then Some (encode_rune ((v - 0xD800) * 1024 + (w - 0xDC00) + 0x10000), rest2)
                         else Some (encode_rune rune_error, rest)
                     | None \<Rightarrow> Some (encode_rune rune_error, rest))
                  else Some (encode_rune rune_error, rest))
             | _ \<Rightarrow> Some (encode_rune rune_error, rest))
          else Some (encode_rune v, rest))"

definition simple_escape :: "char \<Rightarrow> char option" where
  "simple_escape e =
     (if e = CHR 0x22 \<or> e = CHR 0x5C \<or> e = CHR ''/'' then Some e
      else if e = CHR ''b'' then Some (chr 8)
      else if e = CHR ''f'' then Some (chr 12)
      else if e = CHR ''n'' then Some (chr 10)
      else if e = CHR ''r'' then Some (chr 13)
      else if e = CHR ''t'' then Some (chr 9)
      else None)"

text \<open>One character of a string literal, of which \<open>c\<close> is the first byte (no quote).\<close>

definition json_unit :: "char \<Rightarrow> string \<Rightarrow> (string \<times> string) option" where
  "json_unit c s =
     (if c = CHR 0x5C then
        (case s of
           [] \<Rightarrow> None
         | e # rest \<Rightarrow>
             (case simple_escape e of
                Some x \<Rightarrow> Some ([x], rest)
              | None \<Rightarrow> if e = CHR ''u'' then json_u rest else None))
      else if byte c < 0x20 then None
      else (case next_rune c s of
              (r, rest) \<Rightarrow> Some (encode_rune (case r of None \<Rightarrow> rune_error | Some x \<Rightarrow> x), rest)))"

lemma hex4_length: "hex4 s = Some (v, rest) \<Longrightarrow> length rest < length s"
  by (auto simp: hex4_def split: list.splits option.splits)

lemma json_u_length: "json_u s = Some (x, rest) \<Longrightarrow> length rest < length s"
  by (auto simp: json_u_def split: list.splits option.splits if_splits dest!: hex4_length)

lemma json_unit_length: "json_unit c s = Some (x, rest) \<Longrightarrow> length rest \<le> length s"
  by (auto simp: json_unit_def split: list.splits option.splits if_splits prod.splits
      dest: json_u_length next_rune_shorter [OF sym])

text \<open>The rest of a string literal after its opening quote: the text, and what follows.\<close>

function json_str :: "string \<Rightarrow> (string \<times> string) option" where
  "json_str [] = None"
| "json_str (c # s) =
     (if c = CHR 0x22 then Some ([], s)
      else (case json_unit c s of
              None \<Rightarrow> None
            | Some (x, rest) \<Rightarrow> map_option (\<lambda>(t, u). (x @ t, u)) (json_str rest)))"
  by pat_completeness auto
termination
  by (relation "measure length") (auto dest: json_unit_length)

lemma json_str_length: "json_str s = Some (t, u) \<Longrightarrow> length u < length s"
proof (induction s arbitrary: t rule: json_str.induct)
  case (2 c s)
  then show ?case
    by (auto split: if_splits option.splits dest!: json_unit_length) fastforce
qed simp

section \<open>Numbers, literals\<close>

definition take_digits :: "string \<Rightarrow> string \<times> string" where
  "take_digits s = (takeWhile is_digit s, dropWhile is_digit s)"

definition json_int_part :: "string \<Rightarrow> (string \<times> string) option" where
  "json_int_part s =
     (case s of
        [] \<Rightarrow> None
      | c # rest \<Rightarrow>
          if c = CHR ''0'' then Some ([c], rest)
          else if is_digit c then Some (take_digits s) else None)"

definition json_frac :: "string \<Rightarrow> (string \<times> string) option" where
  "json_frac s =
     (case s of
        c # rest \<Rightarrow>
          if c = CHR ''.'' then
            (let (ds, u) = take_digits rest in if ds = [] then None else Some (c # ds, u))
          else Some ([], s)
      | [] \<Rightarrow> Some ([], s))"

definition json_exp :: "string \<Rightarrow> (string \<times> string) option" where
  "json_exp s =
     (case s of
        c # rest \<Rightarrow>
          if c = CHR ''e'' \<or> c = CHR ''E'' then
            (let sign = (case rest of d # _ \<Rightarrow> if d = CHR ''+'' \<or> d = CHR ''-'' then [d] else [] | [] \<Rightarrow> []);
                 (ds, u) = take_digits (drop (length sign) rest)
             in if ds = [] then None else Some (c # sign @ ds, u))
          else Some ([], s)
      | [] \<Rightarrow> Some ([], s))"

text \<open>A number literal and what follows; the value keeps the literal's text.\<close>

definition json_number :: "string \<Rightarrow> (string \<times> string) option" where
  "json_number s =
     (let sign = (case s of c # _ \<Rightarrow> if c = CHR ''-'' then [c] else [] | [] \<Rightarrow> [])
      in case json_int_part (drop (length sign) s) of
           None \<Rightarrow> None
         | Some (i, s1) \<Rightarrow>
             (case json_frac s1 of
                None \<Rightarrow> None
              | Some (f, s2) \<Rightarrow>
                  (case json_exp s2 of
                     None \<Rightarrow> None
                   | Some (e, s3) \<Rightarrow> Some (sign @ i @ f @ e, s3))))"

lemma take_digits_length: "take_digits s = (ds, u) \<Longrightarrow> length u \<le> length s"
  by (auto simp: take_digits_def length_dropWhile_le)

lemma json_int_part_length: "json_int_part s = Some (i, u) \<Longrightarrow> length u < length s"
  by (auto simp: json_int_part_def take_digits_def le_imp_less_Suc length_dropWhile_le split: list.splits if_splits)

lemma json_frac_length: "json_frac s = Some (f, u) \<Longrightarrow> length u \<le> length s"
  by (auto simp: json_frac_def le_SucI split: list.splits if_splits prod.splits dest!: take_digits_length)

lemma json_exp_length: "json_exp s = Some (e, u) \<Longrightarrow> length u \<le> length s"
  by (auto simp: json_exp_def Let_def split: list.splits if_splits prod.splits dest!: take_digits_length)

lemma json_number_length: "json_number s = Some (n, u) \<Longrightarrow> length u < length s"
  by (fastforce simp: json_number_def Let_def split: list.splits if_splits option.splits prod.splits
      dest!: json_int_part_length json_frac_length json_exp_length)


section \<open>Values\<close>

text \<open>
  \<open>json_value fuel depth s\<close> reads one value after optional white space. \<open>depth\<close> is the
  nesting still allowed (Go refuses more than 10000 levels). Every call of the three
  functions takes one unit of fuel; a text of \<open>n\<close> bytes never needs more than \<open>2 * n + 1\<close>
  (\<open>json_value_enough\<close> below).
\<close>

definition json_scalar :: "char \<Rightarrow> string \<Rightarrow> (json \<times> string) option" where
  "json_scalar c t =
     (if c = CHR 0x22 then map_option (\<lambda>(x, u). (JStr x, u)) (json_str t)
      else if c = CHR ''-'' \<or> is_digit c then map_option (\<lambda>(x, u). (JNum x, u)) (json_number (c # t))
      else if prefix ''true'' (c # t) then Some (JBool True, drop 3 t)
      else if prefix ''false'' (c # t) then Some (JBool False, drop 4 t)
      else if prefix ''null'' (c # t) then Some (JNull, drop 3 t)
      else None)"

text \<open>The name of a member and the colon after it.\<close>

definition json_key :: "string \<Rightarrow> (string \<times> string) option" where
  "json_key s =
     (case skip_ws s of
        [] \<Rightarrow> None
      | q # t0 \<Rightarrow>
          if q \<noteq> CHR 0x22 then None
          else (case json_str t0 of
                  None \<Rightarrow> None
                | Some (k, t1) \<Rightarrow>
                    (case skip_ws t1 of
                       [] \<Rightarrow> None
                     | c # t2 \<Rightarrow> if c = CHR '':'' then Some (k, t2) else None)))"

text \<open>What separates two elements or members: a comma, or the closing bracket.\<close>

definition json_sep :: "char \<Rightarrow> string \<Rightarrow> (bool \<times> string) option" where
  "json_sep close s =
     (case skip_ws s of
        [] \<Rightarrow> None
      | c # u \<Rightarrow> if c = close then Some (True, u) else if c = CHR '','' then Some (False, u) else None)"

fun json_value :: "nat \<Rightarrow> nat \<Rightarrow> string \<Rightarrow> (json \<times> string) option"
  and json_elems :: "nat \<Rightarrow> nat \<Rightarrow> string \<Rightarrow> (json list \<times> string) option"
  and json_members :: "nat \<Rightarrow> nat \<Rightarrow> string \<Rightarrow> ((string \<times> json) list \<times> string) option" where
  "json_value 0 d s = None"
| "json_value (Suc f) d s =
     (case skip_ws s of
        [] \<Rightarrow> None
      | c # t \<Rightarrow>
          if c = CHR ''{'' then
            (if d = 0 then None
             else if prefix ''}'' (skip_ws t) then Some (JObj [], tl (skip_ws t))
             else map_option (\<lambda>(ms, v). (JObj ms, v)) (json_members f (d - 1) t))
          else if c = CHR ''['' then
            (if d = 0 then None
             else if prefix '']'' (skip_ws t) then Some (JArr [], tl (skip_ws t))
             else map_option (\<lambda>(vs, v). (JArr vs, v)) (json_elems f (d - 1) t))
          else json_scalar c t)"
| "json_elems 0 d s = None"
| "json_elems (Suc f) d s =
     (case json_value f d s of
        None \<Rightarrow> None
      | Some (v, t) \<Rightarrow>
          (case json_sep (CHR '']'') t of
             None \<Rightarrow> None
           | Some (True, u) \<Rightarrow> Some ([v], u)
           | Some (False, u) \<Rightarrow> map_option (\<lambda>(vs, w). (v # vs, w)) (json_elems f d u)))"
| "json_members 0 d s = None"
| "json_members (Suc f) d s =
     (case json_key s of
        None \<Rightarrow> None
      | Some (k, t) \<Rightarrow>
          (case json_value f d t of
             None \<Rightarrow> None
           | Some (v, t') \<Rightarrow>
               (case json_sep (CHR ''}'') t' of
                  None \<Rightarrow> None
                | Some (True, u) \<Rightarrow> Some ([(k, v)], u)
                | Some (False, u) \<Rightarrow> map_option (\<lambda>(ms, w). ((k, v) # ms, w)) (json_members f d u))))"

definition json_max_depth :: nat where
  "json_max_depth = 10000"

text \<open>
  \<open>json.Decoder.Decode\<close> reads the first value of its input; \<open>json.Unmarshal\<close> also demands
  that nothing but white space follows.
\<close>

definition json_first :: "string \<Rightarrow> json option" where
  "json_first s = map_option fst (json_value (2 * length s + 1) json_max_depth s)"

definition json_parse :: "string \<Rightarrow> json option" where
  "json_parse s =
     (case json_value (2 * length s + 1) json_max_depth s of
        Some (v, rest) \<Rightarrow> if skip_ws rest = [] then Some v else None
      | None \<Rightarrow> None)"

lemma skip_ws_length: "length (skip_ws s) \<le> length s"
  by (simp add: skip_ws_def length_dropWhile_le)

lemma skip_ws_Cons: "skip_ws s = c # t \<Longrightarrow> length t < length s"
  using skip_ws_length [of s] by simp

lemma json_scalar_length: "json_scalar c t = Some (v, u) \<Longrightarrow> length u \<le> length t"
  by (auto simp: json_scalar_def split: if_splits dest!: json_str_length json_number_length)

lemma json_key_length: "json_key s = Some (k, u) \<Longrightarrow> length u < length s"
  by (auto simp: json_key_def split: list.splits if_splits option.splits dest!: skip_ws_Cons json_str_length)

lemma json_sep_length: "json_sep c s = Some (b, u) \<Longrightarrow> length u < length s"
  by (auto simp: json_sep_def split: list.splits if_splits dest!: skip_ws_Cons)

lemma tl_skip_ws_length: "length (tl (skip_ws t)) \<le> length t"
  using skip_ws_length [of t] by simp

text \<open>A value takes at least one byte, a list of elements or members too.\<close>

lemma json_consumes:
  "json_value f d s = Some (v, u) \<Longrightarrow> length u < length s"
  "json_elems f d s = Some (vs, u) \<Longrightarrow> length u < length s"
  "json_members f d s = Some (ms, u) \<Longrightarrow> length u < length s"
proof (induction f d s and f d s and f d s arbitrary: v u and vs u and ms u
    rule: json_value_json_elems_json_members.induct)
  case (2 f d s)
  from "2.prems" obtain c t where ct: "skip_ws s = c # t" by (auto split: list.splits)
  then have len: "length t < length s" by (rule skip_ws_Cons)
  from "2.prems" ct have "length u \<le> length t"
    using tl_skip_ws_length [of t] "2.IH" [OF ct]
    by (auto split: if_splits dest: json_scalar_length less_imp_le)
  with len show ?case by simp
next
  case (4 f d s)
  then obtain v t b w where v: "json_value f d s = Some (v, t)" and sep: "json_sep (CHR '']'') t = Some (b, w)"
    by (auto split: option.splits bool.splits)
  from "4.IH"(1) v sep have w: "length w < length s" by (auto dest!: json_sep_length)
  show ?case
  proof (cases b)
    case False
    with "4.prems" v sep obtain us where "json_elems f d w = Some (us, u)" by auto
    with "4.IH"(2) v sep False w show ?thesis by fastforce
  qed (use "4.prems" v sep w in auto)
next
  case (6 f d s)
  then obtain k t v t' b w where k: "json_key s = Some (k, t)" and v: "json_value f d t = Some (v, t')"
    and sep: "json_sep (CHR ''}'') t' = Some (b, w)"
    by (auto split: option.splits bool.splits)
  have "length t' < length t" by (rule "6.IH"(1) [OF k refl v])
  then have w: "length w < length s"
    using json_sep_length [OF sep] json_key_length [OF k] by simp
  show ?case
  proof (cases b)
    case False
    with "6.prems" k v sep obtain us where "json_members f d w = Some (us, u)" by auto
    with "6.IH"(2) k v sep False w show ?thesis by fastforce
  qed (use "6.prems" k v sep w in auto)
qed simp_all

text \<open>
  The fuel of \<open>json_first\<close> and \<open>json_parse\<close> is enough: with that much or more the result
  does not depend on the fuel, so \<open>None\<close> means that the text is not JSON.
\<close>

lemma json_enough:
  "2 * length s + 1 \<le> f \<Longrightarrow> 2 * length s + 1 \<le> g \<Longrightarrow> json_value f d s = json_value g d s"
  "2 * length s + 2 \<le> f \<Longrightarrow> 2 * length s + 2 \<le> g \<Longrightarrow> json_elems f d s = json_elems g d s"
  "2 * length s + 2 \<le> f \<Longrightarrow> 2 * length s + 2 \<le> g \<Longrightarrow> json_members f d s = json_members g d s"
proof (induction f d s and f d s and f d s arbitrary: g and g and g
    rule: json_value_json_elems_json_members.induct)
  case (2 f d s)
  from "2.prems" obtain g' where g: "g = Suc g'" by (cases g) auto
  show ?case
  proof (cases "skip_ws s")
    case (Cons c t)
    then have "length t < length s" by (rule skip_ws_Cons)
    with "2.prems" g have fuel: "2 * length t + 2 \<le> f" "2 * length t + 2 \<le> g'" by simp_all
    have "json_members f (d - 1) t = json_members g' (d - 1) t"
      if "c = CHR ''{''" "d \<noteq> 0" "\<not> prefix ''}'' (skip_ws t)"
      by (rule "2.IH"(1) [OF Cons that fuel])
    moreover have "json_elems f (d - 1) t = json_elems g' (d - 1) t"
      if "c \<noteq> CHR ''{''" "c = CHR ''[''" "d \<noteq> 0" "\<not> prefix '']'' (skip_ws t)"
      by (rule "2.IH"(2) [OF Cons that fuel])
    ultimately show ?thesis by (simp add: g Cons)
  qed (simp add: g)
next
  case (4 f d s)
  from "4.prems" obtain g' where g: "g = Suc g'" by (cases g) auto
  have v: "json_value f d s = json_value g' d s" using "4.prems" g by (intro "4.IH"(1)) simp_all
  have "json_elems f d u = json_elems g' d u"
    if vt: "json_value f d s = Some (v, t)" and sep: "json_sep (CHR '']'') t = Some (False, u)" for v t u
  proof -
    have "length u < length s" using json_consumes(1) [OF vt] json_sep_length [OF sep] by simp
    with "4.prems" g show ?thesis by (intro "4.IH"(2) [OF vt refl sep refl]) simp_all
  qed
  with v show ?case by (auto simp: g split: option.splits bool.splits)
next
  case (6 f d s)
  from "6.prems" obtain g' where g: "g = Suc g'" by (cases g) auto
  have v: "json_value f d t = json_value g' d t" if k: "json_key s = Some (k, t)" for k t
    using "6.prems" g json_key_length [OF k] by (intro "6.IH"(1) [OF k refl]) simp_all
  have m: "json_members f d u = json_members g' d u"
    if k: "json_key s = Some (k, t)" and vt: "json_value f d t = Some (v, t')"
      and sep: "json_sep (CHR ''}'') t' = Some (False, u)" for k t v t' u
  proof -
    have "length u < length s"
      using json_consumes(1) [OF vt] json_sep_length [OF sep] json_key_length [OF k] by simp
    with "6.prems" g show ?thesis by (intro "6.IH"(2) [OF k refl vt refl sep refl]) simp_all
  qed
  show ?case
    using v m by (auto simp: g split: option.splits bool.splits prod.splits)
qed simp_all

lemma json_value_enough: "2 * length s + 1 \<le> f \<Longrightarrow> json_value f d s = json_value (2 * length s + 1) d s"
  by (rule json_enough) simp_all


section \<open>Writing a string literal\<close>

text \<open>
  \<open>json.Marshal\<close> of a string: quotes, backslashes and control characters are escaped, so
  are \<open><\<close>, \<open>>\<close>, \<open>&\<close> and the two line separators; an invalid encoding becomes \<open>\ufffd\<close>.
\<close>

definition u_escape :: "nat \<Rightarrow> string" where
  "u_escape n =
     [CHR 0x5C, CHR ''u'', hex_char (n div 4096), hex_char (n div 256 mod 16),
      hex_char (n div 16 mod 16), hex_char (n mod 16)]"

definition quote_rune :: "rune option \<Rightarrow> string" where
  "quote_rune ro =
     (case ro of
        None \<Rightarrow> u_escape 0xFFFD
      | Some r \<Rightarrow>
          if r = 0x22 \<or> r = 0x5C then [CHR 0x5C, chr r]
          else if r = 8 then [CHR 0x5C, CHR ''b'']
          else if r = 12 then [CHR 0x5C, CHR ''f'']
          else if r = 10 then [CHR 0x5C, CHR ''n'']
          else if r = 13 then [CHR 0x5C, CHR ''r'']
          else if r = 9 then [CHR 0x5C, CHR ''t'']
          else if r < 0x20 \<or> r = 0x3C \<or> r = 0x3E \<or> r = 0x26 \<or> r = 0x2028 \<or> r = 0x2029 then u_escape r
          else encode_rune r)"

function json_body :: "string \<Rightarrow> string" where
  "json_body [] = []"
| "json_body (c # s) = (case next_rune c s of (r, rest) \<Rightarrow> quote_rune r @ json_body rest)"
  by pat_completeness auto
termination
  by (relation "measure length") (simp_all add: next_rune_shorter)

definition json_quote :: "string \<Rightarrow> string" where
  "json_quote s = CHR 0x22 # json_body s @ [CHR 0x22]"

lemma hex4_u_escape: "n < 65536 \<Longrightarrow> hex4 (drop 2 (u_escape n) @ s) = Some (n, s)"
proof -
  assume n: "n < 65536"
  then have "n div 4096 < 16" by (auto intro: less_mult_imp_div_less)
  moreover have "n div 4096 * 4096 + n div 256 mod 16 * 256 + n div 16 mod 16 * 16 + n mod 16 = n"
  proof -
    have m: "m = m div 16 * 16 + m mod 16" for m :: nat by simp
    have d: "n div 4096 = n div 256 div 16" "n div 256 = n div 16 div 16"
      by (simp_all add: div_mult2_eq [symmetric])
    from m [of "n div 256"] m [of "n div 16"] m [of n] show ?thesis
      unfolding d by linarith
  qed
  ultimately show ?thesis by (simp add: hex4_def u_escape_def hex_val_char)
qed

lemma u_escape_Cons: "u_escape n @ s = CHR 0x5C # tl (u_escape n) @ s"
  by (simp add: u_escape_def)

lemma json_unit_u_escape:
  assumes "n < 65536" "\<not> (0xD800 \<le> n \<and> n < 0xE000)"
  shows "json_unit (CHR 0x5C) (tl (u_escape n) @ s) = Some (encode_rune n, s)"
proof -
  have "tl (u_escape n) = CHR ''u'' # drop 2 (u_escape n)" by (simp add: u_escape_def)
  with assms show ?thesis
    by (auto simp: json_unit_def simple_escape_def json_u_def hex4_u_escape)
qed

lemma json_unit_plain:
  assumes "scalar r" "0x20 \<le> r" "r \<noteq> 0x22" "r \<noteq> 0x5C"
  shows "\<exists>c t. encode_rune r @ s = c # t \<and> c \<noteq> CHR 0x22 \<and> json_unit c t = Some (encode_rune r, s)"
proof -
  obtain c t where ct: "encode_rune r @ s = c # t" and n: "next_rune c t = (Some r, s)"
    using next_rune_encode [OF assms(1)] by blast
  have "byte c < 0x80 \<Longrightarrow> byte c = r" using n by (simp add: next_rune_def)
  with assms have "0x20 \<le> byte c" "c \<noteq> CHR 0x22" "c \<noteq> CHR 0x5C"
    by (cases "byte c < 0x80"; force)+
  with ct n show ?thesis by (simp add: json_unit_def)
qed

text \<open>One quoted rune reads back as its encoding, whatever follows.\<close>

lemma json_unit_quote_rune:
  assumes "\<And>r. ro = Some r \<Longrightarrow> scalar r"
  shows "\<exists>c t. quote_rune ro @ s = c # t \<and> c \<noteq> CHR 0x22 \<and>
               json_unit c t = Some (encode_rune (case ro of None \<Rightarrow> rune_error | Some r \<Rightarrow> r), s)"
proof (cases ro)
  case None
  with json_unit_u_escape [of rune_error s] show ?thesis
    by (intro exI [of _ "CHR 0x5C"] exI [of _ "tl (u_escape rune_error) @ s"])
      (simp add: quote_rune_def u_escape_Cons)
next
  case (Some r)
  consider "r \<in> {0x22, 0x5C, 8, 12, 10, 13, 9}"
    | "r \<notin> {0x22, 0x5C, 8, 12, 10, 13, 9}" "r < 0x20 \<or> r = 0x3C \<or> r = 0x3E \<or> r = 0x26 \<or> r = 0x2028 \<or> r = 0x2029"
    | "r \<notin> {0x22, 0x5C, 8, 12, 10, 13, 9}" "\<not> (r < 0x20 \<or> r = 0x3C \<or> r = 0x3E \<or> r = 0x26 \<or> r = 0x2028 \<or> r = 0x2029)"
    by blast
  then show ?thesis
  proof cases
    case 1
    then show ?thesis
      by (elim insertE emptyE)
        (simp_all add: Some quote_rune_def json_unit_def simple_escape_def encode_ascii char_of_eq_iff)
  next
    case 2
    then have "quote_rune ro = u_escape r" by (simp add: Some quote_rune_def)
    moreover have "json_unit (CHR 0x5C) (tl (u_escape r) @ s) = Some (encode_rune r, s)"
      using 2 by (intro json_unit_u_escape) auto
    ultimately show ?thesis
      by (intro exI [of _ "CHR 0x5C"] exI [of _ "tl (u_escape r) @ s"]) (simp add: Some u_escape_Cons)
  next
    case 3
    then have "quote_rune ro = encode_rune r" by (simp add: Some quote_rune_def)
    with 3 show ?thesis using json_unit_plain [of r s] assms Some by auto
  qed
qed

lemma json_str_body: "json_str (json_body s @ CHR 0x22 # t) = Some (concat (map encode_rune (runes s)), t)"
proof (induction s rule: json_body.induct)
  case 1
  show ?case by simp
next
  case (2 c s)
  obtain r rest where nr: "next_rune c s = (r, rest)" by fastforce
  then have sc: "\<And>x. r = Some x \<Longrightarrow> scalar x" using next_rune_sound by blast
  obtain d u where du: "quote_rune r @ json_body rest @ CHR 0x22 # t = d # u" "d \<noteq> CHR 0x22"
      "json_unit d u = Some (encode_rune (case r of None \<Rightarrow> rune_error | Some x \<Rightarrow> x), json_body rest @ CHR 0x22 # t)"
    using json_unit_quote_rune [OF sc] by blast
  with "2.IH" nr show ?case by simp
qed

text \<open>A valid UTF-8 text is read back as it was.\<close>

lemma json_str_quote: "utf8_valid s \<Longrightarrow> json_str (tl (json_quote s) @ t) = Some (s, t)"
  by (simp add: json_quote_def json_str_body utf8_valid_runes)

section \<open>Storing a value into a struct\<close>

text \<open>
  \<open>json.Unmarshal\<close> into a field: \<open>null\<close> leaves it as it is, a value of another kind is an
  error. A member goes to the field whose name equals its key up to letter case; keys that
  name no field are ignored; the last of several members with one name wins.
\<close>

definition store_string :: "json \<Rightarrow> string \<Rightarrow> string option" where
  "store_string v old = (case v of JStr s \<Rightarrow> Some s | JNull \<Rightarrow> Some old | _ \<Rightarrow> None)"

definition store_int :: "json \<Rightarrow> int \<Rightarrow> int option" where
  "store_int v old = (case v of JNum lit \<Rightarrow> atoi lit | JNull \<Rightarrow> Some old | _ \<Rightarrow> None)"

fun store_members :: "(string \<Rightarrow> json \<Rightarrow> 'a \<Rightarrow> 'a option) \<Rightarrow> (string \<times> json) list \<Rightarrow> 'a \<Rightarrow> 'a option" where
  "store_members f [] a = Some a"
| "store_members f ((k, v) # ms) a = Option.bind (f k v a) (store_members f ms)"

definition store_struct :: "(string \<Rightarrow> json \<Rightarrow> 'a \<Rightarrow> 'a option) \<Rightarrow> json \<Rightarrow> 'a \<Rightarrow> 'a option" where
  "store_struct f v old =
     (case v of JObj ms \<Rightarrow> store_members f ms old | JNull \<Rightarrow> Some old | _ \<Rightarrow> None)"

end
