(* ===== verification/Go_Base64.thy ===== *)
theory Go_Base64
  imports Go_Strconv
begin

text \<open>
  Go's \<open>base64.RawURLEncoding\<close>: the URL alphabet, no padding. The decoder skips carriage
  returns and line feeds, refuses any other byte outside the alphabet and a single trailing
  digit, and (not being \<open>Strict\<close>) drops left-over bits.
\<close>

definition b64_char :: "nat \<Rightarrow> char" where
  "b64_char n =
     (if n < 26 then chr (65 + n)
      else if n < 52 then chr (71 + n)
      else if n < 62 then chr (n - 4)
      else if n = 62 then CHR ''-'' else CHR ''_'')"

definition b64_val :: "char \<Rightarrow> nat option" where
  "b64_val c =
     (let b = byte c in
      if 65 \<le> b \<and> b \<le> 90 then Some (b - 65)
      else if 97 \<le> b \<and> b \<le> 122 then Some (b - 71)
      else if 48 \<le> b \<and> b \<le> 57 then Some (b + 4)
      else if b = 45 then Some 62
      else if b = 95 then Some 63
      else None)"

fun b64_encode :: "string \<Rightarrow> string" where
  "b64_encode [] = []"
| "b64_encode [a] = [b64_char (byte a div 4), b64_char (byte a mod 4 * 16)]"
| "b64_encode [a, b] =
     [b64_char (byte a div 4), b64_char (byte a mod 4 * 16 + byte b div 16), b64_char (byte b mod 16 * 4)]"
| "b64_encode (a # b # c # s) =
     b64_char (byte a div 4) # b64_char (byte a mod 4 * 16 + byte b div 16) #
     b64_char (byte b mod 16 * 4 + byte c div 64) # b64_char (byte c mod 64) # b64_encode s"

fun sextets :: "string \<Rightarrow> nat list option" where
  "sextets [] = Some []"
| "sextets (c # s) =
     (if c = chr 10 \<or> c = chr 13 then sextets s
      else (case b64_val c of None \<Rightarrow> None | Some n \<Rightarrow> map_option ((#) n) (sextets s)))"

fun b64_bytes :: "nat list \<Rightarrow> string option" where
  "b64_bytes [] = Some []"
| "b64_bytes [w] = None"
| "b64_bytes [w, x] = Some [chr (w * 4 + x div 16)]"
| "b64_bytes [w, x, y] = Some [chr (w * 4 + x div 16), chr (x mod 16 * 16 + y div 4)]"
| "b64_bytes (w # x # y # z # s) =
     map_option (\<lambda>t. chr (w * 4 + x div 16) # chr (x mod 16 * 16 + y div 4) # chr (y mod 4 * 64 + z) # t)
       (b64_bytes s)"

definition b64_decode :: "string \<Rightarrow> string option" where
  "b64_decode s = Option.bind (sextets s) b64_bytes"

lemma b64_char_val: "n < 64 \<Longrightarrow> b64_val (b64_char n) = Some n"
  by (auto simp: b64_val_def b64_char_def Let_def)

lemma b64_char_visible: "n < 64 \<Longrightarrow> visible (b64_char n) \<and> b64_char n \<noteq> CHR ''.''"
  by (auto simp: visible_def b64_char_def dest: arg_cong [where f = byte])

lemma sextets_b64: "n < 64 \<Longrightarrow> sextets (b64_char n # s) = map_option ((#) n) (sextets s)"
proof -
  assume n: "n < 64"
  then have "b64_char n \<noteq> chr 10" "b64_char n \<noteq> chr 13"
    using b64_char_visible [of n] by (auto simp: visible_def)
  with n show ?thesis by (simp add: b64_char_val)
qed

declare sextets.simps(2) [simp del]

lemma byte_quarters: "byte a div 4 < 64" "byte c div 64 < 4"
  by (rule less_mult_imp_div_less, simp)+

lemma below_64: "p < 4 \<Longrightarrow> q < 16 \<Longrightarrow> p * 16 + q < 64" "p < 16 \<Longrightarrow> q < 4 \<Longrightarrow> p * 4 + q < 64"
  "p < 4 \<Longrightarrow> p * 16 < 64" "p < 16 \<Longrightarrow> p * 4 < 64" for p q :: nat
  by simp_all

lemma byte_parts:
  "byte a div 4 < 64" "byte a mod 4 * 16 < 64" "byte a mod 4 * 16 + byte b div 16 < 64"
  "byte b mod 16 * 4 < 64" "byte b mod 16 * 4 + byte c div 64 < 64" "byte c mod 64 < 64"
  by (rule byte_quarters below_64 byte_nibbles mod_less_divisor zero_less_numeral)+

lemmas b64_arith = byte_parts byte_quarters byte_nibbles

lemma b64_decode_encode: "b64_decode (b64_encode s) = Some s"
proof (induction s rule: b64_encode.induct)
  case (4 a b c s)
  then obtain ns where ns: "sextets (b64_encode s) = Some ns" "b64_bytes ns = Some s"
    by (auto simp: b64_decode_def bind_eq_Some_conv)
  then show ?case
    by (simp add: b64_decode_def sextets_b64 b64_arith)
qed (simp_all add: b64_decode_def sextets_b64 b64_arith)

interpretation base64: codec "\<lambda>_. True" b64_encode b64_decode
  by unfold_locales (rule b64_decode_encode)

lemma b64_encode_chars: "c \<in> set (b64_encode s) \<Longrightarrow> visible c \<and> c \<noteq> CHR ''.''"
  by (induction s rule: b64_encode.induct) (auto simp: b64_char_visible byte_parts)

lemma b64_encode_length: "length (b64_encode s) = (4 * length s + 2) div 3"
  by (induction s rule: b64_encode.induct) auto

lemma b64_encode_nonempty: "s \<noteq> [] \<Longrightarrow> b64_encode s \<noteq> []"
  by (induction s rule: b64_encode.induct) auto

end
