(* ===== verification/Go_Sha256.thy ===== *)
theory Go_Sha256
  imports Go_Strconv "HOL-Library.Word"
begin

unbundle bit_operations_syntax

text \<open>
  Go's \<open>crypto/sha256\<close> and \<open>crypto/hmac\<close> over it, as FIPS 180-4 and RFC 2104 give them. The
  program stores only hashes of tokens and signs its login form tokens; the proofs use the
  length of a digest and that hashing is a function, nothing else.
\<close>

type_synonym w32 = "32 word"

text \<open>
  The constants are the first 32 bits of the fractional parts of roots of the first primes:
  cube roots for the rounds, square roots for the initial state.
\<close>

definition small_primes :: "int list" where
  "small_primes = filter (\<lambda>p. list_all (\<lambda>q. p mod q \<noteq> 0) [2 .. p - 1]) [2 .. 311]"

text \<open>The integer part of the \<open>k\<close>-th root, found bit by bit from the given one downwards.\<close>

fun root_bits :: "nat \<Rightarrow> int \<Rightarrow> nat \<Rightarrow> int \<Rightarrow> int" where
  "root_bits k n 0 r = r"
| "root_bits k n (Suc b) r = root_bits k n b (if (r + 2 ^ b) ^ k \<le> n then r + 2 ^ b else r)"

definition root_fraction :: "nat \<Rightarrow> int \<Rightarrow> w32" where
  "root_fraction k p = word_of_int (root_bits k (p * 2 ^ (32 * k)) 40 0)"

definition sha_k :: "w32 list" where
  "sha_k = map (root_fraction 3) small_primes"

record sha_state =
  sa :: w32
  sb :: w32
  sc :: w32
  sd :: w32
  se :: w32
  sf :: w32
  sg :: w32
  sh :: w32

definition sha_init :: sha_state where
  "sha_init =
     (let h = (\<lambda>i. root_fraction 2 (small_primes ! i))
      in \<lparr>sa = h 0, sb = h 1, sc = h 2, sd = h 3, se = h 4, sf = h 5, sg = h 6, sh = h 7\<rparr>)"

definition sha_round :: "w32 \<times> w32 \<Rightarrow> sha_state \<Rightarrow> sha_state" where
  "sha_round kw s =
     (let s1 = word_rotr 6 (se s) XOR word_rotr 11 (se s) XOR word_rotr 25 (se s);
          ch = (se s AND sf s) XOR (NOT (se s) AND sg s);
          t1 = sh s + s1 + ch + fst kw + snd kw;
          s0 = word_rotr 2 (sa s) XOR word_rotr 13 (sa s) XOR word_rotr 22 (sa s);
          maj = (sa s AND sb s) XOR (sa s AND sc s) XOR (sb s AND sc s);
          t2 = s0 + maj
      in \<lparr>sa = t1 + t2, sb = sa s, sc = sb s, sd = sc s, se = sd s + t1, sf = se s, sg = sf s, sh = sg s\<rparr>)"

text \<open>The message schedule, extended one word at a time from the last sixteen.\<close>

fun sha_extend :: "nat \<Rightarrow> w32 list \<Rightarrow> w32 list" where
  "sha_extend 0 w = w"
| "sha_extend (Suc n) w =
     (let i = length w;
          x = w ! (i - 15);
          y = w ! (i - 2);
          s0 = word_rotr 7 x XOR word_rotr 18 x XOR drop_bit 3 x;
          s1 = word_rotr 17 y XOR word_rotr 19 y XOR drop_bit 10 y
      in sha_extend n (w @ [w ! (i - 16) + s0 + w ! (i - 7) + s1]))"

definition sha_block :: "w32 list \<Rightarrow> sha_state \<Rightarrow> sha_state" where
  "sha_block m s =
     (let t = fold sha_round (zip sha_k (sha_extend 48 m)) s
      in \<lparr>sa = sa s + sa t, sb = sb s + sb t, sc = sc s + sc t, sd = sd s + sd t,
          se = se s + se t, sf = sf s + sf t, sg = sg s + sg t, sh = sh s + sh t\<rparr>)"

definition be_bytes :: "nat \<Rightarrow> 'a::len word \<Rightarrow> string" where
  "be_bytes n w = map (\<lambda>i. chr (unat (drop_bit (8 * (n - 1 - i)) w AND 0xFF))) [0..<n]"

abbreviation byte_word :: "char \<Rightarrow> w32" where
  "byte_word c \<equiv> word_of_nat (byte c)"

fun be_words :: "string \<Rightarrow> w32 list" where
  "be_words (a # b # c # d # s) =
     (push_bit 24 (byte_word a) OR push_bit 16 (byte_word b) OR push_bit 8 (byte_word c) OR byte_word d)
     # be_words s"
| "be_words _ = []"

definition sha_pad :: "string \<Rightarrow> string" where
  "sha_pad s =
     s @ chr 0x80 # replicate ((119 - length s mod 64) mod 64) (chr 0) @ be_bytes 8 (word_of_nat (8 * length s) :: 64 word)"

fun sha_blocks :: "nat \<Rightarrow> w32 list \<Rightarrow> sha_state \<Rightarrow> sha_state" where
  "sha_blocks 0 ws s = s"
| "sha_blocks (Suc n) ws s = sha_blocks n (drop 16 ws) (sha_block (take 16 ws) s)"

definition sha256 :: "string \<Rightarrow> string" where
  "sha256 msg =
     (let p = sha_pad msg;
          s = sha_blocks (length p div 64) (be_words p) sha_init
      in concat (map (\<lambda>w. be_bytes 4 w) [sa s, sb s, sc s, sd s, se s, sf s, sg s, sh s]))"

definition xor_byte :: "nat \<Rightarrow> char \<Rightarrow> char" where
  "xor_byte k c = chr (k XOR byte c)"

definition hmac_sha256 :: "string \<Rightarrow> string \<Rightarrow> string" where
  "hmac_sha256 key msg =
     (let k0 = (if 64 < length key then sha256 key else key);
          k = k0 @ replicate (64 - length k0) (chr 0)
      in sha256 (map (xor_byte 0x5C) k @ sha256 (map (xor_byte 0x36) k @ msg)))"

lemma be_bytes_length [simp]: "length (be_bytes n v) = n"
  by (simp add: be_bytes_def)

lemma sha256_length [simp]: "length (sha256 s) = 32"
  by (simp add: sha256_def Let_def)

lemma hmac_length [simp]: "length (hmac_sha256 k m) = 32"
  by (simp add: hmac_sha256_def Let_def)

text \<open>Padding fills whole blocks of 64 bytes.\<close>

lemma sha_pad_length: "length (sha_pad s) mod 64 = 0"
proof -
  have "(n + (1 + (119 - n mod 64) mod 64) + 8) mod 64 = 0" for n :: nat
  proof -
    obtain q r where n: "n = 64 * q + r" "r < 64"
      by (rule that [of "n div 64" "n mod 64"]) simp_all
    have r: "n mod 64 = r" using n by simp
    show ?thesis
    proof (cases "r < 56")
      case True
      then have "(119 - r) mod 64 = 55 - r" by (simp add: mod_if)
      with True n have "n + (1 + (119 - r) mod 64) + 8 = 64 * (q + 1)" by simp
      then show ?thesis unfolding r by simp
    next
      case False
      with n have "n + (1 + (119 - r) mod 64) + 8 = 64 * (q + 2)" by simp
      then show ?thesis unfolding r by simp
    qed
  qed
  from this [of "length s"] show ?thesis by (simp add: sha_pad_def algebra_simps)
qed

end
