(* ===== verification/Go_Net.thy ===== *)
theory Go_Net
  imports Go_Strconv
begin

text \<open>
  The parts of Go's \<open>net\<close> package the program calls: \<open>net.ParseIP\<close> (over
  \<open>netip.ParseAddr\<close>), \<open>IP.IsLoopback\<close> and \<open>net.SplitHostPort\<close>. An address is its sixteen
  bytes, an IPv4 address in its mapped form.
\<close>

type_synonym ip = "nat list"

section \<open>IPv4\<close>

definition ip_octet :: "string \<Rightarrow> nat option" where
  "ip_octet s =
     (if s = [] \<or> \<not> list_all is_digit s \<or> (1 < length s \<and> hd s = CHR ''0'') \<or> 3 < length s then None
      else (case parse_uint s of Inr n \<Rightarrow> if n \<le> 255 then Some n else None | Inl _ \<Rightarrow> None))"

definition ipv4_fields :: "string \<Rightarrow> nat list option" where
  "ipv4_fields s =
     (case map ip_octet (split_on (CHR ''.'') s) of
        [Some a, Some b, Some c, Some d] \<Rightarrow> Some [a, b, c, d]
      | _ \<Rightarrow> None)"

definition ipv4_mapped :: "nat list \<Rightarrow> ip" where
  "ipv4_mapped bs = replicate 10 0 @ [255, 255] @ bs"

section \<open>IPv6\<close>

definition is_hex :: "char \<Rightarrow> bool" where
  "is_hex c \<longleftrightarrow> hex_val c \<noteq> None"

definition hex_number :: "string \<Rightarrow> nat" where
  "hex_number s = foldl (\<lambda>acc c. acc * 16 + (case hex_val c of Some v \<Rightarrow> v | None \<Rightarrow> 0)) 0 s"

text \<open>The end of the parse: expand the ellipsis, which stands for at least one group.\<close>

definition ip6_finish :: "nat list \<Rightarrow> nat option \<Rightarrow> string \<Rightarrow> ip option" where
  "ip6_finish ip ell s =
     (if s \<noteq> [] then None
      else if length ip < 16 then
        (case ell of
           None \<Rightarrow> None
         | Some e \<Rightarrow> Some (take e ip @ replicate (16 - length ip) 0 @ drop e ip))
      else if ell \<noteq> None then None
      else Some ip)"

function ip6_loop :: "nat list \<Rightarrow> nat option \<Rightarrow> string \<Rightarrow> ip option" where
  "ip6_loop ip ell s =
     (if 16 \<le> length ip then ip6_finish ip ell s
      else
        let ds = takeWhile is_hex s;
            rest = dropWhile is_hex s;
            acc = hex_number ds;
            ip' = ip @ [acc div 256, acc mod 256]
        in if ds = [] \<or> 4 < length ds then None
           else
             (case rest of
                [] \<Rightarrow> ip6_finish ip' ell []
              | c # s1 \<Rightarrow>
                  if c = CHR ''.'' then
                    (if ell = None \<and> length ip \<noteq> 12 \<or> 16 < length ip + 4 then None
                     else (case ipv4_fields s of
                             None \<Rightarrow> None
                           | Some bs \<Rightarrow> ip6_finish (ip @ bs) ell []))
                  else if c \<noteq> CHR '':'' then None
                  else
                    (case s1 of
                       [] \<Rightarrow> None
                     | d # s2 \<Rightarrow>
                         if d = CHR '':'' then
                           (if ell \<noteq> None then None
                            else if s2 = [] then ip6_finish ip' (Some (length ip')) []
                            else ip6_loop ip' (Some (length ip')) s2)
                         else ip6_loop ip' ell s1)))"
  by pat_completeness auto
termination
  by (relation "measure (\<lambda>(ip, ell, s). 16 - length ip)") auto

declare ip6_loop.simps [simp del]

definition ipv6 :: "string \<Rightarrow> ip option" where
  "ipv6 s =
     (if prefix ''::'' s
      then (if length s = 2 then Some (replicate 16 0) else ip6_loop [] (Some 0) (drop 2 s))
      else ip6_loop [] None s)"

text \<open>\<open>net.ParseIP\<close>: an address with a zone is refused.\<close>

definition parse_ip :: "string \<Rightarrow> ip option" where
  "parse_ip s =
     (case find (\<lambda>c. c \<in> {CHR ''.'', CHR '':'', CHR ''%''}) s of
        None \<Rightarrow> None
      | Some c \<Rightarrow>
          if c = CHR ''.'' then map_option ipv4_mapped (ipv4_fields s)
          else if c = CHR '':'' \<and> CHR ''%'' \<notin> set s then ipv6 s
          else None)"

definition is_ipv4 :: "ip \<Rightarrow> bool" where
  "is_ipv4 ip \<longleftrightarrow> take 12 ip = replicate 10 0 @ [255, 255]"

definition is_loopback :: "ip \<Rightarrow> bool" where
  "is_loopback ip \<longleftrightarrow>
     (if is_ipv4 ip then ip ! 12 = 127 else ip = replicate 15 0 @ [1])"

section \<open>Host and port\<close>

definition split_host_port :: "string \<Rightarrow> (string \<times> string) option" where
  "split_host_port hp =
     (let i = last_index (CHR '':'') hp in
      if i < 0 then None
      else
        let port = drop (nat i + 1) hp in
        if prefix ''['' hp then
          (if CHR '']'' \<notin> set hp then None
           else
             let e = length (takeWhile (\<lambda>c. c \<noteq> CHR '']'') hp) in
             if int (e + 1) \<noteq> i then None
             else if CHR ''['' \<in> set (drop 1 hp) \<or> CHR '']'' \<in> set (drop (e + 1) hp) then None
             else Some (take (e - 1) (drop 1 hp), port))
        else
          let host = take (nat i) hp in
          if CHR '':'' \<in> set host \<or> CHR ''['' \<in> set hp \<or> CHR '']'' \<in> set hp then None
          else Some (host, port))"

lemma split_host_port_simple:
  assumes "CHR '':'' \<notin> set host" "CHR ''['' \<notin> set host" "CHR '']'' \<notin> set host"
    and "CHR '':'' \<notin> set port" "CHR ''['' \<notin> set port" "CHR '']'' \<notin> set port"
  shows "split_host_port (host @ CHR '':'' # port) = Some (host, port)"
proof -
  have "\<not> prefix ''['' (host @ CHR '':'' # port)"
    using assms by (cases host) (auto simp: prefix_def)
  with assms show ?thesis by (simp add: split_host_port_def last_index_append)
qed

end
