(* ===== verification/Kt_Token.thy ===== *)
theory Kt_Token
  imports Go_Json Go_Base64 Go_Sha256 Go_Net
begin

text \<open>
  The personal token (\<open>internal/store/token.go\<close>): \<open>kt2.<server blob>.<secret>\<close>, where the
  blob is base64 over a JSON object with the relay's address, port, domain and certificate
  name, and the secret is base64 over 32 random bytes. Legacy \<open>kt1\<close> tokens carry
  \<open>host:port|domain\<close> instead of JSON.
\<close>

section \<open>Data\<close>

definition token_version_current :: string where
  "token_version_current = ''kt2''"

definition token_version_legacy :: string where
  "token_version_legacy = ''kt1''"

record server_info =
  si_addr :: string
  si_port :: int
  si_domain :: string
  si_tls_server_name :: string
  si_token_version :: string

record token_server_v2 =
  w_addr :: string
  w_port :: int
  w_domain :: string
  w_tls :: string

datatype info_error = Missing_Or_Invalid | Invalid_Characters | Invalid_Tls_Name

datatype token_error =
    Invalid_Server_Info info_error
  | Random_Failed
  | Not_A_Token
  | Malformed_Token
  | Unsupported_Version

section \<open>Validation\<close>

text \<open>A letter, digit or hyphen.\<close>

definition ldh_rune :: "rune \<Rightarrow> bool" where
  "ldh_rune r \<longleftrightarrow> 97 \<le> r \<and> r \<le> 122 \<or> 65 \<le> r \<and> r \<le> 90 \<or> 48 \<le> r \<and> r \<le> 57 \<or> r = 45"

definition valid_label :: "string \<Rightarrow> bool" where
  "valid_label label \<longleftrightarrow>
     \<not> (length label = 0 \<or> 63 < length label \<or> hd label = CHR ''-'' \<or> last label = CHR ''-'') \<and>
     list_all ldh_rune (runes label)"

definition valid_tls_name :: "string \<Rightarrow> bool" where
  "valid_tls_name name \<longleftrightarrow>
     (if parse_ip name \<noteq> None then True
      else if length name = 0 \<or> 253 < length name then False
      else list_all valid_label (split_on (CHR ''.'') name))"

definition forbidden_chars :: string where
  "forbidden_chars = [CHR 0x00, CHR 0x0D, CHR 0x0A, CHR 0x09, CHR '' '', CHR ''/'', CHR 0x5C]"

definition validate_server_info :: "server_info \<Rightarrow> info_error option" where
  "validate_server_info info =
     (if si_addr info = [] \<or> si_domain info = [] \<or> si_port info < 1 \<or> 65535 < si_port info
      then Some Missing_Or_Invalid
      else if list_ex (\<lambda>v. contains_any v forbidden_chars)
                [si_addr info, si_domain info, si_tls_server_name info]
      then Some Invalid_Characters
      else if si_tls_server_name info \<noteq> [] \<and> \<not> valid_tls_name (si_tls_server_name info)
      then Some Invalid_Tls_Name
      else None)"

section \<open>Encoding\<close>

text \<open>\<open>json.Marshal\<close> and \<open>json.Unmarshal\<close> of \<open>tokenServerV2\<close>.\<close>

definition marshal_v2 :: "token_server_v2 \<Rightarrow> string" where
  "marshal_v2 w =
     CHR ''{'' # json_quote ''a'' @ CHR '':'' # json_quote (w_addr w) @
     CHR '','' # json_quote ''p'' @ CHR '':'' # itoa (w_port w) @
     CHR '','' # json_quote ''d'' @ CHR '':'' # json_quote (w_domain w) @
     CHR '','' # json_quote ''s'' @ CHR '':'' # json_quote (w_tls w) @ ''}''"

definition store_v2_field :: "string \<Rightarrow> json \<Rightarrow> token_server_v2 \<Rightarrow> token_server_v2 option" where
  "store_v2_field k v w =
     (if equal_fold k ''a'' then map_option (\<lambda>x. w\<lparr>w_addr := x\<rparr>) (store_string v (w_addr w))
      else if equal_fold k ''p'' then map_option (\<lambda>x. w\<lparr>w_port := x\<rparr>) (store_int v (w_port w))
      else if equal_fold k ''d'' then map_option (\<lambda>x. w\<lparr>w_domain := x\<rparr>) (store_string v (w_domain w))
      else if equal_fold k ''s'' then map_option (\<lambda>x. w\<lparr>w_tls := x\<rparr>) (store_string v (w_tls w))
      else Some w)"

definition unmarshal_v2 :: "string \<Rightarrow> token_server_v2 option" where
  "unmarshal_v2 raw =
     Option.bind (json_parse raw)
       (\<lambda>v. store_struct store_v2_field v \<lparr>w_addr = [], w_port = 0, w_domain = [], w_tls = []\<rparr>)"

definition encode_v2 :: "server_info \<Rightarrow> info_error + string" where
  "encode_v2 s =
     (let tls0 = trim_space (si_tls_server_name s);
          tls_name = (if tls0 = [] then trim_space (si_addr s) else tls0);
          wire = \<lparr>w_addr = trim_space (si_addr s), w_port = si_port s,
                  w_domain = trim_space (si_domain s), w_tls = tls_name\<rparr>
      in case validate_server_info
                \<lparr>si_addr = w_addr wire, si_port = w_port wire, si_domain = w_domain wire,
                 si_tls_server_name = w_tls wire, si_token_version = []\<rparr> of
           Some e \<Rightarrow> Err e
         | None \<Rightarrow> Ok (b64_encode (marshal_v2 wire)))"

definition hash_token :: "string \<Rightarrow> string" where
  "hash_token token = hex_encode (sha256 (trim_space token))"

text \<open>
  \<open>NewToken\<close>: the random bytes are an argument, \<open>None\<close> where reading them fails. The result
  is the token, its hash and the prefix shown in listings.
\<close>

definition new_token :: "server_info \<Rightarrow> string option \<Rightarrow> token_error + (string \<times> string \<times> string)" where
  "new_token info random =
     (case encode_v2 info of
        Inl e \<Rightarrow> Err (Invalid_Server_Info e)
      | Inr server_blob \<Rightarrow>
          (case random of
             None \<Rightarrow> Err Random_Failed
           | Some secret \<Rightarrow>
               let sec = b64_encode secret;
                   token = join_with ''.'' [token_version_current, server_blob, sec]
               in Ok (token, hash_token token, take 8 sec)))"

section \<open>Parsing\<close>

definition parse_v2_server :: "string \<Rightarrow> token_error + server_info" where
  "parse_v2_server blob =
     (case b64_decode blob of
        None \<Rightarrow> Err Malformed_Token
      | Some raw \<Rightarrow>
          (case unmarshal_v2 raw of
             None \<Rightarrow> Err Malformed_Token
           | Some wire \<Rightarrow>
               let info = \<lparr>si_addr = trim_space (w_addr wire), si_port = w_port wire,
                           si_domain = trim_space (w_domain wire),
                           si_tls_server_name = trim_space (w_tls wire),
                           si_token_version = token_version_current\<rparr>
               in if si_tls_server_name info = [] then Err Malformed_Token
                  else if validate_server_info info \<noteq> None then Err Malformed_Token
                  else Ok info))"

definition parse_v1_server :: "string \<Rightarrow> token_error + server_info" where
  "parse_v1_server blob =
     (case b64_decode blob of
        None \<Rightarrow> Err Malformed_Token
      | Some raw \<Rightarrow>
          (case cut (CHR ''|'') raw of
             None \<Rightarrow> Err Malformed_Token
           | Some (hostport, domain) \<Rightarrow>
               if domain = [] then Err Malformed_Token
               else
                 let i = last_index (CHR '':'') hostport in
                 if i < 1 then Err Malformed_Token
                 else
                   (case atoi (drop (nat i + 1) hostport) of
                      None \<Rightarrow> Err Malformed_Token
                    | Some port \<Rightarrow>
                        let info = \<lparr>si_addr = take (nat i) hostport, si_port = port, si_domain = domain,
                                    si_tls_server_name = [], si_token_version = token_version_legacy\<rparr>
                        in if validate_server_info info \<noteq> None then Err Malformed_Token else Ok info)))"

definition parse_token :: "string \<Rightarrow> token_error + server_info" where
  "parse_token token =
     (case split_on (CHR ''.'') (trim_space token) of
        [version, blob, sec] \<Rightarrow>
          (case b64_decode sec of
             None \<Rightarrow> Err Malformed_Token
           | Some secret \<Rightarrow>
               if length secret \<noteq> 32 then Err Malformed_Token
               else if version = token_version_current then parse_v2_server blob
               else if version = token_version_legacy then parse_v1_server blob
               else Err Unsupported_Version)
      | _ \<Rightarrow> Err Not_A_Token)"


section \<open>The JSON of the server blob reads back\<close>

lemma skip_ws_visible: "visible c \<Longrightarrow> skip_ws (c # s) = c # s"
  by (auto simp: skip_ws_def is_json_ws_def visible_def)

lemma skip_ws_quote [simp]: "skip_ws (json_quote s @ t) = json_quote s @ t"
  by (simp add: json_quote_def skip_ws_visible visible_def)

lemma json_quote_Cons: "json_quote s @ t = CHR 0x22 # tl (json_quote s) @ t"
  by (simp add: json_quote_def)

lemma json_key_quote: "utf8_valid k \<Longrightarrow> json_key (json_quote k @ CHR '':'' # t) = Some (k, t)"
  by (simp add: json_key_def json_quote_Cons [of k] skip_ws_visible visible_def json_str_quote
      del: skip_ws_quote)

lemma json_value_quote: "utf8_valid x \<Longrightarrow> json_value (Suc f) d (json_quote x @ t) = Some (JStr x, t)"
  by (simp add: json_quote_Cons [of x] skip_ws_visible visible_def json_scalar_def json_str_quote
      del: skip_ws_quote)

lemma json_value_itoa:
  assumes "0 \<le> n" "\<not> is_digit c" "c \<notin> {CHR ''.'', CHR ''e'', CHR ''E''}"
  shows "json_value (Suc f) d (itoa n @ c # t) = Some (JNum (itoa n), c # t)"
proof -
  obtain e r where er: "itoa n = e # r" by (cases "itoa n") auto
  from assms(1) have it: "itoa n = nat_digits (nat n)" by (simp add: itoa_def)
  then have dig: "\<And>x. x \<in> set (itoa n) \<Longrightarrow> is_digit x" by (auto dest: nat_digits_digits)
  then have e: "is_digit e" by (simp add: er)
  then have vis: "visible e" "e \<noteq> CHR ''{''" "e \<noteq> CHR ''[''" "e \<noteq> CHR 0x22" "e \<noteq> CHR ''-''"
    by (auto simp: is_digit_visible is_digit_def)
  have part: "json_int_part (itoa n @ c # t) = Some (itoa n, c # t)"
  proof (cases "e = CHR ''0''")
    case True
    then have "nat n = 0" using hd_nat_digits_nonzero [of "nat n"] er it by fastforce
    then have "itoa n = [e]" using er it by (simp add: nat_digits.simps)
    with True show ?thesis by (simp add: json_int_part_def)
  next
    case False
    have "takeWhile is_digit (itoa n @ c # t) = itoa n" "dropWhile is_digit (itoa n @ c # t) = c # t"
      using dig assms(2) by (simp_all add: takeWhile_append2 dropWhile_append2)
    with False e show ?thesis by (simp add: json_int_part_def take_digits_def er)
  qed
  have "json_number (itoa n @ c # t) = Some (itoa n, c # t)"
    using part vis assms(3) by (simp add: json_number_def er json_frac_def json_exp_def)
  then show ?thesis using vis e by (simp add: er skip_ws_visible json_scalar_def)
qed

lemma json_member_string:
  assumes "utf8_valid k" "utf8_valid x"
  shows "json_members (Suc (Suc f)) d (json_quote k @ CHR '':'' # json_quote x @ CHR '','' # t) =
           map_option (\<lambda>(ms, w). ((k, JStr x) # ms, w)) (json_members (Suc f) d t)"
    and "json_members (Suc (Suc f)) d (json_quote k @ CHR '':'' # json_quote x @ CHR ''}'' # t) =
           Some ([(k, JStr x)], t)"
  using assms
  by (simp_all add: json_key_quote json_value_quote json_sep_def skip_ws_visible visible_def
      del: json_value.simps)

lemma json_member_int:
  assumes "utf8_valid k" "0 \<le> n"
  shows "json_members (Suc (Suc f)) d (json_quote k @ CHR '':'' # itoa n @ CHR '','' # t) =
           map_option (\<lambda>(ms, w). ((k, JNum (itoa n)) # ms, w)) (json_members (Suc f) d t)"
  using assms
  by (simp add: json_key_quote json_value_itoa is_digit_def json_sep_def skip_ws_visible visible_def
      del: json_value.simps)

definition valid_wire :: "token_server_v2 \<Rightarrow> bool" where
  "valid_wire w \<longleftrightarrow>
     utf8_valid (w_addr w) \<and> utf8_valid (w_domain w) \<and> utf8_valid (w_tls w) \<and>
     0 \<le> w_port w \<and> w_port w \<le> max_int64"

lemma json_parse_marshal:
  assumes "valid_wire w"
  shows "json_parse (marshal_v2 w) =
    Some (JObj [(''a'', JStr (w_addr w)), (''p'', JNum (itoa (w_port w))),
                (''d'', JStr (w_domain w)), (''s'', JStr (w_tls w))])"
proof -
  let ?n = "2 * length (marshal_v2 w) + 1"
  have keys: "utf8_valid ''a''" "utf8_valid ''p''" "utf8_valid ''d''" "utf8_valid ''s''"
    by (simp_all add: next_rune_def)
  have depth: "json_max_depth \<noteq> 0" by (simp add: json_max_depth_def)
  have open1: "\<not> prefix ''}'' (json_quote ''a'' @ t)" for t
    by (simp add: json_quote_def)
  have "json_value ?n json_max_depth (marshal_v2 w) =
        json_value (Suc (Suc (Suc (Suc (Suc (Suc ?n)))))) json_max_depth (marshal_v2 w)"
    by (rule json_enough(1)) simp_all
  also have "\<dots> = Some (JObj [(''a'', JStr (w_addr w)), (''p'', JNum (itoa (w_port w))),
                (''d'', JStr (w_domain w)), (''s'', JStr (w_tls w))], [])"
    using assms keys depth
    by (simp add: marshal_v2_def valid_wire_def skip_ws_visible visible_def open1
        json_member_string json_member_int del: json_members.simps utf8_valid.simps)
  finally show ?thesis by (simp add: json_parse_def skip_ws_def)
qed

lemma equal_fold_keys [simp]:
  "equal_fold ''a'' ''a''" "\<not> equal_fold ''p'' ''a''" "equal_fold ''p'' ''p''"
  "\<not> equal_fold ''d'' ''a''" "\<not> equal_fold ''d'' ''p''" "equal_fold ''d'' ''d''"
  "\<not> equal_fold ''s'' ''a''" "\<not> equal_fold ''s'' ''p''" "\<not> equal_fold ''s'' ''d''" "equal_fold ''s'' ''s''"
  by (simp_all add: equal_fold_def next_rune_def fold_rune_def lower_ascii_def)

lemma unmarshal_marshal: "valid_wire w \<Longrightarrow> unmarshal_v2 (marshal_v2 w) = Some w"
  by (cases w)
    (auto simp: unmarshal_v2_def json_parse_marshal store_struct_def store_v2_field_def
      store_string_def store_int_def valid_wire_def int64_def decimal.dec_enc)

text \<open>
  The blob is the chain of two codecs, JSON inside base64.
\<close>

interpretation wire: codec valid_wire marshal_v2 unmarshal_v2
  by unfold_locales (rule unmarshal_marshal)

interpretation blob: codec_chain valid_wire marshal_v2 unmarshal_v2 "\<lambda>_. True" b64_encode b64_decode
  by unfold_locales simp


section \<open>Properties of tokens\<close>

lemma visible_ascii: "visible c \<Longrightarrow> ascii c"
  by (simp add: visible_def ascii_def)

lemma token_parts:
  assumes "new_token info rnd = Ok (tok, hash, prefix8)"
  obtains blob secret where
    "rnd = Some secret" "encode_v2 info = Ok blob"
    "tok = join_with ''.'' [token_version_current, blob, b64_encode secret]"
    "hash = hash_token tok" "prefix8 = take 8 (b64_encode secret)"
  using assms by (auto simp: new_token_def Let_def split: sum.splits option.splits)

lemma encode_v2_blob: "encode_v2 info = Ok blob \<Longrightarrow> \<exists>x. blob = b64_encode x \<and> x \<noteq> []"
  by (auto simp: encode_v2_def marshal_v2_def Let_def split: option.splits intro!: exI)

text \<open>A token has no white space at its ends, so trimming keeps it.\<close>

lemma new_token_trim:
  assumes "new_token info rnd = Ok (tok, hash, prefix8)"
  shows "trim_space tok = tok"
proof -
  from assms obtain blob secret where
    tok: "tok = join_with ''.'' [token_version_current, blob, b64_encode secret]"
    by (rule token_parts)
  have "visible (last tok)"
  proof (cases "b64_encode secret = []")
    case True
    then show ?thesis by (simp add: tok token_version_current_def visible_def)
  next
    case False
    then show ?thesis using b64_encode_chars [of "last (b64_encode secret)" secret]
      by (simp add: tok token_version_current_def)
  qed
  then show ?thesis
    by (intro trim_space_visible) (simp_all add: tok token_version_current_def visible_def)
qed

lemma split_new_token:
  assumes "new_token info rnd = Ok (tok, hash, prefix8)"
  obtains blob secret where "rnd = Some secret" "encode_v2 info = Ok blob"
    "split_on (CHR ''.'') (trim_space tok) = [token_version_current, blob, b64_encode secret]"
proof -
  from assms obtain blob secret where p: "rnd = Some secret" "encode_v2 info = Ok blob"
    "tok = join_with ''.'' [token_version_current, blob, b64_encode secret]"
    by (rule token_parts)
  from encode_v2_blob [OF p(2)] have "CHR ''.'' \<notin> set blob" using b64_encode_chars by blast
  moreover have "CHR ''.'' \<notin> set (b64_encode secret)" using b64_encode_chars by blast
  moreover have "CHR ''.'' \<notin> set token_version_current" by (simp add: token_version_current_def)
  ultimately have sp: "split_on (CHR ''.'') tok = [token_version_current, blob, b64_encode secret]"
    unfolding p(3) by (intro split_on_join) auto
  show ?thesis by (rule that [OF p(1,2)]) (simp add: new_token_trim [OF assms] sp)
qed

definition tls_name_of :: "server_info \<Rightarrow> string" where
  "tls_name_of info =
     (if trim_space (si_tls_server_name info) = [] then trim_space (si_addr info)
      else trim_space (si_tls_server_name info))"

text \<open>The relay a token leads to: the fields of \<open>info\<close>, trimmed, with the certificate name resolved.\<close>

definition canonical_info :: "server_info \<Rightarrow> server_info" where
  "canonical_info info =
     \<lparr>si_addr = trim_space (si_addr info), si_port = si_port info,
      si_domain = trim_space (si_domain info), si_tls_server_name = tls_name_of info,
      si_token_version = token_version_current\<rparr>"

definition utf8_info :: "server_info \<Rightarrow> bool" where
  "utf8_info info \<longleftrightarrow>
     utf8_valid (trim_space (si_addr info)) \<and> utf8_valid (trim_space (si_domain info)) \<and>
     utf8_valid (tls_name_of info)"

definition wire_of :: "server_info \<Rightarrow> token_server_v2" where
  "wire_of info =
     \<lparr>w_addr = trim_space (si_addr info), w_port = si_port info,
      w_domain = trim_space (si_domain info), w_tls = tls_name_of info\<rparr>"

lemma validate_version: "validate_server_info (info\<lparr>si_token_version := v\<rparr>) = validate_server_info info"
  by (simp add: validate_server_info_def)

lemma encode_v2_eq:
  "encode_v2 info =
     (case validate_server_info (canonical_info info) of
        Some e \<Rightarrow> Err e | None \<Rightarrow> Ok (b64_encode (marshal_v2 (wire_of info))))"
  using validate_version [where info = "canonical_info info" and v = "[]"]
  by (auto simp: encode_v2_def wire_of_def canonical_info_def tls_name_of_def Let_def split: option.split)

lemma tls_name_of_trim [simp]: "trim_space (tls_name_of info) = tls_name_of info"
  by (simp add: tls_name_of_def)

lemma valid_infoD:
  assumes "validate_server_info info = None"
  shows "si_addr info \<noteq> []" "si_domain info \<noteq> []" "1 \<le> si_port info" "si_port info \<le> 65535"
    "\<not> contains_any (si_addr info) forbidden_chars" "\<not> contains_any (si_domain info) forbidden_chars"
    "\<not> contains_any (si_tls_server_name info) forbidden_chars"
    "si_tls_server_name info \<noteq> [] \<Longrightarrow> valid_tls_name (si_tls_server_name info)"
  using assms by (auto simp: validate_server_info_def split: if_splits)

lemma wire_of_valid: "utf8_info info \<Longrightarrow> validate_server_info (canonical_info info) = None \<Longrightarrow> valid_wire (wire_of info)"
  using valid_infoD(3,4) [of "canonical_info info"]
  by (simp add: valid_wire_def wire_of_def utf8_info_def canonical_info_def)

lemma parse_v2_encoded:
  assumes "encode_v2 info = Ok blob" "utf8_info info"
  shows "parse_v2_server blob = Ok (canonical_info info)"
proof -
  from assms(1) have v: "validate_server_info (canonical_info info) = None"
    and b: "blob = b64_encode (marshal_v2 (wire_of info))"
    by (auto simp: encode_v2_eq split: option.splits)
  from v have "si_addr (canonical_info info) \<noteq> []" by (rule valid_infoD)
  then have "tls_name_of info \<noteq> []" by (auto simp: canonical_info_def tls_name_of_def)
  moreover have "unmarshal_v2 (marshal_v2 (wire_of info)) = Some (wire_of info)"
    by (rule wire.dec_enc) (rule wire_of_valid [OF assms(2) v])
  ultimately show ?thesis using v
    by (simp add: b parse_v2_server_def base64.dec_enc wire_of_def canonical_info_def)
qed

lemma parse_token_cases:
  assumes "parse_token tok = Ok info"
  obtains version blob sec secret where
    "split_on (CHR ''.'') (trim_space tok) = [version, blob, sec]"
    "b64_decode sec = Some secret" "length secret = 32"
    "version = token_version_current \<and> parse_v2_server blob = Ok info \<or>
     version = token_version_legacy \<and> parse_v1_server blob = Ok info"
  using assms by (auto simp: parse_token_def split: list.splits option.splits if_splits)

lemma parse_v2_sound:
  assumes "parse_v2_server blob = Ok info"
  shows "validate_server_info info = None" "si_tls_server_name info \<noteq> []"
    "si_token_version info = token_version_current"
  using assms by (auto simp: parse_v2_server_def Let_def split: option.splits if_splits)

lemma parse_v1_sound:
  assumes "parse_v1_server blob = Ok info"
  shows "validate_server_info info = None" "si_tls_server_name info = []"
    "si_token_version info = token_version_legacy"
  using assms by (auto simp: parse_v1_server_def Let_def split: option.splits if_splits)

lemma versions_differ [simp]: "token_version_legacy \<noteq> token_version_current"
  by (simp add: token_version_legacy_def token_version_current_def)

lemma parse_token_new:
  assumes "new_token info (Some secret) = Ok (tok, hash, prefix8)"
    and "length secret = 32" "utf8_info info"
  shows "parse_token tok = Ok (canonical_info info)"
proof -
  from assms(1) obtain blob where "encode_v2 info = Ok blob"
    and "split_on (CHR ''.'') (trim_space tok) = [token_version_current, blob, b64_encode secret]"
    by (auto elim: split_new_token)
  then show ?thesis using assms(2,3)
    by (simp add: parse_token_def base64.dec_enc parse_v2_encoded)
qed

lemma hash_token_trim: "hash_token (trim_space s) = hash_token s"
  by (simp add: hash_token_def)

lemma parse_token_trim: "parse_token (trim_space s) = parse_token s"
  by (simp add: parse_token_def)

section \<open>The token contracts\<close>

text \<open>
  C19: A token minted by \<open>NewToken\<close> parses back to the relay it was minted for, whatever
  white space the user pasted around it: the parsed record is the one given, its fields
  trimmed and the certificate name resolved to the address where it was left empty. The
  stored hash is the hash of the pasted text, and the listed prefix is 8 characters of the
  secret part.
\<close>

theorem new_token_parses_back:
  assumes "new_token info (Some secret) = Ok (tok, hash, prefix8)"
    and "length secret = 32" "utf8_info info" "trim_space pasted = tok"
  shows "parse_token pasted = Ok (canonical_info info) \<and> hash_token pasted = hash \<and>
    length prefix8 = 8"
proof -
  from assms(1) have "hash = hash_token tok" "prefix8 = take 8 (b64_encode secret)"
    by (auto elim: token_parts)
  moreover have "8 \<le> length (b64_encode secret)" using assms(2) by (simp add: b64_encode_length)
  ultimately show ?thesis
    using parse_token_new [OF assms(1-3)] assms(4) parse_token_trim [of pasted] hash_token_trim [of pasted]
    by simp
qed

definition sample_info :: server_info where
  "sample_info = \<lparr>si_addr = ''relay.example.com'', si_port = 7000, si_domain = ''example.com'',
                  si_tls_server_name = [], si_token_version = []\<rparr>"

definition sample_token :: "char \<Rightarrow> string" where
  "sample_token c = join_with ''.'' [token_version_current,
     b64_encode (marshal_v2 (wire_of sample_info)), b64_encode (replicate 32 c)]"

lemma sample_info_canonical:
  "canonical_info sample_info =
     \<lparr>si_addr = ''relay.example.com'', si_port = 7000, si_domain = ''example.com'',
      si_tls_server_name = ''relay.example.com'', si_token_version = token_version_current\<rparr>"
  by (simp add: canonical_info_def sample_info_def tls_name_of_def trim_space_visible visible_def)

lemma sample_info_valid: "validate_server_info (canonical_info sample_info) = None"
  by (simp add: sample_info_canonical validate_server_info_def contains_any_def forbidden_chars_def
      valid_tls_name_def valid_label_def ldh_rune_def parse_ip_def ipv4_fields_def ip_octet_def
      is_digit_def next_rune_def char_of_eq_iff)

lemma sample_info_utf8: "utf8_info sample_info"
  by (simp add: utf8_info_def sample_info_def tls_name_of_def trim_space_visible visible_def next_rune_def)

lemma sample_token_minted:
  "new_token sample_info (Some (replicate 32 c)) =
     Ok (sample_token c, hash_token (sample_token c), take 8 (b64_encode (replicate 32 c)))"
  by (simp add: new_token_def encode_v2_eq sample_info_valid sample_token_def Let_def)

theorem new_token_parses_back_witness:
  "parse_token (sample_token (chr 7)) = Ok (canonical_info sample_info) \<and>
   length (take 8 (b64_encode (replicate 32 (chr 7)))) = 8"
  using new_token_parses_back [OF sample_token_minted _ sample_info_utf8
      new_token_trim [OF sample_token_minted], of "chr 7"]
  by simp

text \<open>
  C20: Whatever text \<open>ParseToken\<close> accepts, it has three parts separated by dots with a
  secret of exactly 32 bytes, and the relay it yields has a non-empty address and domain,
  a port from 1 to 65535 and no blank, slash, backslash or control character in a field. A
  current token always carries a valid certificate name, a legacy one never carries any.
\<close>

theorem parse_token_sound:
  assumes "parse_token tok = Ok info"
  shows "(\<exists>version blob sec secret. split_on (CHR ''.'') (trim_space tok) = [version, blob, sec] \<and>
            b64_decode sec = Some secret \<and> length secret = 32 \<and> version = si_token_version info)
    \<and> si_addr info \<noteq> [] \<and> si_domain info \<noteq> [] \<and> 1 \<le> si_port info \<and> si_port info \<le> 65535
    \<and> (\<forall>c \<in> set forbidden_chars. c \<notin> set (si_addr info) \<union> set (si_domain info) \<union> set (si_tls_server_name info))
    \<and> (if si_token_version info = token_version_current
       then si_tls_server_name info \<noteq> [] \<and> valid_tls_name (si_tls_server_name info)
       else si_token_version info = token_version_legacy \<and> si_tls_server_name info = [])"
proof -
  from assms obtain version blob sec secret where p:
    "split_on (CHR ''.'') (trim_space tok) = [version, blob, sec]"
    "b64_decode sec = Some secret" "length secret = 32"
    "version = token_version_current \<and> parse_v2_server blob = Ok info \<or>
     version = token_version_legacy \<and> parse_v1_server blob = Ok info"
    by (rule parse_token_cases)
  from p(4) have v: "validate_server_info info = None" "version = si_token_version info"
    and tls: "if si_token_version info = token_version_current
       then si_tls_server_name info \<noteq> []
       else si_token_version info = token_version_legacy \<and> si_tls_server_name info = []"
    by (auto dest: parse_v2_sound parse_v1_sound)
  from p(1-3) v(2) show ?thesis
    using valid_infoD [OF v(1)] tls by (auto simp: contains_any_def list_ex_iff)
qed

theorem parse_token_sound_witness:
  "si_addr (canonical_info sample_info) \<noteq> [] \<and> 1 \<le> si_port (canonical_info sample_info)"
  using parse_token_sound [of "sample_token (chr 7)" "canonical_info sample_info"]
    parse_token_new [OF sample_token_minted _ sample_info_utf8] by simp

text \<open>
  \<open>NewToken\<close> fails exactly when the relay is not valid or the random source fails, and
  two tokens it mints from different secrets are different texts, even for the same relay.
\<close>

theorem new_token_outcome:
  "(is_ok (new_token info rnd) \<longleftrightarrow> validate_server_info (canonical_info info) = None \<and> rnd \<noteq> None) \<and>
   (\<forall>s1 s2 t1 h1 p1 t2 h2 p2.
      new_token info (Some s1) = Ok (t1, h1, p1) \<and> new_token info (Some s2) = Ok (t2, h2, p2) \<longrightarrow>
      (t1 = t2 \<longleftrightarrow> s1 = s2))"
proof (intro conjI allI impI)
  show "is_ok (new_token info rnd) \<longleftrightarrow> validate_server_info (canonical_info info) = None \<and> rnd \<noteq> None"
    by (auto simp: new_token_def encode_v2_eq Let_def is_ok_def split: option.split)
next
  fix s1 s2 t1 h1 p1 t2 h2 p2
  assume a: "new_token info (Some s1) = Ok (t1, h1, p1) \<and> new_token info (Some s2) = Ok (t2, h2, p2)"
  then obtain b1 where b1: "split_on (CHR ''.'') (trim_space t1) = [token_version_current, b1, b64_encode s1]"
    by (auto elim: split_new_token)
  from a obtain b2 where b2: "split_on (CHR ''.'') (trim_space t2) = [token_version_current, b2, b64_encode s2]"
    by (auto elim: split_new_token)
  show "t1 = t2 \<longleftrightarrow> s1 = s2"
  proof
    assume "t1 = t2"
    with b1 b2 have "b64_encode s1 = b64_encode s2" by simp
    then show "s1 = s2" by (simp add: base64.enc_inject)
  next
    assume "s1 = s2"
    with a show "t1 = t2" by auto
  qed
qed

theorem new_token_outcome_witness:
  "is_ok (new_token sample_info (Some (replicate 32 (chr 7)))) \<and> sample_token (chr 7) \<noteq> sample_token (chr 8)"
proof
  show "is_ok (new_token sample_info (Some (replicate 32 (chr 7))))"
    using new_token_outcome [of sample_info "Some (replicate 32 (chr 7))"] sample_info_valid by simp
  have "sample_token (chr 7) = sample_token (chr 8) \<longleftrightarrow> replicate 32 (chr 7) = replicate 32 (chr 8)"
    using new_token_outcome [of sample_info None] sample_token_minted by blast
  then show "sample_token (chr 7) \<noteq> sample_token (chr 8)" by (simp add: chr_eq_iff)
qed

end
