(* ===== verification/Kt_Db.thy ===== *)
theory Kt_Db
  imports Kt_Token "HOL-Library.List_Lexorder" "HOL-Library.Char_ord"
begin

text \<open>
  The SQLite database of \<open>internal/store/store.go\<close>: one list of rows per table of the schema,
  in the order of their row numbers, and the statements the store issues. Integers of the
  database are \<open>int\<close>, a nullable integer is \<open>int option\<close>, a moment is its Unix second. A
  statement that breaks a \<open>UNIQUE\<close> constraint or a foreign key fails and changes nothing.
  The two partial unique indexes over active proxies are flags: \<open>Open\<close> leaves one out when
  rows of an old installation break it.
\<close>

section \<open>Rows\<close>

record user_row =
  ur_id :: int
  ur_name :: string
  ur_created_at :: int
  ur_disabled :: int
  ur_max_tunnels :: int
  ur_web_password_hash :: string
  ur_password_change_required :: int
  ur_web_auth_version :: int

record token_row =
  tr_id :: int
  tr_user_id :: int
  tr_label :: string
  tr_hash :: string
  tr_prefix :: string
  tr_created_at :: int
  tr_last_used_at :: "int option"
  tr_revoked_at :: "int option"
  tr_kicked_until :: int

record reservation_row =
  rr_subdomain :: string
  rr_user_id :: int
  rr_created_at :: int

record session_row =
  sr_id :: int
  sr_user_id :: int
  sr_token_id :: int
  sr_run_id :: string
  sr_hostname :: string
  sr_os :: string
  sr_arch :: string
  sr_client_addr :: string
  sr_started_at :: int
  sr_last_seen_at :: int
  sr_ended_at :: "int option"
  sr_killed :: int

record proxy_row =
  pr_id :: int
  pr_session_id :: int
  pr_user_id :: int
  pr_run_id :: string
  pr_name :: string
  pr_type :: string
  pr_subdomain :: string
  pr_remote_port :: int
  pr_started_at :: int
  pr_ended_at :: "int option"

record audit_row =
  ar_id :: int
  ar_at :: int
  ar_user_id :: "int option"
  ar_action :: string
  ar_detail :: string

record db =
  settings :: "string \<Rightarrow> string option"
  users :: "user_row list"
  tokens :: "token_row list"
  reservations :: "reservation_row list"
  sessions :: "session_row list"
  proxies :: "proxy_row list"
  audit :: "audit_row list"
  subdomain_index :: bool
  port_index :: bool

text \<open>The database a first \<open>Open\<close> creates.\<close>

definition empty_db :: db where
  "empty_db = \<lparr>settings = (\<lambda>_. None), users = [], tokens = [], reservations = [], sessions = [],
     proxies = [], audit = [], subdomain_index = True, port_index = True\<rparr>"

abbreviation active :: "proxy_row \<Rightarrow> bool" where
  "active p \<equiv> pr_ended_at p = None"

abbreviation live :: "session_row \<Rightarrow> bool" where
  "live s \<equiv> sr_ended_at s = None"

section \<open>The tables as keyed tables\<close>

interpretation user_table: keyed_table ur_id "\<lambda>i r. r\<lparr>ur_id := i\<rparr>"
  by unfold_locales simp

interpretation token_table: keyed_table tr_id "\<lambda>i r. r\<lparr>tr_id := i\<rparr>"
  by unfold_locales simp

interpretation session_table: keyed_table sr_id "\<lambda>i r. r\<lparr>sr_id := i\<rparr>"
  by unfold_locales simp

interpretation proxy_table: keyed_table pr_id "\<lambda>i r. r\<lparr>pr_id := i\<rparr>"
  by unfold_locales simp

interpretation audit_table: keyed_table ar_id "\<lambda>i r. r\<lparr>ar_id := i\<rparr>"
  by unfold_locales simp

section \<open>Statements\<close>

datatype sql_error = Unique_Violation | Foreign_Key_Violation | Fault

text \<open>
  The outcome of a statement is the error or the changed database. \<open>attempt fail\<close> is the
  statement under an operational failure of the database (a full disk, a busy writer).
\<close>

definition attempt :: "bool \<Rightarrow> sql_error + 'a \<Rightarrow> sql_error + 'a" where
  "attempt fail r = (if fail then Err Fault else r)"

definition put_setting :: "string \<Rightarrow> string \<Rightarrow> db \<Rightarrow> db" where
  "put_setting k v d = d\<lparr>settings := (settings d)(k \<mapsto> v)\<rparr>"

definition user_exists :: "int \<Rightarrow> db \<Rightarrow> bool" where
  "user_exists i d \<longleftrightarrow> row ur_id i (users d) \<noteq> None"

definition insert_user :: "user_row \<Rightarrow> db \<Rightarrow> sql_error + (int \<times> db)" where
  "insert_user r d =
     (if row ur_name (ur_name r) (users d) \<noteq> None then Err Unique_Violation
      else let i = next_id ur_id (users d)
           in Ok (i, d\<lparr>users := users d @ [r\<lparr>ur_id := i\<rparr>]\<rparr>))"

definition insert_token :: "token_row \<Rightarrow> db \<Rightarrow> sql_error + (int \<times> db)" where
  "insert_token r d =
     (if row tr_hash (tr_hash r) (tokens d) \<noteq> None then Err Unique_Violation
      else if \<not> user_exists (tr_user_id r) d then Err Foreign_Key_Violation
      else let i = next_id tr_id (tokens d)
           in Ok (i, d\<lparr>tokens := tokens d @ [r\<lparr>tr_id := i\<rparr>]\<rparr>))"

definition insert_reservation :: "reservation_row \<Rightarrow> db \<Rightarrow> sql_error + db" where
  "insert_reservation r d =
     (if row rr_subdomain (rr_subdomain r) (reservations d) \<noteq> None then Err Unique_Violation
      else if \<not> user_exists (rr_user_id r) d then Err Foreign_Key_Violation
      else Ok (d\<lparr>reservations := reservations d @ [r]\<rparr>))"

definition insert_session :: "session_row \<Rightarrow> db \<Rightarrow> sql_error + (int \<times> db)" where
  "insert_session r d =
     (if \<not> user_exists (sr_user_id r) d \<or> row tr_id (sr_token_id r) (tokens d) = None
      then Err Foreign_Key_Violation
      else let i = next_id sr_id (sessions d)
           in Ok (i, d\<lparr>sessions := sessions d @ [r\<lparr>sr_id := i\<rparr>]\<rparr>))"

text \<open>The rows of active proxies that already hold a resource of a new row.\<close>

definition subdomain_taken :: "proxy_row \<Rightarrow> proxy_row list \<Rightarrow> bool" where
  "subdomain_taken r ps \<longleftrightarrow>
     active r \<and> pr_subdomain r \<noteq> [] \<and> list_ex (\<lambda>q. active q \<and> pr_subdomain q = pr_subdomain r) ps"

definition port_taken :: "proxy_row \<Rightarrow> proxy_row list \<Rightarrow> bool" where
  "port_taken r ps \<longleftrightarrow>
     active r \<and> pr_remote_port r \<noteq> 0 \<and> list_ex (\<lambda>q. active q \<and> pr_remote_port q = pr_remote_port r) ps"

definition insert_proxy :: "proxy_row \<Rightarrow> db \<Rightarrow> sql_error + db" where
  "insert_proxy r d =
     (if subdomain_index d \<and> subdomain_taken r (proxies d) \<or> port_index d \<and> port_taken r (proxies d)
      then Err Unique_Violation
      else if row sr_id (pr_session_id r) (sessions d) = None \<or> \<not> user_exists (pr_user_id r) d
      then Err Foreign_Key_Violation
      else Ok (d\<lparr>proxies := proxies d @ [r\<lparr>pr_id := next_id pr_id (proxies d)\<rparr>]\<rparr>))"

definition insert_audit :: "audit_row \<Rightarrow> db \<Rightarrow> db" where
  "insert_audit r d = d\<lparr>audit := audit d @ [r\<lparr>ar_id := next_id ar_id (audit d)\<rparr>]\<rparr>"

text \<open>An \<open>UPDATE\<close> of one table; the number of rows it affects is the rows it selects.\<close>

definition update_users :: "(user_row \<Rightarrow> bool) \<Rightarrow> (user_row \<Rightarrow> user_row) \<Rightarrow> db \<Rightarrow> db" where
  "update_users P f d = d\<lparr>users := upd P f (users d)\<rparr>"

definition update_tokens :: "(token_row \<Rightarrow> bool) \<Rightarrow> (token_row \<Rightarrow> token_row) \<Rightarrow> db \<Rightarrow> db" where
  "update_tokens P f d = d\<lparr>tokens := upd P f (tokens d)\<rparr>"

definition update_sessions :: "(session_row \<Rightarrow> bool) \<Rightarrow> (session_row \<Rightarrow> session_row) \<Rightarrow> db \<Rightarrow> db" where
  "update_sessions P f d = d\<lparr>sessions := upd P f (sessions d)\<rparr>"

definition update_proxies :: "(proxy_row \<Rightarrow> bool) \<Rightarrow> (proxy_row \<Rightarrow> proxy_row) \<Rightarrow> db \<Rightarrow> db" where
  "update_proxies P f d = d\<lparr>proxies := upd P f (proxies d)\<rparr>"

text \<open>
  \<open>CAST(text AS INTEGER)\<close>: leading blanks are skipped, then the longest prefix that is a
  number is read, 0 where there is none, limited to the range of 64 bits.
\<close>

definition digits_value :: "string \<Rightarrow> int" where
  "digits_value ds = foldl (\<lambda>acc c. acc * 10 + int (digit_val c)) 0 ds"

definition cast_integer :: "string \<Rightarrow> int" where
  "cast_integer s =
     (let t = dropWhile (\<lambda>c. c \<in> {CHR '' '', CHR 0x09, CHR 0x0A, CHR 0x0B, CHR 0x0C, CHR 0x0D}) s;
          neg = prefix ''-'' t;
          u = (if neg \<or> prefix ''+'' t then drop 1 t else t);
          n = digits_value (takeWhile is_digit u)
      in max (- max_int64 - 1) (min max_int64 (if neg then - n else n)))"

text \<open>
  \<open>LIKE\<close>: \<open>%\<close> stands for any text, \<open>_\<close> for one character, and letters of ASCII match
  in either case. (The prefixes it is used on are ASCII, so a character is a byte.)
\<close>

fun like :: "string \<Rightarrow> string \<Rightarrow> bool" where
  "like [] t = (t = [])"
| "like (c # p) t =
     (if c = CHR ''%'' then like p t \<or> (case t of [] \<Rightarrow> False | _ # t' \<Rightarrow> like (c # p) t')
      else (case t of
              [] \<Rightarrow> False
            | x # t' \<Rightarrow> (c = CHR ''_'' \<or> lower_ascii (byte c) = lower_ascii (byte x)) \<and> like p t'))"

section \<open>Well-formed databases\<close>

text \<open>
  What the constraints of the schema guarantee in every reachable database: row numbers are
  positive and distinct, the \<open>UNIQUE\<close> columns are, every reference leads to a row, the
  columns read as flags hold 0 or 1, and an installed index admits no two active proxies
  with the same resource.
\<close>

definition unique_active :: "(proxy_row \<Rightarrow> 'a) \<Rightarrow> 'a \<Rightarrow> proxy_row list \<Rightarrow> bool" where
  "unique_active f z ps \<longleftrightarrow> distinct (map f (filter (\<lambda>p. active p \<and> f p \<noteq> z) ps))"

definition wf_keys :: "db \<Rightarrow> bool" where
  "wf_keys d \<longleftrightarrow>
     user_table.keyed (users d) \<and> token_table.keyed (tokens d) \<and> session_table.keyed (sessions d) \<and>
     proxy_table.keyed (proxies d) \<and> audit_table.keyed (audit d)"

definition wf_unique :: "db \<Rightarrow> bool" where
  "wf_unique d \<longleftrightarrow>
     distinct (map ur_name (users d)) \<and> distinct (map tr_hash (tokens d)) \<and>
     distinct (map rr_subdomain (reservations d))"

definition wf_refs :: "db \<Rightarrow> bool" where
  "wf_refs d \<longleftrightarrow>
     (\<forall>t \<in> set (tokens d). user_exists (tr_user_id t) d) \<and>
     (\<forall>r \<in> set (reservations d). user_exists (rr_user_id r) d) \<and>
     (\<forall>s \<in> set (sessions d). user_exists (sr_user_id s) d \<and> row tr_id (sr_token_id s) (tokens d) \<noteq> None) \<and>
     (\<forall>p \<in> set (proxies d). user_exists (pr_user_id p) d \<and> row sr_id (pr_session_id p) (sessions d) \<noteq> None)"

definition wf_flags :: "db \<Rightarrow> bool" where
  "wf_flags d \<longleftrightarrow>
     (\<forall>u \<in> set (users d). ur_disabled u \<in> {0, 1} \<and> ur_password_change_required u \<in> {0, 1}) \<and>
     (\<forall>s \<in> set (sessions d). sr_killed s \<in> {0, 1})"

definition wf_indexes :: "db \<Rightarrow> bool" where
  "wf_indexes d \<longleftrightarrow>
     (subdomain_index d \<longrightarrow> unique_active pr_subdomain [] (proxies d)) \<and>
     (port_index d \<longrightarrow> unique_active pr_remote_port 0 (proxies d))"

definition wf_db :: "db \<Rightarrow> bool" where
  "wf_db d \<longleftrightarrow> wf_keys d \<and> wf_unique d \<and> wf_refs d \<and> wf_flags d \<and> wf_indexes d"

lemmas wf_parts = wf_db_def wf_keys_def wf_unique_def wf_refs_def wf_flags_def wf_indexes_def

lemma wf_empty: "wf_db empty_db"
  by (simp add: wf_parts empty_db_def unique_active_def)

lemma user_exists_iff: "user_exists i d \<longleftrightarrow> i \<in> ur_id ` set (users d)"
  by (simp add: user_exists_def row_None_iff)

lemma wf_rows:
  assumes "wf_db d"
  shows "row ur_id i (users d) = Some u \<longleftrightarrow> u \<in> set (users d) \<and> ur_id u = i"
    and "row tr_id i (tokens d) = Some t \<longleftrightarrow> t \<in> set (tokens d) \<and> tr_id t = i"
    and "row sr_id i (sessions d) = Some s \<longleftrightarrow> s \<in> set (sessions d) \<and> sr_id s = i"
  using assms
  by (auto simp: wf_db_def wf_keys_def user_table.keyed_row_iff token_table.keyed_row_iff
      session_table.keyed_row_iff)

subsection \<open>Statements keep it\<close>

lemma wf_put_setting [wf_intros]: "wf_db d \<Longrightarrow> wf_db (put_setting k v d)"
  by (simp add: wf_parts put_setting_def user_exists_iff)

lemma wf_insert_user:
  assumes "wf_db d" "insert_user r d = Ok (i, d')" "ur_disabled r = 0" "ur_password_change_required r = 0"
  shows "wf_db d'"
proof -
  from assms(2) have d': "d' = d\<lparr>users := user_table.insert_row r (users d)\<rparr>"
    and new: "ur_name r \<notin> ur_name ` set (users d)"
    by (auto simp: insert_user_def Let_def row_None_iff split: if_splits)
  have "user_table.keyed (users d')"
    using assms(1) user_table.keyed_insert [of "users d" r] by (simp add: d' wf_db_def wf_keys_def)
  then have "wf_keys d'" using assms(1) by (simp add: wf_db_def wf_keys_def d')
  moreover have "wf_unique d'" using assms(1) new by (simp add: wf_db_def wf_unique_def d')
  moreover have "wf_refs d'" using assms(1) by (simp add: wf_db_def wf_refs_def d' user_exists_iff)
  moreover have "wf_flags d'" "wf_indexes d'"
    using assms(1,3,4) by (auto simp: wf_db_def wf_flags_def wf_indexes_def d')
  ultimately show ?thesis by (simp add: wf_db_def)
qed

lemma wf_insert_token:
  assumes "wf_db d" "insert_token r d = Ok (i, d')"
  shows "wf_db d'"
proof -
  from assms(2) have d': "d' = d\<lparr>tokens := token_table.insert_row r (tokens d)\<rparr>"
    and new: "tr_hash r \<notin> tr_hash ` set (tokens d)" and u: "user_exists (tr_user_id r) d"
    by (auto simp: insert_token_def Let_def row_None_iff split: if_splits)
  have "token_table.keyed (tokens d')"
    using assms(1) token_table.keyed_insert [of "tokens d" r] by (simp add: d' wf_db_def wf_keys_def)
  then have "wf_keys d'" using assms(1) by (simp add: wf_db_def wf_keys_def d')
  moreover have "wf_unique d'" using assms(1) new by (simp add: wf_db_def wf_unique_def d')
  moreover have "wf_refs d'" using assms(1) u by (auto simp: wf_db_def wf_refs_def d' user_exists_iff row_None_iff)
  moreover have "wf_flags d'" "wf_indexes d'"
    using assms(1) by (auto simp: wf_db_def wf_flags_def wf_indexes_def d')
  ultimately show ?thesis by (simp add: wf_db_def)
qed

lemma wf_insert_reservation:
  "wf_db d \<Longrightarrow> insert_reservation r d = Ok d' \<Longrightarrow> wf_db d'"
  by (auto simp: wf_parts insert_reservation_def user_exists_iff row_None_iff split: if_splits)

lemma wf_delete_reservations [wf_intros]: "wf_db d \<Longrightarrow> wf_db (d\<lparr>reservations := filter P (reservations d)\<rparr>)"
  by (auto simp: wf_parts user_exists_iff distinct_map_filter)

lemma wf_insert_session:
  assumes "wf_db d" "insert_session r d = Ok (i, d')" "sr_killed r = 0"
  shows "wf_db d'"
proof -
  from assms(2) have d': "d' = d\<lparr>sessions := session_table.insert_row r (sessions d)\<rparr>"
    and ex: "user_exists (sr_user_id r) d" "row tr_id (sr_token_id r) (tokens d) \<noteq> None"
    by (auto simp: insert_session_def Let_def split: if_splits)
  have "session_table.keyed (sessions d')"
    using assms(1) session_table.keyed_insert [of "sessions d" r] by (simp add: d' wf_db_def wf_keys_def)
  then have "wf_keys d'" using assms(1) by (simp add: wf_db_def wf_keys_def d')
  moreover have "wf_unique d'" using assms(1) by (simp add: wf_db_def wf_unique_def d')
  moreover have "wf_refs d'"
    using assms(1) ex by (auto simp: wf_db_def wf_refs_def d' user_exists_iff row_None_iff)
  moreover have "wf_flags d'" "wf_indexes d'"
    using assms(1,3) by (auto simp: wf_db_def wf_flags_def wf_indexes_def d')
  ultimately show ?thesis by (simp add: wf_db_def)
qed

lemma unique_active_append:
  "unique_active f z (ps @ [p]) \<longleftrightarrow>
     unique_active f z ps \<and> (active p \<and> f p \<noteq> z \<longrightarrow> \<not> list_ex (\<lambda>q. active q \<and> f q = f p) ps)"
  by (auto simp: unique_active_def list_ex_iff image_iff)

lemma unique_active_upd:
  assumes "\<And>p. pr_ended_at (g p) \<noteq> None" "\<And>p. f (g p) = f p" "unique_active f z ps"
  shows "unique_active f z (upd P g ps)"
proof -
  have "filter (\<lambda>p. active p \<and> f p \<noteq> z) (upd P g ps) =
        filter (\<lambda>p. \<not> P p) (filter (\<lambda>p. active p \<and> f p \<noteq> z) ps)"
    using assms(1) by (induction ps) auto
  then show ?thesis using assms(3) unfolding unique_active_def by (simp only: distinct_map_filter)
qed

lemma wf_insert_proxy:
  assumes "wf_db d" "insert_proxy r d = Ok d'"
  shows "wf_db d'"
proof -
  let ?r = "r\<lparr>pr_id := next_id pr_id (proxies d)\<rparr>"
  from assms(2) have d': "d' = d\<lparr>proxies := proxy_table.insert_row r (proxies d)\<rparr>"
    and ex: "user_exists (pr_user_id r) d" "row sr_id (pr_session_id r) (sessions d) \<noteq> None"
    and sub: "subdomain_index d \<Longrightarrow> \<not> subdomain_taken r (proxies d)"
    and port: "port_index d \<Longrightarrow> \<not> port_taken r (proxies d)"
    by (auto simp: insert_proxy_def split: if_splits)
  have "proxy_table.keyed (proxies d')"
    using assms(1) proxy_table.keyed_insert [of "proxies d" r] by (simp add: d' wf_db_def wf_keys_def)
  then have "wf_keys d'" using assms(1) by (simp add: wf_db_def wf_keys_def d')
  moreover have "wf_unique d'" "wf_flags d'"
    using assms(1) by (simp_all add: wf_db_def wf_unique_def wf_flags_def d')
  moreover have "wf_refs d'" using assms(1) ex by (auto simp: wf_db_def wf_refs_def d' user_exists_iff)
  moreover have "wf_indexes d'"
    using assms(1) sub port
    by (auto simp: wf_db_def wf_indexes_def d' unique_active_append subdomain_taken_def port_taken_def)
  ultimately show ?thesis by (simp add: wf_db_def)
qed

lemma wf_insert_audit [wf_intros]: "wf_db d \<Longrightarrow> wf_db (insert_audit r d)"
  using audit_table.keyed_insert [of "audit d" r]
  by (auto simp: wf_db_def wf_keys_def wf_unique_def wf_refs_def wf_flags_def wf_indexes_def
      insert_audit_def user_exists_iff)

lemma wf_update_users:
  assumes "wf_db d" "\<And>u. ur_id (f u) = ur_id u" "\<And>u. ur_name (f u) = ur_name u"
    and "\<And>u. ur_disabled u \<in> {0, 1} \<Longrightarrow> ur_disabled (f u) \<in> {0, 1}"
    and "\<And>u. ur_password_change_required u \<in> {0, 1} \<Longrightarrow> ur_password_change_required (f u) \<in> {0, 1}"
  shows "wf_db (update_users P f d)"
proof -
  have ids: "ur_id ` set (users (update_users P f d)) = ur_id ` set (users d)"
    using map_upd [of P ur_id f "users d"] assms(2) by (simp add: update_users_def flip: set_map)
  have "wf_keys (update_users P f d)"
    using assms(1,2) user_table.keyed_upd [of P f "users d"] by (simp add: wf_db_def wf_keys_def update_users_def)
  moreover have "wf_unique (update_users P f d)"
    using assms(1,3) by (simp add: wf_db_def wf_unique_def update_users_def map_upd)
  moreover have "wf_refs (update_users P f d)"
    using assms(1) ids by (simp add: wf_db_def wf_refs_def user_exists_iff) (simp add: update_users_def)
  moreover have "wf_flags (update_users P f d)"
    using assms(1,4,5) by (fastforce simp: wf_db_def wf_flags_def update_users_def set_upd)
  moreover have "wf_indexes (update_users P f d)"
    using assms(1) by (simp add: wf_db_def wf_indexes_def update_users_def)
  ultimately show ?thesis by (simp add: wf_db_def)
qed

lemma wf_update_tokens:
  assumes "wf_db d" "\<And>t. tr_id (f t) = tr_id t" "\<And>t. tr_hash (f t) = tr_hash t"
    and "\<And>t. tr_user_id (f t) = tr_user_id t"
  shows "wf_db (update_tokens P f d)"
proof -
  have "wf_keys (update_tokens P f d)"
    using assms(1,2) token_table.keyed_upd [of P f "tokens d"]
    by (simp add: wf_db_def wf_keys_def update_tokens_def)
  moreover have "wf_unique (update_tokens P f d)"
    using assms(1,3) by (simp add: wf_db_def wf_unique_def update_tokens_def map_upd)
  moreover have "wf_refs (update_tokens P f d)"
    using assms(1,2,4)
    by (auto simp: wf_db_def wf_refs_def update_tokens_def user_exists_def row_upd elim: upd_set_cases)
  moreover have "wf_flags (update_tokens P f d)" "wf_indexes (update_tokens P f d)"
    using assms(1) by (simp_all add: wf_db_def wf_flags_def wf_indexes_def update_tokens_def)
  ultimately show ?thesis by (simp add: wf_db_def)
qed

lemma wf_update_sessions:
  assumes "wf_db d" "\<And>s. sr_id (f s) = sr_id s" "\<And>s. sr_user_id (f s) = sr_user_id s"
    and "\<And>s. sr_token_id (f s) = sr_token_id s" "\<And>s. sr_killed s \<in> {0, 1} \<Longrightarrow> sr_killed (f s) \<in> {0, 1}"
  shows "wf_db (update_sessions P f d)"
proof -
  have "wf_keys (update_sessions P f d)"
    using assms(1,2) session_table.keyed_upd [of P f "sessions d"]
    by (simp add: wf_db_def wf_keys_def update_sessions_def)
  moreover have "wf_refs (update_sessions P f d)"
    using assms(1-4)
    by (auto simp: wf_db_def wf_refs_def update_sessions_def user_exists_def row_upd set_upd)
  moreover have "wf_flags (update_sessions P f d)"
    using assms(1,5) by (fastforce simp: wf_db_def wf_flags_def update_sessions_def set_upd)
  moreover have "wf_unique (update_sessions P f d)" "wf_indexes (update_sessions P f d)"
    using assms(1) by (simp_all add: wf_db_def wf_unique_def wf_indexes_def update_sessions_def)
  ultimately show ?thesis by (simp add: wf_db_def)
qed

lemma wf_end_proxies [wf_intros]:
  assumes "wf_db d"
  shows "wf_db (update_proxies P (\<lambda>p. p\<lparr>pr_ended_at := Some n\<rparr>) d)"
proof -
  let ?f = "\<lambda>p. p\<lparr>pr_ended_at := Some n\<rparr>"
  have "wf_keys (update_proxies P ?f d)"
    using assms proxy_table.keyed_upd [of P ?f "proxies d"]
    by (simp add: wf_db_def wf_keys_def update_proxies_def)
  moreover have "wf_refs (update_proxies P ?f d)"
    using assms by (auto simp: wf_db_def wf_refs_def update_proxies_def user_exists_def set_upd)
  moreover have "wf_indexes (update_proxies P ?f d)"
    using assms by (auto simp: wf_db_def wf_indexes_def update_proxies_def intro!: unique_active_upd)
  moreover have "wf_unique (update_proxies P ?f d)" "wf_flags (update_proxies P ?f d)"
    using assms by (simp_all add: wf_db_def wf_unique_def wf_flags_def update_proxies_def)
  ultimately show ?thesis by (simp add: wf_db_def)
qed

end
