(* ===== verification/Kt_Store.thy ===== *)
theory Kt_Store
  imports Kt_Db
begin

text \<open>
  The operations of \<open>internal/store/store.go\<close> on the database of \<open>Kt_Db\<close>, apart from
  \<open>AdmitProxy\<close>. A method that writes returns its result and the database it leaves. The
  operational failure of a statement is an argument: \<open>fs i\<close> says that the \<open>i\<close>-th statement
  the method runs fails (\<open>fail\<close> for a method with one statement). Each reading of the clock
  is an argument too. Statements of one method that are not in a transaction are separate
  functions, so that other callers may come between them.
\<close>

section \<open>Values the store returns\<close>

text \<open>A \<open>time.Time\<close> is its Unix second; the zero time is the year 1.\<close>

definition zero_time :: int where
  "zero_time = - 62135596800"

definition ts :: "int option \<Rightarrow> int" where
  "ts v = (case v of None \<Rightarrow> zero_time | Some n \<Rightarrow> n)"

record user =
  u_id :: int
  u_name :: string
  u_created_at :: int
  u_disabled :: bool
  u_max_tunnels :: int
  u_web_password_hash :: string
  u_password_change_required :: bool
  u_web_auth_version :: int

record token =
  t_id :: int
  t_user_id :: int
  t_user_name :: string
  t_label :: string
  t_prefix :: string
  t_created_at :: int
  t_last_used_at :: int
  t_revoked_at :: int

record reservation =
  r_subdomain :: string
  r_user_id :: int
  r_user_name :: string
  r_created_at :: int

record session =
  s_id :: int
  s_user_id :: int
  s_user_name :: string
  s_token_id :: int
  s_token_label :: string
  s_run_id :: string
  s_hostname :: string
  s_os :: string
  s_arch :: string
  s_client_addr :: string
  s_started_at :: int
  s_last_seen_at :: int
  s_ended_at :: int
  s_killed :: bool

record proxy =
  p_id :: int
  p_session_id :: int
  p_user_id :: int
  p_user_name :: string
  p_run_id :: string
  p_name :: string
  p_type :: string
  p_subdomain :: string
  p_remote_port :: int
  p_started_at :: int

record audit_entry =
  e_id :: int
  e_at :: int
  e_user_name :: string
  e_action :: string
  e_detail :: string

text \<open>The reasons of \<open>ProxyDeniedError\<close>, with the values its text shows.\<close>

datatype denial =
    Session_Not_Recognised
  | Session_Terminated
  | Token_Revoked
  | Account_Disabled
  | Portal_Subdomain
  | Subdomain_Belongs_To string string
  | Subdomain_In_Use string
  | Port_Out_Of_Range int int
  | Port_In_Use int
  | Type_Not_Allowed string
  | Tunnel_Limit_Reached int

datatype store_error =
    Not_Found
  | Sql sql_error
  | Proxy_Denied denial
  | Name_Required
  | Name_Reserved
  | User_Exists string
  | Server_Not_Configured
  | Token_Error token_error
  | Auth_Revoked
  | Auth_Kicked int
  | Auth_Disabled
  | Portal_Reserved
  | Already_Reserved string
  | Prefix_Ambiguous string
  | Invalid_Auth_Version string

definition token_active :: "token \<Rightarrow> bool" where
  "token_active t \<longleftrightarrow> t_revoked_at t = zero_time"

definition bool_int :: "bool \<Rightarrow> int" where
  "bool_int b = (if b then 1 else 0)"

text \<open>A read that may fail, and the value a caller uses that drops the error.\<close>

definition read_db :: "bool \<Rightarrow> 'a \<Rightarrow> store_error + 'a" where
  "read_db fail x = (if fail then Err (Sql Fault) else Ok x)"

definition or_else :: "'e + 'a \<Rightarrow> 'a \<Rightarrow> 'a" where
  "or_else r z = (case r of Inl _ \<Rightarrow> z | Inr x \<Rightarrow> x)"

definition first_row :: "'a list \<Rightarrow> store_error + 'a" where
  "first_row xs = (case xs of [] \<Rightarrow> Err Not_Found | x # _ \<Rightarrow> Ok x)"

definition query_row :: "bool \<Rightarrow> 'a list \<Rightarrow> store_error + 'a" where
  "query_row fail xs = (if fail then Err (Sql Fault) else first_row xs)"

lemma query_row_simps [simp]:
  "query_row True xs = Err (Sql Fault)"
  "query_row False [] = Err Not_Found"
  "query_row False (x # xs) = Ok x"
  by (simp_all add: query_row_def first_row_def)

section \<open>Opening the database\<close>

text \<open>
  \<open>secureDBFile\<close> over the file system calls it makes: what \<open>Lstat\<close> finds before and after a
  lost creation race, and how creating, closing and changing the mode end.
\<close>

datatype file_state = Absent | Regular nat | Special

datatype create_outcome = Created | Exists_Already | Create_Failed

datatype file_error = Create_Error | Close_Error | Inspect_Error | Not_Regular | Chmod_Error

definition secure_existing :: "file_state option \<Rightarrow> bool \<Rightarrow> file_error + file_state option" where
  "secure_existing info chmod_ok =
     (case info of
        None \<Rightarrow> Err Inspect_Error
      | Some Absent \<Rightarrow> Err Inspect_Error
      | Some Special \<Rightarrow> Err Not_Regular
      | Some (Regular perm) \<Rightarrow>
          if perm \<noteq> 384
          then (if chmod_ok then Ok (Some (Regular 384)) else Err Chmod_Error)
          else Ok (Some (Regular perm)))"

definition secure_db_file ::
    "string \<Rightarrow> file_state option \<Rightarrow> create_outcome \<Rightarrow> bool \<Rightarrow> file_state option \<Rightarrow> bool \<Rightarrow> file_error + file_state option" where
  "secure_db_file path info create close_ok info_after_race chmod_ok =
     (if path = '':memory:'' \<or> prefix ''file:'' path then Ok None
      else if info = Some Absent
      then (case create of
              Exists_Already \<Rightarrow> secure_existing info_after_race chmod_ok
            | Create_Failed \<Rightarrow> Err Create_Error
            | Created \<Rightarrow> if close_ok then Ok (Some (Regular 384)) else Err Close_Error)
      else secure_existing info chmod_ok)"

text \<open>
  The tables and columns exist after \<open>Open\<close>. A unique index is installed unless active rows
  break it, and stays once it is.
\<close>

definition open_db :: "db \<Rightarrow> db" where
  "open_db d = d\<lparr>subdomain_index := subdomain_index d \<or> unique_active pr_subdomain [] (proxies d),
                 port_index := port_index d \<or> unique_active pr_remote_port 0 (proxies d)\<rparr>"

section \<open>Settings\<close>

definition setting :: "string \<Rightarrow> bool \<Rightarrow> db \<Rightarrow> store_error + string" where
  "setting key fail d = read_db fail (case settings d key of None \<Rightarrow> [] | Some v \<Rightarrow> v)"

definition set_setting :: "string \<Rightarrow> string \<Rightarrow> bool \<Rightarrow> db \<Rightarrow> (store_error + unit) \<times> db" where
  "set_setting key v fail d = (if fail then (Err (Sql Fault), d) else (Ok (), put_setting key v d))"

text \<open>The transactions on the administrator's password. Statement 0 begins, the last commits.\<close>

definition bump_admin_version :: "db \<Rightarrow> db" where
  "bump_admin_version d =
     put_setting ''admin_web_auth_version''
       (case settings d ''admin_web_auth_version'' of
          None \<Rightarrow> ''1'' | Some v \<Rightarrow> itoa (cast_integer v + 1)) d"

definition set_admin_web_password :: "string \<Rightarrow> (nat \<Rightarrow> bool) \<Rightarrow> db \<Rightarrow> (store_error + unit) \<times> db" where
  "set_admin_web_password hash fs d =
     (if fs 0 then (Err (Sql Fault), d)
      else if fs 1 then (Err (Sql Fault), d)
      else let d1 = put_setting ''admin_password_hash'' hash d in
      if fs 2 then (Err (Sql Fault), d)
      else let d2 = bump_admin_version d1 in
      if fs 3 then (Err (Sql Fault), d)
      else (Ok (), d2))"

definition admin_web_credential :: "bool \<Rightarrow> db \<Rightarrow> store_error + (string \<times> int)" where
  "admin_web_credential fail d =
     (if fail then Err (Sql Fault)
      else
        let hash = (case settings d ''admin_password_hash'' of None \<Rightarrow> [] | Some v \<Rightarrow> v);
            text = (case settings d ''admin_web_auth_version'' of None \<Rightarrow> ''0'' | Some v \<Rightarrow> v)
        in (case atoi text of
              None \<Rightarrow> Err (Invalid_Auth_Version text)
            | Some version \<Rightarrow>
                if version < 0 then Err (Invalid_Auth_Version text) else Ok (hash, version)))"

definition admin_version_cast :: "db \<Rightarrow> int" where
  "admin_version_cast d =
     (case settings d ''admin_web_auth_version'' of None \<Rightarrow> 0 | Some v \<Rightarrow> cast_integer v)"

definition set_admin_web_password_if_version ::
    "string \<Rightarrow> int \<Rightarrow> (nat \<Rightarrow> bool) \<Rightarrow> db \<Rightarrow> (store_error + bool) \<times> db" where
  "set_admin_web_password_if_version hash expected fs d =
     (if fs 0 then (Err (Sql Fault), d)
      else if fs 1 then (Err (Sql Fault), d)
      else if admin_version_cast d \<noteq> expected then (Ok False, d)
      else if fs 2 then (Err (Sql Fault), d)
      else let d1 = put_setting ''admin_password_hash'' hash d in
      if fs 3 then (Err (Sql Fault), d)
      else let d2 = put_setting ''admin_web_auth_version'' (itoa (expected + 1)) d1 in
      if fs 4 then (Err (Sql Fault), d)
      else (Ok True, d2))"

definition server_info_of :: "(nat \<Rightarrow> bool) \<Rightarrow> db \<Rightarrow> store_error + server_info" where
  "server_info_of fs d =
     (let addr = or_else (setting ''server_addr'' (fs 0) d) [];
          port_str = or_else (setting ''server_port'' (fs 1) d) [];
          domain = or_else (setting ''domain'' (fs 2) d) []
      in if addr = [] \<or> domain = [] then Err Server_Not_Configured
         else let p = parse_int_value port_str;
                  port = (if p = 0 then 7000 else p)
              in Ok \<lparr>si_addr = addr, si_port = port, si_domain = domain,
                     si_tls_server_name = [], si_token_version = []\<rparr>)"

text \<open>\<open>SetServerInfo\<close> ranges over a map, whose order is not fixed: \<open>kvs\<close> is the order it takes.\<close>

fun set_settings :: "(string \<times> string) list \<Rightarrow> (nat \<Rightarrow> bool) \<Rightarrow> db \<Rightarrow> (store_error + unit) \<times> db" where
  "set_settings [] fs d = (Ok (), d)"
| "set_settings ((k, v) # kvs) fs d =
     (case set_setting k v (fs 0) d of
        (Inl e, d') \<Rightarrow> (Err e, d')
      | (Inr _, d') \<Rightarrow> set_settings kvs (\<lambda>i. fs (Suc i)) d')"

definition server_settings :: "server_info \<Rightarrow> (string \<times> string) list" where
  "server_settings info =
     [(''server_addr'', si_addr info), (''server_port'', itoa (si_port info)), (''domain'', si_domain info)]"

definition tcp_range :: "string \<Rightarrow> int \<times> int" where
  "tcp_range v =
     (let (lo, hi) = (case cut (CHR ''-'') v of
                        None \<Rightarrow> (0, 0)
                      | Some (a, b) \<Rightarrow> (parse_int_value a, parse_int_value b))
      in if lo = 0 \<or> hi = 0 \<or> hi < lo then (20000, 29999) else (lo, hi))"

definition tcp_port_range :: "bool \<Rightarrow> db \<Rightarrow> int \<times> int" where
  "tcp_port_range fail d = tcp_range (or_else (setting ''tcp_port_range'' fail d) [])"

section \<open>Users\<close>

definition scan_user :: "user_row \<Rightarrow> user" where
  "scan_user r =
     \<lparr>u_id = ur_id r, u_name = ur_name r, u_created_at = ur_created_at r, u_disabled = (ur_disabled r = 1),
      u_max_tunnels = ur_max_tunnels r, u_web_password_hash = ur_web_password_hash r,
      u_password_change_required = (ur_password_change_required r = 1),
      u_web_auth_version = ur_web_auth_version r\<rparr>"

definition user_by_id :: "int \<Rightarrow> bool \<Rightarrow> db \<Rightarrow> store_error + user" where
  "user_by_id i fail d = query_row fail (map scan_user (filter (\<lambda>r. ur_id r = i) (users d)))"

definition user_by_name :: "string \<Rightarrow> bool \<Rightarrow> db \<Rightarrow> store_error + user" where
  "user_by_name name fail d = query_row fail (map scan_user (filter (\<lambda>r. ur_name r = name) (users d)))"

definition create_user :: "string \<Rightarrow> int \<Rightarrow> int \<Rightarrow> (nat \<Rightarrow> bool) \<Rightarrow> db \<Rightarrow> (store_error + user) \<times> db" where
  "create_user name0 max_tunnels0 n fs d =
     (let name = trim_space name0 in
      if name = [] then (Err Name_Required, d)
      else if equal_fold name ''admin'' then (Err Name_Reserved, d)
      else let max_tunnels = (if max_tunnels0 \<le> 0 then 5 else max_tunnels0) in
      case attempt (fs 0) (insert_user
             \<lparr>ur_id = 0, ur_name = name, ur_created_at = n, ur_disabled = 0, ur_max_tunnels = max_tunnels,
              ur_web_password_hash = [], ur_password_change_required = 0, ur_web_auth_version = 0\<rparr> d) of
        Inl Unique_Violation \<Rightarrow> (Err (User_Exists name), d)
      | Inl e \<Rightarrow> (Err (Sql e), d)
      | Inr (i, d') \<Rightarrow> (user_by_id i (fs 1) d', d'))"

definition all_users :: "bool \<Rightarrow> db \<Rightarrow> store_error + user list" where
  "all_users fail d = read_db fail (map scan_user (sort_key ur_name (users d)))"

definition set_user_disabled :: "int \<Rightarrow> bool \<Rightarrow> bool \<Rightarrow> db \<Rightarrow> (store_error + unit) \<times> db" where
  "set_user_disabled i disabled fail d =
     (if fail then (Err (Sql Fault), d)
      else (Ok (), update_users (\<lambda>r. ur_id r = i)
              (\<lambda>r. r\<lparr>ur_disabled := bool_int disabled, ur_web_auth_version := ur_web_auth_version r + 1\<rparr>) d))"

definition new_password :: "string \<Rightarrow> bool \<Rightarrow> user_row \<Rightarrow> user_row" where
  "new_password hash change_required r =
     r\<lparr>ur_web_password_hash := hash, ur_password_change_required := bool_int change_required,
       ur_web_auth_version := ur_web_auth_version r + 1\<rparr>"

definition set_user_web_password ::
    "int \<Rightarrow> string \<Rightarrow> bool \<Rightarrow> bool \<Rightarrow> db \<Rightarrow> (store_error + unit) \<times> db" where
  "set_user_web_password i hash change_required fail d =
     (if fail then (Err (Sql Fault), d)
      else let P = (\<lambda>r. ur_id r = i);
               d' = update_users P (new_password hash change_required) d
           in if length (filter P (users d)) = 0 then (Err Not_Found, d') else (Ok (), d'))"

definition set_user_web_password_if_version ::
    "int \<Rightarrow> int \<Rightarrow> string \<Rightarrow> bool \<Rightarrow> bool \<Rightarrow> db \<Rightarrow> (store_error + bool) \<times> db" where
  "set_user_web_password_if_version i expected hash change_required fail d =
     (if fail then (Err (Sql Fault), d)
      else let P = (\<lambda>r. ur_id r = i \<and> ur_web_auth_version r = expected);
               d' = update_users P (new_password hash change_required) d
           in (Ok (length (filter P (users d)) = 1), d'))"

definition set_user_max_tunnels :: "int \<Rightarrow> int \<Rightarrow> bool \<Rightarrow> db \<Rightarrow> (store_error + unit) \<times> db" where
  "set_user_max_tunnels i n fail d =
     (if fail then (Err (Sql Fault), d)
      else (Ok (), update_users (\<lambda>r. ur_id r = i) (\<lambda>r. r\<lparr>ur_max_tunnels := n\<rparr>) d))"

section \<open>Tokens\<close>

text \<open>The rows of \<open>FROM tokens t JOIN users u ON u.id = t.user_id WHERE P\<close>.\<close>

definition token_join :: "(token_row \<Rightarrow> bool) \<Rightarrow> db \<Rightarrow> (token_row \<times> user_row) list" where
  "token_join P d = [(t, u). t \<leftarrow> filter P (tokens d), u \<leftarrow> filter (\<lambda>u. ur_id u = tr_user_id t) (users d)]"

definition scan_token :: "token_row \<times> user_row \<Rightarrow> token" where
  "scan_token = (\<lambda>(t, u).
     \<lparr>t_id = tr_id t, t_user_id = tr_user_id t, t_user_name = ur_name u, t_label = tr_label t,
      t_prefix = tr_prefix t, t_created_at = tr_created_at t, t_last_used_at = ts (tr_last_used_at t),
      t_revoked_at = ts (tr_revoked_at t)\<rparr>)"

definition token_by_id :: "int \<Rightarrow> bool \<Rightarrow> db \<Rightarrow> store_error + token" where
  "token_by_id i fail d = query_row fail (map scan_token (token_join (\<lambda>t. tr_id t = i) d))"

definition issue_token ::
    "int \<Rightarrow> string \<Rightarrow> string option \<Rightarrow> int \<Rightarrow> (nat \<Rightarrow> bool) \<Rightarrow> db \<Rightarrow>
     (store_error + (string \<times> token)) \<times> db" where
  "issue_token user_id label0 random n fs d =
     (case server_info_of fs d of
        Inl e \<Rightarrow> (Err e, d)
      | Inr info \<Rightarrow>
          let label = (if trim_space label0 = [] then ''default'' else trim_space label0) in
          (case new_token info random of
             Inl e \<Rightarrow> (Err (Token_Error e), d)
           | Inr (plaintext, hash, prefix8) \<Rightarrow>
               (case attempt (fs 3) (insert_token
                       \<lparr>tr_id = 0, tr_user_id = user_id, tr_label = label, tr_hash = hash, tr_prefix = prefix8,
                        tr_created_at = n, tr_last_used_at = None, tr_revoked_at = None,
                        tr_kicked_until = 0\<rparr> d) of
                  Inl e \<Rightarrow> (Err (Sql e), d)
                | Inr (i, d') \<Rightarrow>
                    (case token_by_id i (fs 4) d' of
                       Inl e \<Rightarrow> (Err e, d')
                     | Inr tok \<Rightarrow> (Ok (plaintext, tok), d')))))"

definition token_by_prefix :: "string \<Rightarrow> bool \<Rightarrow> db \<Rightarrow> store_error + token" where
  "token_by_prefix p fail d =
     (if fail then Err (Sql Fault)
      else (case map scan_token (token_join (\<lambda>t. like (p @ ''%'') (tr_prefix t)) d) of
              [] \<Rightarrow> Err Not_Found
            | [t] \<Rightarrow> Ok t
            | _ \<Rightarrow> Err (Prefix_Ambiguous p)))"

definition kicked_until :: "int \<Rightarrow> bool \<Rightarrow> db \<Rightarrow> int" where
  "kicked_until i fail d =
     or_else (query_row fail (map tr_kicked_until (filter (\<lambda>t. tr_id t = i) (tokens d)))) 0"

text \<open>\<open>Authenticate\<close> reads the clock twice: against the cooldown and to note the use.\<close>

definition note_use :: "int \<Rightarrow> int \<Rightarrow> bool \<Rightarrow> db \<Rightarrow> db" where
  "note_use i n fail d =
     (if fail then d
      else update_tokens (\<lambda>t. tr_id t = i) (\<lambda>t. t\<lparr>tr_last_used_at := Some n\<rparr>) d)"

definition check_token ::
    "string \<Rightarrow> int \<Rightarrow> (nat \<Rightarrow> bool) \<Rightarrow> db \<Rightarrow> store_error + (token \<times> user)" where
  "check_token plaintext n fs d =
     (case query_row (fs 0) (map scan_token (token_join (\<lambda>t. tr_hash t = hash_token plaintext) d)) of
        Inl e \<Rightarrow> Err e
      | Inr tok \<Rightarrow>
          if \<not> token_active tok then Err Auth_Revoked
          else let remaining = kicked_until (t_id tok) (fs 1) d - n in
          if 0 < remaining then Err (Auth_Kicked (remaining div 60 + 1))
          else (case user_by_id (t_user_id tok) (fs 2) d of
                  Inl e \<Rightarrow> Err e
                | Inr u \<Rightarrow> if u_disabled u then Err Auth_Disabled else Ok (tok, u)))"

definition authenticate ::
    "string \<Rightarrow> int \<Rightarrow> int \<Rightarrow> (nat \<Rightarrow> bool) \<Rightarrow> db \<Rightarrow> (store_error + (token \<times> user)) \<times> db" where
  "authenticate plaintext n1 n2 fs d =
     (case check_token plaintext n1 fs d of
        Inl e \<Rightarrow> (Err e, d)
      | Inr (tok, u) \<Rightarrow> (Ok (tok, u), note_use (t_id tok) n2 (fs 3) d))"

definition tokens_of :: "int \<Rightarrow> bool \<Rightarrow> db \<Rightarrow> store_error + token list" where
  "tokens_of user_id fail d =
     read_db fail (map scan_token (sort_key (\<lambda>(t, u). - tr_created_at t)
        (token_join (\<lambda>t. user_id > 0 \<longrightarrow> tr_user_id t = user_id) d)))"

text \<open>
  Revoking is two statements, and so is killing a session: the first decides whether there
  is anything to do, the second cuts the sessions off or starts the cooldown.
\<close>

definition revoke_rows :: "(token_row \<Rightarrow> bool) \<Rightarrow> int \<Rightarrow> db \<Rightarrow> db" where
  "revoke_rows P n d =
     update_tokens (\<lambda>t. P t \<and> tr_revoked_at t = None) (\<lambda>t. t\<lparr>tr_revoked_at := Some n\<rparr>) d"

definition kill_rows :: "(session_row \<Rightarrow> bool) \<Rightarrow> db \<Rightarrow> db" where
  "kill_rows P d = update_sessions (\<lambda>s. P s \<and> live s) (\<lambda>s. s\<lparr>sr_killed := 1\<rparr>) d"

definition revoke_where ::
    "(token_row \<Rightarrow> bool) \<Rightarrow> (session_row \<Rightarrow> bool) \<Rightarrow> int \<Rightarrow> (nat \<Rightarrow> bool) \<Rightarrow> db \<Rightarrow>
     (store_error + unit) \<times> db" where
  "revoke_where P Q n fs d =
     (if fs 0 then (Err (Sql Fault), d)
      else let d1 = revoke_rows P n d in
      if length (filter (\<lambda>t. P t \<and> tr_revoked_at t = None) (tokens d)) = 0 then (Err Not_Found, d1)
      else if fs 1 then (Err (Sql Fault), d1)
      else (Ok (), kill_rows Q d1))"

definition revoke_token :: "int \<Rightarrow> int \<Rightarrow> (nat \<Rightarrow> bool) \<Rightarrow> db \<Rightarrow> (store_error + unit) \<times> db" where
  "revoke_token i n fs d = revoke_where (\<lambda>t. tr_id t = i) (\<lambda>s. sr_token_id s = i) n fs d"

definition revoke_token_for_user ::
    "int \<Rightarrow> int \<Rightarrow> int \<Rightarrow> (nat \<Rightarrow> bool) \<Rightarrow> db \<Rightarrow> (store_error + unit) \<times> db" where
  "revoke_token_for_user i user_id n fs d =
     revoke_where (\<lambda>t. tr_id t = i \<and> tr_user_id t = user_id)
       (\<lambda>s. sr_token_id s = i \<and> sr_user_id s = user_id) n fs d"

section \<open>Reservations\<close>

definition reserve ::
    "(rune \<Rightarrow> rune) \<Rightarrow> string \<Rightarrow> int \<Rightarrow> int \<Rightarrow> bool \<Rightarrow> db \<Rightarrow> (store_error + unit) \<times> db" where
  "reserve uc subdomain user_id n fail d =
     (if equal_fold (trim_space subdomain) ''ktunnel'' then (Err Portal_Reserved, d)
      else case attempt fail (insert_reservation
             \<lparr>rr_subdomain = to_lower uc (trim_space subdomain), rr_user_id = user_id, rr_created_at = n\<rparr> d) of
        Inl Unique_Violation \<Rightarrow> (Err (Already_Reserved subdomain), d)
      | Inl e \<Rightarrow> (Err (Sql e), d)
      | Inr d' \<Rightarrow> (Ok (), d'))"

definition release :: "(rune \<Rightarrow> rune) \<Rightarrow> string \<Rightarrow> bool \<Rightarrow> db \<Rightarrow> (store_error + unit) \<times> db" where
  "release uc subdomain fail d =
     (if fail then (Err (Sql Fault), d)
      else let P = (\<lambda>r. rr_subdomain r = to_lower uc subdomain) in
      if length (filter P (reservations d)) = 0 then (Err Not_Found, d)
      else (Ok (), d\<lparr>reservations := filter (\<lambda>r. \<not> P r) (reservations d)\<rparr>))"

definition reservation_join :: "(reservation_row \<Rightarrow> bool) \<Rightarrow> db \<Rightarrow> reservation list" where
  "reservation_join P d =
     [\<lparr>r_subdomain = rr_subdomain r, r_user_id = rr_user_id r, r_user_name = ur_name u,
       r_created_at = rr_created_at r\<rparr>.
      r \<leftarrow> filter P (reservations d), u \<leftarrow> filter (\<lambda>u. ur_id u = rr_user_id r) (users d)]"

definition reservation_by_name ::
    "(rune \<Rightarrow> rune) \<Rightarrow> string \<Rightarrow> bool \<Rightarrow> db \<Rightarrow> store_error + reservation" where
  "reservation_by_name uc subdomain fail d =
     query_row fail (reservation_join (\<lambda>r. rr_subdomain r = to_lower uc subdomain) d)"

definition reservations_of :: "int \<Rightarrow> bool \<Rightarrow> db \<Rightarrow> store_error + reservation list" where
  "reservations_of user_id fail d =
     read_db fail (sort_key r_subdomain
       (reservation_join (\<lambda>r. user_id > 0 \<longrightarrow> rr_user_id r = user_id) d))"

section \<open>Sessions\<close>

definition session_join :: "(session_row \<Rightarrow> bool) \<Rightarrow> db \<Rightarrow> (session_row \<times> user_row \<times> token_row) list" where
  "session_join P d =
     [(s, u, t). s \<leftarrow> filter P (sessions d),
        u \<leftarrow> filter (\<lambda>u. ur_id u = sr_user_id s) (users d),
        t \<leftarrow> filter (\<lambda>t. tr_id t = sr_token_id s) (tokens d)]"

definition scan_session :: "session_row \<times> user_row \<times> token_row \<Rightarrow> session" where
  "scan_session = (\<lambda>(s, u, t).
     \<lparr>s_id = sr_id s, s_user_id = sr_user_id s, s_user_name = ur_name u, s_token_id = sr_token_id s,
      s_token_label = tr_label t, s_run_id = sr_run_id s, s_hostname = sr_hostname s, s_os = sr_os s,
      s_arch = sr_arch s, s_client_addr = sr_client_addr s, s_started_at = sr_started_at s,
      s_last_seen_at = sr_last_seen_at s, s_ended_at = ts (sr_ended_at s), s_killed = (sr_killed s = 1)\<rparr>)"

definition session_by_id :: "int \<Rightarrow> bool \<Rightarrow> db \<Rightarrow> store_error + session" where
  "session_by_id i fail d = query_row fail (map scan_session (session_join (\<lambda>s. sr_id s = i) d))"

definition create_session ::
    "int \<Rightarrow> int \<Rightarrow> string \<Rightarrow> string \<Rightarrow> string \<Rightarrow> string \<Rightarrow> int \<Rightarrow> (nat \<Rightarrow> bool) \<Rightarrow> db \<Rightarrow>
     (store_error + session) \<times> db" where
  "create_session user_id token_id hostname os_name arch client_addr n fs d =
     (case attempt (fs 0) (insert_session
             \<lparr>sr_id = 0, sr_user_id = user_id, sr_token_id = token_id, sr_run_id = [], sr_hostname = hostname,
              sr_os = os_name, sr_arch = arch, sr_client_addr = client_addr, sr_started_at = n,
              sr_last_seen_at = n, sr_ended_at = None, sr_killed = 0\<rparr> d) of
        Inl e \<Rightarrow> (Err (Sql e), d)
      | Inr (i, d') \<Rightarrow> (session_by_id i (fs 1) d', d'))"

definition touch_session :: "int \<Rightarrow> string \<Rightarrow> int \<Rightarrow> bool \<Rightarrow> db \<Rightarrow> (store_error + unit) \<times> db" where
  "touch_session i run_id n fail d =
     (if fail then (Err (Sql Fault), d)
      else (Ok (), update_sessions (\<lambda>s. sr_id s = i)
              (\<lambda>s. s\<lparr>sr_last_seen_at := n, sr_run_id := (if sr_run_id s = [] then run_id else sr_run_id s)\<rparr>) d))"

definition kick_cooldown :: int where
  "kick_cooldown = 300"

definition kick_rows :: "int \<Rightarrow> int \<Rightarrow> db \<Rightarrow> db" where
  "kick_rows i until d =
     (case filter (\<lambda>s. sr_id s = i) (sessions d) of
        [] \<Rightarrow> d
      | s # _ \<Rightarrow> update_tokens (\<lambda>t. tr_id t = sr_token_id s) (\<lambda>t. t\<lparr>tr_kicked_until := until\<rparr>) d)"

definition kill_session :: "int \<Rightarrow> int \<Rightarrow> (nat \<Rightarrow> bool) \<Rightarrow> db \<Rightarrow> (store_error + unit) \<times> db" where
  "kill_session i n fs d =
     (if fs 0 then (Err (Sql Fault), d)
      else let d1 = kill_rows (\<lambda>s. sr_id s = i) d in
      if length (filter (\<lambda>s. sr_id s = i \<and> live s) (sessions d)) = 0 then (Err Not_Found, d1)
      else if fs 1 then (Err (Sql Fault), d1)
      else (Ok (), kick_rows i (n + kick_cooldown) d1))"

definition end_session_rows :: "(session_row \<Rightarrow> bool) \<Rightarrow> int \<Rightarrow> db \<Rightarrow> db" where
  "end_session_rows P n d = update_sessions (\<lambda>s. P s \<and> live s) (\<lambda>s. s\<lparr>sr_ended_at := Some n\<rparr>) d"

definition end_session :: "int \<Rightarrow> int \<Rightarrow> bool \<Rightarrow> db \<Rightarrow> (store_error + unit) \<times> db" where
  "end_session i n fail d =
     (if fail then (Err (Sql Fault), d) else (Ok (), end_session_rows (\<lambda>s. sr_id s = i) n d))"

definition session_stale_after :: int where
  "session_stale_after = 120"

definition active_sessions :: "int \<Rightarrow> bool \<Rightarrow> db \<Rightarrow> store_error + session list" where
  "active_sessions n fail d =
     (let cutoff = n - session_stale_after in
      read_db fail (map scan_session (sort_key (\<lambda>(s, u, t). - sr_started_at s)
        (session_join (\<lambda>s. live s \<and> cutoff \<le> sr_last_seen_at s) d))))"

definition end_proxy_rows :: "(proxy_row \<Rightarrow> bool) \<Rightarrow> int \<Rightarrow> db \<Rightarrow> db" where
  "end_proxy_rows P n d = update_proxies (\<lambda>p. P p \<and> active p) (\<lambda>p. p\<lparr>pr_ended_at := Some n\<rparr>) d"

definition stale :: "int \<Rightarrow> session_row \<Rightarrow> bool" where
  "stale cutoff s \<longleftrightarrow> live s \<and> sr_last_seen_at s < cutoff"

text \<open>\<open>ExpireStaleSessions\<close> reads the clock for the cutoff, then for the end.\<close>

definition expire_proxies :: "int \<Rightarrow> int \<Rightarrow> db \<Rightarrow> db" where
  "expire_proxies cutoff n d =
     end_proxy_rows (\<lambda>p. list_ex (\<lambda>s. sr_id s = pr_session_id p \<and> stale cutoff s) (sessions d)) n d"

definition expire_sessions :: "int \<Rightarrow> int \<Rightarrow> db \<Rightarrow> db" where
  "expire_sessions cutoff n d = end_session_rows (stale cutoff) n d"

definition expire_stale_sessions :: "int \<Rightarrow> int \<Rightarrow> (nat \<Rightarrow> bool) \<Rightarrow> db \<Rightarrow> (store_error + unit) \<times> db" where
  "expire_stale_sessions n1 n2 fs d =
     (let cutoff = n1 - session_stale_after in
      if fs 0 then (Err (Sql Fault), d)
      else let d1 = expire_proxies cutoff n2 d in
      if fs 1 then (Err (Sql Fault), d1)
      else (Ok (), expire_sessions cutoff n2 d1))"

section \<open>Proxies\<close>

definition add_proxy ::
    "int \<Rightarrow> int \<Rightarrow> string \<Rightarrow> string \<Rightarrow> string \<Rightarrow> string \<Rightarrow> int \<Rightarrow> int \<Rightarrow> bool \<Rightarrow> db \<Rightarrow>
     (store_error + unit) \<times> db" where
  "add_proxy session_id user_id run_id name typ subdomain remote_port n fail d =
     (case attempt fail (insert_proxy
             \<lparr>pr_id = 0, pr_session_id = session_id, pr_user_id = user_id, pr_run_id = run_id, pr_name = name,
              pr_type = typ, pr_subdomain = subdomain, pr_remote_port = remote_port, pr_started_at = n,
              pr_ended_at = None\<rparr> d) of
        Inl e \<Rightarrow> (Err (Sql e), d)
      | Inr d' \<Rightarrow> (Ok (), d'))"

definition end_proxy :: "int \<Rightarrow> string \<Rightarrow> int \<Rightarrow> bool \<Rightarrow> db \<Rightarrow> (store_error + unit) \<times> db" where
  "end_proxy session_id name n fail d =
     (if fail then (Err (Sql Fault), d)
      else (Ok (), end_proxy_rows (\<lambda>p. pr_session_id p = session_id \<and> pr_name p = name) n d))"

definition active_count :: "int \<Rightarrow> db \<Rightarrow> int" where
  "active_count user_id d = int (length (filter (\<lambda>p. pr_user_id p = user_id \<and> active p) (proxies d)))"

definition count_active_proxies :: "int \<Rightarrow> bool \<Rightarrow> db \<Rightarrow> store_error + int" where
  "count_active_proxies user_id fail d = read_db fail (active_count user_id d)"

definition subdomain_in_use :: "string \<Rightarrow> bool \<Rightarrow> db \<Rightarrow> store_error + bool" where
  "subdomain_in_use subdomain fail d =
     read_db fail (0 < length (filter (\<lambda>p. pr_subdomain p = subdomain \<and> active p) (proxies d)))"

definition active_proxy_holder :: "string \<Rightarrow> bool \<Rightarrow> db \<Rightarrow> store_error + (int \<times> int) option" where
  "active_proxy_holder subdomain fail d =
     read_db fail
       (case sort_key (\<lambda>p. - pr_started_at p) (filter (\<lambda>p. pr_subdomain p = subdomain \<and> active p) (proxies d)) of
          [] \<Rightarrow> None
        | p # _ \<Rightarrow> Some (pr_user_id p, pr_session_id p))"

definition end_proxies_for_subdomain :: "string \<Rightarrow> int \<Rightarrow> bool \<Rightarrow> db \<Rightarrow> (store_error + unit) \<times> db" where
  "end_proxies_for_subdomain subdomain n fail d =
     (if fail then (Err (Sql Fault), d)
      else (Ok (), end_proxy_rows (\<lambda>p. pr_subdomain p = subdomain) n d))"

definition scan_proxy :: "proxy_row \<times> user_row \<Rightarrow> proxy" where
  "scan_proxy = (\<lambda>(p, u).
     \<lparr>p_id = pr_id p, p_session_id = pr_session_id p, p_user_id = pr_user_id p, p_user_name = ur_name u,
      p_run_id = pr_run_id p, p_name = pr_name p, p_type = pr_type p, p_subdomain = pr_subdomain p,
      p_remote_port = pr_remote_port p, p_started_at = pr_started_at p\<rparr>)"

definition active_proxies :: "bool \<Rightarrow> db \<Rightarrow> store_error + proxy list" where
  "active_proxies fail d =
     read_db fail (map scan_proxy (sort_key (\<lambda>(p, u). - pr_started_at p)
       [(p, u). p \<leftarrow> filter active (proxies d), u \<leftarrow> filter (\<lambda>u. ur_id u = pr_user_id p) (users d)]))"

definition session_by_subdomain :: "string \<Rightarrow> (nat \<Rightarrow> bool) \<Rightarrow> db \<Rightarrow> store_error + session" where
  "session_by_subdomain subdomain fs d =
     (case query_row (fs 0) (map pr_session_id
             (filter (\<lambda>p. pr_subdomain p = subdomain \<and> active p) (proxies d))) of
        Inl e \<Rightarrow> Err e
      | Inr i \<Rightarrow> session_by_id i (fs 1) d)"

section \<open>The audit log\<close>

definition audit_event :: "int \<Rightarrow> string \<Rightarrow> string \<Rightarrow> int \<Rightarrow> bool \<Rightarrow> db \<Rightarrow> db" where
  "audit_event user_id action detail n fail d =
     (if fail then d
      else insert_audit \<lparr>ar_id = 0, ar_at = n, ar_user_id = (if 0 < user_id then Some user_id else None),
                         ar_action = action, ar_detail = detail\<rparr> d)"

definition scan_audit :: "db \<Rightarrow> audit_row \<Rightarrow> audit_entry" where
  "scan_audit d r =
     \<lparr>e_id = ar_id r, e_at = ar_at r,
      e_user_name = (case ar_user_id r of
                       None \<Rightarrow> []
                     | Some i \<Rightarrow> (case row ur_id i (users d) of None \<Rightarrow> [] | Some u \<Rightarrow> ur_name u)),
      e_action = ar_action r, e_detail = ar_detail r\<rparr>"

text \<open>A negative \<open>LIMIT\<close> is no limit.\<close>

definition audit_log :: "int \<Rightarrow> bool \<Rightarrow> db \<Rightarrow> store_error + audit_entry list" where
  "audit_log limit fail d =
     (let es = map (scan_audit d) (sort_key (\<lambda>r. - ar_id r) (audit d))
      in read_db fail (if limit < 0 then es else take (nat limit) es))"

section \<open>Reading a well-formed database\<close>

text \<open>
  Row numbers are distinct, so a query by number has at most one row, and every row a
  reference of another leads to is there, so a join keeps every row it selects.
\<close>

lemma filter_key:
  "distinct (map key rs) \<Longrightarrow> filter (\<lambda>r. key r = k) rs = (case row key k rs of None \<Rightarrow> [] | Some r \<Rightarrow> [r])"
proof (induction rs)
  case (Cons r rs)
  show ?case
  proof (cases "key r = k")
    case True
    with Cons.prems have "filter (\<lambda>r. key r = k) rs = []" by (auto simp: filter_empty_conv image_iff)
    with True show ?thesis by simp
  qed (use Cons in simp)
qed simp

lemma wf_filter:
  assumes "wf_db d"
  shows "filter (\<lambda>u. ur_id u = i) (users d) = (case row ur_id i (users d) of None \<Rightarrow> [] | Some u \<Rightarrow> [u])"
    and "filter (\<lambda>u. ur_name u = nm) (users d) = (case row ur_name nm (users d) of None \<Rightarrow> [] | Some u \<Rightarrow> [u])"
    and "filter (\<lambda>t. tr_id t = i) (tokens d) = (case row tr_id i (tokens d) of None \<Rightarrow> [] | Some t \<Rightarrow> [t])"
    and "filter (\<lambda>t. tr_hash t = h) (tokens d) = (case row tr_hash h (tokens d) of None \<Rightarrow> [] | Some t \<Rightarrow> [t])"
    and "filter (\<lambda>s. sr_id s = i) (sessions d) = (case row sr_id i (sessions d) of None \<Rightarrow> [] | Some s \<Rightarrow> [s])"
    and "filter (\<lambda>r. rr_subdomain r = nm) (reservations d) =
           (case row rr_subdomain nm (reservations d) of None \<Rightarrow> [] | Some r \<Rightarrow> [r])"
  using assms by (simp_all add: wf_db_def wf_keys_def wf_unique_def filter_key)

text \<open>The row a reference leads to.\<close>

definition the_user :: "int \<Rightarrow> db \<Rightarrow> user_row" where
  "the_user i d = the (row ur_id i (users d))"

definition the_token :: "int \<Rightarrow> db \<Rightarrow> token_row" where
  "the_token i d = the (row tr_id i (tokens d))"

definition the_session :: "int \<Rightarrow> db \<Rightarrow> session_row" where
  "the_session i d = the (row sr_id i (sessions d))"

lemma wf_reference:
  assumes "wf_db d"
  shows "t \<in> set (tokens d) \<Longrightarrow> row ur_id (tr_user_id t) (users d) = Some (the_user (tr_user_id t) d)"
    and "r \<in> set (reservations d) \<Longrightarrow> row ur_id (rr_user_id r) (users d) = Some (the_user (rr_user_id r) d)"
    and "s \<in> set (sessions d) \<Longrightarrow> row ur_id (sr_user_id s) (users d) = Some (the_user (sr_user_id s) d)"
    and "s \<in> set (sessions d) \<Longrightarrow> row tr_id (sr_token_id s) (tokens d) = Some (the_token (sr_token_id s) d)"
    and "p \<in> set (proxies d) \<Longrightarrow> row ur_id (pr_user_id p) (users d) = Some (the_user (pr_user_id p) d)"
    and "p \<in> set (proxies d) \<Longrightarrow> row sr_id (pr_session_id p) (sessions d) = Some (the_session (pr_session_id p) d)"
  using assms
  by (auto simp: wf_db_def wf_refs_def user_exists_def the_user_def the_token_def the_session_def)

lemma token_join_wf:
  assumes "wf_db d"
  shows "token_join P d = map (\<lambda>t. (t, the_user (tr_user_id t) d)) (filter P (tokens d))"
proof -
  have "\<forall>t \<in> set ts. row ur_id (tr_user_id t) (users d) = Some (the_user (tr_user_id t) d) \<Longrightarrow>
    [(t, u). t \<leftarrow> filter P ts, u \<leftarrow> filter (\<lambda>u. ur_id u = tr_user_id t) (users d)] =
    map (\<lambda>t. (t, the_user (tr_user_id t) d)) (filter P ts)" for ts
    by (induction ts) (simp_all add: wf_filter(1) [OF assms])
  from this [of "tokens d"] show ?thesis using wf_reference(1) [OF assms] by (simp add: token_join_def)
qed

lemma session_join_wf:
  assumes "wf_db d"
  shows "session_join P d =
    map (\<lambda>s. (s, the_user (sr_user_id s) d, the_token (sr_token_id s) d)) (filter P (sessions d))"
proof -
  have "\<forall>s \<in> set ss. row ur_id (sr_user_id s) (users d) = Some (the_user (sr_user_id s) d) \<and>
      row tr_id (sr_token_id s) (tokens d) = Some (the_token (sr_token_id s) d) \<Longrightarrow>
    [(s, u, t). s \<leftarrow> filter P ss, u \<leftarrow> filter (\<lambda>u. ur_id u = sr_user_id s) (users d),
        t \<leftarrow> filter (\<lambda>t. tr_id t = sr_token_id s) (tokens d)] =
    map (\<lambda>s. (s, the_user (sr_user_id s) d, the_token (sr_token_id s) d)) (filter P ss)" for ss
    by (induction ss) (simp_all add: wf_filter(1,3) [OF assms])
  from this [of "sessions d"] show ?thesis
    using wf_reference(3,4) [OF assms] by (simp add: session_join_def)
qed

lemma reservation_join_wf:
  assumes "wf_db d"
  shows "reservation_join P d =
    map (\<lambda>r. \<lparr>r_subdomain = rr_subdomain r, r_user_id = rr_user_id r,
              r_user_name = ur_name (the_user (rr_user_id r) d), r_created_at = rr_created_at r\<rparr>)
      (filter P (reservations d))"
proof -
  have "\<forall>r \<in> set rs. row ur_id (rr_user_id r) (users d) = Some (the_user (rr_user_id r) d) \<Longrightarrow>
    [\<lparr>r_subdomain = rr_subdomain r, r_user_id = rr_user_id r, r_user_name = ur_name u,
       r_created_at = rr_created_at r\<rparr>.
      r \<leftarrow> filter P rs, u \<leftarrow> filter (\<lambda>u. ur_id u = rr_user_id r) (users d)] =
    map (\<lambda>r. \<lparr>r_subdomain = rr_subdomain r, r_user_id = rr_user_id r,
              r_user_name = ur_name (the_user (rr_user_id r) d), r_created_at = rr_created_at r\<rparr>)
      (filter P rs)" for rs
    by (induction rs) (simp_all add: wf_filter(1) [OF assms])
  from this [of "reservations d"] show ?thesis
    using wf_reference(2) [OF assms] by (simp add: reservation_join_def)
qed

text \<open>The single-row reads of a well-formed database.\<close>

lemma user_by_id_wf:
  "wf_db d \<Longrightarrow> user_by_id i fail d =
     (if fail then Err (Sql Fault)
      else case row ur_id i (users d) of None \<Rightarrow> Err Not_Found | Some u \<Rightarrow> Ok (scan_user u))"
  by (cases fail) (simp_all add: user_by_id_def wf_filter split: option.split)

lemma token_by_id_wf:
  "wf_db d \<Longrightarrow> token_by_id i fail d =
     (if fail then Err (Sql Fault)
      else case row tr_id i (tokens d) of None \<Rightarrow> Err Not_Found
           | Some t \<Rightarrow> Ok (scan_token (t, the_user (tr_user_id t) d)))"
  by (cases fail) (simp_all add: token_by_id_def token_join_wf wf_filter split: option.split)

lemma session_by_id_wf:
  "wf_db d \<Longrightarrow> session_by_id i fail d =
     (if fail then Err (Sql Fault)
      else case row sr_id i (sessions d) of None \<Rightarrow> Err Not_Found
           | Some s \<Rightarrow> Ok (scan_session (s, the_user (sr_user_id s) d, the_token (sr_token_id s) d)))"
  by (cases fail) (simp_all add: session_by_id_def session_join_wf wf_filter split: option.split)

lemma token_active_scan:
  "token_active (scan_token (t, u)) \<longleftrightarrow> tr_revoked_at t \<in> {None, Some zero_time}"
  by (auto simp: token_active_def scan_token_def ts_def split: option.split)

end
