(* ===== verification/Kt_Admit.thy ===== *)
theory Kt_Admit
  imports Kt_Store
begin

text \<open>
  \<open>AdmitProxy\<close> of \<open>internal/store/store.go\<close>: all policy checks on a new tunnel and the insert
  of its row, in one transaction. The statements are numbered in the order the source has
  them: 0 begins, 1 reads the session, 2 the reservation or the port range, 3 the holders
  of the resource, 4 ends them on a takeover, 5 counts, 6 inserts, 7 commits. An error
  leaves the database as it was, for the transaction is rolled back.
\<close>

section \<open>The transaction\<close>

record admission =
  takeover_session_id :: int

definition sql_max :: "int list \<Rightarrow> int" where
  "sql_max xs = (case xs of [] \<Rightarrow> 0 | x # ys \<Rightarrow> foldl max x ys)"

definition session_denial :: "session_row \<times> user_row \<times> token_row \<Rightarrow> denial option" where
  "session_denial = (\<lambda>(s, u, t).
     if sr_killed s \<noteq> 0 \<or> sr_ended_at s \<noteq> None then Some Session_Terminated
     else if tr_revoked_at t \<noteq> None then Some Token_Revoked
     else if ur_disabled u \<noteq> 0 then Some Account_Disabled
     else None)"

text \<open>
  Taking a resource: \<open>P\<close> selects the rows on it. Rows of another user or of the session
  itself refuse it; rows of other sessions of the same user are ended and taken over.
\<close>

definition take_resource ::
    "(proxy_row \<Rightarrow> bool) \<Rightarrow> denial \<Rightarrow> int \<Rightarrow> int \<Rightarrow> int \<Rightarrow> (nat \<Rightarrow> bool) \<Rightarrow> db \<Rightarrow>
     store_error + (admission \<times> db)" where
  "take_resource P in_use user_id session_id n fs d =
     (if fs 3 then Err (Sql Fault)
      else
        let hs = filter (\<lambda>p. P p \<and> active p) (proxies d) in
        if length hs \<noteq> 0
        then (if list_ex (\<lambda>p. pr_user_id p \<noteq> user_id) hs \<or> list_ex (\<lambda>p. pr_session_id p = session_id) hs
              then Err (Proxy_Denied in_use)
              else if fs 4 then Err (Sql Fault)
              else Ok (\<lparr>takeover_session_id = sql_max (map pr_session_id hs)\<rparr>, end_proxy_rows P n d))
        else Ok (\<lparr>takeover_session_id = 0\<rparr>, d))"

definition admit_http ::
    "string \<Rightarrow> int \<Rightarrow> int \<Rightarrow> int \<Rightarrow> (nat \<Rightarrow> bool) \<Rightarrow> db \<Rightarrow> store_error + (admission \<times> db)" where
  "admit_http subdomain user_id session_id n fs d =
     (if subdomain = ''ktunnel'' then Err (Proxy_Denied Portal_Subdomain)
      else if fs 2 then Err (Sql Fault)
      else
        case reservation_join (\<lambda>r. rr_subdomain r = subdomain) d of
          r # _ \<Rightarrow>
            if r_user_id r \<noteq> user_id
            then Err (Proxy_Denied (Subdomain_Belongs_To subdomain (r_user_name r)))
            else take_resource (\<lambda>p. pr_subdomain p = subdomain) (Subdomain_In_Use subdomain)
                   user_id session_id n fs d
        | [] \<Rightarrow> take_resource (\<lambda>p. pr_subdomain p = subdomain) (Subdomain_In_Use subdomain)
                  user_id session_id n fs d)"

definition admit_tcp ::
    "int \<Rightarrow> int \<Rightarrow> int \<Rightarrow> int \<Rightarrow> (nat \<Rightarrow> bool) \<Rightarrow> db \<Rightarrow> store_error + (admission \<times> db)" where
  "admit_tcp remote_port user_id session_id n fs d =
     (if fs 2 then Err (Sql Fault)
      else
        let (lo, hi) = tcp_range (case settings d ''tcp_port_range'' of None \<Rightarrow> [] | Some v \<Rightarrow> v) in
        if remote_port < lo \<or> hi < remote_port
        then Err (Proxy_Denied (Port_Out_Of_Range lo hi))
        else take_resource (\<lambda>p. pr_remote_port p = remote_port) (Port_In_Use remote_port)
               user_id session_id n fs d)"

definition in_use :: "string \<Rightarrow> string \<Rightarrow> int \<Rightarrow> denial" where
  "in_use typ subdomain remote_port =
     (if typ = ''http'' then Subdomain_In_Use subdomain else Port_In_Use remote_port)"

definition admit_row ::
    "int \<Rightarrow> int \<Rightarrow> string \<Rightarrow> string \<Rightarrow> string \<Rightarrow> string \<Rightarrow> int \<Rightarrow> int \<Rightarrow> proxy_row" where
  "admit_row session_id user_id run_id name typ subdomain remote_port n =
     \<lparr>pr_id = 0, pr_session_id = session_id, pr_user_id = user_id, pr_run_id = run_id, pr_name = name,
      pr_type = typ, pr_subdomain = subdomain, pr_remote_port = remote_port, pr_started_at = n,
      pr_ended_at = None\<rparr>"

definition admit_result ::
    "int \<Rightarrow> string \<Rightarrow> string \<Rightarrow> string \<Rightarrow> string \<Rightarrow> int \<Rightarrow> int \<Rightarrow> (nat \<Rightarrow> bool) \<Rightarrow> db \<Rightarrow>
     store_error + (admission \<times> db)" where
  "admit_result session_id run_id name typ subdomain remote_port n fs d =
     (if fs 0 then Err (Sql Fault)
      else if fs 1 then Err (Sql Fault)
      else case session_join (\<lambda>s. sr_id s = session_id) d of
        [] \<Rightarrow> Err (Proxy_Denied Session_Not_Recognised)
      | (s, u, t) # _ \<Rightarrow>
          (case session_denial (s, u, t) of
             Some why \<Rightarrow> Err (Proxy_Denied why)
           | None \<Rightarrow>
               let user_id = sr_user_id s in
               (case (if typ = ''http'' then admit_http subdomain user_id session_id n fs d
                      else if typ = ''tcp'' then admit_tcp remote_port user_id session_id n fs d
                      else Err (Proxy_Denied (Type_Not_Allowed typ))) of
                  Inl e \<Rightarrow> Err e
                | Inr (adm, d1) \<Rightarrow>
                    if fs 5 then Err (Sql Fault)
                    else if ur_max_tunnels u \<le> active_count user_id d1
                    then Err (Proxy_Denied (Tunnel_Limit_Reached (ur_max_tunnels u)))
                    else
                      (case attempt (fs 6) (insert_proxy
                              (admit_row session_id user_id run_id name typ subdomain remote_port n) d1) of
                         Inl Unique_Violation \<Rightarrow> Err (Proxy_Denied (in_use typ subdomain remote_port))
                       | Inl e \<Rightarrow> Err (Sql e)
                       | Inr d2 \<Rightarrow> if fs 7 then Err (Sql Fault) else Ok (adm, d2)))))"

definition admit_proxy ::
    "int \<Rightarrow> string \<Rightarrow> string \<Rightarrow> string \<Rightarrow> string \<Rightarrow> int \<Rightarrow> int \<Rightarrow> (nat \<Rightarrow> bool) \<Rightarrow> db \<Rightarrow>
     (store_error + admission) \<times> db" where
  "admit_proxy session_id run_id name typ subdomain remote_port n fs d =
     (case admit_result session_id run_id name typ subdomain remote_port n fs d of
        Inl e \<Rightarrow> (Err e, d)
      | Inr (adm, d') \<Rightarrow> (Ok adm, d'))"

section \<open>What an admission needs\<close>

text \<open>
  The specification: the session can open tunnels, the resource of the request is free or
  taken over, the quota leaves room after the takeover, and no other active row holds the
  resource the type does not name.
\<close>

definition resource :: "string \<Rightarrow> string \<Rightarrow> int \<Rightarrow> proxy_row \<Rightarrow> bool" where
  "resource typ subdomain remote_port p \<longleftrightarrow>
     (if typ = ''http'' then pr_subdomain p = subdomain else pr_remote_port p = remote_port)"

definition can_open :: "session_row \<Rightarrow> db \<Rightarrow> bool" where
  "can_open s d \<longleftrightarrow>
     live s \<and> sr_killed s = 0 \<and> tr_revoked_at (the_token (sr_token_id s) d) = None \<and>
     ur_disabled (the_user (sr_user_id s) d) = 0"

definition port_range_of :: "db \<Rightarrow> int \<times> int" where
  "port_range_of d = tcp_range (case settings d ''tcp_port_range'' of None \<Rightarrow> [] | Some v \<Rightarrow> v)"

definition name_allowed :: "string \<Rightarrow> string \<Rightarrow> int \<Rightarrow> int \<Rightarrow> db \<Rightarrow> bool" where
  "name_allowed typ subdomain remote_port user_id d \<longleftrightarrow>
     (if typ = ''http''
      then subdomain \<noteq> ''ktunnel'' \<and>
           (case row rr_subdomain subdomain (reservations d) of None \<Rightarrow> True | Some r \<Rightarrow> rr_user_id r = user_id)
      else typ = ''tcp'' \<and> fst (port_range_of d) \<le> remote_port \<and> remote_port \<le> snd (port_range_of d))"

definition holders :: "(proxy_row \<Rightarrow> bool) \<Rightarrow> db \<Rightarrow> proxy_row list" where
  "holders P d = filter (\<lambda>p. P p \<and> active p) (proxies d)"

definition yields :: "int \<Rightarrow> int \<Rightarrow> proxy_row \<Rightarrow> bool" where
  "yields user_id session_id p \<longleftrightarrow> pr_user_id p = user_id \<and> pr_session_id p \<noteq> session_id"

definition takes_over :: "string \<Rightarrow> string \<Rightarrow> int \<Rightarrow> int \<Rightarrow> db \<Rightarrow> db" where
  "takes_over typ subdomain remote_port n d = end_proxy_rows (resource typ subdomain remote_port) n d"

lemma end_proxy_rows_none: "holders P d = [] \<Longrightarrow> end_proxy_rows P n d = d"
  by (auto simp: end_proxy_rows_def update_proxies_def holders_def filter_empty_conv upd_none)

lemma end_proxy_rows_more [simp]:
  "users (end_proxy_rows P n d) = users d" "tokens (end_proxy_rows P n d) = tokens d"
  "sessions (end_proxy_rows P n d) = sessions d" "reservations (end_proxy_rows P n d) = reservations d"
  "settings (end_proxy_rows P n d) = settings d" "audit (end_proxy_rows P n d) = audit d"
  "subdomain_index (end_proxy_rows P n d) = subdomain_index d" "port_index (end_proxy_rows P n d) = port_index d"
  "length (proxies (end_proxy_rows P n d)) = length (proxies d)"
  by (simp_all add: end_proxy_rows_def update_proxies_def)

lemma take_resource_iff:
  "take_resource P why user_id session_id n fs d = Ok (adm, d') \<longleftrightarrow>
     \<not> fs 3 \<and> (holders P d \<noteq> [] \<longrightarrow> \<not> fs 4) \<and> list_all (yields user_id session_id) (holders P d) \<and>
     d' = end_proxy_rows P n d \<and> adm = \<lparr>takeover_session_id = sql_max (map pr_session_id (holders P d))\<rparr>"
proof -
  have y: "list_ex (\<lambda>p. pr_user_id p \<noteq> user_id) hs \<or> list_ex (\<lambda>p. pr_session_id p = session_id) hs \<longleftrightarrow>
        \<not> list_all (yields user_id session_id) hs" for hs
    by (induction hs) (auto simp: yields_def)
  have "take_resource P why user_id session_id n fs d =
    (if fs 3 then Err (Sql Fault)
     else if holders P d \<noteq> []
     then (if \<not> list_all (yields user_id session_id) (holders P d) then Err (Proxy_Denied why)
           else if fs 4 then Err (Sql Fault)
           else Ok (\<lparr>takeover_session_id = sql_max (map pr_session_id (holders P d))\<rparr>, end_proxy_rows P n d))
     else Ok (\<lparr>takeover_session_id = 0\<rparr>, d))"
    by (simp only: take_resource_def Let_def y flip: holders_def) simp
  then show ?thesis
    using end_proxy_rows_none [of P d n] by (cases "holders P d = []") (auto simp: sql_max_def)
qed

lemma take_resource_error:
  "take_resource P why user_id session_id n fs d = Err e \<Longrightarrow>
     e = Sql Fault \<or> e = Proxy_Denied why \<and> \<not> list_all (yields user_id session_id) (holders P d)"
  by (auto simp: take_resource_def Let_def holders_def list_all_iff list_ex_iff yields_def split: if_splits)

lemma admit_http_iff:
  assumes "wf_db d"
  shows "admit_http subdomain user_id session_id n fs d = Ok (adm, d') \<longleftrightarrow>
    \<not> fs 2 \<and> name_allowed ''http'' subdomain p user_id d \<and>
    take_resource (resource ''http'' subdomain p) (Subdomain_In_Use subdomain) user_id session_id n fs d = Ok (adm, d')"
proof -
  have r: "resource ''http'' subdomain p = (\<lambda>q. pr_subdomain q = subdomain)"
    by (simp add: resource_def fun_eq_iff)
  show ?thesis
    using assms
    by (auto simp: admit_http_def name_allowed_def reservation_join_wf wf_filter r split: option.split)
qed

lemma admit_tcp_iff:
  "admit_tcp remote_port user_id session_id n fs d = Ok (adm, d') \<longleftrightarrow>
    \<not> fs 2 \<and> name_allowed ''tcp'' sub remote_port user_id d \<and>
    take_resource (resource ''tcp'' sub remote_port) (Port_In_Use remote_port) user_id session_id n fs d = Ok (adm, d')"
proof -
  have r: "resource ''tcp'' sub remote_port = (\<lambda>q. pr_remote_port q = remote_port)"
    by (simp add: resource_def fun_eq_iff)
  show ?thesis
    by (auto simp: admit_tcp_def name_allowed_def r port_range_of_def split: prod.split)
qed

text \<open>The outcome of an admission that succeeds.\<close>

definition admissible ::
    "int \<Rightarrow> string \<Rightarrow> string \<Rightarrow> int \<Rightarrow> int \<Rightarrow> db \<Rightarrow> bool" where
  "admissible session_id typ subdomain remote_port n d \<longleftrightarrow>
     (case row sr_id session_id (sessions d) of
        None \<Rightarrow> False
      | Some s \<Rightarrow>
          let uid = sr_user_id s; d1 = takes_over typ subdomain remote_port n d;
              r = admit_row session_id uid [] [] typ subdomain remote_port n
          in can_open s d \<and> name_allowed typ subdomain remote_port uid d \<and>
             list_all (yields uid session_id) (holders (resource typ subdomain remote_port) d) \<and>
             active_count uid d1 < ur_max_tunnels (the_user uid d) \<and>
             \<not> (subdomain_index d \<and> subdomain_taken r (proxies d1)) \<and>
             \<not> (port_index d \<and> port_taken r (proxies d1)))"

definition admitted ::
    "int \<Rightarrow> string \<Rightarrow> string \<Rightarrow> string \<Rightarrow> string \<Rightarrow> int \<Rightarrow> int \<Rightarrow> db \<Rightarrow> db" where
  "admitted session_id run_id name typ subdomain remote_port n d =
     (let d1 = takes_over typ subdomain remote_port n d;
          uid = sr_user_id (the_session session_id d)
      in d1\<lparr>proxies := proxy_table.insert_row
              (admit_row session_id uid run_id name typ subdomain remote_port n) (proxies d1)\<rparr>)"

lemma insert_admit_row:
  assumes "wf_db d" "row sr_id session_id (sessions d) = Some s" "sr_user_id s = uid"
  shows "insert_proxy (admit_row session_id uid run_id name typ sub port n) (end_proxy_rows P n d) =
    (let d1 = end_proxy_rows P n d; r = admit_row session_id uid run_id name typ sub port n
     in if subdomain_index d \<and> subdomain_taken r (proxies d1) \<or> port_index d \<and> port_taken r (proxies d1)
        then Err Unique_Violation
        else Ok (d1\<lparr>proxies := proxy_table.insert_row r (proxies d1)\<rparr>))"
proof -
  from assms(1,2) have "s \<in> set (sessions d)" by (simp add: wf_rows)
  with assms have "user_exists uid (end_proxy_rows P n d)"
    using wf_reference(3) [OF assms(1)] by (auto simp: user_exists_def)
  with assms(2) show ?thesis by (simp add: insert_proxy_def Let_def admit_row_def)
qed

lemma taken_row:
  "subdomain_taken (admit_row i uid run_id name typ sub port n) ps =
   subdomain_taken (admit_row i uid [] [] typ sub port n) ps"
  "port_taken (admit_row i uid run_id name typ sub port n) ps =
   port_taken (admit_row i uid [] [] typ sub port n) ps"
  by (simp_all add: subdomain_taken_def port_taken_def admit_row_def)

lemma session_denial_None:
  "session_denial (s, u, t) = None \<longleftrightarrow>
     live s \<and> sr_killed s = 0 \<and> tr_revoked_at t = None \<and> ur_disabled u = 0"
  by (auto simp: session_denial_def)

definition statements_ok :: "(nat \<Rightarrow> bool) \<Rightarrow> proxy_row list \<Rightarrow> bool" where
  "statements_ok fs hs \<longleftrightarrow> list_all (\<lambda>i. \<not> fs i) [0, 1, 2, 3, 5, 6, 7] \<and> (hs \<noteq> [] \<longrightarrow> \<not> fs 4)"

lemma resource_choice:
  assumes "wf_db d"
  shows "(if typ = ''http'' then admit_http sub uid sid n fs d
      else if typ = ''tcp'' then admit_tcp port uid sid n fs d
      else Err (Proxy_Denied (Type_Not_Allowed typ))) = Ok (adm, d') \<longleftrightarrow>
    \<not> fs 2 \<and> \<not> fs 3 \<and> (holders (resource typ sub port) d \<noteq> [] \<longrightarrow> \<not> fs 4) \<and>
    name_allowed typ sub port uid d \<and>
    list_all (yields uid sid) (holders (resource typ sub port) d) \<and>
    d' = takes_over typ sub port n d \<and>
    adm = \<lparr>takeover_session_id = sql_max (map pr_session_id (holders (resource typ sub port) d))\<rparr>"
  using admit_http_iff [OF assms, of sub uid sid n fs adm d' port]
    admit_tcp_iff [of port uid sid n fs d adm d' sub]
  by (auto simp: take_resource_iff takes_over_def name_allowed_def)

lemma admit_result_iff:
  assumes "wf_db d"
  shows "admit_result sid run_id name typ sub port n fs d = Ok (adm, d') \<longleftrightarrow>
    statements_ok fs (holders (resource typ sub port) d) \<and> admissible sid typ sub port n d \<and>
    d' = admitted sid run_id name typ sub port n d \<and>
    adm = \<lparr>takeover_session_id = sql_max (map pr_session_id (holders (resource typ sub port) d))\<rparr>"
proof (cases "row sr_id sid (sessions d)")
  case None
  with assms show ?thesis by (simp add: admit_result_def session_join_wf wf_filter admissible_def)
next
  case (Some s)
  let ?u = "the_user (sr_user_id s) d" and ?t = "the_token (sr_token_id s) d"
  let ?d1 = "takes_over typ sub port n d"
  let ?r = "admit_row sid (sr_user_id s) run_id name typ sub port n"
  let ?pick = "if typ = ''http'' then admit_http sub (sr_user_id s) sid n fs d
      else if typ = ''tcp'' then admit_tcp port (sr_user_id s) sid n fs d
      else Err (Proxy_Denied (Type_Not_Allowed typ))"
  have join: "session_join (\<lambda>s. sr_id s = sid) d = [(s, ?u, ?t)]"
    using assms Some by (simp add: session_join_wf wf_filter)
  have ins: "insert_proxy ?r ?d1 =
    (if subdomain_index d \<and> subdomain_taken ?r (proxies ?d1) \<or> port_index d \<and> port_taken ?r (proxies ?d1)
     then Err Unique_Violation
     else Ok (?d1\<lparr>proxies := proxy_table.insert_row ?r (proxies ?d1)\<rparr>))"
    unfolding takes_over_def by (simp add: insert_admit_row [OF assms Some] Let_def)
  have "admit_result sid run_id name typ sub port n fs d = Ok (adm, d') \<longleftrightarrow>
    \<not> fs 0 \<and> \<not> fs 1 \<and> session_denial (s, ?u, ?t) = None \<and>
    (\<exists>d1. ?pick = Ok (adm, d1) \<and> \<not> fs 5 \<and> active_count (sr_user_id s) d1 < ur_max_tunnels ?u \<and>
       \<not> fs 6 \<and> insert_proxy ?r d1 = Ok d' \<and> \<not> fs 7)"
    by (auto simp: admit_result_def join Let_def attempt_def not_le
        split: option.split sum.split sql_error.split)
  also have "\<dots> \<longleftrightarrow> statements_ok fs (holders (resource typ sub port) d) \<and> admissible sid typ sub port n d \<and>
    d' = admitted sid run_id name typ sub port n d \<and>
    adm = \<lparr>takeover_session_id = sql_max (map pr_session_id (holders (resource typ sub port) d))\<rparr>"
    unfolding resource_choice [OF assms] session_denial_None
    using Some ins
    by (auto simp: statements_ok_def admissible_def admitted_def can_open_def Let_def the_session_def
        taken_row [where run_id = run_id and name = name] split: if_splits)
  finally show ?thesis .
qed

lemma admit_proxy_ok:
  "admit_proxy sid run_id name typ sub port n fs d = (Ok adm, d') \<longleftrightarrow>
     admit_result sid run_id name typ sub port n fs d = Ok (adm, d')"
  by (auto simp: admit_proxy_def split: sum.split prod.split)

lemma admit_proxy_error:
  "admit_proxy sid run_id name typ sub port n fs d = (Err e, d') \<Longrightarrow> d' = d"
  by (auto simp: admit_proxy_def split: sum.splits prod.splits)

section \<open>The abstract view: leases\<close>

text \<open>
  What frps and the users see of the table of proxies is its active rows: who holds which
  name, subdomain and port, in the order of admission. The operations that change them are
  functions on that list.
\<close>

record lease =
  le_session :: int
  le_user :: int
  le_name :: string
  le_type :: string
  le_subdomain :: string
  le_port :: int

definition lease_of :: "proxy_row \<Rightarrow> lease" where
  "lease_of p = \<lparr>le_session = pr_session_id p, le_user = pr_user_id p, le_name = pr_name p, le_type = pr_type p,
                 le_subdomain = pr_subdomain p, le_port = pr_remote_port p\<rparr>"

definition leases :: "db \<Rightarrow> lease list" where
  "leases d = map lease_of (filter active (proxies d))"

definition on_resource :: "string \<Rightarrow> string \<Rightarrow> int \<Rightarrow> lease \<Rightarrow> bool" where
  "on_resource typ sub port l \<longleftrightarrow> (if typ = ''http'' then le_subdomain l = sub else le_port l = port)"

definition grant :: "lease \<Rightarrow> lease list \<Rightarrow> lease list" where
  "grant l ls = filter (\<lambda>m. \<not> on_resource (le_type l) (le_subdomain l) (le_port l) m) ls @ [l]"

lemma leases_end_proxy_rows:
  assumes "\<And>p. P p = Q (lease_of p)"
  shows "leases (end_proxy_rows P n d) = filter (\<lambda>l. \<not> Q l) (leases d)"
proof -
  have "map lease_of (filter active (upd (\<lambda>p. P p \<and> active p) (\<lambda>p. p\<lparr>pr_ended_at := Some n\<rparr>) ps)) =
        filter (\<lambda>l. \<not> Q l) (map lease_of (filter active ps))" for ps
    by (induction ps) (auto simp: assms)
  then show ?thesis by (simp add: leases_def end_proxy_rows_def update_proxies_def)
qed

lemma resource_lease: "resource typ sub port p = on_resource typ sub port (lease_of p)"
  by (simp add: resource_def on_resource_def lease_of_def)

lemma active_count_leases: "active_count uid d = int (length (filter (\<lambda>l. le_user l = uid) (leases d)))"
proof -
  have "length (filter (\<lambda>p. pr_user_id p = uid \<and> active p) ps) =
        length (filter (\<lambda>l. le_user l = uid) (map lease_of (filter active ps)))" for ps
    by (induction ps) (auto simp: lease_of_def)
  then show ?thesis by (simp add: active_count_def leases_def)
qed

lemma leases_admitted:
  "leases (admitted sid run_id name typ sub port n d) =
     grant \<lparr>le_session = sid, le_user = sr_user_id (the_session sid d), le_name = name, le_type = typ,
            le_subdomain = sub, le_port = port\<rparr> (leases d)"
proof -
  let ?r = "admit_row sid (sr_user_id (the_session sid d)) run_id name typ sub port n"
  have "leases (admitted sid run_id name typ sub port n d) =
    leases (takes_over typ sub port n d) @
    [\<lparr>le_session = sid, le_user = sr_user_id (the_session sid d), le_name = name, le_type = typ,
      le_subdomain = sub, le_port = port\<rparr>]"
    by (simp add: admitted_def Let_def leases_def lease_of_def admit_row_def)
  also have "leases (takes_over typ sub port n d) = filter (\<lambda>m. \<not> on_resource typ sub port m) (leases d)"
    unfolding takes_over_def by (rule leases_end_proxy_rows) (rule resource_lease)
  finally show ?thesis by (simp add: grant_def)
qed

lemma holders_leases:
  "list_all (yields uid sid) (holders (resource typ sub port) d) \<longleftrightarrow>
     (\<forall>l \<in> set (leases d). on_resource typ sub port l \<longrightarrow> le_user l = uid \<and> le_session l \<noteq> sid)"
  by (auto simp: list_all_iff holders_def leases_def yields_def resource_lease lease_of_def)

lemma wf_end_proxy_rows [wf_intros]: "wf_db d \<Longrightarrow> wf_db (end_proxy_rows P n d)"
  by (simp add: end_proxy_rows_def wf_end_proxies)

lemma admissible_insert:
  assumes "wf_db d" "admissible sid typ sub port n d"
  shows "insert_proxy (admit_row sid (sr_user_id (the_session sid d)) run_id name typ sub port n)
           (takes_over typ sub port n d) = Ok (admitted sid run_id name typ sub port n d)"
proof -
  from assms(2) obtain s where s: "row sr_id sid (sessions d) = Some s"
    by (auto simp: admissible_def split: option.splits)
  then show ?thesis
    using assms insert_admit_row [OF assms(1) s refl]
    by (simp add: takes_over_def admissible_def admitted_def the_session_def Let_def
        taken_row [where run_id = run_id and name = name])
qed

lemma wf_admitted:
  assumes "wf_db d" "admissible sid typ sub port n d"
  shows "wf_db (admitted sid run_id name typ sub port n d)"
  using wf_insert_proxy [OF _ admissible_insert [OF assms]] wf_end_proxy_rows [OF assms(1)]
  by (simp add: takes_over_def)

lemma wf_admit_proxy [wf_intros]:
  "wf_db d \<Longrightarrow> wf_db (snd (admit_proxy sid run_id name typ sub port n fs d))"
  by (cases "admit_result sid run_id name typ sub port n fs d")
    (auto simp: admit_proxy_def admit_result_iff wf_admitted split: prod.split)

section \<open>A sample database\<close>

text \<open>
  Two users with a token and a session each, alice also with a second session and an open
  tunnel on the first; bob has reserved \<open>app\<close>.
\<close>

definition sample_user :: "int \<Rightarrow> string \<Rightarrow> int \<Rightarrow> user_row" where
  "sample_user i name quota = \<lparr>ur_id = i, ur_name = name, ur_created_at = 100, ur_disabled = 0,
     ur_max_tunnels = quota, ur_web_password_hash = [], ur_password_change_required = 0,
     ur_web_auth_version = 0\<rparr>"

definition sample_token_row :: "int \<Rightarrow> string \<Rightarrow> token_row" where
  "sample_token_row i hash = \<lparr>tr_id = i, tr_user_id = i, tr_label = ''default'', tr_hash = hash,
     tr_prefix = ''AbCd_123'', tr_created_at = 100, tr_last_used_at = None, tr_revoked_at = None,
     tr_kicked_until = 0\<rparr>"

definition sample_session :: "int \<Rightarrow> int \<Rightarrow> session_row" where
  "sample_session i user = \<lparr>sr_id = i, sr_user_id = user, sr_token_id = user, sr_run_id = [],
     sr_hostname = [], sr_os = [], sr_arch = [], sr_client_addr = [], sr_started_at = 200,
     sr_last_seen_at = 200, sr_ended_at = None, sr_killed = 0\<rparr>"

definition sample_db :: db where
  "sample_db = empty_db
     \<lparr>users := [sample_user 1 ''alice'' 1, sample_user 2 ''bob'' 5],
      tokens := [sample_token_row 1 (hash_token ''alice-token''), sample_token_row 2 ''bob''],
      reservations := [\<lparr>rr_subdomain = ''app'', rr_user_id = 2, rr_created_at = 100\<rparr>],
      sessions := [sample_session 1 1, sample_session 2 1, sample_session 3 2],
      proxies := [(admit_row 1 1 [] ''web'' ''http'' ''web'' 0 300)\<lparr>pr_id := 1\<rparr>]\<rparr>"

lemma hash_token_length: "length (hash_token s) = 64"
  by (simp add: hash_token_def hex_encode_length sha256_length)

lemma sample_parts [simp]:
  "users sample_db = [sample_user 1 ''alice'' 1, sample_user 2 ''bob'' 5]"
  "tokens sample_db = [sample_token_row 1 (hash_token ''alice-token''), sample_token_row 2 ''bob'']"
  "reservations sample_db = [\<lparr>rr_subdomain = ''app'', rr_user_id = 2, rr_created_at = 100\<rparr>]"
  "sessions sample_db = [sample_session 1 1, sample_session 2 1, sample_session 3 2]"
  "proxies sample_db = [(admit_row 1 1 [] ''web'' ''http'' ''web'' 0 300)\<lparr>pr_id := 1\<rparr>]"
  "settings sample_db = (\<lambda>_. None)" "audit sample_db = []"
  "subdomain_index sample_db" "port_index sample_db"
  by (simp_all add: sample_db_def empty_db_def)

lemmas sample_rows = sample_user_def sample_token_row_def sample_session_def admit_row_def

lemma wf_sample: "wf_db sample_db"
proof -
  have "hash_token ''alice-token'' \<noteq> ''bob''" using hash_token_length [of "''alice-token''"] by auto
  then show ?thesis
    by (simp add: wf_parts user_exists_def unique_active_def sample_rows)
qed

lemmas admission_simps = admissible_def name_allowed_def can_open_def holders_def takes_over_def
  end_proxy_rows_def update_proxies_def resource_def active_count_def the_user_def the_token_def
  the_session_def yields_def subdomain_taken_def port_taken_def port_range_of_def tcp_range_def
  statements_ok_def admitted_def sql_max_def

text \<open>Alice's second session takes the tunnel of the first over, at her quota.\<close>

lemma sample_takeover: "admissible 2 ''http'' ''web'' 0 400 sample_db"
  by (simp add: admission_simps sample_rows Let_def)

lemma sample_admission:
  "admit_proxy 2 [] ''web'' ''http'' ''web'' 0 400 (\<lambda>_. False) sample_db =
     (Ok \<lparr>takeover_session_id = 1\<rparr>, admitted 2 [] ''web'' ''http'' ''web'' 0 400 sample_db)"
  by (simp add: admit_proxy_ok admit_result_iff [OF wf_sample] sample_takeover statements_ok_def
      holders_def resource_def sample_rows sql_max_def)

section \<open>The admission contracts\<close>

text \<open>
  C1: \<open>AdmitProxy\<close> is a transaction with one decision: it succeeds exactly when every
  statement runs and the request is admissible (the session is live and not killed, its token
  not revoked, its account enabled; the name is allowed; the present holders yield; the quota
  leaves room; the indexes admit the row). Then the database is the old one with the holders
  ended and the new row added, and the session taken over is reported. In every other case
  nothing changes.
\<close>

theorem admit_proxy_decides:
  assumes "wf_db d"
  shows "if statements_ok fs (holders (resource typ sub port) d) \<and> admissible sid typ sub port n d
     then admit_proxy sid run_id name typ sub port n fs d =
            (Ok \<lparr>takeover_session_id = sql_max (map pr_session_id (holders (resource typ sub port) d))\<rparr>,
             admitted sid run_id name typ sub port n d)
     else (\<exists>e. admit_proxy sid run_id name typ sub port n fs d = (Err e, d))"
proof (cases "admit_result sid run_id name typ sub port n fs d")
  case (Inl e)
  then have "\<not> (statements_ok fs (holders (resource typ sub port) d) \<and> admissible sid typ sub port n d)"
    using admit_result_iff [OF assms, of sid run_id name "typ" sub port n fs] by auto
  then show ?thesis using Inl by (auto simp: admit_proxy_def)
next
  case (Inr res)
  obtain adm d' where "res = (adm, d')" by (cases res)
  with Inr have ok: "admit_result sid run_id name typ sub port n fs d = Ok (adm, d')" by simp
  then have "admit_proxy sid run_id name typ sub port n fs d = (Ok adm, d')" by (simp add: admit_proxy_ok)
  with ok [unfolded admit_result_iff [OF assms]] show ?thesis by simp
qed

theorem admit_proxy_decides_witness:
  "admit_proxy 2 [] ''web'' ''http'' ''web'' 0 400 (\<lambda>_. False) sample_db =
     (Ok \<lparr>takeover_session_id = 1\<rparr>, admitted 2 [] ''web'' ''http'' ''web'' 0 400 sample_db)"
  using admit_proxy_decides [OF wf_sample, of "\<lambda>_. False" "''http''" "''web''" 0 2 400 "[]" "''web''"]
    sample_takeover
  by (simp add: statements_ok_def holders_def resource_def sample_rows sql_max_def)

lemma admit_proxy_okD:
  assumes "wf_db d" "admit_proxy sid run_id name typ sub port n fs d = (Ok adm, d')"
  shows "admissible sid typ sub port n d" "d' = admitted sid run_id name typ sub port n d"
  using assms(2) by (simp_all add: admit_proxy_ok admit_result_iff [OF assms(1)])

lemma admissibleD:
  assumes "admissible sid typ sub port n d"
  shows "row sr_id sid (sessions d) = Some (the_session sid d)" "can_open (the_session sid d) d"
    "name_allowed typ sub port (sr_user_id (the_session sid d)) d"
    "list_all (yields (sr_user_id (the_session sid d)) sid) (holders (resource typ sub port) d)"
    "active_count (sr_user_id (the_session sid d)) (takes_over typ sub port n d)
       < ur_max_tunnels (the_user (sr_user_id (the_session sid d)) d)"
  using assms by (auto simp: admissible_def the_session_def Let_def split: option.splits)

lemma active_count_admitted:
  "active_count uid (admitted sid run_id name typ sub port n d) =
     active_count uid (takes_over typ sub port n d) + (if sr_user_id (the_session sid d) = uid then 1 else 0)"
  by (simp add: active_count_def admitted_def Let_def admit_row_def)

text \<open>
  C2: The table of active tunnels refines the list of leases: an admission that succeeds is
  exactly the abstract grant (the leases on the resource give way to the new one, all others
  stay in place), one that fails changes no lease.
\<close>

theorem admit_refines_grant:
  assumes "wf_db d" "admit_proxy sid run_id name typ sub port n fs d = (r, d')"
  shows "leases d' =
    (if is_ok r
     then grant \<lparr>le_session = sid, le_user = sr_user_id (the_session sid d), le_name = name, le_type = typ,
                 le_subdomain = sub, le_port = port\<rparr> (leases d)
     else leases d)"
proof (cases r)
  case (Inl e)
  with assms(2) show ?thesis by (auto dest: admit_proxy_error)
next
  case (Inr adm)
  with assms have "d' = admitted sid run_id name typ sub port n d" by (auto dest: admit_proxy_okD)
  with Inr show ?thesis by (simp add: leases_admitted)
qed

theorem admit_refines_grant_witness:
  "leases (admitted 2 [] ''web'' ''http'' ''web'' 0 400 sample_db) =
     grant \<lparr>le_session = 2, le_user = 1, le_name = ''web'', le_type = ''http'', le_subdomain = ''web'',
            le_port = 0\<rparr> (leases sample_db)"
  using admit_refines_grant [OF wf_sample sample_admission] by (simp add: the_session_def sample_rows)

text \<open>
  C3: What a successful admission guarantees: the session could open tunnels and the name
  was allowed to its user; the new tunnel is the only active one on its resource; the user
  stays within the quota; no tunnel of another user is touched; and the database stays well
  formed.
\<close>

theorem admit_proxy_safe:
  assumes "wf_db d" "admit_proxy sid run_id name typ sub port n fs d = (Ok adm, d')"
    and "uid = sr_user_id (the_session sid d)"
  shows "wf_db d' \<and> can_open (the_session sid d) d \<and> name_allowed typ sub port uid d
    \<and> filter (on_resource typ sub port) (leases d') =
        [\<lparr>le_session = sid, le_user = uid, le_name = name, le_type = typ, le_subdomain = sub, le_port = port\<rparr>]
    \<and> active_count uid d' \<le> ur_max_tunnels (the_user uid d')
    \<and> (\<forall>l \<in> set (leases d). le_user l \<noteq> uid \<longrightarrow> l \<in> set (leases d'))"
proof -
  note ok = admit_proxy_okD [OF assms(1,2)]
  note adm = admissibleD [OF ok(1)]
  have ls: "leases d' = grant \<lparr>le_session = sid, le_user = uid, le_name = name, le_type = typ,
                 le_subdomain = sub, le_port = port\<rparr> (leases d)"
    by (simp add: ok(2) leases_admitted assms(3))
  have "wf_db d'" unfolding ok(2) by (rule wf_admitted [OF assms(1) ok(1)])
  moreover have "filter (on_resource typ sub port) (leases d') =
      [\<lparr>le_session = sid, le_user = uid, le_name = name, le_type = typ, le_subdomain = sub, le_port = port\<rparr>]"
    by (simp add: ls grant_def on_resource_def)
  moreover have "the_user uid d' = the_user uid d"
    by (simp add: ok(2) admitted_def Let_def takes_over_def the_user_def)
  then have "active_count uid d' \<le> ur_max_tunnels (the_user uid d')"
    using adm(5) by (simp add: ok(2) active_count_admitted assms(3))
  moreover have "\<forall>l \<in> set (leases d). le_user l \<noteq> uid \<longrightarrow> l \<in> set (leases d')"
    using adm(4) by (auto simp: ls grant_def holders_leases assms(3))
  ultimately show ?thesis using adm(2,3) assms(3) by simp
qed

theorem admit_proxy_safe_witness:
  "active_count 1 (admitted 2 [] ''web'' ''http'' ''web'' 0 400 sample_db) \<le> 1"
  using admit_proxy_safe [OF wf_sample sample_admission refl]
  by (simp add: the_session_def the_user_def admitted_def Let_def takes_over_def sample_rows)

section \<open>Reasons of a denial\<close>

text \<open>Some active tunnel has the resource and does not yield it to the session.\<close>

definition resource_held :: "(proxy_row \<Rightarrow> bool) \<Rightarrow> int \<Rightarrow> int \<Rightarrow> db \<Rightarrow> bool" where
  "resource_held P user_id session_id d \<longleftrightarrow> \<not> list_all (yields user_id session_id) (holders P d)"

text \<open>
  A request may carry a resource its type does not name: an \<open>http\<close> tunnel a port, a \<open>tcp\<close> tunnel a
  subdomain. An active tunnel, other than those on the resource it does name, has it.
\<close>

definition stray_clash :: "string \<Rightarrow> string \<Rightarrow> int \<Rightarrow> db \<Rightarrow> bool" where
  "stray_clash typ sub port d \<longleftrightarrow>
     list_ex (\<lambda>q. active q \<and>
       (if typ = ''http'' then port \<noteq> 0 \<and> pr_remote_port q = port \<and> pr_subdomain q \<noteq> sub
        else sub \<noteq> [] \<and> pr_subdomain q = sub \<and> pr_remote_port q \<noteq> port)) (proxies d)"

lemma active_after_takeover:
  "q \<in> set (proxies (end_proxy_rows P n d)) \<and> active q \<longleftrightarrow> q \<in> set (proxies d) \<and> active q \<and> \<not> P q"
  by (auto simp: end_proxy_rows_def update_proxies_def upd_def)

lemma taken_after_takeover:
  assumes "subdomain_taken (admit_row sid uid rid nm typ sub port n) (proxies (takes_over typ sub port n d)) \<or>
      port_taken (admit_row sid uid rid nm typ sub port n) (proxies (takes_over typ sub port n d))"
  shows "stray_clash typ sub port d"
proof -
  have "\<exists>q. (q \<in> set (proxies (takes_over typ sub port n d)) \<and> active q) \<and>
      (sub \<noteq> [] \<and> pr_subdomain q = sub \<or> port \<noteq> 0 \<and> pr_remote_port q = port)"
    using assms by (auto simp: subdomain_taken_def port_taken_def list_ex_iff admit_row_def)
  then show ?thesis
    unfolding takes_over_def active_after_takeover
    by (auto simp: stray_clash_def resource_def list_ex_iff split: if_splits)
qed

definition denial_holds :: "denial \<Rightarrow> int \<Rightarrow> string \<Rightarrow> string \<Rightarrow> int \<Rightarrow> int \<Rightarrow> db \<Rightarrow> bool" where
  "denial_holds why sid typ sub port n d \<longleftrightarrow>
     (let s = the_session sid d; uid = sr_user_id s
      in case why of
        Session_Not_Recognised \<Rightarrow> row sr_id sid (sessions d) = None
      | Session_Terminated \<Rightarrow> sr_killed s \<noteq> 0 \<or> \<not> live s
      | Token_Revoked \<Rightarrow> tr_revoked_at (the_token (sr_token_id s) d) \<noteq> None
      | Account_Disabled \<Rightarrow> ur_disabled (the_user uid d) \<noteq> 0
      | Portal_Subdomain \<Rightarrow> typ = ''http'' \<and> sub = ''ktunnel''
      | Subdomain_Belongs_To x owner \<Rightarrow> typ = ''http'' \<and> x = sub \<and>
          (\<exists>r \<in> set (reservations d). rr_subdomain r = sub \<and> rr_user_id r \<noteq> uid \<and>
             owner = ur_name (the_user (rr_user_id r) d))
      | Subdomain_In_Use x \<Rightarrow> typ = ''http'' \<and> x = sub \<and> resource_held (\<lambda>q. pr_subdomain q = sub) uid sid d
      | Port_Out_Of_Range lo hi \<Rightarrow> typ = ''tcp'' \<and> (lo, hi) = port_range_of d \<and> (port < lo \<or> hi < port)
      | Port_In_Use x \<Rightarrow> typ = ''tcp'' \<and> x = port \<and> resource_held (\<lambda>q. pr_remote_port q = port) uid sid d
      | Type_Not_Allowed x \<Rightarrow> x = typ \<and> typ \<noteq> ''http'' \<and> typ \<noteq> ''tcp''
      | Tunnel_Limit_Reached m \<Rightarrow> m = ur_max_tunnels (the_user uid d) \<and> m \<le> active_count uid (takes_over typ sub port n d))"

lemma choice_denied:
  assumes "wf_db d" "row sr_id sid (sessions d) = Some s"
    and "(if typ = ''http'' then admit_http sub (sr_user_id s) sid n fs d
      else if typ = ''tcp'' then admit_tcp port (sr_user_id s) sid n fs d
      else Err (Proxy_Denied (Type_Not_Allowed typ))) = Err (Proxy_Denied why)"
  shows "denial_holds why sid typ sub port n d"
proof -
  have s: "the_session sid d = s" by (simp add: the_session_def assms(2))
  consider "typ = ''http''" | "typ = ''tcp''" | "typ \<noteq> ''http''" "typ \<noteq> ''tcp''" by blast
  then show ?thesis
  proof cases
    case 1
    have r: "resource ''http'' sub port = (\<lambda>q. pr_subdomain q = sub)"
      by (simp add: resource_def fun_eq_iff)
    from 1 assms(3) show ?thesis
      by (auto simp: admit_http_def denial_holds_def resource_held_def reservation_join_wf [OF assms(1)] r s
          wf_filter [OF assms(1)] Let_def split: if_splits option.splits dest!: take_resource_error)
        (use row_SomeD in fastforce)
  next
    case 2
    have r: "resource ''tcp'' sub port = (\<lambda>q. pr_remote_port q = port)"
      by (simp add: resource_def fun_eq_iff)
    from 2 assms(3) show ?thesis
      by (auto simp: admit_tcp_def denial_holds_def resource_held_def r s Let_def port_range_of_def
          split: if_splits prod.splits dest!: take_resource_error)
  next
    case 3
    with assms(3) show ?thesis by (auto simp: denial_holds_def Let_def)
  qed
qed

text \<open>
  C21: Every denial a client is shown is true of the database the request met: the session is
  unknown, terminated, revoked or disabled as said, the reservation names its real owner, the
  range is the configured one, the quota shown is the user's and is used up, the subdomain or port
  has an active tunnel that does not yield. There is one exception: \<open>already in use\<close> may be said of
  a resource that is free, when the request carries another one that its message does not name (a port
  of an \<open>http\<close> tunnel, a subdomain of a \<open>tcp\<close> tunnel) and an active tunnel has that one.
\<close>

theorem admit_proxy_denial_true:
  assumes "wf_db d" "admit_proxy sid run_id name typ sub port n fs d = (Err (Proxy_Denied why), d')"
  shows "denial_holds why sid typ sub port n d \<or> why = in_use typ sub port \<and> stray_clash typ sub port d"
proof (cases "row sr_id sid (sessions d)")
  case None
  with assms show ?thesis
    by (auto simp: admit_proxy_def admit_result_def session_join_wf wf_filter denial_holds_def Let_def
        split: if_splits)
next
  case (Some s)
  let ?u = "the_user (sr_user_id s) d" and ?t = "the_token (sr_token_id s) d"
  let ?pick = "if typ = ''http'' then admit_http sub (sr_user_id s) sid n fs d
      else if typ = ''tcp'' then admit_tcp port (sr_user_id s) sid n fs d
      else Err (Proxy_Denied (Type_Not_Allowed typ))"
  have s: "the_session sid d = s" by (simp add: the_session_def Some)
  have join: "session_join (\<lambda>s. sr_id s = sid) d = [(s, ?u, ?t)]"
    using assms(1) Some by (simp add: session_join_wf wf_filter)
  have "admit_result sid run_id name typ sub port n fs d = Err (Proxy_Denied why)"
    using assms(2) by (auto simp: admit_proxy_def split: sum.splits prod.splits)
  then consider (session) "session_denial (s, ?u, ?t) = Some why"
    | (pick) "?pick = Err (Proxy_Denied why)"
    | (limit) adm d1 where "?pick = Ok (adm, d1)" "why = Tunnel_Limit_Reached (ur_max_tunnels ?u)"
        "ur_max_tunnels ?u \<le> active_count (sr_user_id s) d1"
    | (taken) adm d1 where "?pick = Ok (adm, d1)" "why = in_use typ sub port"
        "insert_proxy (admit_row sid (sr_user_id s) run_id name typ sub port n) d1 = Err Unique_Violation"
    by (auto simp: admit_result_def join Let_def attempt_def
        split: if_splits option.splits sum.splits sql_error.splits prod.splits)
  then show ?thesis
  proof cases
    case session
    then show ?thesis
      by (auto simp: session_denial_def denial_holds_def Let_def s split: if_splits)
  next
    case pick
    then show ?thesis by (intro disjI1) (rule choice_denied [OF assms(1) Some])
  next
    case limit
    then have "d1 = takes_over typ sub port n d" by (simp only: resource_choice [OF assms(1)])
    with limit show ?thesis by (simp add: denial_holds_def Let_def s)
  next
    case taken
    then have d1: "d1 = end_proxy_rows (resource typ sub port) n d"
      by (simp only: resource_choice [OF assms(1)] takes_over_def)
    with taken(3) have "stray_clash typ sub port d"
      by (intro taken_after_takeover [where sid = sid and uid = "sr_user_id s" and rid = run_id and nm = name and n = n])
        (auto simp: insert_admit_row [OF assms(1) Some refl] takes_over_def Let_def split: if_splits)
    with taken(2) show ?thesis by blast
  qed
qed

theorem admit_proxy_denial_true_witness:
  "denial_holds (Subdomain_Belongs_To ''app'' ''bob'') 2 ''http'' ''app'' 0 400 sample_db"
proof -
  have "admit_proxy 2 [] ''x'' ''http'' ''app'' 0 400 (\<lambda>_. False) sample_db =
      (Err (Proxy_Denied (Subdomain_Belongs_To ''app'' ''bob'')), sample_db)"
    by (simp add: admit_proxy_def admit_result_def session_join_def session_denial_def admit_http_def
        reservation_join_def sample_rows)
  from admit_proxy_denial_true [OF wf_sample this] show ?thesis by (simp add: in_use_def)
qed

section \<open>A resource the type does not name\<close>

text \<open>
  C22: The reservation of a subdomain is checked for \<open>http\<close> tunnels only, while the row of a
  \<open>tcp\<close> tunnel keeps whatever subdomain the client sent. So a \<open>tcp\<close> tunnel that is admitted
  with a subdomain occupies it: as long as it is active no session of another user is
  admitted on that subdomain, not even the owner of its reservation.
\<close>

theorem tcp_tunnel_occupies_subdomain:
  assumes "wf_db d" "admit_proxy sid run_id name ''tcp'' sub port n fs d = (Ok adm, d')"
    and "sr_user_id (the_session sid2 d') \<noteq> sr_user_id (the_session sid d)"
  shows "\<not> is_ok (fst (admit_proxy sid2 run_id2 name2 ''http'' sub port2 n2 fs2 d'))"
proof
  assume "is_ok (fst (admit_proxy sid2 run_id2 name2 ''http'' sub port2 n2 fs2 d'))"
  then obtain adm2 d2 where "admit_proxy sid2 run_id2 name2 ''http'' sub port2 n2 fs2 d' = (Ok adm2, d2)"
    by (cases "admit_proxy sid2 run_id2 name2 ''http'' sub port2 n2 fs2 d'") (auto simp: is_ok_iff)
  note ok = admit_proxy_okD [OF assms(1,2)]
  have "wf_db d'" unfolding ok(2) by (rule wf_admitted [OF assms(1) ok(1)])
  from admit_proxy_okD(1) [OF this \<open>admit_proxy sid2 _ _ _ _ _ _ _ _ = _\<close>]
  have "\<forall>l \<in> set (leases d'). on_resource ''http'' sub port2 l \<longrightarrow>
      le_user l = sr_user_id (the_session sid2 d')"
    using admissibleD(4) holders_leases by blast
  moreover have "\<lparr>le_session = sid, le_user = sr_user_id (the_session sid d), le_name = name,
      le_type = ''tcp'', le_subdomain = sub, le_port = port\<rparr> \<in> set (leases d')"
    by (simp add: ok(2) leases_admitted grant_def)
  ultimately show False using assms(3) by (auto simp: on_resource_def)
qed

text \<open>Bob has reserved \<open>app\<close>; bob's own tunnel on it is refused while a tcp tunnel of alice carries it.\<close>

definition squatted_db :: db where
  "squatted_db = admitted 2 [] ''db'' ''tcp'' ''app'' 20022 400
     (end_proxy_rows (\<lambda>p. pr_session_id p = 1) 350 sample_db)"

theorem tcp_tunnel_occupies_subdomain_witness:
  "name_allowed ''http'' ''app'' 0 2 squatted_db \<and>
   \<not> is_ok (fst (admit_proxy 3 [] ''mine'' ''http'' ''app'' 0 500 (\<lambda>_. False) squatted_db))"
proof
  show "name_allowed ''http'' ''app'' 0 2 squatted_db"
    by (simp add: squatted_db_def name_allowed_def admitted_def Let_def takes_over_def)
  let ?d = "end_proxy_rows (\<lambda>p. pr_session_id p = 1) 350 sample_db"
  have wf_db: "wf_db ?d" by (intro wf_intros wf_sample)
  have "admissible 2 ''tcp'' ''app'' 20022 400 ?d"
    by (simp add: admission_simps sample_rows Let_def)
  then have "admit_proxy 2 [] ''db'' ''tcp'' ''app'' 20022 400 (\<lambda>_. False) ?d =
      (Ok \<lparr>takeover_session_id = sql_max (map pr_session_id (holders (resource ''tcp'' ''app'' 20022) ?d))\<rparr>,
       squatted_db)"
    by (simp add: admit_proxy_ok admit_result_iff [OF wf_db] statements_ok_def squatted_db_def)
  from tcp_tunnel_occupies_subdomain [OF wf_db this, of 3]
  show "\<not> is_ok (fst (admit_proxy 3 [] ''mine'' ''http'' ''app'' 0 500 (\<lambda>_. False) squatted_db))"
    by (simp add: the_session_def squatted_db_def admitted_def Let_def takes_over_def sample_rows)
qed

end
