(* ===== verification/Kt_Run.thy ===== *)
theory Kt_Run
  imports Kt_Admit
begin

text \<open>
  The store as a machine. A step is one statement or one transaction, so a run is any
  interleaving of the operations of several processes. Every operation of the store that
  the program uses is a run; every run keeps the database well formed and coherent, and
  nothing that was recorded is taken back: numbers and owners stay, a revoked token stays
  revoked, a killed or ended session stays so, passwords only get newer versions.
\<close>

section \<open>Steps\<close>

definition disable_user :: "bool \<Rightarrow> user_row \<Rightarrow> user_row" where
  "disable_user b r = r\<lparr>ur_disabled := bool_int b, ur_web_auth_version := ur_web_auth_version r + 1\<rparr>"

definition touch :: "int \<Rightarrow> string \<Rightarrow> session_row \<Rightarrow> session_row" where
  "touch n run_id s = s\<lparr>sr_last_seen_at := n, sr_run_id := (if sr_run_id s = [] then run_id else sr_run_id s)\<rparr>"

inductive store_step :: "db \<Rightarrow> db \<Rightarrow> bool" where
  st_open: "store_step d (open_db d)"
| st_setting: "store_step d (put_setting k v d)"
| st_new_user: "insert_user r d = Ok (i, d') \<Longrightarrow> ur_disabled r = 0 \<Longrightarrow> ur_password_change_required r = 0 \<Longrightarrow>
    store_step d d'"
| st_disable: "store_step d (update_users P (disable_user b) d)"
| st_password: "store_step d (update_users P (new_password hash b) d)"
| st_quota: "store_step d (update_users P (\<lambda>r. r\<lparr>ur_max_tunnels := n\<rparr>) d)"
| st_new_token: "insert_token r d = Ok (i, d') \<Longrightarrow> store_step d d'"
| st_use: "store_step d (update_tokens P (\<lambda>t. t\<lparr>tr_last_used_at := Some n\<rparr>) d)"
| st_revoke: "store_step d (revoke_rows P n d)"
| st_kill: "store_step d (kill_rows Q d)"
| st_kick: "store_step d (kick_rows i until d)"
| st_reserve: "insert_reservation q d = Ok d' \<Longrightarrow> store_step d d'"
| st_release: "store_step d (d\<lparr>reservations := filter R (reservations d)\<rparr>)"
| st_new_session: "insert_session s d = Ok (i, d') \<Longrightarrow> sr_killed s = 0 \<Longrightarrow>
    row tr_id (sr_token_id s) (tokens d) = Some t \<Longrightarrow> tr_user_id t = sr_user_id s \<Longrightarrow> store_step d d'"
| st_touch: "store_step d (update_sessions Q (touch n run_id) d)"
| st_end_session: "store_step d (end_session_rows Q n d)"
| st_end_proxy: "store_step d (end_proxy_rows S n d)"
| st_admit: "store_step d (snd (admit_proxy sid run_id name typ sub port n fs d))"
| st_audit: "store_step d (insert_audit a d)"

inductive_cases store_stepE: "store_step d d'"

section \<open>Well-formedness and ownership\<close>

text \<open>A session has a token of its own user, a tunnel a session of its own user.\<close>

definition coherent :: "db \<Rightarrow> bool" where
  "coherent d \<longleftrightarrow>
     set (map (\<lambda>s. (sr_token_id s, sr_user_id s)) (sessions d)) \<subseteq> set (map (\<lambda>t. (tr_id t, tr_user_id t)) (tokens d)) \<and>
     set (map (\<lambda>p. (pr_session_id p, pr_user_id p)) (proxies d)) \<subseteq> set (map (\<lambda>s. (sr_id s, sr_user_id s)) (sessions d))"

definition store_inv :: "db \<Rightarrow> bool" where
  "store_inv d \<longleftrightarrow> wf_db d \<and> coherent d"

lemma wf_open [wf_intros]: "wf_db d \<Longrightarrow> wf_db (open_db d)"
  by (auto simp: wf_parts open_db_def user_exists_iff)

lemma wf_users_steps [wf_intros]:
  "wf_db d \<Longrightarrow> wf_db (update_users P (disable_user b) d)"
  "wf_db d \<Longrightarrow> wf_db (update_users P (new_password hash b) d)"
  "wf_db d \<Longrightarrow> wf_db (update_users P (\<lambda>r. r\<lparr>ur_max_tunnels := n\<rparr>) d)"
  by (auto intro!: wf_update_users simp: disable_user_def new_password_def bool_int_def split: if_splits)

lemma wf_tokens_steps [wf_intros]:
  "wf_db d \<Longrightarrow> wf_db (update_tokens P (\<lambda>t. t\<lparr>tr_last_used_at := Some n\<rparr>) d)"
  "wf_db d \<Longrightarrow> wf_db (revoke_rows P n d)"
  "wf_db d \<Longrightarrow> wf_db (kick_rows i until d)"
  by (auto intro!: wf_update_tokens simp: revoke_rows_def kick_rows_def split: list.split)

lemma wf_sessions_steps [wf_intros]:
  "wf_db d \<Longrightarrow> wf_db (kill_rows Q d)"
  "wf_db d \<Longrightarrow> wf_db (update_sessions Q (touch n run_id) d)"
  "wf_db d \<Longrightarrow> wf_db (end_session_rows Q n d)"
  by (auto intro!: wf_update_sessions simp: kill_rows_def touch_def end_session_rows_def)

lemma step_wf: "store_step d d' \<Longrightarrow> wf_db d \<Longrightarrow> wf_db d'"
  by (induction rule: store_step.induct)
    (auto intro: wf_intros wf_insert_user wf_insert_token wf_insert_reservation wf_insert_session)

lemma coherent_admitted:
  assumes "coherent d" "row sr_id sid (sessions d) = Some s"
  shows "coherent (admitted sid run_id name typ sub port n d)"
proof -
  from assms(2) have "s \<in> set (sessions d)" "sr_id s = sid" by (auto dest: row_SomeD)
  then have "(sid, sr_user_id (the_session sid d)) \<in> set (map (\<lambda>s. (sr_id s, sr_user_id s)) (sessions d))"
    by (auto simp: the_session_def assms(2))
  then show ?thesis using assms(1)
    by (simp add: coherent_def admitted_def Let_def admit_row_def takes_over_def end_proxy_rows_def
        update_proxies_def map_upd flip: set_map)
qed

lemma coherent_admit_proxy:
  assumes "wf_db d" "coherent d"
  shows "coherent (snd (admit_proxy sid run_id name typ sub port n fs d))"
proof (cases "admit_proxy sid run_id name typ sub port n fs d")
  case (Pair r d')
  show ?thesis
  proof (cases r)
    case Inl
    with Pair have "d' = d" by (auto dest: admit_proxy_error)
    with Pair assms(2) show ?thesis by simp
  next
    case (Inr adm)
    with Pair have "admit_proxy sid run_id name typ sub port n fs d = (Ok adm, d')" by simp
    note ok = admit_proxy_okD [OF assms(1) this]
    show ?thesis unfolding Pair snd_conv ok(2)
      by (rule coherent_admitted [OF assms(2) admissibleD(1) [OF ok(1)]])
  qed
qed

lemma coherent_updates:
  "coherent d \<Longrightarrow> coherent (update_users P f d)"
  "coherent d \<Longrightarrow> coherent (update_tokens T (\<lambda>t. t\<lparr>tr_last_used_at := x\<rparr>) d)"
  "coherent d \<Longrightarrow> coherent (revoke_rows T n d)"
  "coherent d \<Longrightarrow> coherent (kick_rows i until d)"
  "coherent d \<Longrightarrow> coherent (kill_rows Q d)"
  "coherent d \<Longrightarrow> coherent (update_sessions Q (touch n run_id) d)"
  "coherent d \<Longrightarrow> coherent (end_session_rows Q n d)"
  "coherent d \<Longrightarrow> coherent (end_proxy_rows S n d)"
  by (simp_all add: coherent_def update_users_def update_tokens_def revoke_rows_def kick_rows_def
      kill_rows_def update_sessions_def touch_def end_session_rows_def end_proxy_rows_def update_proxies_def
      map_upd split: list.split flip: set_map)

lemma coherent_more:
  assumes "coherent d" "set (tokens d) \<subseteq> set (tokens d')" "sessions d' = sessions d" "proxies d' = proxies d"
  shows "coherent d'"
  using assms(1) image_mono [OF assms(2), of "\<lambda>t. (tr_id t, tr_user_id t)"]
  by (simp add: coherent_def assms(3,4)) (erule conjE, erule order_trans)

lemma coherent_new_session:
  assumes "coherent d" "insert_session s d = Ok (i, d')"
    and "row tr_id (sr_token_id s) (tokens d) = Some t" "tr_user_id t = sr_user_id s"
  shows "coherent d'"
proof -
  have "(sr_token_id s, sr_user_id s) \<in> set (map (\<lambda>t. (tr_id t, tr_user_id t)) (tokens d))"
    using assms(3,4) by (auto dest!: row_SomeD intro!: image_eqI [of _ _ t])
  moreover from assms(2) have "d' = d\<lparr>sessions := session_table.insert_row s (sessions d)\<rparr>"
    by (auto simp: insert_session_def Let_def split: if_splits)
  ultimately show ?thesis using assms(1) by (simp add: coherent_def) blast
qed

lemma step_inv: "store_step d d' \<Longrightarrow> store_inv d \<Longrightarrow> store_inv d'"
proof -
  assume s: "store_step d d'" and i: "store_inv d"
  from s i have "coherent d'"
  proof (induction rule: store_step.induct)
    case (st_new_session s d i d' t)
    then show ?case by (auto simp: store_inv_def intro: coherent_new_session)
  qed (auto simp: store_inv_def open_db_def put_setting_def insert_user_def insert_token_def
      insert_reservation_def insert_audit_def Let_def split: if_splits
      intro: coherent_updates coherent_admit_proxy coherent_more)
  with s i show ?thesis by (auto simp: store_inv_def intro: step_wf)
qed

section \<open>What is never taken back\<close>

definition grows :: "('r \<Rightarrow> 'k) \<Rightarrow> ('r \<Rightarrow> 'r \<Rightarrow> bool) \<Rightarrow> 'r list \<Rightarrow> 'r list \<Rightarrow> bool" where
  "grows key le rs rs' \<longleftrightarrow> (\<forall>i r. row key i rs = Some r \<longrightarrow> (\<exists>r'. row key i rs' = Some r' \<and> le r r'))"

lemma grows_refl: "(\<And>r. le r r) \<Longrightarrow> grows key le rs rs"
  by (simp add: grows_def)

lemma grows_trans:
  "(\<And>a b c. le a b \<Longrightarrow> le b c \<Longrightarrow> le a c) \<Longrightarrow> grows key le xs ys \<Longrightarrow> grows key le ys zs \<Longrightarrow> grows key le xs zs"
  unfolding grows_def by blast

lemma grows_append: "(\<And>r. le r r) \<Longrightarrow> grows key le rs (rs @ qs)"
  by (simp add: grows_def row_append)

lemma grows_upd:
  "(\<And>r. le r r) \<Longrightarrow> (\<And>r. P r \<Longrightarrow> key (f r) = key r \<and> le r (f r)) \<Longrightarrow> grows key le rs (upd P f rs)"
  by (auto simp: grows_def row_upd)

definition user_le :: "user_row \<Rightarrow> user_row \<Rightarrow> bool" where
  "user_le u v \<longleftrightarrow> ur_name v = ur_name u \<and> ur_created_at v = ur_created_at u \<and>
     ur_web_auth_version u \<le> ur_web_auth_version v \<and>
     (ur_web_auth_version u = ur_web_auth_version v \<longrightarrow>
        ur_web_password_hash v = ur_web_password_hash u \<and> ur_disabled v = ur_disabled u \<and>
        ur_password_change_required v = ur_password_change_required u)"

definition token_le :: "token_row \<Rightarrow> token_row \<Rightarrow> bool" where
  "token_le t v \<longleftrightarrow> tr_user_id v = tr_user_id t \<and> tr_label v = tr_label t \<and> tr_hash v = tr_hash t \<and>
     tr_prefix v = tr_prefix t \<and> tr_created_at v = tr_created_at t \<and>
     (tr_revoked_at t \<noteq> None \<longrightarrow> tr_revoked_at v = tr_revoked_at t)"

definition session_le :: "session_row \<Rightarrow> session_row \<Rightarrow> bool" where
  "session_le s v \<longleftrightarrow> sr_user_id v = sr_user_id s \<and> sr_token_id v = sr_token_id s \<and>
     sr_started_at v = sr_started_at s \<and> (sr_run_id s \<noteq> [] \<longrightarrow> sr_run_id v = sr_run_id s) \<and>
     (sr_killed s = 1 \<longrightarrow> sr_killed v = 1) \<and> (sr_ended_at s \<noteq> None \<longrightarrow> sr_ended_at v = sr_ended_at s)"

definition proxy_le :: "proxy_row \<Rightarrow> proxy_row \<Rightarrow> bool" where
  "proxy_le p q \<longleftrightarrow> lease_of q = lease_of p \<and> pr_started_at q = pr_started_at p \<and>
     (pr_ended_at p \<noteq> None \<longrightarrow> pr_ended_at q = pr_ended_at p)"

definition later :: "db \<Rightarrow> db \<Rightarrow> bool" where
  "later d d' \<longleftrightarrow>
     grows ur_id user_le (users d) (users d') \<and> grows tr_id token_le (tokens d) (tokens d') \<and>
     grows sr_id session_le (sessions d) (sessions d') \<and> grows pr_id proxy_le (proxies d) (proxies d') \<and>
     prefix (audit d) (audit d') \<and>
     (subdomain_index d \<longrightarrow> subdomain_index d') \<and> (port_index d \<longrightarrow> port_index d')"

lemma le_refl [simp]: "user_le u u" "token_le t t" "session_le s s" "proxy_le p p"
  by (simp_all add: user_le_def token_le_def session_le_def proxy_le_def)

lemma le_trans:
  "user_le a b \<Longrightarrow> user_le b c \<Longrightarrow> user_le a c"
  "token_le t u \<Longrightarrow> token_le u v \<Longrightarrow> token_le t v"
  "session_le s x \<Longrightarrow> session_le x y \<Longrightarrow> session_le s y"
  "proxy_le p q \<Longrightarrow> proxy_le q r \<Longrightarrow> proxy_le p r"
  by (auto simp: user_le_def token_le_def session_le_def proxy_le_def)

lemma later_refl: "later d d"
  by (simp add: later_def grows_refl)

lemma later_trans: "later a b \<Longrightarrow> later b c \<Longrightarrow> later a c"
  unfolding later_def
  by (auto intro: grows_trans [of user_le] grows_trans [of token_le] grows_trans [of session_le]
      grows_trans [of proxy_le] le_trans prefix_order.trans)

lemmas later_simps = later_def grows_refl grows_append

lemma later_end_proxy_rows: "later d (end_proxy_rows S n d)"
  by (auto simp: later_simps intro!: grows_refl)
    (auto simp: end_proxy_rows_def update_proxies_def proxy_le_def lease_of_def intro!: grows_upd)

lemma later_admitted: "later d (admitted sid run_id name typ sub port n d)"
proof (rule later_trans)
  show "later d (takes_over typ sub port n d)"
    unfolding takes_over_def by (rule later_end_proxy_rows)
  show "later (takes_over typ sub port n d) (admitted sid run_id name typ sub port n d)"
    by (simp add: admitted_def Let_def later_simps)
qed

lemma later_admit_proxy: "wf_db d \<Longrightarrow> later d (snd (admit_proxy sid run_id name typ sub port n fs d))"
  by (cases "admit_result sid run_id name typ sub port n fs d")
    (auto simp: admit_proxy_def admit_result_iff later_admitted later_refl split: prod.split)

lemma step_later: "store_step d d' \<Longrightarrow> wf_db d \<Longrightarrow> later d d'"
proof (induction rule: store_step.induct)
  case (st_end_proxy d S n)
  show ?case by (rule later_end_proxy_rows)
next
  case (st_admit d)
  then show ?case by (simp add: later_admit_proxy)
qed (auto simp: later_simps open_db_def put_setting_def insert_user_def insert_token_def insert_session_def
      insert_reservation_def insert_audit_def update_users_def update_tokens_def update_sessions_def
      revoke_rows_def kill_rows_def kick_rows_def end_session_rows_def disable_user_def new_password_def
      touch_def user_le_def token_le_def session_le_def Let_def
    split: if_splits list.split intro!: grows_upd)

interpretation store: monotone_machine store_step store_inv later
proof unfold_locales
  show "store_step d d' \<Longrightarrow> later d d'" if "store_inv d" for d d'
    using that by (simp add: store_inv_def step_later)
qed (blast intro: step_inv later_refl later_trans)+

section \<open>Operations as runs\<close>

named_theorems op_runs \<open>an operation is a run of the store\<close>

lemma run1: "store_step d d' \<Longrightarrow> runs store_step d d'"
  by (rule runs_one)

lemma run2: "store_step d d1 \<Longrightarrow> store_step d1 d2 \<Longrightarrow> runs store_step d d2"
  by (blast intro: runs.intros)

lemma run_create_user [op_runs]: "runs store_step d (snd (create_user name q n fs d))"
proof (cases "attempt (fs 0) (insert_user
    \<lparr>ur_id = 0, ur_name = trim_space name, ur_created_at = n, ur_disabled = 0,
     ur_max_tunnels = (if q \<le> 0 then 5 else q), ur_web_password_hash = [],
     ur_password_change_required = 0, ur_web_auth_version = 0\<rparr> d)")
  case (Inl e)
  then show ?thesis by (cases e) (simp_all add: create_user_def Let_def runs_refl)
next
  case (Inr a)
  obtain i d' where a: "a = (i, d')" by (cases a)
  with Inr have "store_step d d'" by (auto simp: attempt_def intro: st_new_user split: if_splits)
  with Inr a show ?thesis by (simp add: create_user_def Let_def runs_refl runs_one)
qed

lemma run_user_updates [op_runs]:
  "runs store_step d (snd (set_user_disabled i b fail d))"
  "runs store_step d (snd (set_user_web_password i hash b fail d))"
  "runs store_step d (snd (set_user_web_password_if_version i v hash b fail d))"
  "runs store_step d (snd (set_user_max_tunnels i m fail d))"
  by (auto simp: set_user_disabled_def set_user_web_password_def set_user_web_password_if_version_def
      set_user_max_tunnels_def Let_def
      intro!: runs_refl runs_one st_password st_quota st_disable [unfolded disable_user_def])

lemma run_settings [op_runs]:
  "runs store_step d (snd (set_setting k v fail d))"
  "runs store_step d (snd (set_settings kvs fs d))"
  "runs store_step d (snd (set_admin_web_password hash fs d))"
  "runs store_step d (snd (set_admin_web_password_if_version hash m fs d))"
proof -
  show one: "runs store_step d (snd (set_setting k v fail d))" for k v fail d
    by (simp add: set_setting_def runs_refl runs_one st_setting)
  show "runs store_step d (snd (set_settings kvs fs d))"
  proof (induction kvs fs d rule: set_settings.induct)
    case (2 k v kvs fs d)
    then show ?case using one [of d k v "fs 0"]
      by (auto split: sum.split prod.split intro: runs_trans)
  qed (simp add: runs_refl)
  show "runs store_step d (snd (set_admin_web_password hash fs d))"
    by (auto simp: set_admin_web_password_def Let_def bump_admin_version_def
        intro!: runs_refl run2 [OF st_setting st_setting])
  show "runs store_step d (snd (set_admin_web_password_if_version hash m fs d))"
    by (auto simp: set_admin_web_password_if_version_def Let_def
        intro!: runs_refl run2 [OF st_setting st_setting])
qed

lemma run_issue_token [op_runs]: "runs store_step d (snd (issue_token uid label rnd n fs d))"
  by (auto simp: issue_token_def Let_def attempt_def intro!: runs_refl runs_one intro: st_new_token
      split: sum.split prod.split)

lemma run_authenticate [op_runs]: "runs store_step d (snd (authenticate p n1 n2 fs d))"
  by (auto simp: authenticate_def note_use_def intro!: runs_refl runs_one st_use split: sum.split prod.split)

lemma run_revoke_where: "runs store_step d (snd (revoke_where P Q n fs d))"
  by (auto simp: revoke_where_def Let_def
      intro!: runs_refl run1 [OF st_revoke] run2 [OF st_revoke st_kill])

lemma run_revoke [op_runs]:
  "runs store_step d (snd (revoke_token i n fs d))"
  "runs store_step d (snd (revoke_token_for_user i uid n fs d))"
  by (simp_all add: revoke_token_def revoke_token_for_user_def run_revoke_where)

lemma run_reservations [op_runs]:
  "runs store_step d (snd (reserve uc sub uid n fail d))"
  "runs store_step d (snd (release uc sub fail d))"
  by (auto simp: reserve_def release_def attempt_def Let_def intro!: runs_refl runs_one st_release
      intro: st_reserve split: sum.split sql_error.split)

lemma run_create_session:
  assumes "row tr_id tid (tokens d) = Some t" "tr_user_id t = uid"
  shows "runs store_step d (snd (create_session uid tid host os arch addr n fs d))"
  using assms
  by (auto simp: create_session_def attempt_def intro!: runs_refl runs_one intro: st_new_session
      split: sum.split prod.split)

lemma run_sessions [op_runs]:
  "runs store_step d (snd (touch_session i run_id n fail d))"
  "runs store_step d (snd (kill_session i n fs d))"
  "runs store_step d (snd (end_session i n fail d))"
  "runs store_step d (snd (expire_stale_sessions n1 n2 fs d))"
  by (auto simp: touch_session_def kill_session_def end_session_def expire_stale_sessions_def Let_def
      expire_proxies_def expire_sessions_def
      intro!: runs_refl runs_one st_touch [unfolded touch_def] st_end_session st_end_proxy
        run1 [OF st_kill] run2 [OF st_kill st_kick]
        run2 [OF st_end_proxy st_end_session])

lemma run_proxies [op_runs]:
  "runs store_step d (snd (admit_proxy sid run_id name typ sub port n fs d))"
  "runs store_step d (snd (end_proxy sid name n fail d))"
  "runs store_step d (snd (end_proxies_for_subdomain sub n fail d))"
  by (auto simp: end_proxy_def end_proxies_for_subdomain_def intro!: runs_refl runs_one st_admit st_end_proxy)

lemma run_audit [op_runs]: "runs store_step d (audit_event uid action detail n fail d)"
  by (simp add: audit_event_def runs_refl runs_one st_audit)

section \<open>The store contracts\<close>

text \<open>
  C15: Whatever the operations are and however their statements interleave, a database that
  is well formed and coherent stays so: row numbers and the unique columns stay distinct,
  no reference dangles, no two active tunnels share a subdomain or port where the index is
  installed, and every session and tunnel keeps belonging to the user of its token.
\<close>

theorem store_runs_keep_invariant:
  assumes "runs store_step d d'" "wf_db d" "coherent d"
  shows "wf_db d' \<and> coherent d' \<and>
    (subdomain_index d \<longrightarrow> unique_active pr_subdomain [] (proxies d')) \<and>
    (port_index d \<longrightarrow> unique_active pr_remote_port 0 (proxies d'))"
proof -
  have i: "store_inv d" using assms(2,3) by (simp add: store_inv_def)
  have "store_inv d'" by (rule store.runs_inv [OF assms(1) i])
  moreover have "later d d'" by (rule store.runs_rel [OF assms(1) i])
  ultimately show ?thesis by (auto simp: store_inv_def later_def wf_db_def wf_indexes_def)
qed

lemma sample_coherent: "coherent sample_db"
  by (simp add: coherent_def sample_rows)

lemma sample_inv: "store_inv sample_db"
  by (simp add: store_inv_def wf_sample sample_coherent)

theorem store_runs_keep_invariant_witness:
  "coherent (snd (admit_proxy 2 [] ''web'' ''http'' ''web'' 0 400 (\<lambda>_. False) sample_db))"
  using store_runs_keep_invariant [OF run_proxies(1) wf_sample sample_coherent] by blast

lemma later_session:
  assumes "later d d'" "row sr_id i (sessions d) = Some s"
  obtains s' where "row sr_id i (sessions d') = Some s'" "session_le s s'"
proof -
  from assms(1) have "grows sr_id session_le (sessions d) (sessions d')" by (simp add: later_def)
  with assms(2) that show ?thesis unfolding grows_def by blast
qed

lemma later_token:
  assumes "later d d'" "row tr_id i (tokens d) = Some t"
  obtains t' where "row tr_id i (tokens d') = Some t'" "token_le t t'"
proof -
  from assms(1) have "grows tr_id token_le (tokens d) (tokens d')" by (simp add: later_def)
  with assms(2) that show ?thesis unfolding grows_def by blast
qed

lemma admit_terminated:
  assumes "wf_db d" "row sr_id sid (sessions d) = Some s" "sr_killed s \<noteq> 0 \<or> \<not> live s"
  shows "admit_proxy sid run_id name typ sub port n fs d =
    (Err (if fs 0 \<or> fs 1 then Sql Fault else Proxy_Denied Session_Terminated), d)"
  using assms
  by (simp add: admit_proxy_def admit_result_def session_join_wf wf_filter session_denial_def)

text \<open>
  A kill is final. Once a session is killed, no later state of the store, whatever ran
  in between, admits a tunnel for it: the request is refused as terminated, or fails on a
  database error.
\<close>

theorem killed_session_stays_out:
  assumes "wf_db d" "coherent d" "row sr_id sid (sessions d) = Some s" "sr_killed s = 1"
    and "runs store_step d d'"
  shows "admit_proxy sid run_id name typ sub port n fs d' =
    (Err (if fs 0 \<or> fs 1 then Sql Fault else Proxy_Denied Session_Terminated), d')"
proof -
  have i: "store_inv d" using assms(1,2) by (simp add: store_inv_def)
  have "wf_db d'" using store.runs_inv [OF assms(5) i] by (simp add: store_inv_def)
  moreover obtain s' where "row sr_id sid (sessions d') = Some s'" "session_le s s'"
    using later_session [OF store.runs_rel [OF assms(5) i] assms(3)] .
  ultimately show ?thesis using assms(4) by (intro admit_terminated) (auto simp: session_le_def)
qed

theorem killed_session_stays_out_witness:
  "admit_proxy 1 [] ''x'' ''http'' ''x'' 0 500 (\<lambda>_. False) (snd (kill_session 1 400 (\<lambda>_. False) sample_db)) =
     (Err (Proxy_Denied Session_Terminated), snd (kill_session 1 400 (\<lambda>_. False) sample_db))"
proof -
  let ?d = "kill_rows (\<lambda>s. sr_id s = 1) sample_db"
  have "store_inv ?d" by (rule step_inv [OF st_kill sample_inv])
  moreover have "row sr_id 1 (sessions ?d) = Some ((sample_session 1 1)\<lparr>sr_killed := 1\<rparr>)"
    by (simp add: kill_rows_def update_sessions_def sample_rows)
  moreover have "snd (kill_session 1 400 (\<lambda>_. False) sample_db) = kick_rows 1 700 ?d"
    by (simp add: kill_session_def Let_def kick_cooldown_def sample_rows)
  ultimately show ?thesis
    using killed_session_stays_out [of ?d 1 "(sample_session 1 1)\<lparr>sr_killed := 1\<rparr>"]
    by (simp add: store_inv_def runs_one st_kick)
qed

end
