(* ===== verification/Kt_Accounts.thy ===== *)
theory Kt_Accounts
  imports Kt_Run "HOL-Library.Multiset"
begin

text \<open>
  Accounts and configuration: the database file, users and their passwords, the
  administrator's password in the settings, the relay's address and the reservations.
\<close>

section \<open>The database file\<close>

text \<open>
  However the file system answers, if \<open>secureDBFile\<close> succeeds on a path of the file
  system then a regular file with mode 0600 is there: created so, or its mode corrected.
  A symbolic link, directory or device never passes, and only the data sources without a
  file of their own (\<open>:memory:\<close>, \<open>file:\<close>) are left to the driver.
\<close>

theorem secure_db_file_private:
  "case secure_db_file path info create close_ok info_after_race chmod_ok of
     Inl e \<Rightarrow> True
   | Inr None \<Rightarrow> path = '':memory:'' \<or> prefix ''file:'' path
   | Inr (Some f) \<Rightarrow> f = Regular 384 \<and> path \<noteq> '':memory:'' \<and> info \<noteq> Some Special"
  by (auto simp: secure_db_file_def secure_existing_def split: option.split file_state.split create_outcome.split)

section \<open>Users\<close>

text \<open>
  A user that \<open>CreateUser\<close> creates has the trimmed, non-empty name no other user has
  and that is not \<open>admin\<close> in any case; a positive quota (5 where none was given); an enabled
  account without a password. The same name is refused from then on, and every row that was
  there before is kept.
\<close>

theorem create_user_fresh:
  assumes "wf_db d" "create_user name q n fs d = (Ok u, d')"
  shows "u_name u = trim_space name \<and> u_name u \<noteq> [] \<and> \<not> equal_fold (u_name u) ''admin'' \<and>
    u_max_tunnels u = (if q \<le> 0 then 5 else q) \<and> \<not> u_disabled u \<and> u_web_password_hash u = [] \<and>
    u_name u \<notin> ur_name ` set (users d) \<and>
    user_by_name (u_name u) False d' = Ok u \<and> user_by_id (u_id u) False d' = Ok u \<and>
    fst (create_user name q2 n2 (\<lambda>_. False) d') = Err (User_Exists (u_name u)) \<and>
    set (users d) \<subseteq> set (users d') \<and> wf_db d'"
proof -
  let ?row = "\<lparr>ur_id = 0, ur_name = trim_space name, ur_created_at = n, ur_disabled = 0,
     ur_max_tunnels = (if q \<le> 0 then 5 else q), ur_web_password_hash = [],
     ur_password_change_required = 0, ur_web_auth_version = 0\<rparr>"
  from assms(2) obtain i where nm: "trim_space name \<noteq> []" "\<not> equal_fold (trim_space name) ''admin''"
    and ins: "insert_user ?row d = Ok (i, d')" and by_id: "user_by_id i (fs 1) d' = Ok u"
    by (auto simp: create_user_def Let_def attempt_def split: if_splits sum.splits sql_error.splits)
  from ins have i: "i = next_id ur_id (users d)" and d': "d' = d\<lparr>users := users d @ [?row\<lparr>ur_id := i\<rparr>]\<rparr>"
    and new: "row ur_name (trim_space name) (users d) = None"
    by (auto simp: insert_user_def Let_def split: if_splits)
  have wf': "wf_db d'" by (rule wf_insert_user [OF assms(1) ins]) simp_all
  have r: "row ur_id i (users d') = Some (?row\<lparr>ur_id := i\<rparr>)"
    using row_insert [of ur_id "?row\<lparr>ur_id := i\<rparr>" "users d"] by (simp add: d' i)
  with by_id have u: "u = scan_user (?row\<lparr>ur_id := i\<rparr>)"
    by (auto simp: user_by_id_wf [OF wf'] split: if_splits)
  have rn: "row ur_name (trim_space name) (users d') = Some (?row\<lparr>ur_id := i\<rparr>)"
    using new by (simp add: d' row_append)
  then have "user_by_name (trim_space name) False d' = Ok u"
    by (simp add: user_by_name_def wf_filter [OF wf'] u)
  moreover have "user_by_id i False d' = Ok u" by (simp add: user_by_id_wf [OF wf'] r u)
  moreover have "fst (create_user name q2 n2 (\<lambda>_. False) d') = Err (User_Exists (trim_space name))"
    using nm rn by (simp add: create_user_def Let_def attempt_def insert_user_def)
  moreover have "trim_space name \<notin> ur_name ` set (users d)" using new by (simp add: row_None_iff)
  ultimately show ?thesis using nm wf' by (auto simp: u scan_user_def d')
qed

theorem create_user_fresh_witness:
  "\<exists>u d'. create_user ''carol'' 0 500 (\<lambda>_. False) sample_db = (Ok u, d') \<and> u_name u = ''carol'' \<and> u_max_tunnels u = 5"
proof -
  have trim: "trim_space ''carol'' = ''carol''" by (simp add: trim_space_visible visible_def)
  have "\<exists>u d'. create_user ''carol'' 0 500 (\<lambda>_. False) sample_db = (Ok u, d')"
    by (simp add: create_user_def trim Let_def equal_fold_def next_rune_def fold_rune_def lower_ascii_def attempt_def
        insert_user_def sample_rows next_id_def user_by_id_def)
  then show ?thesis using create_user_fresh [OF wf_sample, of "''carol''" 0] trim by fastforce
qed

lemma later_user:
  assumes "later d d'" "row ur_id i (users d) = Some u"
  obtains u' where "row ur_id i (users d') = Some u'" "user_le u u'"
proof -
  from assms(1) have "grows ur_id user_le (users d) (users d')" by (simp add: later_def)
  with assms(2) that show ?thesis unfolding grows_def by blast
qed

lemma password_rows:
  assumes "wf_db d"
  shows "filter (\<lambda>r. ur_id r = i \<and> ur_web_auth_version r = v) (users d) =
    (case row ur_id i (users d) of None \<Rightarrow> [] | Some u \<Rightarrow> if ur_web_auth_version u = v then [u] else [])"
proof -
  have "filter (\<lambda>r. ur_id r = i \<and> ur_web_auth_version r = v) (users d) =
      filter (\<lambda>r. ur_web_auth_version r = v) (filter (\<lambda>r. ur_id r = i) (users d))"
    by (simp add: conj_commute)
  then show ?thesis by (simp add: wf_filter [OF assms] split: option.split)
qed

text \<open>
  C25: A self-service password change is a compare-and-swap on the version of the
  credential. It wins exactly when the account is still at the version the caller checked;
  then only that row changes, to the new hash at the next version, and no other change that
  checked the same version wins in any later state. If it loses, nothing changes.
\<close>

theorem password_change_wins_once:
  assumes "wf_db d" "coherent d"
    and "set_user_web_password_if_version i v hash b False d = (r, d')"
  shows "((\<exists>u. row ur_id i (users d) = Some u \<and> ur_web_auth_version u = v) \<longleftrightarrow> r = Ok True) \<and>
    (r = Ok True \<or> r = Ok False) \<and> (r = Ok False \<longrightarrow> d' = d) \<and>
    (r = Ok True \<longrightarrow>
      (\<forall>j. row ur_id j (users d') =
         map_option (\<lambda>u. if j = i then new_password hash b u else u) (row ur_id j (users d))) \<and>
      (\<forall>d2 hash2 b2. runs store_step d' d2 \<longrightarrow>
         fst (set_user_web_password_if_version i v hash2 b2 False d2) = Ok False))"
proof -
  let ?P = "\<lambda>r. ur_id r = i \<and> ur_web_auth_version r = v"
  have r: "r = Ok (length (filter ?P (users d)) = 1)" "d' = update_users ?P (new_password hash b) d"
    using assms(3) by (simp_all add: set_user_web_password_if_version_def Let_def)
  have win: "(\<exists>u. row ur_id i (users d) = Some u \<and> ur_web_auth_version u = v) \<longleftrightarrow> r = Ok True"
    by (auto simp: r password_rows [OF assms(1)] split: option.splits)
  moreover have "r = Ok True \<or> r = Ok False" by (simp add: r)
  moreover have "r = Ok False \<longrightarrow> d' = d"
  proof
    assume "r = Ok False"
    then have "filter ?P (users d) = []"
      by (auto simp: r password_rows [OF assms(1)] split: option.splits if_splits)
    then show "d' = d" by (simp add: r update_users_def upd_none filter_empty_conv)
  qed
  moreover have "r = Ok True \<longrightarrow>
      (\<forall>j. row ur_id j (users d') =
         map_option (\<lambda>u. if j = i then new_password hash b u else u) (row ur_id j (users d))) \<and>
      (\<forall>d2 hash2 b2. runs store_step d' d2 \<longrightarrow>
         fst (set_user_web_password_if_version i v hash2 b2 False d2) = Ok False)"
  proof (intro impI conjI allI)
    assume "r = Ok True"
    with win obtain u where u: "row ur_id i (users d) = Some u" "ur_web_auth_version u = v" by blast
    have rows: "row ur_id j (users d') =
        map_option (\<lambda>u. if ?P u then new_password hash b u else u) (row ur_id j (users d))" for j
      by (simp add: r update_users_def row_upd new_password_def)
    show "row ur_id j (users d') =
        map_option (\<lambda>u. if j = i then new_password hash b u else u) (row ur_id j (users d))" for j
      using u by (cases "row ur_id j (users d)") (auto simp: rows dest: row_SomeD)
    fix d2 hash2 b2
    assume run: "runs store_step d' d2"
    have inv: "store_inv d'"
      unfolding r by (rule step_inv [OF st_password]) (simp add: store_inv_def assms(1,2))
    have "wf_db d2" using store.runs_inv [OF run inv] by (simp add: store_inv_def)
    moreover have "row ur_id i (users d') = Some (new_password hash b u)"
      using u by (auto simp: rows dest: row_SomeD)
    from later_user [OF store.runs_rel [OF run inv] this] obtain u' where
      "row ur_id i (users d2) = Some u'" "user_le (new_password hash b u) u'" .
    ultimately show "fst (set_user_web_password_if_version i v hash2 b2 False d2) = Ok False"
      using u(2)
      by (simp add: set_user_web_password_if_version_def Let_def password_rows user_le_def new_password_def)
  qed
  ultimately show ?thesis by blast
qed

theorem password_change_wins_once_witness:
  "fst (set_user_web_password_if_version 2 0 ''h1'' False False sample_db) = Ok True \<and>
   fst (set_user_web_password_if_version 2 0 ''h2'' False False
     (snd (set_user_web_password_if_version 2 0 ''h1'' False False sample_db))) = Ok False"
proof -
  have ex: "\<exists>u. row ur_id 2 (users sample_db) = Some u \<and> ur_web_auth_version u = 0"
    by (simp add: sample_user_def)
  note wins = password_change_wins_once [OF wf_sample sample_coherent prod.collapse [symmetric], of 2 0 "''h1''" False]
  from wins ex have one: "fst (set_user_web_password_if_version 2 0 ''h1'' False False sample_db) = Ok True"
    by (elim conjE) (drule iffD1, assumption+)
  from wins have "fst (set_user_web_password_if_version 2 0 ''h2'' False False
     (snd (set_user_web_password_if_version 2 0 ''h1'' False False sample_db))) = Ok False"
    by (elim conjE impE [OF _ one]) (blast intro: runs_refl)
  with one show ?thesis ..
qed

section \<open>The administrator's password\<close>

lemma digits_value_snoc: "digits_value (ds @ [c]) = digits_value ds * 10 + int (digit_val c)"
  by (simp add: digits_value_def)

lemma digits_value_nat: "digits_value (nat_digits n) = int n"
proof (induction n rule: nat_digits.induct)
  case (1 n)
  show ?case
  proof (cases "n < 10")
    case True
    then show ?thesis by (simp add: nat_digits.simps [of n] digits_value_def)
  next
    case False
    with 1 have "digits_value (nat_digits (n div 10)) = int (n div 10)" by simp
    then have "digits_value (nat_digits n) = int (n div 10) * 10 + int (n mod 10)"
      using False by (simp add: nat_digits.simps [of n] digits_value_snoc)
    also have "\<dots> = int (n div 10 * 10 + n mod 10)" by (simp only: of_nat_add of_nat_mult of_nat_numeral)
    also have "\<dots> = int n" by simp
    finally show ?thesis .
  qed
qed

text \<open>SQLite's cast reads back what \<open>FormatInt\<close> wrote.\<close>

lemma cast_itoa:
  assumes "0 \<le> n" "n \<le> max_int64"
  shows "cast_integer (itoa n) = n"
proof -
  obtain c r where cr: "nat_digits (nat n) = c # r" by (cases "nat_digits (nat n)") auto
  have dig: "\<forall>x \<in> set (nat_digits (nat n)). is_digit x" by (auto dest: nat_digits_digits)
  then have "is_digit c" by (simp add: cr)
  then have c: "c \<notin> {CHR '' '', CHR 0x09, CHR 0x0A, CHR 0x0B, CHR 0x0C, CHR 0x0D}"
    "c \<noteq> CHR ''-''" "c \<noteq> CHR ''+''"
    by (auto simp: is_digit_def)
  have "takeWhile is_digit (nat_digits (nat n)) = nat_digits (nat n)" using dig by (simp add: takeWhile_eq_all_conv)
  then have "digits_value (takeWhile is_digit (c # r)) = n"
    using digits_value_nat [of "nat n"] assms(1) by (simp only: cr)
  moreover have "itoa n = c # r" using assms(1) cr by (simp add: itoa_def)
  ultimately show ?thesis using assms c
    by (simp add: cast_integer_def Let_def del: takeWhile.simps)
qed

text \<open>
  The administrator's password has the same compare-and-swap over two settings. If the
  change wins, the credential read afterwards is the new hash at the next version, the
  command line's unconditional change moves it one version further, and a second change for
  the version already used loses and leaves the database alone.
\<close>

theorem admin_password_change:
  assumes "set_admin_web_password_if_version hash v (\<lambda>_. False) d = (Ok True, d')" "0 \<le> v" "v + 2 \<le> max_int64"
  shows "admin_web_credential False d' = Ok (hash, v + 1) \<and>
    admin_web_credential False (snd (set_admin_web_password hash2 (\<lambda>_. False) d')) = Ok (hash2, v + 2) \<and>
    set_admin_web_password_if_version hash2 v fs d' =
      (if fs 0 \<or> fs 1 then Err (Sql Fault) else Ok False, d')"
proof -
  have d': "d' = put_setting ''admin_web_auth_version'' (itoa (v + 1)) (put_setting ''admin_password_hash'' hash d)"
    using assms(1) by (auto simp: set_admin_web_password_if_version_def Let_def split: if_splits)
  have next_cast: "cast_integer (itoa (v + 1)) = v + 1" using assms(2,3) by (intro cast_itoa) simp_all
  have read: "atoi (itoa m) = Some m" if "0 \<le> m" "m \<le> max_int64" for m
    using that by (intro decimal.dec_enc) (simp add: int64_def)
  have "admin_web_credential False d' = Ok (hash, v + 1)"
    using assms(2,3) by (simp add: admin_web_credential_def d' put_setting_def Let_def read)
  moreover have "admin_web_credential False (snd (set_admin_web_password hash2 (\<lambda>_. False) d')) = Ok (hash2, v + 2)"
    using assms(2,3)
    by (simp add: admin_web_credential_def set_admin_web_password_def bump_admin_version_def d' put_setting_def
        Let_def next_cast read)
  moreover have "admin_version_cast d' = v + 1"
    by (simp add: admin_version_cast_def d' put_setting_def next_cast)
  ultimately show ?thesis
    by (simp add: set_admin_web_password_if_version_def)
qed

theorem admin_password_change_witness:
  "admin_web_credential False (snd (set_admin_web_password_if_version ''h'' 0 (\<lambda>_. False) sample_db)) = Ok (''h'', 1)"
proof -
  have "fst (set_admin_web_password_if_version ''h'' 0 (\<lambda>_. False) sample_db) = Ok True"
    by (simp add: set_admin_web_password_if_version_def admin_version_cast_def Let_def)
  then have "set_admin_web_password_if_version ''h'' 0 (\<lambda>_. False) sample_db =
      (Ok True, snd (set_admin_web_password_if_version ''h'' 0 (\<lambda>_. False) sample_db))"
    by (metis prod.collapse)
  from admin_password_change [OF this] show ?thesis by simp
qed

section \<open>The relay's address\<close>

lemma set_settings_ok: "set_settings kvs (\<lambda>_. False) d = (Ok (), foldl (\<lambda>d (k, v). put_setting k v d) d kvs)"
  by (induction kvs arbitrary: d) (auto simp: set_setting_def)

lemma settings_fold:
  "distinct (map fst kvs) \<Longrightarrow>
   settings (foldl (\<lambda>d (k, v). put_setting k v d) d kvs) = settings d ++ map_of kvs"
proof (induction kvs arbitrary: d)
  case (Cons kv kvs)
  obtain k v where kv: "kv = (k, v)" by (cases kv)
  with Cons.prems have "k \<notin> dom (map_of kvs)" by (simp add: dom_map_of_conv_image_fst)
  then have "(settings d)(k \<mapsto> v) ++ map_of kvs = (settings d ++ map_of kvs)(k \<mapsto> v)"
    by (rule map_add_upd_left)
  with Cons kv show ?case by (simp add: put_setting_def del: fun_upd_apply)
qed simp

lemma stored_settings:
  assumes "mset kvs = mset (server_settings info)"
  shows "settings (snd (set_settings kvs (\<lambda>_. False) d)) ''server_addr'' = Some (si_addr info)"
    "settings (snd (set_settings kvs (\<lambda>_. False) d)) ''server_port'' = Some (itoa (si_port info))"
    "settings (snd (set_settings kvs (\<lambda>_. False) d)) ''domain'' = Some (si_domain info)"
proof -
  have dist: "distinct (map fst (server_settings info))" by (simp add: server_settings_def)
  have "mset (map fst kvs) = mset (map fst (server_settings info))" using assms by simp
  then have dk: "distinct (map fst kvs)" using dist by (metis mset_eq_imp_distinct_iff)
  have "map_of kvs = map_of (server_settings info)"
    using map_of_inject_set [OF dk dist] assms by (metis mset_eq_setD)
  then show "settings (snd (set_settings kvs (\<lambda>_. False) d)) ''server_addr'' = Some (si_addr info)"
    "settings (snd (set_settings kvs (\<lambda>_. False) d)) ''server_port'' = Some (itoa (si_port info))"
    "settings (snd (set_settings kvs (\<lambda>_. False) d)) ''domain'' = Some (si_domain info)"
    by (simp_all add: set_settings_ok settings_fold [OF dk] server_settings_def)
qed

text \<open>
  \<open>SetServerInfo\<close> writes its settings in the unspecified order of a Go map. In whatever
  order they are written, \<open>ServerInfo\<close> then reads the address, port and domain back.
\<close>

theorem server_info_any_order:
  assumes "mset kvs = mset (server_settings info)" "si_addr info \<noteq> []" "si_domain info \<noteq> []"
    and "1 \<le> si_port info" "si_port info \<le> max_int64"
  shows "fst (set_settings kvs (\<lambda>_. False) d) = Ok () \<and>
    server_info_of (\<lambda>_. False) (snd (set_settings kvs (\<lambda>_. False) d)) =
      Ok \<lparr>si_addr = si_addr info, si_port = si_port info, si_domain = si_domain info,
          si_tls_server_name = [], si_token_version = []\<rparr>"
proof -
  have "atoi (itoa (si_port info)) = Some (si_port info)"
    using assms(4,5) by (intro decimal.dec_enc) (simp add: int64_def)
  then have "parse_int_value (itoa (si_port info)) = si_port info" by (rule atoi_value)
  with stored_settings [OF assms(1)] show ?thesis using assms(2-4)
    by (simp add: set_settings_ok server_info_of_def setting_def read_db_def or_else_def Let_def)
qed

theorem server_info_any_order_witness:
  "server_info_of (\<lambda>_. False) (snd (set_settings (rev (server_settings sample_info)) (\<lambda>_. False) empty_db)) =
     Ok \<lparr>si_addr = ''relay.example.com'', si_port = 7000, si_domain = ''example.com'',
         si_tls_server_name = [], si_token_version = []\<rparr>"
  using server_info_any_order [of "rev (server_settings sample_info)" sample_info empty_db]
  by (simp add: sample_info_def)

section \<open>Reservations\<close>

lemma reserve_row:
  assumes "reserve uc sub uid n fail d = (Ok (), d')"
  shows "d' = d\<lparr>reservations := reservations d @
      [\<lparr>rr_subdomain = to_lower uc (trim_space sub), rr_user_id = uid, rr_created_at = n\<rparr>]\<rparr>"
    "row rr_subdomain (to_lower uc (trim_space sub)) (reservations d) = None" "user_exists uid d"
    "\<not> equal_fold (trim_space sub) ''ktunnel''"
  using assms
  by (auto simp: reserve_def attempt_def insert_reservation_def split: if_splits sum.splits sql_error.splits)

text \<open>A step of the store that leaves a name reserved: what happens until it is released.\<close>

definition step_reserved :: "string \<Rightarrow> db \<Rightarrow> db \<Rightarrow> bool" where
  "step_reserved nm d d' \<longleftrightarrow> store_step d d' \<and> row rr_subdomain nm (reservations d') \<noteq> None"

lemma row_filter_Some: "distinct (map key xs) \<Longrightarrow> row key k xs = Some r \<Longrightarrow> row key k (filter R xs) \<noteq> None \<Longrightarrow>
    row key k (filter R xs) = Some r"
  by (auto simp: row_eq_Some_iff distinct_map_filter dest!: row_SomeD) (auto simp: distinct_map inj_on_def)

lemma step_keeps_reservation:
  assumes "store_step d d'" "wf_db d" "row rr_subdomain nm (reservations d) = Some r"
    and "row rr_subdomain nm (reservations d') \<noteq> None"
  shows "row rr_subdomain nm (reservations d') = Some r"
  using assms
proof (induction rule: store_step.induct)
  case (st_release d R)
  then show ?case by (auto simp: wf_db_def wf_unique_def intro: row_filter_Some)
next
  case (st_admit d sid run_id name "typ" sub port n fs)
  then show ?case
    by (auto simp: admit_proxy_def admit_result_iff admitted_def takes_over_def Let_def split: sum.splits prod.splits)
qed (auto simp: open_db_def put_setting_def insert_user_def insert_token_def insert_reservation_def insert_session_def
    insert_audit_def update_users_def update_tokens_def revoke_rows_def kill_rows_def kick_rows_def update_sessions_def
    end_session_rows_def end_proxy_rows_def update_proxies_def row_append Let_def
    split: if_splits list.splits option.splits)

interpretation reserved: invariant_machine "step_reserved nm"
    "\<lambda>d. wf_db d \<and> row rr_subdomain nm (reservations d) = Some r" for nm r
  by unfold_locales (auto simp: step_reserved_def intro: step_wf step_keeps_reservation)

lemma reserved_name:
  assumes "wf_db d" "row rr_subdomain nm (reservations d) = Some r" "rr_user_id r = uid"
  shows "name_allowed ''http'' nm port u d \<longleftrightarrow> nm \<noteq> ''ktunnel'' \<and> u = uid"
    and "sr_user_id (the_session sid d) \<noteq> uid \<Longrightarrow> \<not> is_ok (fst (admit_proxy sid run_id name ''http'' nm port n fs d))"
proof -
  show allowed: "name_allowed ''http'' nm p u d \<longleftrightarrow> nm \<noteq> ''ktunnel'' \<and> u = uid" for p u
    using assms(2,3) by (auto simp: name_allowed_def)
  assume other: "sr_user_id (the_session sid d) \<noteq> uid"
  show "\<not> is_ok (fst (admit_proxy sid run_id name ''http'' nm port n fs d))"
  proof
    assume "is_ok (fst (admit_proxy sid run_id name ''http'' nm port n fs d))"
    then obtain adm d2 where "admit_proxy sid run_id name ''http'' nm port n fs d = (Ok adm, d2)"
      by (cases "admit_proxy sid run_id name ''http'' nm port n fs d") (auto simp: is_ok_iff)
    from admissibleD(3) [OF admit_proxy_okD(1) [OF assms(1) this]] other allowed show False by simp
  qed
qed

text \<open>
  C26: A reservation protects its name against \<open>http\<close> tunnels and other reservations until it is
  released. Once \<open>Reserve\<close> has succeeded for a user, whatever happens to the database short of a
  release of the name: it is found under every spelling that lowers to the same text, nobody reserves it
  again, no request of another user for an \<open>http\<close> tunnel on it is admitted, and the reservation lets
  its owner pass. (It does not look at \<open>tcp\<close> tunnels, which may carry the name.)
\<close>

theorem reservation_protects_name:
  assumes "wf_db d" "reserve uc sub uid n fail d = (Ok (), d0)"
    and "runs (step_reserved (to_lower uc (trim_space sub))) d0 d'"
    and "to_lower uc other = to_lower uc (trim_space sub)" "trim_space other = other"
    and "\<not> equal_fold other ''ktunnel''"
  shows "wf_db d' \<and>
    (\<exists>r. reservation_by_name uc other False d' = Ok r \<and> r_user_id r = uid) \<and>
    reserve uc other uid2 n2 False d' = (Err (Already_Reserved other), d') \<and>
    (to_lower uc other \<noteq> ''ktunnel'' \<longrightarrow>
       (name_allowed ''http'' (to_lower uc other) port uid2 d' \<longleftrightarrow> uid2 = uid)) \<and>
    (sr_user_id (the_session sid d') \<noteq> uid \<longrightarrow>
       \<not> is_ok (fst (admit_proxy sid run_id name ''http'' (to_lower uc other) port n3 fs d')))"
proof -
  let ?nm = "to_lower uc (trim_space sub)"
  let ?r = "\<lparr>rr_subdomain = ?nm, rr_user_id = uid, rr_created_at = n\<rparr>"
  note r = reserve_row [OF assms(2)]
  have ins: "insert_reservation ?r d = Ok d0"
    by (simp add: insert_reservation_def r(2,3)) (simp add: r(1))
  have "wf_db d0 \<and> row rr_subdomain ?nm (reservations d0) = Some ?r"
    using wf_insert_reservation [OF assms(1) ins] r(2) by (simp add: r(1) row_append)
  then have wf': "wf_db d'" and row: "row rr_subdomain ?nm (reservations d') = Some ?r"
    using reserved.runs_inv [OF assms(3), of ?r] by simp_all
  have "reservation_by_name uc other False d' =
      Ok \<lparr>r_subdomain = ?nm, r_user_id = uid, r_user_name = ur_name (the_user uid d'), r_created_at = n\<rparr>"
    by (simp add: reservation_by_name_def assms(4) reservation_join_wf [OF wf'] wf_filter [OF wf'] row)
  moreover have "reserve uc other uid2 n2 False d' = (Err (Already_Reserved other), d')"
    using assms(6) row by (simp add: reserve_def assms(4,5) attempt_def insert_reservation_def)
  ultimately show ?thesis using wf' reserved_name [OF wf' row] by (simp add: assms(4))
qed

lemma to_lower_sample: "to_lower uc ''Shop'' = ''shop''" "to_lower uc ''shop'' = ''shop''"
  by (simp_all add: to_lower_def ascii_def lower_ascii_def char_of_eq_iff)

theorem reservation_protects_name_witness:
  "\<not> is_ok (fst (admit_proxy 1 [] ''x'' ''http'' ''shop'' 0 500 (\<lambda>_. False)
     (snd (reserve (\<lambda>r. r) ''Shop'' 2 400 False sample_db))))"
proof -
  have trim: "trim_space ''Shop'' = ''Shop''" "trim_space ''shop'' = ''shop''"
    by (simp_all add: trim_space_visible visible_def)
  have eq: "\<not> equal_fold ''Shop'' ''ktunnel''" "\<not> equal_fold ''shop'' ''ktunnel''"
    by (simp_all add: equal_fold_def next_rune_def)
  have ex: "\<exists>d'. reserve (\<lambda>r. r) ''Shop'' 2 400 False sample_db = (Ok (), d') \<and>
      sr_user_id (the_session 1 d') = 1"
    by (simp add: reserve_def trim eq to_lower_sample attempt_def insert_reservation_def user_exists_def
        the_session_def sample_rows)
  then obtain d' where d': "reserve (\<lambda>r. r) ''Shop'' 2 400 False sample_db = (Ok (), d')"
    "sr_user_id (the_session 1 d') = 1" by blast
  show ?thesis
    using reservation_protects_name [OF wf_sample d'(1) runs_refl, of "''shop''" 2 0 0 1 "[]" "''x''" 500 "\<lambda>_. False"] d' trim eq
    by (simp add: to_lower_sample)
qed

end
