(* ===== verification/Web_Session.thy ===== *)
theory Web_Session
  imports Kt_Accounts "HOL-Library.AList"
begin

text \<open>
  The state of the web portal (\<open>internal/web/server.go\<close>): the table of browser sessions, the
  two tables of login attempts, and the operations on them. A Go map is the association list
  of its entries; where the code ranges over a map and the result depends on the order, the
  order is an argument. An instant is its Unix time in nanoseconds. Whatever holds the
  server's mutex is one function here.
\<close>

section \<open>Constants\<close>

definition second :: int where "second = 1000000000"

definition session_ttl :: int where "session_ttl = 12 * 3600 * second"
definition login_csrf_ttl :: int where "login_csrf_ttl = 15 * 60 * second"
definition max_web_sessions :: nat where "max_web_sessions = 1024"
definition max_sessions_per_principal :: nat where "max_sessions_per_principal = 16"
definition max_login_username_bytes :: nat where "max_login_username_bytes = 128"
definition max_login_fails :: nat where "max_login_fails = 5"
definition max_ip_login_attempts :: nat where "max_ip_login_attempts = 20"
definition login_lockout :: int where "login_lockout = 60 * second"
definition login_fail_retention :: int where "login_fail_retention = 5 * 60 * second"
definition max_login_fail_entries :: nat where "max_login_fail_entries = 1024"
definition admin_username :: string where "admin_username = ''admin''"

text \<open>The zero \<open>time.Time\<close>, and the second in which an instant falls.\<close>

definition zero_instant :: int where "zero_instant = zero_time * second"

definition unix :: "int \<Rightarrow> int" where "unix t = t div second"

section \<open>Records\<close>

record web_session =
  ws_expires :: int
  ws_csrf :: string
  ws_is_admin :: bool
  ws_user_id :: int
  ws_username :: string
  ws_auth_version :: int
  ws_must_change :: bool

record credential =
  cr_hash :: string
  cr_is_admin :: bool
  cr_user_id :: int
  cr_username :: string
  cr_auth_version :: int
  cr_must_change :: bool
  cr_disabled :: bool

record login_fail =
  lf_count :: nat
  lf_until :: int
  lf_last_seen :: int

type_synonym web_sessions = "(string \<times> web_session) list"
type_synonym buckets = "(string \<times> login_fail) list"

record portal =
  pt_sessions :: web_sessions
  pt_fails :: buckets
  pt_ip_fails :: buckets

definition new_portal :: portal where
  "new_portal = \<lparr>pt_sessions = [], pt_fails = [], pt_ip_fails = []\<rparr>"

text \<open>The zero values.\<close>

definition no_web_session :: web_session where
  "no_web_session = \<lparr>ws_expires = zero_instant, ws_csrf = [], ws_is_admin = False, ws_user_id = 0,
     ws_username = [], ws_auth_version = 0, ws_must_change = False\<rparr>"

definition no_credential :: credential where
  "no_credential = \<lparr>cr_hash = [], cr_is_admin = False, cr_user_id = 0, cr_username = [], cr_auth_version = 0,
     cr_must_change = False, cr_disabled = False\<rparr>"

definition no_fail :: login_fail where
  "no_fail = \<lparr>lf_count = 0, lf_until = zero_instant, lf_last_seen = zero_instant\<rparr>"

section \<open>Credentials\<close>

definition credential_for_username :: "string \<Rightarrow> bool \<Rightarrow> db \<Rightarrow> credential" where
  "credential_for_username username fail d =
     (if username = admin_username then
        (case admin_web_credential fail d of
           Inl _ \<Rightarrow> no_credential
         | Inr (h, version) \<Rightarrow>
             if h = [] then no_credential
             else no_credential\<lparr>cr_hash := h, cr_is_admin := True, cr_username := admin_username,
                                cr_auth_version := version\<rparr>)
      else
        (case user_by_name username fail d of
           Inl _ \<Rightarrow> no_credential
         | Inr u \<Rightarrow>
             \<lparr>cr_hash = u_web_password_hash u, cr_is_admin = False, cr_user_id = u_id u, cr_username = u_name u,
              cr_auth_version = u_web_auth_version u, cr_must_change = u_password_change_required u,
              cr_disabled = u_disabled u\<rparr>))"

definition session_credential_current :: "web_session \<Rightarrow> bool \<Rightarrow> db \<Rightarrow> bool" where
  "session_credential_current s fail d =
     (if ws_is_admin s then
        (case admin_web_credential fail d of
           Inl _ \<Rightarrow> False
         | Inr (hash, version) \<Rightarrow> hash \<noteq> [] \<and> ws_auth_version s = version)
      else
        (case user_by_id (ws_user_id s) fail d of
           Inl _ \<Rightarrow> False
         | Inr u \<Rightarrow> \<not> u_disabled u \<and> u_web_password_hash u \<noteq> [] \<and> u_web_auth_version u = ws_auth_version s))"

section \<open>The table of sessions\<close>

text \<open>\<open>currentSession\<close> removes the entry of the cookie when it does not vouch for it.\<close>

definition current_session ::
    "string option \<Rightarrow> int \<Rightarrow> bool \<Rightarrow> db \<Rightarrow> portal \<Rightarrow> web_session option \<times> portal" where
  "current_session cookie now fail d p =
     (case cookie of
        None \<Rightarrow> (None, p)
      | Some c \<Rightarrow>
          (case map_of (pt_sessions p) c of
             Some s \<Rightarrow>
               if now \<le> ws_expires s \<and> session_credential_current s fail d then (Some s, p)
               else (None, p\<lparr>pt_sessions := AList.delete c (pt_sessions p)\<rparr>)
           | None \<Rightarrow> (None, p\<lparr>pt_sessions := AList.delete c (pt_sessions p)\<rparr>)))"

definition prune_sessions :: "int \<Rightarrow> web_sessions \<Rightarrow> web_sessions" where
  "prune_sessions now ss = filter (\<lambda>(k, s). now < ws_expires s) ss"

definition same_principal :: "bool \<Rightarrow> int \<Rightarrow> web_session \<Rightarrow> bool" where
  "same_principal is_admin user_id s \<longleftrightarrow> ws_is_admin s = is_admin \<and> (is_admin \<or> ws_user_id s = user_id)"

definition invalidate_principal :: "bool \<Rightarrow> int \<Rightarrow> portal \<Rightarrow> portal" where
  "invalidate_principal is_admin user_id p =
     p\<lparr>pt_sessions := filter (\<lambda>(k, s). \<not> same_principal is_admin user_id s) (pt_sessions p)\<rparr>"

fun oldest_of :: "web_sessions \<Rightarrow> string \<Rightarrow> int \<Rightarrow> string" where
  "oldest_of [] best expiry = best"
| "oldest_of ((k, s) # ss) best expiry =
     (if best = [] \<or> ws_expires s < expiry then oldest_of ss k (ws_expires s) else oldest_of ss best expiry)"

definition make_room :: "(web_sessions \<Rightarrow> web_sessions) \<Rightarrow> bool \<Rightarrow> int \<Rightarrow> web_sessions \<Rightarrow> web_sessions" where
  "make_room ord is_admin user_id ss =
     (let mine = filter (\<lambda>(k, s). same_principal is_admin user_id s) (ord ss)
      in if max_sessions_per_principal \<le> length mine then AList.delete (oldest_of mine [] zero_instant) ss else ss)"

definition credential_unchanged :: "credential \<Rightarrow> credential \<Rightarrow> bool" where
  "credential_unchanged cred cur \<longleftrightarrow>
     cr_hash cur \<noteq> [] \<and> cr_hash cur = cr_hash cred \<and> \<not> cr_disabled cur \<and> cr_is_admin cur = cr_is_admin cred \<and>
     cr_user_id cur = cr_user_id cred \<and> cr_auth_version cur = cr_auth_version cred"

definition session_for :: "credential \<Rightarrow> string \<Rightarrow> int \<Rightarrow> web_session" where
  "session_for cred csrf now =
     \<lparr>ws_expires = now + session_ttl, ws_csrf = csrf, ws_is_admin = cr_is_admin cred, ws_user_id = cr_user_id cred,
      ws_username = cr_username cred, ws_auth_version = cr_auth_version cred, ws_must_change = cr_must_change cred\<rparr>"

definition create_web_session ::
    "(web_sessions \<Rightarrow> web_sessions) \<Rightarrow> string \<Rightarrow> string \<Rightarrow> credential \<Rightarrow> string \<Rightarrow> (nat \<Rightarrow> int) \<Rightarrow> bool \<Rightarrow> db \<Rightarrow>
     portal \<Rightarrow> bool \<times> portal" where
  "create_web_session ord new_id lock_key cred csrf clk fail d p =
     (if \<not> credential_unchanged cred (credential_for_username (cr_username cred) fail d) then (False, p)
      else
        let ss = make_room ord (cr_is_admin cred) (cr_user_id cred) (prune_sessions (clk 0) (pt_sessions p)) in
        if max_web_sessions \<le> length ss then (False, p\<lparr>pt_sessions := ss\<rparr>)
        else (True, p\<lparr>pt_sessions := AList.update new_id (session_for cred csrf (clk 1)) ss,
                      pt_fails := AList.delete lock_key (pt_fails p)\<rparr>))"

section \<open>Login attempts\<close>

definition login_failure_key :: "(rune \<Rightarrow> rune) \<Rightarrow> string \<Rightarrow> string \<Rightarrow> string" where
  "login_failure_key uc ip username = ip @ chr 0 # to_lower uc (trim_space username)"

definition allow_login_attempt :: "buckets \<Rightarrow> string \<Rightarrow> nat \<Rightarrow> int \<Rightarrow> bool \<times> buckets" where
  "allow_login_attempt bs key limit now =
     (let f = (case map_of bs key of None \<Rightarrow> no_fail | Some f \<Rightarrow> f) in
      if map_of bs key = None \<and> max_login_fail_entries \<le> length bs then (False, bs)
      else if limit \<le> lf_count f \<and> now < lf_until f then (False, bs)
      else
        let g = (if limit \<le> lf_count f then no_fail else f);
            n = lf_count g + 1
        in (True, AList.update key
              \<lparr>lf_count = n, lf_until = (if limit \<le> n then now + login_lockout else lf_until g), lf_last_seen = now\<rparr> bs))"

definition prune_bucket :: "int \<Rightarrow> buckets \<Rightarrow> buckets" where
  "prune_bucket now bs =
     filter (\<lambda>(k, f). \<not> (lf_until f \<le> now \<and> login_fail_retention < now - lf_last_seen f)) bs"

definition prune_login_failures :: "int \<Rightarrow> portal \<Rightarrow> portal" where
  "prune_login_failures now p =
     p\<lparr>pt_fails := prune_bucket now (pt_fails p), pt_ip_fails := prune_bucket now (pt_ip_fails p)\<rparr>"

definition begin_login_attempt :: "(rune \<Rightarrow> rune) \<Rightarrow> string \<Rightarrow> string \<Rightarrow> int \<Rightarrow> portal \<Rightarrow> bool \<times> portal" where
  "begin_login_attempt uc ip username now p =
     (let p1 = prune_login_failures now p;
          (ok, ips) = allow_login_attempt (pt_ip_fails p1) ip max_ip_login_attempts now;
          p2 = p1\<lparr>pt_ip_fails := ips\<rparr>
      in if \<not> ok then (False, p2)
         else
           let (ok', fs) = allow_login_attempt (pt_fails p2) (login_failure_key uc ip username) max_login_fails now
           in (ok', p2\<lparr>pt_fails := fs\<rparr>))"

section \<open>Passwords\<close>

text \<open>
  \<open>bcrypt\<close> is not part of the program: hashing (which draws a salt and fails for what it does
  not accept) and comparing are arguments of the operations that use them.
\<close>

datatype password_error = Too_Short | Too_Long | Bcrypt_Error

definition valid_password :: "string \<Rightarrow> password_error option" where
  "valid_password pw =
     (if length (runes pw) < 8 then Some Too_Short
      else if 72 < length pw then Some Too_Long
      else None)"

definition password_hash :: "(string \<Rightarrow> string option) \<Rightarrow> string \<Rightarrow> password_error + string" where
  "password_hash gen pw =
     (case valid_password pw of
        Some e \<Rightarrow> Err e
      | None \<Rightarrow> (case gen pw of None \<Rightarrow> Err Bcrypt_Error | Some h \<Rightarrow> Ok h))"

datatype change_error = Password_Error password_error | Store_Error store_error

definition set_admin_password ::
    "(string \<Rightarrow> string option) \<Rightarrow> string \<Rightarrow> (nat \<Rightarrow> bool) \<Rightarrow> db \<Rightarrow> (change_error + unit) \<times> db" where
  "set_admin_password gen pw fs d =
     (case password_hash gen pw of
        Inl e \<Rightarrow> (Err (Password_Error e), d)
      | Inr h \<Rightarrow> (case set_admin_web_password h fs d of
                    (Inl e, d') \<Rightarrow> (Err (Store_Error e), d')
                  | (Inr _, d') \<Rightarrow> (Ok (), d')))"

definition set_user_password ::
    "(string \<Rightarrow> string option) \<Rightarrow> int \<Rightarrow> string \<Rightarrow> bool \<Rightarrow> bool \<Rightarrow> db \<Rightarrow> (change_error + unit) \<times> db" where
  "set_user_password gen i pw must fail d =
     (case password_hash gen pw of
        Inl e \<Rightarrow> (Err (Password_Error e), d)
      | Inr h \<Rightarrow> (case set_user_web_password i h must fail d of
                    (Inl e, d') \<Rightarrow> (Err (Store_Error e), d')
                  | (Inr _, d') \<Rightarrow> (Ok (), d')))"

end
