(* ===== verification/Go_Http.thy ===== *)
theory Go_Http
  imports Go_Net
begin

text \<open>
  What the program uses of \<open>net\<close> for networks (\<open>ParseCIDR\<close>, \<open>IPNet.Contains\<close>, \<open>IP.String\<close>) and
  of \<open>net/url\<close> (\<open>Parse\<close>, \<open>URL.Hostname\<close>, \<open>URL.Port\<close>, \<open>QueryEscape\<close>, as of Go 1.26), with the
  comparison of two texts under simple case folding.
\<close>

section \<open>Networks\<close>

definition byte_bits :: "nat \<Rightarrow> bool list" where
  "byte_bits b = map (\<lambda>i. odd (b div 2 ^ (7 - i))) [0..<8]"

definition ip_bits :: "ip \<Rightarrow> bool list" where
  "ip_bits a = concat (map byte_bits a)"

text \<open>
  A network is the bits of its prefix, over the sixteen bytes of an address; the prefix of an
  IPv4 network starts with the 96 bits of the mapped form.
\<close>

type_synonym ip_net = "bool list"

definition parse_cidr :: "string \<Rightarrow> ip_net option" where
  "parse_cidr s =
     (case cut (CHR ''/'') s of
        None \<Rightarrow> None
      | Some (addr, ones) \<Rightarrow>
          (case parse_ip addr of
             None \<Rightarrow> None
           | Some a \<Rightarrow>
               let v4 = CHR '':'' \<notin> set addr;
                   width = (if v4 then 32 else 128)
               in if ones = [] \<or> \<not> list_all is_digit ones \<or> 8 < length ones then None
                  else (case parse_uint ones of
                          Inl _ \<Rightarrow> None
                        | Inr n \<Rightarrow> if width < n then None
                                   else Some (take (if v4 then 96 + n else n) (ip_bits a)))))"

text \<open>Addresses of the two families are never in a network of the other.\<close>

definition v4_prefix :: "bool list" where
  "v4_prefix = ip_bits (replicate 10 0 @ [255, 255])"

definition net_contains :: "ip_net \<Rightarrow> ip \<Rightarrow> bool" where
  "net_contains net a \<longleftrightarrow> (prefix v4_prefix net \<longleftrightarrow> is_ipv4 a) \<and> prefix net (ip_bits a)"

section \<open>The text of an address\<close>

definition hex_digits :: "nat \<Rightarrow> string" where
  "hex_digits n =
     (let ds = [hex_char (n div 4096), hex_char (n div 256 mod 16), hex_char (n div 16 mod 16), hex_char (n mod 16)]
      in case dropWhile (\<lambda>c. c = CHR ''0'') ds of [] \<Rightarrow> ''0'' | d # rest \<Rightarrow> d # rest)"

fun ip_groups :: "ip \<Rightarrow> nat list" where
  "ip_groups (a # b # rest) = (256 * a + b) # ip_groups rest"
| "ip_groups _ = []"

text \<open>The longest run of at least two zero groups, the first of several: its start and length.\<close>

definition zero_run :: "nat list \<Rightarrow> nat \<Rightarrow> nat" where
  "zero_run gs i = length (takeWhile (\<lambda>g. g = 0) (drop i gs))"

definition longest_zeros :: "nat list \<Rightarrow> (nat \<times> nat) option" where
  "longest_zeros gs =
     fold (\<lambda>i best. let n = zero_run gs i in
                    if n < 2 then best
                    else case best of None \<Rightarrow> Some (i, n) | Some (_, m) \<Rightarrow> if m < n then Some (i, n) else best)
       [0..<length gs] None"

definition ip_string :: "ip \<Rightarrow> string" where
  "ip_string a =
     (if is_ipv4 a then join_with ''.'' (map (\<lambda>b. itoa (int b)) (drop 12 a))
      else
        let gs = ip_groups a;
            txt = (\<lambda>xs. join_with '':'' (map hex_digits xs))
        in case longest_zeros gs of
             None \<Rightarrow> txt gs
           | Some (i, n) \<Rightarrow> txt (take i gs) @ ''::'' @ txt (drop (i + n) gs))"

section \<open>Case folding\<close>

text \<open>
  \<open>strings.EqualFold\<close> of two texts: \<open>sf\<close> is the least code point of the orbit of a code point
  above ASCII under \<open>unicode.SimpleFold\<close>, which is read from Go's tables.
\<close>

definition equal_fold_by :: "(rune \<Rightarrow> rune) \<Rightarrow> string \<Rightarrow> string \<Rightarrow> bool" where
  "equal_fold_by sf s t \<longleftrightarrow>
     map (\<lambda>r. if r < 0x80 then lower_ascii r else sf r) (runes s) =
     map (\<lambda>r. if r < 0x80 then lower_ascii r else sf r) (runes t)"

section \<open>URLs\<close>

record url =
  url_scheme :: string
  url_has_user :: bool
  url_host :: string
  url_path :: string
  url_force_query :: bool
  url_raw_query :: string
  url_fragment :: string

definition is_alpha :: "char \<Rightarrow> bool" where
  "is_alpha c \<longleftrightarrow> (let b = byte c in 65 \<le> b \<and> b \<le> 90 \<or> 97 \<le> b \<and> b \<le> 122)"

text \<open>\<open>getScheme\<close>: the scheme and the rest, or an error for an empty scheme.\<close>

fun scheme_loop :: "string \<Rightarrow> string \<Rightarrow> (string \<times> string) option option" where
  "scheme_loop done [] = Some None"
| "scheme_loop done (c # s) =
     (if is_alpha c then scheme_loop (done @ [c]) s
      else if is_digit c \<or> c \<in> {CHR ''+'', CHR ''-'', CHR ''.''} then
        (if done = [] then Some None else scheme_loop (done @ [c]) s)
      else if c = CHR '':'' then (if done = [] then None else Some (Some (done, s)))
      else Some None)"

definition get_scheme :: "string \<Rightarrow> (string \<times> string) option" where
  "get_scheme raw =
     (case scheme_loop [] raw of
        None \<Rightarrow> None
      | Some None \<Rightarrow> Some ([], raw)
      | Some (Some (sch, rest)) \<Rightarrow> Some (map (\<lambda>c. chr (lower_ascii (byte c))) sch, rest))"

text \<open>
  \<open>unescape\<close> in a host: an escape may only stand for a byte outside ASCII or for \<open>%\<close>, and of the
  ASCII characters only those allowed in a host may stand unescaped.
\<close>

definition host_char :: "char \<Rightarrow> bool" where
  "host_char c \<longleftrightarrow> is_alpha c \<or> is_digit c \<or> 0x80 \<le> byte c \<or> c \<in> set ''!$&()*+,;=:[]<>\"-_.~'' \<or> c = CHR 0x27"

fun unescape_host :: "string \<Rightarrow> string option" where
  "unescape_host [] = Some []"
| "unescape_host (c # s) =
     (if c = CHR ''%'' then
        (case s of
           a # b # rest \<Rightarrow>
             (case (hex_val a, hex_val b) of
                (Some x, Some y) \<Rightarrow>
                  if x < 8 \<and> \<not> (x = 2 \<and> y = 5) then None
                  else map_option (Cons (chr (16 * x + y))) (unescape_host rest)
              | _ \<Rightarrow> None)
         | _ \<Rightarrow> None)
      else if host_char c then map_option (Cons c) (unescape_host s)
      else None)"

fun unescape_path :: "string \<Rightarrow> string option" where
  "unescape_path [] = Some []"
| "unescape_path (c # s) =
     (if c = CHR ''%'' then
        (case s of
           a # b # rest \<Rightarrow>
             (case (hex_val a, hex_val b) of
                (Some x, Some y) \<Rightarrow> map_option (Cons (chr (16 * x + y))) (unescape_path rest)
              | _ \<Rightarrow> None)
         | _ \<Rightarrow> None)
      else map_option (Cons c) (unescape_path s))"

definition valid_optional_port :: "string \<Rightarrow> bool" where
  "valid_optional_port p \<longleftrightarrow> (case p of [] \<Rightarrow> True | c # ds \<Rightarrow> c = CHR '':'' \<and> list_all is_digit ds)"

text \<open>
  \<open>parseHost\<close>: an address in brackets must be an IPv6 address (zones are left out: the model
  refuses them); any other host has at most one colon, before a numeric port.
\<close>

definition parse_host :: "string \<Rightarrow> string option" where
  "parse_host host =
     (if CHR ''['' \<in> set host then
        let o_idx = last_index (CHR ''['') host; c_idx = last_index (CHR '']'') host in
        if c_idx < 0 \<or> c_idx < o_idx then None
        else
          let colon_port = drop (nat c_idx + 1) host;
              name = take (nat (c_idx - o_idx - 1)) (drop (nat o_idx + 1) host)
          in if \<not> valid_optional_port colon_port \<or> CHR '':'' \<notin> set name then None
             else (case (unescape_host name, parse_ip name) of
                     (Some n, Some _) \<Rightarrow> Some (''['' @ n @ '']'' @ colon_port)
                   | _ \<Rightarrow> None)
      else
        (case cut (CHR '':'') host of
           Some (_, port) \<Rightarrow> if list_all is_digit port then unescape_host host else None
         | None \<Rightarrow> unescape_host host))"

definition userinfo_char :: "char \<Rightarrow> bool" where
  "userinfo_char c \<longleftrightarrow> is_alpha c \<or> is_digit c \<or> c \<in> set ''-._:~!$&()*+,;=%@'' \<or> c = CHR 0x27"

definition parse_authority :: "string \<Rightarrow> (bool \<times> string) option" where
  "parse_authority a =
     (if CHR ''@'' \<in> set a then
        let i = nat (last_index (CHR ''@'') a); info = take i a in
        (case parse_host (drop (i + 1) a) of
           None \<Rightarrow> None
         | Some h \<Rightarrow>
             if list_all userinfo_char info \<and> unescape_path info \<noteq> None then Some (True, h) else None)
      else map_option (Pair False) (parse_host a))"

definition parse_url :: "string \<Rightarrow> url option" where
  "parse_url raw0 =
     (let (raw, frag) = (case cut (CHR 0x23) raw0 of None \<Rightarrow> (raw0, []) | Some p \<Rightarrow> p);
          none = \<lparr>url_scheme = [], url_has_user = False, url_host = [], url_path = [], url_force_query = False,
                  url_raw_query = [], url_fragment = []\<rparr>
      in if list_ex (\<lambda>c. byte c < 0x20 \<or> byte c = 0x7F) raw then None
         else
           (case unescape_path frag of
              None \<Rightarrow> None
            | Some fragment \<Rightarrow>
                if raw = ''*'' then Some (none\<lparr>url_path := ''*'', url_fragment := fragment\<rparr>)
                else
                  (case get_scheme raw of
                     None \<Rightarrow> None
                   | Some (sch, rest0) \<Rightarrow>
                       let force = suffix ''?'' rest0 \<and> length (filter (\<lambda>c. c = CHR ''?'') rest0) = 1;
                           (rest, query) = (case cut (CHR ''?'') rest0 of None \<Rightarrow> (rest0, []) | Some p \<Rightarrow> p);
                           u = none\<lparr>url_scheme := sch, url_force_query := force, url_raw_query := query,
                                    url_fragment := fragment\<rparr>
                       in if \<not> prefix ''/'' rest \<and> sch \<noteq> [] then Some u
                          else if \<not> prefix ''/'' rest \<and> CHR '':'' \<in> set (takeWhile (\<lambda>c. c \<noteq> CHR ''/'') rest) then None
                          else if prefix ''//'' rest \<and> (sch \<noteq> [] \<or> \<not> prefix ''///'' rest) then
                            let auth = takeWhile (\<lambda>c. c \<noteq> CHR ''/'') (drop 2 rest);
                                tail = dropWhile (\<lambda>c. c \<noteq> CHR ''/'') (drop 2 rest)
                            in (case (parse_authority auth, unescape_path tail) of
                                  (Some (user, host), Some p) \<Rightarrow>
                                    Some (u\<lparr>url_has_user := user, url_host := host, url_path := p\<rparr>)
                                | _ \<Rightarrow> None)
                          else map_option (\<lambda>p. u\<lparr>url_path := p\<rparr>) (unescape_path rest))))"

text \<open>\<open>splitHostPort\<close> of \<open>net/url\<close>: the name without brackets and the port.\<close>

definition url_host_port :: "string \<Rightarrow> string \<times> string" where
  "url_host_port hp =
     (let i = last_index (CHR '':'') hp;
          (host, port) = (if 0 \<le> i \<and> valid_optional_port (drop (nat i) hp)
                          then (take (nat i) hp, drop (nat i + 1) hp) else (hp, []))
      in (if prefix ''['' host \<and> suffix '']'' host then take (length host - 2) (drop 1 host) else host, port))"

definition url_hostname :: "url \<Rightarrow> string" where "url_hostname u = fst (url_host_port (url_host u))"
definition url_port :: "url \<Rightarrow> string" where "url_port u = snd (url_host_port (url_host u))"

text \<open>\<open>url.QueryEscape\<close>\<close>

definition query_char :: "char \<Rightarrow> string" where
  "query_char c =
     (if is_alpha c \<or> is_digit c \<or> c \<in> set ''-_.~'' then [c]
      else if c = CHR '' '' then ''+''
      else (let up = (\<lambda>n. if n < 10 then digit_char n else chr (55 + n))
            in [CHR ''%'', up (byte c div 16), up (byte c mod 16)]))"

definition query_escape :: "string \<Rightarrow> string" where
  "query_escape s = concat (map query_char s)"

end
