(* ===== verification/Web_Csrf.thy ===== *)
theory Web_Csrf
  imports Web_Session Go_Http
begin

text \<open>
  What the portal checks of a request before it looks at a password: the signed token of the
  login form, the host and the origin, and the address the request came from. All of it is
  in \<open>internal/web/server.go\<close>.
\<close>

section \<open>The server and the request\<close>

text \<open>
  What is fixed when a server is built, and what the program takes from elsewhere: the
  Unicode case tables, \<open>bcrypt\<close>, the texts of the database driver, and the order in which a
  range over a map visits it.
\<close>

record server =
  sv_canonical_host :: string
  sv_trusted :: "ip_net list"
  sv_dummy_hash :: string
  sv_csrf_key :: string
  sv_lower :: "rune \<Rightarrow> rune"
  sv_fold :: "rune \<Rightarrow> rune"
  sv_print :: "rune \<Rightarrow> bool"
  sv_compare :: "string \<Rightarrow> string \<Rightarrow> bool"
  sv_sql_text :: "sql_error \<Rightarrow> string"
  sv_order :: "web_sessions \<Rightarrow> web_sessions"

text \<open>
  A request as \<open>net/http\<close> hands it over: cookies, headers and form values are parsed. The path
  is the list of its decoded segments; a header that is absent is the empty text.
\<close>

datatype body_state = Body_Ok | Body_Too_Large | Body_Unreadable

record web_request =
  wr_method :: string
  wr_path :: "string list"
  wr_host :: string
  wr_tls :: bool
  wr_remote_addr :: string
  wr_origin :: string
  wr_real_ip :: string
  wr_forwarded_proto :: string
  wr_session_cookie :: "string option"
  wr_csrf_cookie :: "string option"
  wr_body :: body_state
  wr_post_csrf :: "string list"
  wr_form :: "string \<Rightarrow> string"
  wr_query :: "string \<Rightarrow> string"

section \<open>Hosts\<close>

definition same_host :: "(rune \<Rightarrow> rune) \<Rightarrow> string \<Rightarrow> string \<Rightarrow> bool" where
  "same_host cfold a b = equal_fold_by cfold (trim_suffix ''.'' a) (trim_suffix ''.'' b)"

datatype host_error = Not_A_Host_Name | Invalid_Host

definition normalize_configured_host :: "(rune \<Rightarrow> rune) \<Rightarrow> string \<Rightarrow> host_error + string" where
  "normalize_configured_host uc host0 =
     (let host = trim_space host0 in
      if host = [] then Ok []
      else if contains_any host [CHR ''/'', CHR 0x5C, CHR ''@''] then Err Not_A_Host_Name
      else (case parse_url (''//'' @ host) of
              None \<Rightarrow> Err Invalid_Host
            | Some u \<Rightarrow>
                if url_host u \<noteq> host \<or> url_hostname u = [] then Err Invalid_Host
                else Ok (to_lower uc host)))"

fun parse_trusted :: "string list \<Rightarrow> ip_net list option" where
  "parse_trusted [] = Some []"
| "parse_trusted (raw # rest) =
     (case parse_cidr (trim_space raw) of
        None \<Rightarrow> None
      | Some net \<Rightarrow> map_option (Cons net) (parse_trusted rest))"

definition trusted_proxy :: "server \<Rightarrow> web_request \<Rightarrow> bool" where
  "trusted_proxy sv r =
     (let host = (case split_host_port (wr_remote_addr r) of None \<Rightarrow> wr_remote_addr r | Some (h, _) \<Rightarrow> h) in
      case parse_ip (trim_space host) of
        None \<Rightarrow> False
      | Some a \<Rightarrow> list_ex (\<lambda>net. net_contains net a) (sv_trusted sv))"

definition external_scheme :: "server \<Rightarrow> web_request \<Rightarrow> string" where
  "external_scheme sv r =
     (if wr_tls r then ''https''
      else if trusted_proxy sv r then
        (let proto = to_lower (sv_lower sv) (trim_space (wr_forwarded_proto r))
         in if proto = ''https'' then ''https'' else ''http'')
      else ''http'')"

definition client_ip :: "server \<Rightarrow> web_request \<Rightarrow> string" where
  "client_ip sv r =
     (case (if trusted_proxy sv r then parse_ip (trim_space (wr_real_ip r)) else None) of
        Some a \<Rightarrow> ip_string a
      | None \<Rightarrow>
          let host = (case split_host_port (wr_remote_addr r) of None \<Rightarrow> [] | Some (h, _) \<Rightarrow> h)
          in if host = [] then wr_remote_addr r else host)"

definition effective_origin_port :: "(rune \<Rightarrow> rune) \<Rightarrow> url \<Rightarrow> string" where
  "effective_origin_port uc u =
     (if url_port u \<noteq> [] then url_port u
      else if to_lower uc (url_scheme u) = ''http'' then ''80''
      else if to_lower uc (url_scheme u) = ''https'' then ''443''
      else [])"

definition login_origin_allowed :: "server \<Rightarrow> web_request \<Rightarrow> bool" where
  "login_origin_allowed sv r =
     (let origin = trim_space (wr_origin r) in
      if origin = [] then True
      else
        (case parse_url origin of
           None \<Rightarrow> False
         | Some u \<Rightarrow>
             if url_host u = [] \<or> url_has_user u \<or> (url_path u \<noteq> [] \<and> url_path u \<noteq> ''/'') \<or> url_force_query u \<or>
                url_raw_query u \<noteq> [] \<or> url_fragment u \<noteq> [] then False
             else
               let want_host = (if sv_canonical_host sv \<noteq> [] then sv_canonical_host sv else wr_host r);
                   want_scheme = external_scheme sv r
               in if \<not> equal_fold_by (sv_fold sv) (url_scheme u) want_scheme then False
                  else
                    (case parse_url (want_scheme @ ''://'' @ want_host) of
                       None \<Rightarrow> False
                     | Some want \<Rightarrow>
                         if url_host want = [] \<or> url_has_user want then False
                         else same_host (sv_fold sv) (url_hostname u) (url_hostname want) \<and>
                              effective_origin_port (sv_lower sv) u = effective_origin_port (sv_lower sv) want)))"

section \<open>The token of the login form\<close>

text \<open>
  The token is the second it expires, a nonce and a MAC over both, each in text, separated by
  dots. A nonce that cannot be read (\<open>None\<close>) makes no token.
\<close>

definition csrf_payload :: "string \<Rightarrow> int \<Rightarrow> string" where
  "csrf_payload nonce now = itoa (unix (now + login_csrf_ttl)) @ ''.'' @ hex_encode nonce"

definition sign_csrf :: "string \<Rightarrow> string \<Rightarrow> string" where
  "sign_csrf key payload = payload @ ''.'' @ hex_encode (hmac_sha256 key payload)"

definition valid_login_csrf_token :: "string \<Rightarrow> string \<Rightarrow> int \<Rightarrow> bool" where
  "valid_login_csrf_token key token now =
     (if length token = 0 \<or> 256 < length token then False
      else
        (case split_on (CHR ''.'') token of
           [expires, nonce, mac] \<Rightarrow>
             if length nonce \<noteq> 64 \<or> length mac \<noteq> 64 then False
             else
               (case parse_int expires of
                  (e, err) \<Rightarrow>
                    if err \<noteq> None \<or> e * second < now \<or> now + login_csrf_ttl < e * second then False
                    else
                      (case hex_decode mac of
                         None \<Rightarrow> False
                       | Some presented \<Rightarrow> presented = hmac_sha256 key (expires @ ''.'' @ nonce)))
         | _ \<Rightarrow> False))"

definition login_csrf_token :: "string \<Rightarrow> string option \<Rightarrow> string option \<Rightarrow> int \<Rightarrow> string option" where
  "login_csrf_token key cookie nonce now =
     (case cookie of
        Some c \<Rightarrow>
          if valid_login_csrf_token key c now then Some c
          else map_option (\<lambda>n. sign_csrf key (csrf_payload n now)) nonce
      | None \<Rightarrow> map_option (\<lambda>n. sign_csrf key (csrf_payload n now)) nonce)"

definition login_csrf_valid :: "string \<Rightarrow> web_request \<Rightarrow> int \<Rightarrow> bool" where
  "login_csrf_valid key r now =
     (case wr_csrf_cookie r of
        None \<Rightarrow> False
      | Some c \<Rightarrow>
          if \<not> valid_login_csrf_token key c now then False
          else (case wr_post_csrf r of
                  [form_token] \<Rightarrow> form_token \<noteq> [] \<and> form_token = c
                | _ \<Rightarrow> False))"

subsection \<open>Laws\<close>

lemma nat_digits_length: "n < 10 ^ k \<Longrightarrow> 0 < k \<Longrightarrow> length (nat_digits n) \<le> k"
proof (induction n arbitrary: k rule: nat_digits.induct)
  case (1 n)
  show ?case
  proof (cases "n < 10")
    case False
    then obtain j where k: "k = Suc j" "0 < j"
      using 1(2) by (cases k; cases "k - 1") auto
    then have "n div 10 < 10 ^ j" using 1(2) by (simp add: div_less_iff_less_mult mult.commute)
    with False k show ?thesis using 1(1) [of j] by (subst nat_digits.simps) simp
  qed (use 1 in \<open>subst nat_digits.simps, simp\<close>)
qed

lemma itoa_length: "int64 i \<Longrightarrow> length (itoa i) \<le> 20"
  using nat_digits_length [of "nat \<bar>i\<bar>" 19]
  by (auto simp: itoa_def int64_def nat_less_iff)

lemma split_signed:
  assumes "CHR ''.'' \<notin> set a" "CHR ''.'' \<notin> set b" "CHR ''.'' \<notin> set c"
  shows "split_on (CHR ''.'') (a @ ''.'' @ b @ ''.'' @ c) = [a, b, c]"
  using assms by (simp add: split_on_append split_on_free)

lemma hex_no_dot: "CHR ''.'' \<notin> set (hex_encode s)"
  using hex_encode_chars by blast

lemma itoa_no_dot: "CHR ''.'' \<notin> set (itoa i)"
  using itoa_chars by (fastforce simp: is_digit_def)

lemma own_csrf_valid:
  assumes "length nonce = 32" "int64 (unix (now + login_csrf_ttl))"
  shows "valid_login_csrf_token key (sign_csrf key (csrf_payload nonce now)) t \<longleftrightarrow>
    unix (now + login_csrf_ttl) * second - login_csrf_ttl \<le> t \<and> t \<le> unix (now + login_csrf_ttl) * second"
proof -
  let ?e = "unix (now + login_csrf_ttl)"
  let ?mac = "hex_encode (hmac_sha256 key (csrf_payload nonce now))"
  have parse: "parse_int (itoa ?e) = (?e, None)"
    using assms(2) by (simp add: parse_int_itoa int64_def)
  have shape: "sign_csrf key (csrf_payload nonce now) = itoa ?e @ ''.'' @ hex_encode nonce @ ''.'' @ ?mac"
    by (simp add: sign_csrf_def csrf_payload_def)
  have len: "length (itoa ?e @ ''.'' @ hex_encode nonce @ ''.'' @ ?mac) \<le> 256"
    using itoa_length [OF assms(2)] assms(1) by simp
  show ?thesis
    unfolding valid_login_csrf_token_def shape
    using len split_signed [OF itoa_no_dot hex_no_dot hex_no_dot, of ?e nonce "hmac_sha256 key (csrf_payload nonce now)"]
    by (auto simp: assms(1) parse hex_decode_encode csrf_payload_def)
qed

text \<open>
  C30: The token of the login form is a message only the server can write. A token made at
  \<open>now\<close> is accepted from then until the second it names, a quarter of an hour later, and not
  after; and whatever is accepted carries the server's MAC over its expiry and nonce.
\<close>

theorem login_csrf_lifetime:
  assumes "length nonce = 32" "int64 (unix (now + login_csrf_ttl))"
  shows "(valid_login_csrf_token key (sign_csrf key (csrf_payload nonce now)) t \<longleftrightarrow>
            unix (now + login_csrf_ttl) * second - login_csrf_ttl \<le> t \<and> t \<le> unix (now + login_csrf_ttl) * second)
    \<and> now + login_csrf_ttl - second < unix (now + login_csrf_ttl) * second
    \<and> unix (now + login_csrf_ttl) * second \<le> now + login_csrf_ttl
    \<and> (valid_login_csrf_token key token t \<longrightarrow>
        (\<exists>payload mac. token = payload @ ''.'' @ mac \<and> hex_decode mac = Some (hmac_sha256 key payload)))"
proof -
  let ?e = "unix (now + login_csrf_ttl)"
  have "?e * second \<le> now + login_csrf_ttl" "now + login_csrf_ttl - second < ?e * second"
    using div_mult_mod_eq [of "now + login_csrf_ttl" second] pos_mod_bound [of second "now + login_csrf_ttl"]
      pos_mod_sign [of second "now + login_csrf_ttl"]
    by (simp_all add: unix_def second_def)
  moreover have "\<exists>payload mac. token = payload @ ''.'' @ mac \<and> hex_decode mac = Some (hmac_sha256 key payload)"
    if v: "valid_login_csrf_token key token t"
  proof -
    obtain x y z where parts: "split_on (CHR ''.'') token = [x, y, z]"
      and mac: "hex_decode z = Some (hmac_sha256 key (x @ ''.'' @ y))"
      using v by (auto simp: valid_login_csrf_token_def split: if_splits list.splits prod.splits option.splits)
    have "token = (x @ ''.'' @ y) @ ''.'' @ z"
      using join_split [of "CHR ''.''" token] by (simp add: parts)
    with mac show ?thesis by blast
  qed
  ultimately show ?thesis using own_csrf_valid [OF assms] by blast
qed

theorem login_csrf_lifetime_witness:
  "valid_login_csrf_token ''key'' (sign_csrf ''key'' (csrf_payload (replicate 32 (CHR ''n'')) (1700000000 * second)))
     (1700000000 * second)"
  using login_csrf_lifetime [of "replicate 32 (CHR ''n'')" "1700000000 * second" "''key''" "1700000000 * second" "[]"]
  by (simp add: unix_def login_csrf_ttl_def second_def int64_def)

end
