(* ===== verification/Kt_Auth.thy ===== *)
theory Kt_Auth
  imports Kt_Run
begin

text \<open>
  The life of a token and of the sessions on it: who is authenticated and why others are
  not, issuing and presenting a token, revoking, kicking and the expiry of stale sessions.
\<close>

section \<open>Authentication\<close>

definition usable_token :: "token_row \<Rightarrow> int \<Rightarrow> db \<Rightarrow> bool" where
  "usable_token t n d \<longleftrightarrow>
     tr_revoked_at t \<in> {None, Some zero_time} \<and> tr_kicked_until t \<le> n \<and>
     ur_disabled (the_user (tr_user_id t) d) \<noteq> 1"

lemma kicked_until_wf:
  "wf_db d \<Longrightarrow> row tr_id i (tokens d) = Some t \<Longrightarrow> kicked_until i fail d = (if fail then 0 else tr_kicked_until t)"
  by (cases fail) (simp_all add: kicked_until_def wf_filter or_else_def)

lemma token_row_by_hash:
  assumes "wf_db d" "row tr_hash h (tokens d) = Some t"
  shows "row tr_id (tr_id t) (tokens d) = Some t"
    "row ur_id (tr_user_id t) (users d) = Some (the_user (tr_user_id t) d)"
  using assms wf_reference(1) [OF assms(1)] by (auto simp: wf_rows dest: row_SomeD)

lemma scan_token_id: "t_id (scan_token (t, u)) = tr_id t" "t_user_id (scan_token (t, u)) = tr_user_id t"
  by (simp_all add: scan_token_def)

lemma check_token_wf:
  assumes "wf_db d"
  shows "check_token plaintext n fs d =
    (if fs 0 then Err (Sql Fault)
     else case row tr_hash (hash_token plaintext) (tokens d) of
       None \<Rightarrow> Err Not_Found
     | Some t \<Rightarrow>
         if tr_revoked_at t \<notin> {None, Some zero_time} then Err Auth_Revoked
         else if \<not> fs 1 \<and> n < tr_kicked_until t then Err (Auth_Kicked ((tr_kicked_until t - n) div 60 + 1))
         else if fs 1 \<and> n < 0 then Err (Auth_Kicked (- n div 60 + 1))
         else if fs 2 then Err (Sql Fault)
         else if ur_disabled (the_user (tr_user_id t) d) = 1 then Err Auth_Disabled
         else Ok (scan_token (t, the_user (tr_user_id t) d), scan_user (the_user (tr_user_id t) d)))"
proof (cases "row tr_hash (hash_token plaintext) (tokens d)")
  case None
  then show ?thesis by (simp add: check_token_def token_join_wf [OF assms] wf_filter [OF assms] query_row_def first_row_def)
next
  case (Some t)
  note t = token_row_by_hash [OF assms Some]
  let ?tok = "scan_token (t, the_user (tr_user_id t) d)"
  have q: "query_row (fs 0) (map scan_token (token_join (\<lambda>t. tr_hash t = hash_token plaintext) d)) =
      (if fs 0 then Err (Sql Fault) else Ok ?tok)"
    by (simp add: token_join_wf [OF assms] wf_filter [OF assms] Some query_row_def first_row_def)
  have k: "kicked_until (t_id ?tok) b d = (if b then 0 else tr_kicked_until t)" for b
    by (simp add: scan_token_id kicked_until_wf [OF assms t(1)])
  have ub: "user_by_id (t_user_id ?tok) b d =
      (if b then Err (Sql Fault) else Ok (scan_user (the_user (tr_user_id t) d)))" for b
    by (simp add: scan_token_id user_by_id_wf [OF assms] t(2))
  have dis: "u_disabled (scan_user x) \<longleftrightarrow> ur_disabled x = 1" for x
    by (simp add: scan_user_def)
  show ?thesis
    by (simp add: check_token_def q k ub Some token_active_scan dis Let_def del: One_nat_def)
qed

text \<open>
  C5: \<open>Authenticate\<close> accepts a presented text exactly when a token with its hash exists,
  is not revoked, is not in a cooldown and belongs to an enabled account; it then returns
  that token with its owner. Its only effect is the time of last use of the accepted token;
  a refusal changes nothing.
\<close>

theorem authenticate_accepts_iff:
  assumes "wf_db d" "\<not> fs 0" "\<not> fs 1" "\<not> fs 2"
  shows "(authenticate plaintext n1 n2 fs d = (Ok (tok, u), d') \<longleftrightarrow>
      (\<exists>t \<in> set (tokens d). tr_hash t = hash_token plaintext \<and> usable_token t n1 d \<and>
         tok = scan_token (t, the_user (tr_user_id t) d) \<and> u = scan_user (the_user (tr_user_id t) d) \<and>
         d' = note_use (tr_id t) n2 (fs 3) d)) \<and>
    (\<forall>e. fst (authenticate plaintext n1 n2 fs d) = Err e \<longrightarrow> snd (authenticate plaintext n1 n2 fs d) = d)"
proof
  have "authenticate plaintext n1 n2 fs d = (Ok (tok, u), d') \<longleftrightarrow>
      check_token plaintext n1 fs d = Ok (tok, u) \<and> d' = note_use (t_id tok) n2 (fs 3) d"
    by (auto simp: authenticate_def split: sum.split prod.split)
  also have "\<dots> \<longleftrightarrow> (\<exists>t. row tr_hash (hash_token plaintext) (tokens d) = Some t \<and> usable_token t n1 d \<and>
      tok = scan_token (t, the_user (tr_user_id t) d) \<and> u = scan_user (the_user (tr_user_id t) d) \<and>
      d' = note_use (tr_id t) n2 (fs 3) d)"
    using assms(2-)
    by (auto simp: check_token_wf [OF assms(1)] usable_token_def scan_token_id split: option.splits if_splits)
  also have "\<dots> \<longleftrightarrow> (\<exists>t \<in> set (tokens d). tr_hash t = hash_token plaintext \<and> usable_token t n1 d \<and>
      tok = scan_token (t, the_user (tr_user_id t) d) \<and> u = scan_user (the_user (tr_user_id t) d) \<and>
      d' = note_use (tr_id t) n2 (fs 3) d)"
    using assms(1) by (auto simp: row_eq_Some_iff wf_db_def wf_unique_def)
  finally show "authenticate plaintext n1 n2 fs d = (Ok (tok, u), d') \<longleftrightarrow>
      (\<exists>t \<in> set (tokens d). tr_hash t = hash_token plaintext \<and> usable_token t n1 d \<and>
         tok = scan_token (t, the_user (tr_user_id t) d) \<and> u = scan_user (the_user (tr_user_id t) d) \<and>
         d' = note_use (tr_id t) n2 (fs 3) d)" .
  show "\<forall>e. fst (authenticate plaintext n1 n2 fs d) = Err e \<longrightarrow> snd (authenticate plaintext n1 n2 fs d) = d"
    by (auto simp: authenticate_def split: sum.split prod.split)
qed

theorem authenticate_accepts_iff_witness:
  "authenticate ''alice-token'' 500 501 (\<lambda>_. False) sample_db =
     (Ok (scan_token (sample_token_row 1 (hash_token ''alice-token''), sample_user 1 ''alice'' 1),
          scan_user (sample_user 1 ''alice'' 1)),
      note_use 1 501 False sample_db)"
proof -
  have "the_user 1 sample_db = sample_user 1 ''alice'' 1"
    by (simp add: the_user_def sample_user_def)
  then have "\<exists>t \<in> set (tokens sample_db). tr_hash t = hash_token ''alice-token'' \<and> usable_token t 500 sample_db \<and>
      scan_token (sample_token_row 1 (hash_token ''alice-token''), sample_user 1 ''alice'' 1) =
        scan_token (t, the_user (tr_user_id t) sample_db) \<and>
      scan_user (sample_user 1 ''alice'' 1) = scan_user (the_user (tr_user_id t) sample_db) \<and>
      note_use 1 501 False sample_db = note_use (tr_id t) 501 False sample_db"
    by (intro bexI [of _ "sample_token_row 1 (hash_token ''alice-token'')"])
      (simp_all add: usable_token_def sample_token_row_def, simp_all add: sample_user_def)
  then show ?thesis
    using authenticate_accepts_iff [OF wf_sample, of "\<lambda>_. False" "''alice-token''" 500 501]
    by auto
qed

section \<open>Issuing\<close>

lemma issue_token_row:
  assumes "wf_db d" "issue_token uid label (Some secret) n fs d = (Ok (plain, tok), d')"
  obtains info t where
    "server_info_of fs d = Ok info" "new_token info (Some secret) = Ok (plain, tr_hash t, tr_prefix t)"
    "d' = d\<lparr>tokens := tokens d @ [t]\<rparr>" "tr_id t = next_id tr_id (tokens d)" "tr_user_id t = uid"
    "tr_revoked_at t = None" "tr_kicked_until t = 0" "row ur_id uid (users d) \<noteq> None"
    "tok = scan_token (t, the_user uid d)" "wf_db d'"
proof -
  let ?lab = "if trim_space label = [] then ''default'' else trim_space label"
  let ?row = "\<lambda>hash p. \<lparr>tr_id = 0, tr_user_id = uid, tr_label = ?lab, tr_hash = hash, tr_prefix = p,
      tr_created_at = n, tr_last_used_at = None, tr_revoked_at = None, tr_kicked_until = 0\<rparr>"
  from assms(2) obtain info hash p i where
    info: "server_info_of fs d = Ok info" "new_token info (Some secret) = Ok (plain, hash, p)" and
    ins: "insert_token (?row hash p) d = Ok (i, d')" and by_id: "token_by_id i (fs 4) d' = Ok tok"
    by (auto simp: issue_token_def Let_def attempt_def split: sum.splits prod.splits if_splits)
  let ?t = "(?row hash p)\<lparr>tr_id := i\<rparr>"
  from ins have i: "i = next_id tr_id (tokens d)" and d': "d' = d\<lparr>tokens := tokens d @ [?t]\<rparr>"
    and u: "user_exists uid d"
    by (auto simp: insert_token_def Let_def split: if_splits)
  have wf': "wf_db d'" by (rule wf_insert_token [OF assms(1) ins])
  have "row tr_id i (tokens d') = Some ?t"
    using row_insert [of tr_id ?t "tokens d"] by (simp add: d' i)
  with by_id wf' have "tok = scan_token (?t, the_user uid d)"
    by (auto simp: token_by_id_wf d' the_user_def split: if_splits)
  with info d' i u wf' show ?thesis
    by (intro that [of info ?t]) (auto simp: user_exists_def)
qed

text \<open>
  A token that \<open>IssueToken\<close> hands out authenticates its user. As long as the account
  is enabled, presenting the plaintext, with any white space around it, to the database
  \<open>IssueToken\<close> leaves succeeds and yields the token it returned; the plaintext leads to the
  configured relay; and the database holds its hash and its prefix only.
\<close>

theorem issued_token_authenticates:
  assumes "wf_db d" "issue_token uid label (Some secret) n fs d = (Ok (plain, tok), d')"
    and "ur_disabled (the_user uid d) = 0" "0 \<le> n1" "trim_space pasted = plain"
  shows "fst (authenticate pasted n1 n2 (\<lambda>_. False) d') = Ok (tok, scan_user (the_user uid d)) \<and>
    t_user_id tok = uid \<and> token_active tok \<and>
    (\<exists>info. server_info_of fs d = Ok info \<and>
       (length secret = 32 \<and> utf8_info info \<longrightarrow> parse_token pasted = Ok (canonical_info info)))"
proof -
  from assms(1,2) obtain info t where t:
    "server_info_of fs d = Ok info" "new_token info (Some secret) = Ok (plain, tr_hash t, tr_prefix t)"
    "d' = d\<lparr>tokens := tokens d @ [t]\<rparr>" "tr_id t = next_id tr_id (tokens d)" "tr_user_id t = uid"
    "tr_revoked_at t = None" "tr_kicked_until t = 0" "row ur_id uid (users d) \<noteq> None"
    "tok = scan_token (t, the_user uid d)" "wf_db d'"
    by (rule issue_token_row)
  have u: "the_user uid d' = the_user uid d" by (simp add: t(3) the_user_def)
  have hash: "tr_hash t = hash_token pasted"
    using t(2) assms(5) hash_token_trim [of pasted] by (auto elim: token_parts)
  have "distinct (map tr_hash (tokens d'))" using t(10) by (simp add: wf_db_def wf_unique_def)
  then have "row tr_hash (hash_token pasted) (tokens d') = Some t"
    by (simp add: row_eq_Some_iff hash t(3))
  then have "check_token pasted n1 (\<lambda>_. False) d' = Ok (tok, scan_user (the_user uid d))"
    using assms(3,4) by (simp add: check_token_wf [OF t(10)] t(5-7) u t(9))
  then have "fst (authenticate pasted n1 n2 (\<lambda>_. False) d') = Ok (tok, scan_user (the_user uid d))"
    by (simp add: authenticate_def)
  moreover have "t_user_id tok = uid" "token_active tok"
    by (simp_all add: t(9) token_active_scan t(6)) (simp add: scan_token_def t(5))
  moreover have "length secret = 32 \<and> utf8_info info \<longrightarrow> parse_token pasted = Ok (canonical_info info)"
    using parse_token_new [OF t(2)] parse_token_trim [of pasted] assms(5) by simp
  ultimately show ?thesis using t(1) by blast
qed

definition relay_db :: db where
  "relay_db = put_setting ''domain'' ''example.com'' (put_setting ''server_addr'' ''relay.example.com''
     (sample_db\<lparr>tokens := [], sessions := [], proxies := []\<rparr>))"

lemma relay_parts [simp]: "tokens relay_db = []" "users relay_db = users sample_db"
  by (simp_all add: relay_db_def put_setting_def)

lemma wf_relay: "wf_db relay_db"
  by (simp add: relay_db_def put_setting_def wf_parts user_exists_def unique_active_def sample_rows)

lemma relay_info: "server_info_of fs relay_db = Ok sample_info" if "\<And>i. \<not> fs i"
  using that
  by (simp add: server_info_of_def relay_db_def put_setting_def setting_def read_db_def or_else_def
      sample_info_def parse_int_value_def parse_int_def)

lemma relay_issues:
  "\<exists>tok d'. issue_token 2 [] (Some (replicate 32 (chr 7))) 100 (\<lambda>_. False) relay_db =
     (Ok (sample_token (chr 7), tok), d')"
  by (simp add: issue_token_def relay_info sample_token_minted Let_def attempt_def insert_token_def
      user_exists_def next_id_def token_by_id_def token_join_def sample_user_def)

theorem issued_token_authenticates_witness:
  "\<exists>tok d'. issue_token 2 [] (Some (replicate 32 (chr 7))) 100 (\<lambda>_. False) relay_db =
       (Ok (sample_token (chr 7), tok), d') \<and>
     fst (authenticate (sample_token (chr 7)) 500 501 (\<lambda>_. False) d') =
       Ok (tok, scan_user (sample_user 2 ''bob'' 5))"
proof -
  obtain tok d' where issue: "issue_token 2 [] (Some (replicate 32 (chr 7))) 100 (\<lambda>_. False) relay_db =
       (Ok (sample_token (chr 7), tok), d')" using relay_issues by blast
  have u: "the_user 2 relay_db = sample_user 2 ''bob'' 5"
    by (simp add: the_user_def sample_user_def)
  have "fst (authenticate (sample_token (chr 7)) 500 501 (\<lambda>_. False) d') =
      Ok (tok, scan_user (sample_user 2 ''bob'' 5))"
    using issued_token_authenticates [OF wf_relay issue _ _ new_token_trim [OF sample_token_minted]]
    by (simp add: u) (simp add: sample_user_def)
  with issue show ?thesis by blast
qed

section \<open>Revoking\<close>

lemma later_hash:
  assumes "wf_db d'" "later d d'" "row tr_id i (tokens d) = Some t"
  obtains t' where "row tr_hash (tr_hash t) (tokens d') = Some t'" "token_le t t'" "tr_id t' = i"
proof -
  from later_token [OF assms(2,3)] obtain t' where t': "row tr_id i (tokens d') = Some t'" "token_le t t'" .
  then have "row tr_hash (tr_hash t) (tokens d') = Some t'"
    using assms(1) by (auto simp: row_eq_Some_iff wf_db_def wf_unique_def token_le_def dest: row_SomeD)
  with t' that show ?thesis by (auto dest: row_SomeD)
qed

text \<open>
  A revoked token is dead for good. In every later state of the store, whatever ran in
  between, presenting it is refused as revoked (or fails on a database error), and no
  session on it is admitted a tunnel.
\<close>

theorem revoked_token_stays_dead:
  assumes "wf_db d" "coherent d" "row tr_id i (tokens d) = Some t" "tr_revoked_at t = Some r" "r \<noteq> zero_time"
    and "runs store_step d d'"
  shows "(hash_token plaintext = tr_hash t \<longrightarrow>
       authenticate plaintext n1 n2 fs d' = (Err (if fs 0 then Sql Fault else Auth_Revoked), d')) \<and>
    (sr_token_id (the_session sid d') = i \<longrightarrow>
       \<not> is_ok (fst (admit_proxy sid run_id name typ sub port n fs d')))"
proof -
  have inv: "store_inv d" using assms(1,2) by (simp add: store_inv_def)
  have wf': "wf_db d'" using store.runs_inv [OF assms(6) inv] by (simp add: store_inv_def)
  from later_hash [OF wf' store.runs_rel [OF assms(6) inv] assms(3)] obtain t' where
    t': "row tr_hash (tr_hash t) (tokens d') = Some t'" "token_le t t'" "tr_id t' = i" .
  from t'(2) assms(4) have rev: "tr_revoked_at t' = Some r" by (simp add: token_le_def)
  have "authenticate plaintext n1 n2 fs d' = (Err (if fs 0 then Sql Fault else Auth_Revoked), d')"
    if "hash_token plaintext = tr_hash t"
    using that t'(1) rev assms(5) by (simp add: authenticate_def check_token_wf [OF wf'])
  moreover have "\<not> is_ok (fst (admit_proxy sid run_id name typ sub port n fs d'))"
    if "sr_token_id (the_session sid d') = i"
  proof
    assume "is_ok (fst (admit_proxy sid run_id name typ sub port n fs d'))"
    then obtain adm d2 where "admit_proxy sid run_id name typ sub port n fs d' = (Ok adm, d2)"
      by (cases "admit_proxy sid run_id name typ sub port n fs d'") (auto simp: is_ok_iff)
    from admit_proxy_okD(1) [OF wf' this] have "can_open (the_session sid d') d'" by (rule admissibleD)
    moreover have "the_token i d' = t'"
      using t'(3) token_row_by_hash(1) [OF wf' t'(1)] by (simp add: the_token_def)
    ultimately show False using that rev by (simp add: can_open_def)
  qed
  ultimately show ?thesis by blast
qed

theorem revoked_token_stays_dead_witness:
  "authenticate ''alice-token'' 500 501 (\<lambda>_. False) (revoke_rows (\<lambda>t. tr_id t = 1) 450 sample_db) =
     (Err Auth_Revoked, revoke_rows (\<lambda>t. tr_id t = 1) 450 sample_db)"
proof -
  let ?d = "revoke_rows (\<lambda>t. tr_id t = 1) 450 sample_db"
  let ?t = "(sample_token_row 1 (hash_token ''alice-token''))\<lparr>tr_revoked_at := Some 450\<rparr>"
  have "store_inv ?d" by (rule step_inv [OF st_revoke sample_inv])
  moreover have "row tr_id 1 (tokens ?d) = Some ?t"
    by (simp add: revoke_rows_def update_tokens_def sample_token_row_def)
  ultimately show ?thesis
    using revoked_token_stays_dead [of ?d 1 ?t 450 ?d "''alice-token''" 500 501 "\<lambda>_. False"]
    by (simp add: store_inv_def runs_refl zero_time_def sample_token_row_def)
qed

lemma rows_of_id:
  assumes "wf_db d"
  shows "row tr_id i (tokens d) = Some t \<Longrightarrow> length (filter (\<lambda>t. (tr_id t = i \<and> Q t) \<and> R t) (tokens d)) =
      (if Q t \<and> R t then 1 else 0)"
    and "row tr_id i (tokens d) = None \<Longrightarrow> length (filter (\<lambda>t. (tr_id t = i \<and> Q t) \<and> R t) (tokens d)) = 0"
proof -
  have f: "filter (\<lambda>t. (tr_id t = i \<and> Q t) \<and> R t) (tokens d) =
      filter (\<lambda>t. Q t \<and> R t) (filter (\<lambda>t. tr_id t = i) (tokens d))"
    by (simp add: conj_commute conj_left_commute)
  show "row tr_id i (tokens d) = Some t \<Longrightarrow> length (filter (\<lambda>t. (tr_id t = i \<and> Q t) \<and> R t) (tokens d)) =
      (if Q t \<and> R t then 1 else 0)"
    and "row tr_id i (tokens d) = None \<Longrightarrow> length (filter (\<lambda>t. (tr_id t = i \<and> Q t) \<and> R t) (tokens d)) = 0"
    unfolding f by (simp_all add: wf_filter [OF assms])
qed

lemma revoke_rows_row:
  "row tr_id i (tokens (revoke_rows P n d)) =
     map_option (\<lambda>t. if P t \<and> tr_revoked_at t = None then t\<lparr>tr_revoked_at := Some n\<rparr> else t)
       (row tr_id i (tokens d))"
  by (simp add: revoke_rows_def update_tokens_def row_upd)

lemma kill_rows_row:
  "row sr_id i (sessions (kill_rows Q d)) =
     map_option (\<lambda>s. if Q s \<and> live s then s\<lparr>sr_killed := 1\<rparr> else s) (row sr_id i (sessions d))"
  by (simp add: kill_rows_def update_sessions_def row_upd)

lemma revoke_kill_parts [simp]:
  "sessions (revoke_rows P n d) = sessions d" "tokens (kill_rows Q d) = tokens d"
  "users (revoke_rows P n d) = users d" "users (kill_rows Q d) = users d"
  "proxies (revoke_rows P n d) = proxies d" "proxies (kill_rows Q d) = proxies d"
  by (simp_all add: revoke_rows_def update_tokens_def kill_rows_def update_sessions_def)

text \<open>
  \<open>RevokeTokenForUser\<close> touches nothing of another user. If the token is not the
  caller's, or is already revoked, the answer is \<open>ErrNotFound\<close> and nothing changes. If it
  succeeds, the token was the caller's and is now revoked, every live session on it is
  marked killed, and every other token and every session on another token are as before.
\<close>

theorem revoke_for_user_is_confined:
  assumes "wf_db d" "coherent d" "revoke_token_for_user i uid n (\<lambda>_. False) d = (r, d')"
  shows "(r = Err Not_Found \<and> d' = d \<and> (\<forall>t. row tr_id i (tokens d) = Some t \<longrightarrow>
            tr_user_id t \<noteq> uid \<or> tr_revoked_at t \<noteq> None)) \<or>
    (r = Ok () \<and>
      (\<exists>t. row tr_id i (tokens d) = Some t \<and> tr_user_id t = uid \<and> tr_revoked_at t = None \<and>
         row tr_id i (tokens d') = Some (t\<lparr>tr_revoked_at := Some n\<rparr>)) \<and>
      (\<forall>j. j \<noteq> i \<longrightarrow> row tr_id j (tokens d') = row tr_id j (tokens d)) \<and>
      (\<forall>j s. row sr_id j (sessions d) = Some s \<longrightarrow>
         row sr_id j (sessions d') = Some (if sr_token_id s = i \<and> live s then s\<lparr>sr_killed := 1\<rparr> else s)))"
proof (cases "\<exists>t. row tr_id i (tokens d) = Some t \<and> tr_user_id t = uid \<and> tr_revoked_at t = None")
  case False
  let ?P = "\<lambda>t. tr_id t = i \<and> tr_user_id t = uid"
  from False have none: "length (filter (\<lambda>t. ?P t \<and> tr_revoked_at t = None) (tokens d)) = 0"
    using rows_of_id [OF assms(1)] by (cases "row tr_id i (tokens d)") auto
  then have "revoke_rows ?P n d = d"
    by (simp add: revoke_rows_def update_tokens_def upd_none filter_empty_conv)
  with False none show ?thesis
    using assms(3) by (auto simp: revoke_token_for_user_def revoke_where_def Let_def)
next
  case True
  let ?P = "\<lambda>t. tr_id t = i \<and> tr_user_id t = uid"
  let ?Q = "\<lambda>s. sr_token_id s = i \<and> sr_user_id s = uid"
  from True obtain t where t: "row tr_id i (tokens d) = Some t" "tr_user_id t = uid" "tr_revoked_at t = None"
    by blast
  then have "length (filter (\<lambda>t. ?P t \<and> tr_revoked_at t = None) (tokens d)) = 1"
    using rows_of_id(1) [OF assms(1) t(1), of "\<lambda>t. tr_user_id t = uid" "\<lambda>t. tr_revoked_at t = None"] by simp
  then have d': "r = Ok ()" "d' = kill_rows ?Q (revoke_rows ?P n d)"
    using assms(3) by (auto simp: revoke_token_for_user_def revoke_where_def Let_def)
  have own: "sr_user_id s = uid" if s: "s \<in> set (sessions d)" "sr_token_id s = i" for s
  proof -
    from s assms(2) obtain t2 where "t2 \<in> set (tokens d)" "tr_id t2 = i" "tr_user_id t2 = sr_user_id s"
      by (auto simp: coherent_def)
    with wf_rows(2) [OF assms(1), of i t2] t show ?thesis by simp
  qed
  have "tr_id t = i" using t(1) by (auto dest: row_SomeD)
  with t have "row tr_id i (tokens d') = Some (t\<lparr>tr_revoked_at := Some n\<rparr>)"
    by (simp add: d' revoke_rows_row)
  moreover have "row tr_id j (tokens d') = row tr_id j (tokens d)" if "j \<noteq> i" for j
    using that by (cases "row tr_id j (tokens d)") (auto simp: d' revoke_rows_row dest: row_SomeD)
  moreover have "row sr_id j (sessions d') =
      Some (if sr_token_id s = i \<and> live s then s\<lparr>sr_killed := 1\<rparr> else s)"
    if "row sr_id j (sessions d) = Some s" for j s
    using that own [of s] by (auto simp: d' kill_rows_row dest: row_SomeD)
  ultimately show ?thesis using t d'(1) by blast
qed

theorem revoke_for_user_is_confined_witness:
  "fst (revoke_token_for_user 1 2 450 (\<lambda>_. False) sample_db) = Err Not_Found \<and>
   snd (revoke_token_for_user 1 2 450 (\<lambda>_. False) sample_db) = sample_db"
  using revoke_for_user_is_confined [OF wf_sample sample_coherent, of 1 2 450]
  by (cases "revoke_token_for_user 1 2 450 (\<lambda>_. False) sample_db") (auto simp: sample_token_row_def)

section \<open>Kicking\<close>

text \<open>
  C23: \<open>KillSession\<close> is a kick, not a revocation: it marks the live session killed and keeps
  the token, but until five minutes later every login with that token is refused, with
  the minutes left rounded up to at least one; afterwards it is accepted again if it was
  usable before. Every other session and every other token is as it was, and of this token
  only the time until which it is refused has changed.
\<close>

theorem kill_session_kicks:
  assumes "wf_db d" "row sr_id i (sessions d) = Some s" "live s"
    and "row tr_id (sr_token_id s) (tokens d) = Some t" "tr_revoked_at t = None"
    and "ur_disabled (the_user (tr_user_id t) d) = 0"
    and "kill_session i n (\<lambda>_. False) d = (r, d')" "hash_token plaintext = tr_hash t"
  shows "r = Ok () \<and> row sr_id i (sessions d') = Some (s\<lparr>sr_killed := 1\<rparr>) \<and>
    row tr_id (tr_id t) (tokens d') = Some (t\<lparr>tr_kicked_until := n + kick_cooldown\<rparr>) \<and>
    (\<forall>j. j \<noteq> i \<longrightarrow> row sr_id j (sessions d') = row sr_id j (sessions d)) \<and>
    (\<forall>j. j \<noteq> tr_id t \<longrightarrow> row tr_id j (tokens d') = row tr_id j (tokens d)) \<and>
    (if login < n + kick_cooldown
     then authenticate plaintext login used (\<lambda>_. False) d' = (Err (Auth_Kicked ((n + kick_cooldown - login) div 60 + 1)), d')
     else is_ok (fst (authenticate plaintext login used (\<lambda>_. False) d')))"
proof -
  have sid: "sr_id s = i" using assms(2) by (auto dest: row_SomeD)
  have "filter (\<lambda>s. sr_id s = i \<and> live s) (sessions d) = filter live (filter (\<lambda>s. sr_id s = i) (sessions d))"
    by (simp add: conj_commute)
  then have one: "filter (\<lambda>s. sr_id s = i \<and> live s) (sessions d) = [s]"
    using assms(2,3) by (simp add: wf_filter(5) [OF assms(1)])
  let ?k = "kill_rows (\<lambda>s. sr_id s = i) d"
  have wfk: "wf_db ?k" by (rule wf_intros) (rule assms(1))
  have row: "row sr_id i (sessions ?k) = Some (s\<lparr>sr_killed := 1\<rparr>)"
    using assms(2,3) sid by (simp add: kill_rows_row)
  have "filter (\<lambda>s. sr_id s = i) (sessions ?k) = [s\<lparr>sr_killed := 1\<rparr>]"
    by (simp add: wf_filter(5) [OF wfk] row)
  then have d': "r = Ok ()"
    "d' = update_tokens (\<lambda>t. tr_id t = sr_token_id s) (\<lambda>t. t\<lparr>tr_kicked_until := n + kick_cooldown\<rparr>) ?k"
    using assms(7) one by (simp_all add: kill_session_def Let_def kick_rows_def)
  have wf': "wf_db d'" unfolding d' by (intro wf_update_tokens wfk) simp_all
  let ?t = "t\<lparr>tr_kicked_until := n + kick_cooldown\<rparr>"
  have tid: "tr_id t = sr_token_id s" using assms(4) by (auto dest: row_SomeD)
  have tok: "row tr_id (sr_token_id s) (tokens d') = Some ?t"
    using assms(4) tid by (simp add: d' update_tokens_def row_upd)
  have others: "row tr_id j (tokens d') = row tr_id j (tokens d)" if "j \<noteq> tr_id t" for j
    using that tid by (cases "row tr_id j (tokens d)") (auto simp: d' update_tokens_def row_upd dest: row_SomeD)
  have "row sr_id j (sessions d') = row sr_id j (sessions d)" if "j \<noteq> i" for j
    using that by (cases "row sr_id j (sessions d)") (auto simp: d' update_tokens_def kill_rows_row dest: row_SomeD)
  note rest = tok others this
  from tok have "row tr_hash (hash_token plaintext) (tokens d') = Some ?t"
    using wf' assms(8) by (auto simp: row_eq_Some_iff wf_db_def wf_unique_def dest: row_SomeD)
  moreover have "the_user (tr_user_id t) d' = the_user (tr_user_id t) d"
    by (simp add: d' the_user_def update_tokens_def)
  ultimately have "check_token plaintext login (\<lambda>_. False) d' =
      (if login < n + kick_cooldown then Err (Auth_Kicked ((n + kick_cooldown - login) div 60 + 1))
       else Ok (scan_token (?t, the_user (tr_user_id t) d'), scan_user (the_user (tr_user_id t) d')))"
    using assms(5,6) by (simp add: check_token_wf [OF wf'])
  moreover have "row sr_id i (sessions d') = Some (s\<lparr>sr_killed := 1\<rparr>)"
    using row by (simp add: d' update_tokens_def)
  ultimately show ?thesis using d'(1) rest tid by (simp add: authenticate_def split: prod.split)
qed

theorem kill_session_kicks_witness:
  "fst (authenticate ''alice-token'' 500 501 (\<lambda>_. False) (snd (kill_session 1 400 (\<lambda>_. False) sample_db))) =
     Err (Auth_Kicked 4)"
proof -
  have s: "row sr_id 1 (sessions sample_db) = Some (sample_session 1 1)"
    and t: "row tr_id 1 (tokens sample_db) = Some (sample_token_row 1 (hash_token ''alice-token''))"
    and u: "ur_disabled (the_user 1 sample_db) = 0"
    by (simp_all add: sample_rows the_user_def)
  show ?thesis
    using kill_session_kicks [OF wf_sample s _ _ _ _ prod.collapse [symmetric],
        where t = "sample_token_row 1 (hash_token ''alice-token'')" and n = 400 and plaintext = "''alice-token''" and login = 500 and used = 501] t u
    by (simp add: kick_cooldown_def sample_session_def sample_token_row_def)
qed

section \<open>Expiry\<close>

text \<open>
  C24: After \<open>ExpireStaleSessions\<close> no live session has gone without a heartbeat for more
  than the two minutes before its clock reading, and no tunnel of a session it ended is
  active; a session that was seen in time, and its tunnels, are exactly as before.
\<close>

theorem expire_ends_exactly_the_stale:
  assumes "wf_db d" "expire_stale_sessions n1 n2 (\<lambda>_. False) d = (Ok (), d')"
  shows "sessions d' = map (\<lambda>s. if live s \<and> sr_last_seen_at s < n1 - 120 then s\<lparr>sr_ended_at := Some n2\<rparr> else s) (sessions d)
    \<and> proxies d' = map (\<lambda>p. if active p \<and> live (the_session (pr_session_id p) d) \<and>
                            sr_last_seen_at (the_session (pr_session_id p) d) < n1 - 120
                          then p\<lparr>pr_ended_at := Some n2\<rparr> else p) (proxies d)
    \<and> (\<forall>s \<in> set (sessions d'). live s \<longrightarrow> n1 - 120 \<le> sr_last_seen_at s)"
proof -
  have d': "d' = expire_sessions (n1 - 120) n2 (expire_proxies (n1 - 120) n2 d)"
    using assms(2) by (simp add: expire_stale_sessions_def Let_def session_stale_after_def)
  have ex: "list_ex (\<lambda>s. sr_id s = pr_session_id p \<and> stale c s) (sessions d) \<longleftrightarrow>
      stale c (the_session (pr_session_id p) d)" if "p \<in> set (proxies d)" for p c
  proof -
    have "row sr_id (pr_session_id p) (sessions d) = Some (the_session (pr_session_id p) d)"
      by (rule wf_reference(6) [OF assms(1) that])
    then show ?thesis
      by (auto simp: list_ex_iff wf_rows(3) [OF assms(1)])
        (metis option.sel the_session_def wf_rows(3) [OF assms(1)])
  qed
  have sess: "sessions d' = map (\<lambda>s. if live s \<and> sr_last_seen_at s < n1 - 120
      then s\<lparr>sr_ended_at := Some n2\<rparr> else s) (sessions d)"
    by (simp add: d' expire_sessions_def expire_proxies_def end_session_rows_def update_sessions_def upd_def
        stale_def cong: map_cong)
  have "proxies d' = map (\<lambda>p. if active p \<and> live (the_session (pr_session_id p) d) \<and>
      sr_last_seen_at (the_session (pr_session_id p) d) < n1 - 120
      then p\<lparr>pr_ended_at := Some n2\<rparr> else p) (proxies d)"
    using ex
    by (auto simp: d' expire_sessions_def expire_proxies_def end_session_rows_def update_sessions_def
        end_proxy_rows_def update_proxies_def upd_def stale_def)
  with sess show ?thesis by auto
qed

theorem expire_ends_exactly_the_stale_witness:
  "list_all (\<lambda>s. \<not> live s) (sessions (snd (expire_stale_sessions 400 401 (\<lambda>_. False) sample_db)))"
  using expire_ends_exactly_the_stale [OF wf_sample, of 400 401]
  by (simp add: expire_stale_sessions_def Let_def sample_session_def)

section \<open>Resolving a listed prefix\<close>

lemma like_append_any: "like (p @ ''%'') p"
proof (induction p)
  case (Cons c p)
  have "like (c # p @ ''%'') (c # p)" if "c = CHR ''%''"
  proof -
    have "like (CHR ''%'' # q) (s @ t)" if "like (CHR ''%'' # q) t" for q s t
      using that by (induction s) auto
    moreover have "like (CHR ''%'' # q) t" if "like q t" for q t
      using that by (cases t) auto
    ultimately have "like (CHR ''%'' # p @ ''%'') ([CHR ''%''] @ p)" using Cons.IH by blast
    with that show ?thesis by simp
  qed
  with Cons show ?case by auto
qed simp

text \<open>
  Asked for the prefix of a listed token, \<open>TokenByPrefix\<close> never returns another token
  and never misses it: it returns that token, or reports the prefix as ambiguous.
\<close>

theorem token_by_prefix_of_listed:
  assumes "wf_db d" "t \<in> set (tokens d)"
  shows "token_by_prefix (tr_prefix t) False d \<in>
    {Ok (scan_token (t, the_user (tr_user_id t) d)), Err (Prefix_Ambiguous (tr_prefix t))}"
proof -
  let ?P = "\<lambda>q. like (tr_prefix t @ ''%'') (tr_prefix q)"
  have "t \<in> set (filter ?P (tokens d))" using assms(2) like_append_any by simp
  then show ?thesis
    by (cases "filter ?P (tokens d)"; cases "tl (filter ?P (tokens d))")
      (auto simp: token_by_prefix_def token_join_wf [OF assms(1)])
qed

theorem token_by_prefix_of_listed_witness:
  "token_by_prefix ''AbCd_123'' False sample_db = Err (Prefix_Ambiguous ''AbCd_123'')"
proof -
  have "token_by_prefix ''AbCd_123'' False sample_db \<noteq>
      Ok (scan_token (sample_token_row 2 ''bob'', the_user 2 sample_db))"
    by (simp add: token_by_prefix_def token_join_wf [OF wf_sample] sample_token_row_def lower_ascii_def)
  then show ?thesis
    using token_by_prefix_of_listed [OF wf_sample, of "sample_token_row 2 ''bob''"]
    by (simp add: sample_token_row_def)
qed

end
