(* ===== verification/Kt_Plugin.thy ===== *)
theory Kt_Plugin
  imports Kt_Auth "HOL-Library.AList"
begin

text \<open>
  The frps server plugin (\<open>internal/plugin/handler.go\<close>): the requests frps sends at login,
  for a new tunnel, at a heartbeat and when a tunnel closes, from the body of the HTTP
  request to the answer and the database it leaves. The clock is read in the order
  \<open>clk 0, clk 1, ...\<close>, and \<open>fs i\<close> is the failure of the \<open>i\<close>-th statement; the statements of
  a store method keep the numbers they have there, shifted. A Go map is an association list
  with distinct keys, in the order in which the range over it visits them.
\<close>

section \<open>Limits\<close>

definition meta_token :: string where "meta_token = ''token''"
definition meta_session :: string where "meta_session = ''ktunnel_session''"
definition meta_user :: string where "meta_user = ''ktunnel_user''"

definition max_top_level_fields :: nat where "max_top_level_fields = 64"
definition max_meta_entries :: nat where "max_meta_entries = 32"
definition max_meta_bytes :: nat where "max_meta_bytes = 16384"
definition max_meta_key_bytes :: nat where "max_meta_key_bytes = 64"
definition max_meta_value_bytes :: nat where "max_meta_value_bytes = 8192"
definition max_token_bytes :: nat where "max_token_bytes = 8192"
definition max_user_bytes :: nat where "max_user_bytes = 256"
definition max_run_id_bytes :: nat where "max_run_id_bytes = 256"
definition max_proxy_name_bytes :: nat where "max_proxy_name_bytes = 256"
definition max_proxy_type_bytes :: nat where "max_proxy_type_bytes = 32"

text \<open>\<open>^[a-z0-9]([a-z0-9-]{0,61}[a-z0-9])?$\<close>\<close>

definition lower_alnum :: "char \<Rightarrow> bool" where
  "lower_alnum c \<longleftrightarrow> 97 \<le> byte c \<and> byte c \<le> 122 \<or> 48 \<le> byte c \<and> byte c \<le> 57"

definition subdomain_re :: "string \<Rightarrow> bool" where
  "subdomain_re s =
     (case s of
        [] \<Rightarrow> False
      | c # t \<Rightarrow> lower_alnum c \<and>
          (t = [] \<or> list_all (\<lambda>x. lower_alnum x \<or> x = CHR ''-'') (butlast t) \<and>
                    length (butlast t) \<le> 61 \<and> lower_alnum (last t)))"

definition bounded_text :: "string \<Rightarrow> nat \<Rightarrow> bool \<Rightarrow> bool" where
  "bounded_text s limit allow_empty \<longleftrightarrow>
     \<not> (\<not> allow_empty \<and> s = [] \<or> limit < length s) \<and> \<not> list_ex is_control (runes s)"

section \<open>Requests and answers\<close>

text \<open>The content of a request is kept raw, \<open>None\<close> where it is absent.\<close>

record request =
  rq_version :: string
  rq_op :: string
  rq_content :: "json option"

record user_info =
  ui_user :: string
  ui_metas :: "(string \<times> string) list"
  ui_run_id :: string

record new_proxy_content =
  np_user :: user_info
  np_proxy_name :: string
  np_proxy_type :: string
  np_subdomain :: string
  np_custom_domains :: "string list"
  np_remote_port :: int

record user_only_content =
  uo_user :: user_info
  uo_proxy_name :: string

datatype reason =
    Malformed_Login | Invalid_Login_Metadata | No_Token | Invalid_Token | Auth_Failed store_error
  | Server_Error | Malformed_Proxy | Invalid_Proxy | Session_Unknown | Session_Gone | Token_Gone
  | Account_Gone | Custom_Domains | Invalid_Subdomain | Portal_Name | Type_Refused string
  | Admission_Refused denial | Malformed_Ping

text \<open>
  An answer either rejects with a reason, leaves the operation unchanged, or replaces the
  content of the login.
\<close>

record response =
  rs_reject :: bool
  rs_reason :: "reason option"
  rs_unchange :: bool
  rs_content :: "(string \<times> json) list option"

definition reject :: "reason \<Rightarrow> response" where
  "reject why = \<lparr>rs_reject = True, rs_reason = Some why, rs_unchange = False, rs_content = None\<rparr>"

definition unchange :: response where
  "unchange = \<lparr>rs_reject = False, rs_reason = None, rs_unchange = True, rs_content = None\<rparr>"

section \<open>Decoding\<close>

text \<open>
  A JSON object stored into a \<open>map[string]string\<close>: keys are kept as they are, the last of
  equal keys wins, \<open>null\<close> is the empty string, \<open>null\<close> for the map empties it.
\<close>

fun store_str_members :: "(string \<times> json) list \<Rightarrow> (string \<times> string) list \<Rightarrow> (string \<times> string) list option" where
  "store_str_members [] m = Some m"
| "store_str_members ((k, v) # ms) m =
     Option.bind (store_string v []) (\<lambda>s. store_str_members ms (AList.update k s m))"

definition store_str_map :: "json \<Rightarrow> (string \<times> string) list \<Rightarrow> (string \<times> string) list option" where
  "store_str_map v old =
     (case v of JObj ms \<Rightarrow> store_str_members ms old | JNull \<Rightarrow> Some [] | _ \<Rightarrow> None)"

definition store_str_list :: "json \<Rightarrow> string list option" where
  "store_str_list v =
     (case v of
        JArr vs \<Rightarrow> those (map (\<lambda>x. store_string x []) vs)
      | JNull \<Rightarrow> Some []
      | _ \<Rightarrow> None)"

definition store_user_field :: "string \<Rightarrow> json \<Rightarrow> user_info \<Rightarrow> user_info option" where
  "store_user_field k v u =
     (if equal_fold k ''user'' then map_option (\<lambda>x. u\<lparr>ui_user := x\<rparr>) (store_string v (ui_user u))
      else if equal_fold k ''metas'' then map_option (\<lambda>x. u\<lparr>ui_metas := x\<rparr>) (store_str_map v (ui_metas u))
      else if equal_fold k ''run_id'' then map_option (\<lambda>x. u\<lparr>ui_run_id := x\<rparr>) (store_string v (ui_run_id u))
      else Some u)"

definition store_proxy_field :: "string \<Rightarrow> json \<Rightarrow> new_proxy_content \<Rightarrow> new_proxy_content option" where
  "store_proxy_field k v c =
     (if equal_fold k ''user''
      then map_option (\<lambda>x. c\<lparr>np_user := x\<rparr>) (store_struct store_user_field v (np_user c))
      else if equal_fold k ''proxy_name''
      then map_option (\<lambda>x. c\<lparr>np_proxy_name := x\<rparr>) (store_string v (np_proxy_name c))
      else if equal_fold k ''proxy_type''
      then map_option (\<lambda>x. c\<lparr>np_proxy_type := x\<rparr>) (store_string v (np_proxy_type c))
      else if equal_fold k ''subdomain''
      then map_option (\<lambda>x. c\<lparr>np_subdomain := x\<rparr>) (store_string v (np_subdomain c))
      else if equal_fold k ''custom_domains''
      then map_option (\<lambda>x. c\<lparr>np_custom_domains := x\<rparr>) (store_str_list v)
      else if equal_fold k ''remote_port''
      then map_option (\<lambda>x. c\<lparr>np_remote_port := x\<rparr>) (store_int v (np_remote_port c))
      else Some c)"

definition store_user_only_field :: "string \<Rightarrow> json \<Rightarrow> user_only_content \<Rightarrow> user_only_content option" where
  "store_user_only_field k v c =
     (if equal_fold k ''user''
      then map_option (\<lambda>x. c\<lparr>uo_user := x\<rparr>) (store_struct store_user_field v (uo_user c))
      else if equal_fold k ''proxy_name''
      then map_option (\<lambda>x. c\<lparr>uo_proxy_name := x\<rparr>) (store_string v (uo_proxy_name c))
      else Some c)"

definition store_request_field :: "string \<Rightarrow> json \<Rightarrow> request \<Rightarrow> request option" where
  "store_request_field k v r =
     (if equal_fold k ''version'' then map_option (\<lambda>x. r\<lparr>rq_version := x\<rparr>) (store_string v (rq_version r))
      else if equal_fold k ''op'' then map_option (\<lambda>x. r\<lparr>rq_op := x\<rparr>) (store_string v (rq_op r))
      else if equal_fold k ''content'' then Some (r\<lparr>rq_content := Some v\<rparr>)
      else Some r)"

definition no_user :: user_info where
  "no_user = \<lparr>ui_user = [], ui_metas = [], ui_run_id = []\<rparr>"

definition decode_request :: "string \<Rightarrow> request option" where
  "decode_request body =
     Option.bind (json_first (take 1048576 body))
       (\<lambda>v. store_struct store_request_field v \<lparr>rq_version = [], rq_op = [], rq_content = None\<rparr>)"

definition decode_new_proxy :: "json option \<Rightarrow> new_proxy_content option" where
  "decode_new_proxy raw =
     Option.bind raw (\<lambda>v. store_struct store_proxy_field v
       \<lparr>np_user = no_user, np_proxy_name = [], np_proxy_type = [], np_subdomain = [],
        np_custom_domains = [], np_remote_port = 0\<rparr>)"

definition decode_user_only :: "json option \<Rightarrow> user_only_content option" where
  "decode_user_only raw =
     Option.bind raw (\<lambda>v. store_struct store_user_only_field v \<lparr>uo_user = no_user, uo_proxy_name = []\<rparr>)"

text \<open>
  A value stored into an \<open>any\<close>: objects become maps, where the last of equal keys wins, and
  a number that no float64 holds is an error.
\<close>

definition obj_map :: "(string \<times> json) list \<Rightarrow> (string \<times> json) list" where
  "obj_map ms = fold (\<lambda>(k, v) m. AList.update k v m) ms []"

definition float_limit :: int where
  "float_limit = 2 ^ 1024 - 2 ^ 970"

text \<open>The literal is a mantissa of digits with a point, then an exponent.\<close>

definition float_in_range :: "string \<Rightarrow> bool" where
  "float_in_range lit =
     (let u = (if prefix ''-'' lit then drop 1 lit else lit);
          whole = takeWhile is_digit u;
          r1 = dropWhile is_digit u;
          frac = (if prefix ''.'' r1 then takeWhile is_digit (drop 1 r1) else []);
          r2 = (if prefix ''.'' r1 then dropWhile is_digit (drop 1 r1) else r1);
          expo = (if r2 = [] then 0 else parse_int_value (drop 1 r2)) - int (length frac);
          m = digits_value (whole @ frac)
      in if 0 \<le> expo then m * 10 ^ nat expo < float_limit
         else m < float_limit * 10 ^ nat (- expo))"

fun floats_ok :: "json \<Rightarrow> bool" where
  "floats_ok (JNum lit) = float_in_range lit"
| "floats_ok (JArr vs) = list_all floats_ok vs"
| "floats_ok (JObj ms) = list_all (\<lambda>(k, v). floats_ok v) ms"
| "floats_ok _ = True"

definition decode_login :: "json option \<Rightarrow> (string \<times> json) list option" where
  "decode_login raw =
     (case raw of
        Some (JObj ms) \<Rightarrow> if floats_ok (JObj ms) then Some (obj_map ms) else None
      | Some JNull \<Rightarrow> Some []
      | _ \<Rightarrow> None)"

section \<open>Handlers\<close>

fun valid_metas :: "(string \<times> string) list \<Rightarrow> nat \<Rightarrow> bool" where
  "valid_metas [] acc = True"
| "valid_metas ((key, v) # ms) acc =
     (if \<not> bounded_text key max_meta_key_bytes False \<or> \<not> bounded_text v max_meta_value_bytes True then False
      else let acc' = acc + (length key + length v) in
      if max_meta_bytes < acc' then False else valid_metas ms acc')"

definition valid_user_info :: "user_info \<Rightarrow> bool" where
  "valid_user_info u =
     (if \<not> bounded_text (ui_user u) max_user_bytes True \<or> \<not> bounded_text (ui_run_id u) max_run_id_bytes True \<or>
         max_meta_entries < length (ui_metas u)
      then False
      else valid_metas (ui_metas u) 0)"

definition meta :: "string \<Rightarrow> (string \<times> string) list \<Rightarrow> string" where
  "meta k m = (case map_of m k of None \<Rightarrow> [] | Some v \<Rightarrow> v)"

definition str_of :: "json option \<Rightarrow> string" where
  "str_of v = (case v of Some (JStr s) \<Rightarrow> s | _ \<Rightarrow> [])"

definition login_limits :: "(string \<times> nat) list" where
  "login_limits = [(''hostname'', 255), (''os'', 64), (''arch'', 64), (''client_address'', 255)]"

definition login_field_ok :: "(string \<times> json) list \<Rightarrow> string \<times> nat \<Rightarrow> bool" where
  "login_field_ok content = (\<lambda>(key, limit).
     case map_of content key of
       None \<Rightarrow> True
     | Some (JStr text) \<Rightarrow> bounded_text text limit True
     | Some _ \<Rightarrow> False)"

fun login_metas :: "(string \<times> json) list \<Rightarrow> nat \<Rightarrow> (string \<times> string) list \<Rightarrow> (string \<times> string) list option" where
  "login_metas [] acc metas = Some metas"
| "login_metas ((k, v) # ms) acc metas =
     (case v of
        JStr s \<Rightarrow>
          if \<not> bounded_text k max_meta_key_bytes False \<or> \<not> bounded_text s max_meta_value_bytes True then None
          else let acc' = acc + (length k + length s) in
          if max_meta_bytes < acc' then None else login_metas ms acc' (AList.update k s metas)
      | _ \<Rightarrow> login_metas ms acc metas)"

definition metas_of_login :: "(string \<times> json) list \<Rightarrow> (string \<times> string) list option" where
  "metas_of_login content =
     (case map_of content ''metas'' of
        Some (JObj ms) \<Rightarrow>
          let m = obj_map ms in
          if max_meta_entries < length m then None else login_metas m 0 []
      | _ \<Rightarrow> Some [])"

definition stamped_metas :: "(string \<times> string) list \<Rightarrow> session \<Rightarrow> user \<Rightarrow> (string \<times> string) list" where
  "stamped_metas metas sess u =
     AList.delete meta_token
       (AList.update meta_user (u_name u) (AList.update meta_session (itoa (s_id sess)) metas))"

definition login :: "json option \<Rightarrow> (nat \<Rightarrow> int) \<Rightarrow> (nat \<Rightarrow> bool) \<Rightarrow> db \<Rightarrow> response \<times> db" where
  "login raw clk fs d =
     (case decode_login raw of
        None \<Rightarrow> (reject Malformed_Login, d)
      | Some content \<Rightarrow>
          if max_top_level_fields < length content then (reject Malformed_Login, d)
          else if \<not> list_all (login_field_ok content) login_limits then (reject Invalid_Login_Metadata, d)
          else
            (case metas_of_login content of
               None \<Rightarrow> (reject Invalid_Login_Metadata, d)
             | Some metas \<Rightarrow>
                 let tok_text = meta meta_token metas in
                 if tok_text = [] then (reject No_Token, d)
                 else if \<not> bounded_text tok_text max_token_bytes False then (reject Invalid_Token, d)
                 else
                   (case authenticate tok_text (clk 0) (clk 1) fs d of
                      (Inl Not_Found, d1) \<Rightarrow> (reject Invalid_Token, d1)
                    | (Inl e, d1) \<Rightarrow> (reject (Auth_Failed e), d1)
                    | (Inr (tok, u), d1) \<Rightarrow>
                        let f = (\<lambda>k. str_of (map_of content k)) in
                        (case create_session (u_id u) (t_id tok) (f ''hostname'') (f ''os'') (f ''arch'')
                                (f ''client_address'') (clk 2) (\<lambda>i. fs (i + 4)) d1 of
                           (Inl e, d2) \<Rightarrow> (reject Server_Error, d2)
                         | (Inr sess, d2) \<Rightarrow>
                             let content' = AList.update ''metas''
                                   (JObj (map (\<lambda>(k, v). (k, JStr v)) (stamped_metas metas sess u)))
                                   (AList.update ''user'' (JStr (u_name u)) content);
                                 detail = f ''hostname'' @ '' ('' @ f ''os'' @ ''/'' @ f ''arch'' @ '') from '' @
                                   f ''client_address'' @ '' via token '' @ t_prefix tok
                             in (\<lparr>rs_reject = False, rs_reason = None, rs_unchange = False,
                                  rs_content = Some content'\<rparr>,
                                 audit_event (u_id u) ''login'' detail (clk 3) (fs 6) d2)))))"

definition session_of :: "user_info \<Rightarrow> (nat \<Rightarrow> bool) \<Rightarrow> db \<Rightarrow> reason + session" where
  "session_of u fs d =
     (let id_str = meta meta_session (ui_metas u) in
      if id_str = [] then Err Session_Unknown
      else
        (case session_by_id (parse_int_value id_str) (fs 0) d of
           Inl _ \<Rightarrow> Err Session_Unknown
         | Inr sess \<Rightarrow>
             if s_killed sess \<or> s_ended_at sess \<noteq> zero_time then Err Session_Gone
             else
               (case token_by_id (s_token_id sess) (fs 1) d of
                  Inl _ \<Rightarrow> Err Token_Gone
                | Inr tok \<Rightarrow>
                    if \<not> token_active tok then Err Token_Gone
                    else
                      (case user_by_id (s_user_id sess) (fs 2) d of
                         Inl _ \<Rightarrow> Err Account_Gone
                       | Inr usr \<Rightarrow> if u_disabled usr then Err Account_Gone else Ok sess))))"

definition check_proxy :: "(rune \<Rightarrow> rune) \<Rightarrow> new_proxy_content \<Rightarrow> reason + new_proxy_content" where
  "check_proxy uc c =
     (if np_proxy_type c = ''http'' then
        (if 0 < length (np_custom_domains c) then Err Custom_Domains
         else let sub = to_lower uc (np_subdomain c) in
         if \<not> subdomain_re sub then Err Invalid_Subdomain
         else if sub = ''ktunnel'' then Err Portal_Name
         else Ok (c\<lparr>np_subdomain := sub\<rparr>))
      else if np_proxy_type c = ''tcp'' then Ok c
      else Err (Type_Refused (np_proxy_type c)))"

definition open_target :: "new_proxy_content \<Rightarrow> string" where
  "open_target c = (if np_proxy_type c = ''tcp'' then CHR '':'' # itoa (np_remote_port c) else np_subdomain c)"

definition new_proxy ::
    "(rune \<Rightarrow> rune) \<Rightarrow> json option \<Rightarrow> (nat \<Rightarrow> int) \<Rightarrow> (nat \<Rightarrow> bool) \<Rightarrow> db \<Rightarrow> response \<times> db" where
  "new_proxy uc raw clk fs d =
     (case decode_new_proxy raw of
        None \<Rightarrow> (reject Malformed_Proxy, d)
      | Some c \<Rightarrow>
          if \<not> valid_user_info (np_user c) \<or> \<not> bounded_text (np_proxy_name c) max_proxy_name_bytes False \<or>
             \<not> bounded_text (np_proxy_type c) max_proxy_type_bytes False \<or> \<not> bounded_text (np_subdomain c) 63 True
          then (reject Invalid_Proxy, d)
          else
            (case session_of (np_user c) fs d of
               Inl why \<Rightarrow> (reject why, d)
             | Inr sess \<Rightarrow>
                 let d1 = snd (touch_session (s_id sess) (ui_run_id (np_user c)) (clk 0) (fs 3) d) in
                 (case check_proxy uc c of
                    Inl why \<Rightarrow> (reject why, d1)
                  | Inr c' \<Rightarrow>
                      (case admit_proxy (s_id sess) (ui_run_id (np_user c')) (np_proxy_name c') (np_proxy_type c')
                              (np_subdomain c') (np_remote_port c') (clk 1) (\<lambda>i. fs (i + 4)) d1 of
                         (Inl (Proxy_Denied why), d2) \<Rightarrow> (reject (Admission_Refused why), d2)
                       | (Inl _, d2) \<Rightarrow> (reject Server_Error, d2)
                       | (Inr adm, d2) \<Rightarrow>
                           (unchange,
                            audit_event (s_user_id sess) ''tunnel.open''
                              (np_proxy_type c' @ '' '' @ open_target c') (clk 2) (fs 12) d2)))))"

definition ping :: "json option \<Rightarrow> (nat \<Rightarrow> int) \<Rightarrow> (nat \<Rightarrow> bool) \<Rightarrow> db \<Rightarrow> response \<times> db" where
  "ping raw clk fs d =
     (case decode_user_only raw of
        None \<Rightarrow> (reject Malformed_Ping, d)
      | Some c \<Rightarrow>
          if \<not> valid_user_info (uo_user c) then (reject Malformed_Ping, d)
          else
            (case session_of (uo_user c) fs d of
               Inl why \<Rightarrow> (reject why, d)
             | Inr sess \<Rightarrow>
                 (unchange, snd (touch_session (s_id sess) (ui_run_id (uo_user c)) (clk 0) (fs 3) d))))"

definition close_proxy :: "json option \<Rightarrow> (nat \<Rightarrow> int) \<Rightarrow> (nat \<Rightarrow> bool) \<Rightarrow> db \<Rightarrow> response \<times> db" where
  "close_proxy raw clk fs d =
     (case decode_user_only raw of
        None \<Rightarrow> (unchange, d)
      | Some c \<Rightarrow>
          if \<not> valid_user_info (uo_user c) \<or> \<not> bounded_text (uo_proxy_name c) max_proxy_name_bytes False
          then (unchange, d)
          else
            let id_str = meta meta_session (ui_metas (uo_user c)) in
            if id_str = [] then (unchange, d)
            else
              let i = parse_int_value id_str;
                  d1 = snd (end_proxy i (uo_proxy_name c) (clk 0) (fs 0) d)
              in (case session_by_id i (fs 1) d1 of
                    Inl _ \<Rightarrow> (unchange, d1)
                  | Inr sess \<Rightarrow>
                      (unchange, audit_event (s_user_id sess) ''tunnel.close'' (uo_proxy_name c) (clk 1) (fs 2) d1)))"

datatype http_answer = Http_Error nat | Http_Json response

definition serve_http ::
    "(rune \<Rightarrow> rune) \<Rightarrow> string \<Rightarrow> string \<Rightarrow> (nat \<Rightarrow> int) \<Rightarrow> (nat \<Rightarrow> bool) \<Rightarrow> db \<Rightarrow> http_answer \<times> db" where
  "serve_http uc http_method body clk fs d =
     (if http_method \<noteq> ''POST'' then (Http_Error 405, d)
      else
        (case decode_request body of
           None \<Rightarrow> (Http_Error 400, d)
         | Some req \<Rightarrow>
             if \<not> bounded_text (rq_version req) 32 True \<or> \<not> bounded_text (rq_op req) 32 False
             then (Http_Error 400, d)
             else
               let (resp, d') =
                 (if rq_op req = ''Login'' then login (rq_content req) clk fs d
                  else if rq_op req = ''NewProxy'' then new_proxy uc (rq_content req) clk fs d
                  else if rq_op req = ''Ping'' then ping (rq_content req) clk fs d
                  else if rq_op req = ''CloseProxy'' then close_proxy (rq_content req) clk fs d
                  else (unchange, d))
               in (Http_Json resp, d')))"

end
