(* ===== verification/Kt_Text.thy ===== *)
theory Kt_Text
  imports Kt_Plugin
begin

text \<open>
  The texts of the errors: what \<open>err.Error()\<close> returns for each error of the store and the
  token code, and the reasons the plugin sends to frps. The text of a database error comes from
  the SQLite driver and is an argument, and so is the table of \<open>strconv.IsPrint\<close> above ASCII,
  which \<open>%q\<close> reads.
\<close>

section \<open>Quoting\<close>

definition printable :: "(rune \<Rightarrow> bool) \<Rightarrow> rune \<Rightarrow> bool" where
  "printable pr r \<longleftrightarrow> (if r < 0x80 then 0x20 \<le> r \<and> r < 0x7F else pr r)"

definition x_escape :: "nat \<Rightarrow> string" where
  "x_escape n = [CHR 0x5C, CHR ''x'', hex_char (n div 16), hex_char (n mod 16)]"

definition big_u_escape :: "nat \<Rightarrow> string" where
  "big_u_escape n =
     [CHR 0x5C, CHR ''U'', CHR ''0'', CHR ''0'', hex_char (n div 1048576 mod 16), hex_char (n div 65536 mod 16)] @
     drop 2 (u_escape (n mod 65536))"

definition letter_escape :: "rune \<Rightarrow> char option" where
  "letter_escape r =
     map_of [(7, CHR ''a''), (8, CHR ''b''), (12, CHR ''f''), (10, CHR ''n''), (13, CHR ''r''), (9, CHR ''t''), (11, CHR ''v'')] r"

definition go_quote_rune :: "(rune \<Rightarrow> bool) \<Rightarrow> char \<Rightarrow> rune option \<Rightarrow> string" where
  "go_quote_rune pr c ro =
     (case ro of
        None \<Rightarrow> x_escape (byte c)
      | Some r \<Rightarrow>
          if r = 0x22 \<or> r = 0x5C then [CHR 0x5C, chr r]
          else if printable pr r then encode_rune r
          else (case letter_escape r of
                  Some l \<Rightarrow> [CHR 0x5C, l]
                | None \<Rightarrow>
                    if r < 0x20 \<or> r = 0x7F then x_escape r
                    else if r < 0x10000 then u_escape r
                    else big_u_escape r))"

function go_quote_body :: "(rune \<Rightarrow> bool) \<Rightarrow> string \<Rightarrow> string" where
  "go_quote_body pr [] = []"
| "go_quote_body pr (c # s) = (case next_rune c s of (r, rest) \<Rightarrow> go_quote_rune pr c r @ go_quote_body pr rest)"
  by pat_completeness auto
termination
  by (relation "measure (\<lambda>(pr, s). length s)") (simp_all add: next_rune_shorter)

text \<open>\<open>strconv.Quote\<close>, the format \<open>%q\<close> of a string\<close>

definition go_quote :: "(rune \<Rightarrow> bool) \<Rightarrow> string \<Rightarrow> string" where
  "go_quote pr s = CHR 0x22 # go_quote_body pr s @ [CHR 0x22]"

section \<open>Errors\<close>

fun info_error_text :: "info_error \<Rightarrow> string" where
  "info_error_text Missing_Or_Invalid = ''missing or invalid relay address, port, or domain''"
| "info_error_text Invalid_Characters = ''relay names contain invalid characters''"
| "info_error_text Invalid_Tls_Name = ''invalid TLS server name''"

fun token_error_text :: "token_error \<Rightarrow> string" where
  "token_error_text (Invalid_Server_Info e) = ''invalid token server info: '' @ info_error_text e"
| "token_error_text Random_Failed = ''random source failed''"
| "token_error_text Not_A_Token = ''not a ktunnel token''"
| "token_error_text Malformed_Token = ''malformed token''"
| "token_error_text Unsupported_Version = ''unsupported ktunnel token version''"

fun denial_text :: "(rune \<Rightarrow> bool) \<Rightarrow> denial \<Rightarrow> string" where
  "denial_text pr Session_Not_Recognised = ''session not recognised - reconnect''"
| "denial_text pr Session_Terminated = ''session terminated by administrator''"
| "denial_text pr Token_Revoked = ''token has been revoked''"
| "denial_text pr Account_Disabled = ''account is disabled''"
| "denial_text pr Portal_Subdomain = ''subdomain '' @ go_quote pr ''ktunnel'' @ '' is reserved for the web portal''"
| "denial_text pr (Subdomain_Belongs_To sub owner) = ''subdomain '' @ go_quote pr sub @ '' belongs to '' @ owner"
| "denial_text pr (Subdomain_In_Use sub) = ''subdomain '' @ go_quote pr sub @ '' is already in use''"
| "denial_text pr (Port_Out_Of_Range lo hi) =
     ''remote port must be between '' @ itoa lo @ '' and '' @ itoa hi"
| "denial_text pr (Port_In_Use p) = ''remote port '' @ itoa p @ '' is already in use''"
| "denial_text pr (Type_Not_Allowed typ) = ''proxy type '' @ go_quote pr typ @ '' is not allowed''"
| "denial_text pr (Tunnel_Limit_Reached n) = ''tunnel limit reached ('' @ itoa n @ '')''"

fun store_error_text :: "(rune \<Rightarrow> bool) \<Rightarrow> (sql_error \<Rightarrow> string) \<Rightarrow> store_error \<Rightarrow> string" where
  "store_error_text pr sql Not_Found = ''not found''"
| "store_error_text pr sql (Sql e) = sql e"
| "store_error_text pr sql (Proxy_Denied d) = denial_text pr d"
| "store_error_text pr sql Name_Required = ''user name is required''"
| "store_error_text pr sql Name_Reserved = ''admin is a reserved user name''"
| "store_error_text pr sql (User_Exists name) = ''user '' @ go_quote pr name @ '' already exists''"
| "store_error_text pr sql Server_Not_Configured =
     ''server address/domain not configured - run: ktunneld admin set-server''"
| "store_error_text pr sql (Token_Error e) = token_error_text e"
| "store_error_text pr sql Auth_Revoked = ''token has been revoked''"
| "store_error_text pr sql (Auth_Kicked n) = ''disconnected by administrator - try again in '' @ itoa n @ '' min''"
| "store_error_text pr sql Auth_Disabled = ''account is disabled''"
| "store_error_text pr sql Portal_Reserved = ''ktunnel is reserved for the web portal''"
| "store_error_text pr sql (Already_Reserved sub) = go_quote pr sub @ '' is already reserved''"
| "store_error_text pr sql (Prefix_Ambiguous p) = ''prefix '' @ go_quote pr p @ '' is ambiguous''"
| "store_error_text pr sql (Invalid_Auth_Version v) = ''invalid admin web auth version '' @ go_quote pr v"

text \<open>The reason the plugin writes into a rejection.\<close>

fun reason_text :: "(rune \<Rightarrow> bool) \<Rightarrow> (sql_error \<Rightarrow> string) \<Rightarrow> reason \<Rightarrow> string" where
  "reason_text pr sql Malformed_Login = ''malformed login''"
| "reason_text pr sql Invalid_Login_Metadata = ''invalid login metadata''"
| "reason_text pr sql No_Token = ''no token presented - run: ktunnel login''"
| "reason_text pr sql Invalid_Token = ''invalid token''"
| "reason_text pr sql (Auth_Failed e) = store_error_text pr sql e"
| "reason_text pr sql Server_Error = ''server error''"
| "reason_text pr sql Malformed_Proxy = ''malformed proxy request''"
| "reason_text pr sql Invalid_Proxy = ''invalid proxy request''"
| "reason_text pr sql Session_Unknown = ''session not recognised - reconnect''"
| "reason_text pr sql Session_Gone = ''session terminated by administrator''"
| "reason_text pr sql Token_Gone = ''token has been revoked''"
| "reason_text pr sql Account_Gone = ''account is disabled''"
| "reason_text pr sql Custom_Domains = ''custom domains are not allowed - use a subdomain''"
| "reason_text pr sql Invalid_Subdomain = ''invalid subdomain''"
| "reason_text pr sql Portal_Name = ''subdomain '' @ go_quote pr ''ktunnel'' @ '' is reserved for the web portal''"
| "reason_text pr sql (Type_Refused typ) = ''proxy type '' @ go_quote pr typ @ '' is not allowed''"
| "reason_text pr sql (Admission_Refused d) = denial_text pr d"
| "reason_text pr sql Malformed_Ping = ''malformed ping''"

end
