(* ===== verification/Web_Portal.thy ===== *)
theory Web_Portal
  imports Web_Csrf Kt_Text "HOL-Library.State_Monad"
begin

text \<open>
  The handlers of the web portal (\<open>internal/web/server.go\<close>), each as a program in the state
  monad over what it touches: the tables in memory, the database, the clock, the statements
  that fail and the random source. A text the browser is shown is a constructor of \<open>notice\<close>; a
  text that is stored in the audit log is spelled out.
\<close>

section \<open>The world a handler runs in\<close>

record world =
  w_portal :: portal
  w_db :: db
  w_clk :: "nat \<Rightarrow> int"
  w_faults :: "nat \<Rightarrow> bool"
  w_random :: "nat \<Rightarrow> nat \<Rightarrow> string option"
  w_bcrypt :: "nat \<Rightarrow> string \<Rightarrow> string option"

definition advance :: "nat \<Rightarrow> (nat \<Rightarrow> 'a) \<Rightarrow> nat \<Rightarrow> 'a" where
  "advance n f i = f (n + i)"

type_synonym 'a web = "(world, 'a) state"

text \<open>The next reading of the clock, the next random bytes, the next hash of a password.\<close>

definition clock :: "int web" where
  "clock = State (\<lambda>w. (w_clk w 0, w\<lparr>w_clk := advance 1 (w_clk w)\<rparr>))"

definition random_bytes :: "nat \<Rightarrow> string option web" where
  "random_bytes n = State (\<lambda>w. (w_random w 0 n, w\<lparr>w_random := advance 1 (w_random w)\<rparr>))"

definition hash_gen :: "(string \<Rightarrow> string option) web" where
  "hash_gen = State (\<lambda>w. (w_bcrypt w 0, w\<lparr>w_bcrypt := advance 1 (w_bcrypt w)\<rparr>))"

text \<open>A call of the store with up to \<open>n\<close> statements, a read, and an operation on the tables in memory.\<close>

definition db_op :: "nat \<Rightarrow> ((nat \<Rightarrow> bool) \<Rightarrow> db \<Rightarrow> 'a \<times> db) \<Rightarrow> 'a web" where
  "db_op n f = State (\<lambda>w. case f (w_faults w) (w_db w) of
     (a, d) \<Rightarrow> (a, w\<lparr>w_db := d, w_faults := advance n (w_faults w)\<rparr>))"

definition db_read :: "nat \<Rightarrow> ((nat \<Rightarrow> bool) \<Rightarrow> db \<Rightarrow> 'a) \<Rightarrow> 'a web" where
  "db_read n f = State (\<lambda>w. (f (w_faults w) (w_db w), w\<lparr>w_faults := advance n (w_faults w)\<rparr>))"

definition in_memory :: "(portal \<Rightarrow> 'a \<times> portal) \<Rightarrow> 'a web" where
  "in_memory f = State (\<lambda>w. case f (w_portal w) of (a, p) \<Rightarrow> (a, w\<lparr>w_portal := p\<rparr>))"

definition store_now :: "int web" where
  "store_now = do { t \<leftarrow> clock; State_Monad.return (unix t) }"

definition random_hex :: "nat \<Rightarrow> string web" where
  "random_hex n = do {
     b \<leftarrow> random_bytes n;
     State_Monad.return (hex_encode (case b of None \<Rightarrow> replicate n (chr 0) | Some bs \<Rightarrow> bs)) }"

definition temporary_password :: "string web" where
  "temporary_password = random_hex 10"

definition audited :: "int \<Rightarrow> string \<Rightarrow> string \<Rightarrow> unit web" where
  "audited user_id action detail = do {
     t \<leftarrow> store_now;
     db_op 1 (\<lambda>fs d. ((), audit_event user_id action detail t (fs 0) d)) }"

section \<open>Answers\<close>

datatype korean_error =
    K_Name_Required | K_Name_Reserved | K_Name_Taken | K_Already_Reserved | K_Portal_Name
  | K_Not_Configured | K_Not_Found | K_Failed

datatype notice =
    Wrong_Host | Body_Over_Limit | Body_Broken | Stale_Page | Change_Temporary_Password | Admins_Only
  | Login_Unavailable | Login_Forbidden | Bad_Login | Too_Many_Logins | No_Login_Session | No_Such_Page
  | Account_Enabled | Account_Disabled_Note | Limit_Below_One | Limit_Changed | Token_Revoked_Note
  | Reserved_Note string | Released_Note string | Session_Ends_Soon | Wrong_Current_Password
  | Passwords_Differ | Password_Not_New | Changed_Elsewhere | Changed_By_Admin | Password_Changed
  | Change_Failed change_error | Store_Failed store_error | Korean korean_error

record page_base =
  pb_csrf :: string
  pb_msg :: string
  pb_error :: string
  pb_path :: string
  pb_is_admin :: bool
  pb_username :: string
  pb_must_change :: bool

datatype page =
    Login_Page string bool string string
  | Index_Page page_base "proxy list" "session list" nat "string option"
  | Users_Page page_base "user list"
  | User_Page page_base user "token list" "reservation list" string string "string option"
  | Audit_Page page_base "audit_entry list"
  | Settings_Page page_base
  | Me_Page page_base user "token list" "reservation list" string "session list" "proxy list" "string option"
  | Account_Page page_base

text \<open>A redirect carries its target, a message and an error for the query of the target.\<close>

datatype answer =
    Plain_Error nat notice
  | Redirect_To string "notice option" "notice option"
  | Html page
  | Static_File

datatype cookie_op = Set_Session string int | Clear_Session | Set_Login_Csrf string int | Clear_Login_Csrf

type_synonym reply = "cookie_op list \<times> answer"

definition answer_with :: "answer \<Rightarrow> reply web" where
  "answer_with a = State_Monad.return ([], a)"

definition redirect :: "string \<Rightarrow> reply web" where
  "redirect to = answer_with (Redirect_To to None None)"

definition redirect_msg :: "string \<Rightarrow> notice option \<Rightarrow> notice option \<Rightarrow> reply web" where
  "redirect_msg to msg err =
     answer_with (case err of Some e \<Rightarrow> Redirect_To to None (Some e) | None \<Rightarrow> Redirect_To to msg None)"

definition not_found :: "reply web" where
  "not_found = answer_with (Plain_Error 404 No_Such_Page)"

definition korean_store_error :: "(rune \<Rightarrow> bool) \<Rightarrow> (sql_error \<Rightarrow> string) \<Rightarrow> store_error \<Rightarrow> korean_error" where
  "korean_store_error pr sql e =
     (let m = store_error_text pr sql e in
      if contains m ''user name is required'' then K_Name_Required
      else if contains m ''reserved user name'' then K_Name_Reserved
      else if contains m ''already exists'' then K_Name_Taken
      else if contains m ''already reserved'' then K_Already_Reserved
      else if contains m ''web portal'' then K_Portal_Name
      else if contains m ''server address/domain not configured'' then K_Not_Configured
      else if e = Not_Found then K_Not_Found
      else K_Failed)"

abbreviation korean :: "server \<Rightarrow> store_error \<Rightarrow> notice" where
  "korean sv e \<equiv> Korean (korean_store_error (sv_print sv) (sv_sql_text sv) e)"

definition err_of :: "('e \<Rightarrow> notice) \<Rightarrow> 'e + 'a \<Rightarrow> notice option" where
  "err_of f r = (case r of Inl e \<Rightarrow> Some (f e) | Inr _ \<Rightarrow> None)"

section \<open>Sessions and guards\<close>

definition session_now :: "web_request \<Rightarrow> web_session option web" where
  "session_now r = do {
     t \<leftarrow> clock;
     (fail, d) \<leftarrow> db_read 1 (\<lambda>fs d. (fs 0, d));
     in_memory (current_session (wr_session_cookie r) t fail d) }"

definition or_no_session :: "web_session option \<Rightarrow> web_session" where
  "or_no_session s = (case s of None \<Rightarrow> no_web_session | Some s \<Rightarrow> s)"

definition url_path_of :: "web_request \<Rightarrow> string" where
  "url_path_of r = concat (map (Cons (CHR ''/'')) (if wr_path r = [] then [[]] else wr_path r))"

definition auth :: "web_request \<Rightarrow> reply web \<Rightarrow> reply web" where
  "auth r next = do {
     s \<leftarrow> session_now r;
     case s of
       None \<Rightarrow> redirect ''/login''
     | Some sess \<Rightarrow>
         if wr_method r = ''POST'' \<and> wr_form r ''csrf'' \<noteq> ws_csrf sess then answer_with (Plain_Error 403 Stale_Page)
         else if ws_must_change sess \<and> url_path_of r \<noteq> ''/account'' \<and> url_path_of r \<noteq> ''/account/password'' \<and>
                 url_path_of r \<noteq> ''/logout'' then
           answer_with (Redirect_To ''/account'' (Some Change_Temporary_Password) None)
         else next }"

definition admin_only :: "web_request \<Rightarrow> reply web \<Rightarrow> reply web" where
  "admin_only r next = auth r (do {
     s \<leftarrow> session_now r;
     if ws_is_admin (or_no_session s) then next else answer_with (Plain_Error 403 Admins_Only) })"

definition user_only :: "web_request \<Rightarrow> reply web \<Rightarrow> reply web" where
  "user_only r next = auth r (do {
     s \<leftarrow> session_now r;
     if ws_is_admin (or_no_session s) then redirect ''/'' else next })"

definition base :: "web_request \<Rightarrow> page_base web" where
  "base r = do {
     s \<leftarrow> session_now r;
     let sess = or_no_session s;
     State_Monad.return
       \<lparr>pb_csrf = ws_csrf sess, pb_msg = wr_query r ''msg'', pb_error = wr_query r ''error'',
        pb_path = url_path_of r, pb_is_admin = ws_is_admin sess, pb_username = ws_username sess,
        pb_must_change = ws_must_change sess\<rparr> }"

definition domain_shown :: "string option web" where
  "domain_shown = do {
     i \<leftarrow> db_read 3 server_info_of;
     State_Monad.return (case i of Inl _ \<Rightarrow> None | Inr info \<Rightarrow> Some (si_domain info)) }"

section \<open>Logging in and out\<close>

definition login_page :: "server \<Rightarrow> web_request \<Rightarrow> reply web" where
  "login_page sv r = do {
     s \<leftarrow> session_now r;
     case s of
       Some sess \<Rightarrow> redirect (if ws_is_admin sess then ''/'' else ''/me'')
     | None \<Rightarrow> do {
         t \<leftarrow> clock;
         nonce \<leftarrow> random_bytes 32;
         case login_csrf_token (sv_csrf_key sv) (wr_csrf_cookie r) nonce t of
           None \<Rightarrow> answer_with (Plain_Error 500 Login_Unavailable)
         | Some csrf \<Rightarrow> do {
             h \<leftarrow> db_read 1 (\<lambda>fs d. or_else (setting ''admin_password_hash'' (fs 0) d) []);
             State_Monad.return
               (if wr_csrf_cookie r = Some csrf then [] else [Set_Login_Csrf csrf (t + login_csrf_ttl)],
                Html (Login_Page csrf (h = []) (wr_query r ''msg'') (wr_query r ''error''))) } } }"

definition start_session :: "server \<Rightarrow> string \<Rightarrow> string \<Rightarrow> credential \<Rightarrow> bool web" where
  "start_session sv new_id lock_key cred = do {
     (fail, d) \<leftarrow> db_read 1 (\<lambda>fs d. (fs 0, d));
     t0 \<leftarrow> clock;
     t1 \<leftarrow> clock;
     csrf \<leftarrow> random_hex 16;
     in_memory (create_web_session (sv_order sv) new_id lock_key cred csrf (\<lambda>i. if i = 0 then t0 else t1) fail d) }"

definition login_submit :: "server \<Rightarrow> web_request \<Rightarrow> reply web" where
  "login_submit sv r = do {
     t \<leftarrow> clock;
     if \<not> login_csrf_valid (sv_csrf_key sv) r t \<or>
        (trim_space (wr_origin r) \<noteq> ''null'' \<and> \<not> login_origin_allowed sv r)
     then answer_with (Plain_Error 403 Login_Forbidden)
     else
       let ip = client_ip sv r; username = trim_space (wr_form r ''username'') in
       if username = [] \<or> max_login_username_bytes < length username \<or> list_ex is_control (runes username)
       then redirect_msg ''/login'' None (Some Bad_Login)
       else do {
         t1 \<leftarrow> clock;
         allowed \<leftarrow> in_memory (begin_login_attempt (sv_lower sv) ip username t1);
         if \<not> allowed then redirect_msg ''/login'' None (Some Too_Many_Logins)
         else do {
           cred \<leftarrow> db_read 1 (\<lambda>fs d. credential_for_username username (fs 0) d);
           let compare_hash = (if cr_hash cred = [] then sv_dummy_hash sv else cr_hash cred);
           if cr_hash cred = [] \<or> cr_disabled cred \<or> \<not> sv_compare sv compare_hash (wr_form r ''password'')
           then redirect_msg ''/login'' None (Some Bad_Login)
           else do {
             new_id \<leftarrow> random_hex 32;
             created \<leftarrow> start_session sv new_id (login_failure_key (sv_lower sv) ip username) cred;
             if \<not> created then redirect_msg ''/login'' None (Some No_Login_Session)
             else do {
               t2 \<leftarrow> clock;
               State_Monad.return
                 ([Set_Session new_id (t2 + session_ttl), Clear_Login_Csrf],
                  if cr_is_admin cred then Redirect_To ''/'' None None
                  else if cr_must_change cred then Redirect_To ''/account'' (Some Change_Temporary_Password) None
                  else Redirect_To ''/me'' None None) } } } } }"

definition logout :: "web_request \<Rightarrow> reply web" where
  "logout r = do {
     in_memory (\<lambda>p. ((), case wr_session_cookie r of
                            None \<Rightarrow> p
                          | Some c \<Rightarrow> p\<lparr>pt_sessions := AList.delete c (pt_sessions p)\<rparr>));
     State_Monad.return ([Clear_Session], Redirect_To ''/login'' None None) }"

definition signed_out :: "reply web" where
  "signed_out = State_Monad.return ([Clear_Session], Redirect_To ''/login'' (Some Password_Changed) None)"

definition cut_off :: "bool \<Rightarrow> int \<Rightarrow> unit web" where
  "cut_off is_admin user_id = in_memory (\<lambda>p. ((), invalidate_principal is_admin user_id p))"

section \<open>Texts of the audit log\<close>

definition ko :: "rune list \<Rightarrow> string" where
  "ko rs = concat (map encode_rune rs)"

definition created_in_web :: string where
  "created_in_web = ko [0xC6F9, 0x20, 0xAD00, 0xB9AC, 0x20, 0xD654, 0xBA74, 0xC5D0, 0xC11C, 0x20, 0xC0DD, 0xC131]"

definition changed_in_web :: string where
  "changed_in_web = ko [0xC6F9, 0x20, 0xAD00, 0xB9AC, 0x20, 0xD654, 0xBA74, 0xC5D0, 0xC11C, 0x20, 0xBCC0, 0xACBD]"

definition temporary_issued :: string where
  "temporary_issued = ko [0xC784, 0xC2DC, 0x20, 0xBE44, 0xBC00, 0xBC88, 0xD638, 0x20, 0xBC1C, 0xAE09]"

definition by_admin_issued :: string where
  "by_admin_issued = ko [0xAD00, 0xB9AC, 0xC790, 0x20, 0xBC1C, 0xAE09]"

definition by_admin_revoked :: string where
  "by_admin_revoked = ko [0xAD00, 0xB9AC, 0xC790, 0x20, 0xD3D0, 0xAE30]"

definition by_admin_ended :: string where
  "by_admin_ended = ko [0xAD00, 0xB9AC, 0xC790, 0x20, 0xC885, 0xB8CC]"

definition by_user_issued :: string where
  "by_user_issued = ko [0xC0AC, 0xC6A9, 0xC790, 0x20, 0xC9C1, 0xC811, 0x20, 0xBC1C, 0xAE09]"

definition by_user_revoked :: string where
  "by_user_revoked = ko [0xC0AC, 0xC6A9, 0xC790, 0x20, 0xC9C1, 0xC811, 0x20, 0xD3D0, 0xAE30]"

definition by_user_changed :: string where
  "by_user_changed = ko [0xC0AC, 0xC6A9, 0xC790, 0x20, 0xC9C1, 0xC811, 0x20, 0xBCC0, 0xACBD]"

text \<open>The format \<open>%s (%s), \<dots>\<close> of the details.\<close>

definition detail_of :: "string \<Rightarrow> string \<Rightarrow> string \<Rightarrow> string" where
  "detail_of a b what = a @ '' ('' @ b @ ''), '' @ what"

section \<open>The administrator's pages\<close>

definition index :: "web_request \<Rightarrow> reply web" where
  "index r = do {
     b \<leftarrow> base r;
     ps \<leftarrow> db_read 1 (\<lambda>fs d. or_else (active_proxies (fs 0) d) []);
     t \<leftarrow> store_now;
     ss \<leftarrow> db_read 1 (\<lambda>fs d. or_else (active_sessions t (fs 0) d) []);
     us \<leftarrow> db_read 1 (\<lambda>fs d. or_else (all_users (fs 0) d) []);
     dom \<leftarrow> domain_shown;
     answer_with (Html (Index_Page b ps ss (length us) dom)) }"

definition home :: "web_request \<Rightarrow> reply web" where
  "home r = do {
     s \<leftarrow> session_now r;
     if ws_is_admin (or_no_session s) then index r else redirect ''/me'' }"

definition users_page :: "web_request \<Rightarrow> reply web" where
  "users_page r = do {
     b \<leftarrow> base r;
     us \<leftarrow> db_read 1 (\<lambda>fs d. or_else (all_users (fs 0) d) []);
     answer_with (Html (Users_Page b us)) }"

definition render_user :: "web_request \<Rightarrow> user \<Rightarrow> string \<Rightarrow> string \<Rightarrow> reply web" where
  "render_user r u0 shown_token shown_pw = do {
     fresh \<leftarrow> db_read 1 (\<lambda>fs d. user_by_id (u_id u0) (fs 0) d);
     let u = or_else fresh u0;
     b \<leftarrow> base r;
     ts \<leftarrow> db_read 1 (\<lambda>fs d. or_else (tokens_of (u_id u) (fs 0) d) []);
     rs \<leftarrow> db_read 1 (\<lambda>fs d. or_else (reservations_of (u_id u) (fs 0) d) []);
     dom \<leftarrow> domain_shown;
     answer_with (Html (User_Page b u ts rs shown_token shown_pw dom)) }"

definition user_url :: "int \<Rightarrow> string" where
  "user_url i = ''/users/'' @ itoa i"

definition path_id :: "string \<Rightarrow> int option" where
  "path_id seg = (case parse_int seg of (n, None) \<Rightarrow> Some n | (n, Some _) \<Rightarrow> None)"

text \<open>A form's temporary password, or a generated one.\<close>

definition chosen_password :: "web_request \<Rightarrow> string web" where
  "chosen_password r =
     (if wr_form r ''temporary_password'' = [] then temporary_password
      else State_Monad.return (wr_form r ''temporary_password''))"

definition give_password :: "int \<Rightarrow> string \<Rightarrow> bool \<Rightarrow> (change_error + unit) web" where
  "give_password i pw must = do {
     gen \<leftarrow> hash_gen;
     db_op 1 (\<lambda>fs d. set_user_password gen i pw must (fs 0) d) }"

definition user_create :: "server \<Rightarrow> web_request \<Rightarrow> reply web" where
  "user_create sv r = do {
     pw \<leftarrow> chosen_password r;
     case valid_password pw of
       Some e \<Rightarrow> redirect_msg ''/users'' None (Some (Change_Failed (Password_Error e)))
     | None \<Rightarrow> do {
         t \<leftarrow> store_now;
         made \<leftarrow> db_op 2 (create_user (wr_form r ''name'') (parse_int_value (wr_form r ''max_tunnels'')) t);
         case made of
           Inl e \<Rightarrow> redirect_msg ''/users'' None (Some (korean sv e))
         | Inr u \<Rightarrow> do {
             done \<leftarrow> give_password (u_id u) pw True;
             case done of
               Inl e \<Rightarrow> redirect_msg (user_url (u_id u)) None (Some (Change_Failed e))
             | Inr _ \<Rightarrow> do {
                 audited (u_id u) ''user.create'' created_in_web;
                 render_user r u [] pw } } } }"

text \<open>A handler of a numbered user: the number must parse, and for most the user must exist.\<close>

definition with_id :: "string \<Rightarrow> (int \<Rightarrow> reply web) \<Rightarrow> reply web" where
  "with_id seg k = (case path_id seg of None \<Rightarrow> not_found | Some i \<Rightarrow> k i)"

definition with_user :: "string \<Rightarrow> (int \<Rightarrow> user \<Rightarrow> reply web) \<Rightarrow> reply web" where
  "with_user seg k = with_id seg (\<lambda>i. do {
     found \<leftarrow> db_read 1 (\<lambda>fs d. user_by_id i (fs 0) d);
     case found of Inl _ \<Rightarrow> not_found | Inr u \<Rightarrow> k i u })"

definition user_page :: "web_request \<Rightarrow> string \<Rightarrow> reply web" where
  "user_page r seg = with_user seg (\<lambda>i u. render_user r u [] [])"

definition user_set_disabled :: "bool \<Rightarrow> string \<Rightarrow> reply web" where
  "user_set_disabled disabled seg = with_id seg (\<lambda>i. do {
     res \<leftarrow> db_op 1 (\<lambda>fs d. set_user_disabled i disabled (fs 0) d);
     cut_off False i;
     (if is_ok res
      then audited i (if disabled then ''user.disable'' else ''user.enable'') changed_in_web
      else State_Monad.return ());
     redirect_msg (user_url i) (Some (if disabled then Account_Disabled_Note else Account_Enabled))
       (err_of Store_Failed res) })"

definition user_limit :: "web_request \<Rightarrow> string \<Rightarrow> reply web" where
  "user_limit r seg = with_id seg (\<lambda>i.
     case atoi (wr_form r ''max_tunnels'') of
       None \<Rightarrow> redirect_msg (user_url i) None (Some Limit_Below_One)
     | Some n \<Rightarrow>
         if n < 1 then redirect_msg (user_url i) None (Some Limit_Below_One)
         else do {
           res \<leftarrow> db_op 1 (\<lambda>fs d. set_user_max_tunnels i n (fs 0) d);
           redirect_msg (user_url i) (Some Limit_Changed) (err_of Store_Failed res) })"

definition user_password_reset :: "web_request \<Rightarrow> string \<Rightarrow> reply web" where
  "user_password_reset r seg = with_user seg (\<lambda>i u. do {
     pw \<leftarrow> chosen_password r;
     done \<leftarrow> give_password i pw True;
     case done of
       Inl e \<Rightarrow> redirect_msg (user_url i) None (Some (Change_Failed e))
     | Inr _ \<Rightarrow> do {
         cut_off False i;
         audited i ''user.password.reset'' temporary_issued;
         render_user r u [] pw } })"

definition issue :: "int \<Rightarrow> string \<Rightarrow> (store_error + (string \<times> token)) web" where
  "issue user_id label = do {
     rnd \<leftarrow> random_bytes 32;
     t \<leftarrow> store_now;
     db_op 5 (issue_token user_id label rnd t) }"

definition token_issue :: "server \<Rightarrow> web_request \<Rightarrow> string \<Rightarrow> reply web" where
  "token_issue sv r seg = with_user seg (\<lambda>i u. do {
     res \<leftarrow> issue (u_id u) (wr_form r ''label'');
     case res of
       Inl e \<Rightarrow> redirect_msg (user_url i) None (Some (korean sv e))
     | Inr (plain, tok) \<Rightarrow> do {
         audited (u_id u) ''token.issue'' (detail_of (t_label tok) (t_prefix tok) by_admin_issued);
         render_user r u plain [] } })"

definition token_revoke :: "string \<Rightarrow> reply web" where
  "token_revoke seg = with_id seg (\<lambda>i. do {
     found \<leftarrow> db_read 1 (\<lambda>fs d. token_by_id i (fs 0) d);
     case found of
       Inl _ \<Rightarrow> not_found
     | Inr tok \<Rightarrow> do {
         t \<leftarrow> store_now;
         res \<leftarrow> db_op 2 (revoke_token i t);
         (if is_ok res
          then audited (t_user_id tok) ''token.revoke'' (detail_of (t_label tok) (t_prefix tok) by_admin_revoked)
          else State_Monad.return ());
         redirect_msg (user_url (t_user_id tok)) (Some Token_Revoked_Note) (err_of Store_Failed res) } })"

definition reservation_add :: "server \<Rightarrow> web_request \<Rightarrow> string \<Rightarrow> reply web" where
  "reservation_add sv r seg = with_id seg (\<lambda>i. do {
     let sub = to_lower (sv_lower sv) (trim_space (wr_form r ''subdomain''));
     t \<leftarrow> store_now;
     res \<leftarrow> db_op 1 (\<lambda>fs d. reserve (sv_lower sv) sub i t (fs 0) d);
     (if is_ok res then audited i ''reserve'' sub else State_Monad.return ());
     redirect_msg (user_url i) (Some (Reserved_Note sub)) (err_of (korean sv) res) })"

definition reservation_release :: "server \<Rightarrow> string \<Rightarrow> reply web" where
  "reservation_release sv sub = do {
     found \<leftarrow> db_read 1 (\<lambda>fs d. reservation_by_name (sv_lower sv) sub (fs 0) d);
     case found of
       Inl _ \<Rightarrow> not_found
     | Inr held \<Rightarrow> do {
         res \<leftarrow> db_op 1 (\<lambda>fs d. release (sv_lower sv) sub (fs 0) d);
         (if is_ok res then audited (r_user_id held) ''release'' sub else State_Monad.return ());
         redirect_msg (user_url (r_user_id held)) (Some (Released_Note sub)) (err_of (korean sv) res) } }"

definition session_kill :: "string \<Rightarrow> reply web" where
  "session_kill seg = with_id seg (\<lambda>i. do {
     found \<leftarrow> db_read 1 (\<lambda>fs d. session_by_id i (fs 0) d);
     case found of
       Inl _ \<Rightarrow> not_found
     | Inr sess \<Rightarrow> do {
         t \<leftarrow> store_now;
         res \<leftarrow> db_op 2 (kill_session i t);
         (if is_ok res
          then audited (s_user_id sess) ''session.kill'' (detail_of (s_hostname sess) (s_client_addr sess) by_admin_ended)
          else State_Monad.return ());
         redirect_msg ''/'' (Some Session_Ends_Soon) (err_of Store_Failed res) } })"

definition audit_page :: "web_request \<Rightarrow> reply web" where
  "audit_page r = do {
     b \<leftarrow> base r;
     es \<leftarrow> db_read 1 (\<lambda>fs d. or_else (audit_log 200 (fs 0) d) []);
     answer_with (Html (Audit_Page b es)) }"

definition settings_page :: "web_request \<Rightarrow> reply web" where
  "settings_page r = do { b \<leftarrow> base r; answer_with (Html (Settings_Page b)) }"

section \<open>Changing a password\<close>

text \<open>The checks both forms make, in their order; the new hash where all of them pass.\<close>

definition new_password_hash :: "server \<Rightarrow> web_request \<Rightarrow> string \<Rightarrow> (notice + string) web" where
  "new_password_hash sv r current =
     (if \<not> sv_compare sv current (wr_form r ''current_password'') then State_Monad.return (Err Wrong_Current_Password)
      else if wr_form r ''new_password'' \<noteq> wr_form r ''confirm_password'' then State_Monad.return (Err Passwords_Differ)
      else if wr_form r ''new_password'' = wr_form r ''current_password'' then State_Monad.return (Err Password_Not_New)
      else do {
        gen \<leftarrow> hash_gen;
        State_Monad.return
          (case password_hash gen (wr_form r ''new_password'') of
             Inl e \<Rightarrow> Err (Change_Failed (Password_Error e))
           | Inr h \<Rightarrow> Ok h) })"

definition admin_password_form :: "server \<Rightarrow> web_request \<Rightarrow> reply web" where
  "admin_password_form sv r = do {
     cred \<leftarrow> db_read 1 (\<lambda>fs d. admin_web_credential (fs 0) d);
     let (h, version) = or_else cred ([], 0);
     checked \<leftarrow> new_password_hash sv r h;
     case checked of
       Inl e \<Rightarrow> redirect_msg ''/settings'' None (Some e)
     | Inr new_hash \<Rightarrow> do {
         res \<leftarrow> db_op 5 (set_admin_web_password_if_version new_hash version);
         case res of
           Inl e \<Rightarrow> redirect_msg ''/settings'' None (Some (korean sv e))
         | Inr changed \<Rightarrow>
             if \<not> changed then redirect_msg ''/settings'' None (Some Changed_Elsewhere)
             else do {
               audited 0 ''admin.password.change'' changed_in_web;
               cut_off True 0;
               signed_out } } }"

definition user_password_form :: "server \<Rightarrow> web_request \<Rightarrow> reply web" where
  "user_password_form sv r = do {
     s \<leftarrow> session_now r;
     found \<leftarrow> db_read 1 (\<lambda>fs d. user_by_id (ws_user_id (or_no_session s)) (fs 0) d);
     case found of
       Inl _ \<Rightarrow> not_found
     | Inr u \<Rightarrow> do {
         checked \<leftarrow> new_password_hash sv r (u_web_password_hash u);
         case checked of
           Inl e \<Rightarrow> redirect_msg ''/account'' None (Some e)
         | Inr new_hash \<Rightarrow> do {
             res \<leftarrow> db_op 1 (\<lambda>fs d.
               set_user_web_password_if_version (u_id u) (u_web_auth_version u) new_hash False (fs 0) d);
             case res of
               Inl e \<Rightarrow> redirect_msg ''/account'' None (Some (korean sv e))
             | Inr changed \<Rightarrow>
                 if \<not> changed then redirect_msg ''/account'' None (Some Changed_By_Admin)
                 else do {
                   audited (u_id u) ''user.password.change'' by_user_changed;
                   cut_off False (u_id u);
                   signed_out } } } }"

section \<open>A user's own pages\<close>

definition render_me :: "web_request \<Rightarrow> string \<Rightarrow> reply web" where
  "render_me r shown_token = do {
     s \<leftarrow> session_now r;
     found \<leftarrow> db_read 1 (\<lambda>fs d. user_by_id (ws_user_id (or_no_session s)) (fs 0) d);
     case found of
       Inl _ \<Rightarrow> redirect ''/login''
     | Inr u \<Rightarrow> do {
         b \<leftarrow> base r;
         ts \<leftarrow> db_read 1 (\<lambda>fs d. or_else (tokens_of (u_id u) (fs 0) d) []);
         rs \<leftarrow> db_read 1 (\<lambda>fs d. or_else (reservations_of (u_id u) (fs 0) d) []);
         t \<leftarrow> store_now;
         ss \<leftarrow> db_read 1 (\<lambda>fs d. or_else (active_sessions t (fs 0) d) []);
         ps \<leftarrow> db_read 1 (\<lambda>fs d. or_else (active_proxies (fs 0) d) []);
         dom \<leftarrow> domain_shown;
         answer_with (Html (Me_Page b u ts rs shown_token
           (filter (\<lambda>x. s_user_id x = u_id u) ss) (filter (\<lambda>x. p_user_id x = u_id u) ps) dom)) } }"

definition my_token_issue :: "server \<Rightarrow> web_request \<Rightarrow> reply web" where
  "my_token_issue sv r = do {
     s \<leftarrow> session_now r;
     let uid = ws_user_id (or_no_session s);
     res \<leftarrow> issue uid (wr_form r ''label'');
     case res of
       Inl e \<Rightarrow> redirect_msg ''/me'' None (Some (korean sv e))
     | Inr (plain, tok) \<Rightarrow> do {
         audited uid ''token.issue'' (detail_of (t_label tok) (t_prefix tok) by_user_issued);
         render_me r plain } }"

definition my_token_revoke :: "web_request \<Rightarrow> string \<Rightarrow> reply web" where
  "my_token_revoke r seg = do {
     s \<leftarrow> session_now r;
     let uid = ws_user_id (or_no_session s);
     with_id seg (\<lambda>i. do {
       t \<leftarrow> store_now;
       res \<leftarrow> db_op 2 (revoke_token_for_user i uid t);
       case res of
         Inl _ \<Rightarrow> not_found
       | Inr _ \<Rightarrow> do {
           audited uid ''token.revoke'' by_user_revoked;
           redirect_msg ''/me'' (Some Token_Revoked_Note) None } }) }"

definition account_page :: "web_request \<Rightarrow> reply web" where
  "account_page r = do { b \<leftarrow> base r; answer_with (Html (Account_Page b)) }"

section \<open>Routing\<close>

text \<open>
  The patterns \<open>Handler\<close> registers, over the decoded segments of a path that needs no cleaning
  (the library redirects one that does, and \<open>/static\<close> to \<open>/static/\<close>). A \<open>GET\<close> pattern also takes \<open>HEAD\<close>; a wildcard takes
  one segment that is not empty; what no other pattern takes is \<open>/\<close>.
\<close>

datatype route =
    R_Static | R_Login_Page | R_Login | R_Logout | R_Home | R_Users | R_User_Create | R_User string
  | R_Set_Disabled bool string | R_Limit string | R_Reset string | R_Token_Issue string
  | R_Reservation_Add string | R_Token_Revoke string | R_Release string | R_Kill string | R_Audit
  | R_Settings | R_Admin_Password | R_Me | R_My_Token_Issue | R_My_Token_Revoke string | R_Account
  | R_My_Password | R_Not_Found

definition route_get :: "string list \<Rightarrow> route" where
  "route_get path =
     (case path of
        [] \<Rightarrow> R_Home
      | [a] \<Rightarrow>
          if a = ''login'' then R_Login_Page
          else if a = ''users'' then R_Users
          else if a = ''audit'' then R_Audit
          else if a = ''settings'' then R_Settings
          else if a = ''me'' then R_Me
          else if a = ''account'' then R_Account
          else if a = ''static'' then R_Static
          else R_Not_Found
      | a # b # rest \<Rightarrow>
          if a = ''static'' then R_Static
          else if a = ''users'' \<and> b \<noteq> [] \<and> rest = [] then R_User b
          else R_Not_Found)"

definition route_post :: "string list \<Rightarrow> route" where
  "route_post path =
     (case path of
        [a] \<Rightarrow> if a = ''login'' then R_Login else if a = ''logout'' then R_Logout
               else if a = ''users'' then R_User_Create else R_Not_Found
      | [a, b] \<Rightarrow>
          if a = ''settings'' \<and> b = ''password'' then R_Admin_Password
          else if a = ''me'' \<and> b = ''tokens'' then R_My_Token_Issue
          else if a = ''account'' \<and> b = ''password'' then R_My_Password
          else R_Not_Found
      | [a, b, c] \<Rightarrow>
          if a = ''users'' \<and> b \<noteq> [] then
            (if c = ''disable'' then R_Set_Disabled True b
             else if c = ''enable'' then R_Set_Disabled False b
             else if c = ''limit'' then R_Limit b
             else if c = ''password'' then R_Reset b
             else if c = ''tokens'' then R_Token_Issue b
             else if c = ''reservations'' then R_Reservation_Add b
             else R_Not_Found)
          else if a = ''tokens'' \<and> b \<noteq> [] \<and> c = ''revoke'' then R_Token_Revoke b
          else if a = ''reservations'' \<and> b \<noteq> [] \<and> c = ''release'' then R_Release b
          else if a = ''sessions'' \<and> b \<noteq> [] \<and> c = ''kill'' then R_Kill b
          else R_Not_Found
      | [a, b, c, e] \<Rightarrow>
          if a = ''me'' \<and> b = ''tokens'' \<and> c \<noteq> [] \<and> e = ''revoke'' then R_My_Token_Revoke c else R_Not_Found
      | _ \<Rightarrow> R_Not_Found)"

definition route_of :: "web_request \<Rightarrow> route" where
  "route_of r =
     (if wr_method r = ''GET'' \<or> wr_method r = ''HEAD'' then route_get (wr_path r)
      else if wr_method r = ''POST'' then route_post (wr_path r)
      else R_Not_Found)"

fun serve_route :: "server \<Rightarrow> web_request \<Rightarrow> route \<Rightarrow> reply web" where
  "serve_route sv r R_Static = answer_with Static_File"
| "serve_route sv r R_Login_Page = login_page sv r"
| "serve_route sv r R_Login = login_submit sv r"
| "serve_route sv r R_Logout = auth r (logout r)"
| "serve_route sv r R_Home = auth r (home r)"
| "serve_route sv r R_Users = admin_only r (users_page r)"
| "serve_route sv r R_User_Create = admin_only r (user_create sv r)"
| "serve_route sv r (R_User seg) = admin_only r (user_page r seg)"
| "serve_route sv r (R_Set_Disabled b seg) = admin_only r (user_set_disabled b seg)"
| "serve_route sv r (R_Limit seg) = admin_only r (user_limit r seg)"
| "serve_route sv r (R_Reset seg) = admin_only r (user_password_reset r seg)"
| "serve_route sv r (R_Token_Issue seg) = admin_only r (token_issue sv r seg)"
| "serve_route sv r (R_Reservation_Add seg) = admin_only r (reservation_add sv r seg)"
| "serve_route sv r (R_Token_Revoke seg) = admin_only r (token_revoke seg)"
| "serve_route sv r (R_Release sub) = admin_only r (reservation_release sv sub)"
| "serve_route sv r (R_Kill seg) = admin_only r (session_kill seg)"
| "serve_route sv r R_Audit = admin_only r (audit_page r)"
| "serve_route sv r R_Settings = admin_only r (settings_page r)"
| "serve_route sv r R_Admin_Password = admin_only r (admin_password_form sv r)"
| "serve_route sv r R_Me = user_only r (render_me r [])"
| "serve_route sv r R_My_Token_Issue = user_only r (my_token_issue sv r)"
| "serve_route sv r (R_My_Token_Revoke seg) = user_only r (my_token_revoke r seg)"
| "serve_route sv r R_Account = user_only r (account_page r)"
| "serve_route sv r R_My_Password = user_only r (user_password_form sv r)"
| "serve_route sv r R_Not_Found = not_found"

definition handle :: "server \<Rightarrow> web_request \<Rightarrow> reply web" where
  "handle sv r =
     (if sv_canonical_host sv \<noteq> [] \<and> \<not> same_host (sv_fold sv) (wr_host r) (sv_canonical_host sv)
      then answer_with (Plain_Error 421 Wrong_Host)
      else if wr_method r = ''POST'' \<and> wr_body r = Body_Too_Large then answer_with (Plain_Error 413 Body_Over_Limit)
      else if wr_method r = ''POST'' \<and> wr_body r = Body_Unreadable then answer_with (Plain_Error 400 Body_Broken)
      else serve_route sv r (route_of r))"

section \<open>Building a server\<close>

text \<open>
  \<open>NewWithConfig\<close>, without the embedded templates: the configured host and networks must
  parse, the hash compared with where there is no account must be made, the key must be read.
  \<open>lib\<close> holds what the program takes from elsewhere.
\<close>

datatype setup_error = Setup_Host host_error | Setup_Network | Setup_Verifier | Setup_Key

definition new_server ::
    "server \<Rightarrow> string \<Rightarrow> string list \<Rightarrow> string option \<Rightarrow> string option \<Rightarrow> setup_error + (server \<times> portal)" where
  "new_server lib host cidrs dummy key =
     (case normalize_configured_host (sv_lower lib) host of
        Inl e \<Rightarrow> Err (Setup_Host e)
      | Inr canonical \<Rightarrow>
          (case parse_trusted cidrs of
             None \<Rightarrow> Err Setup_Network
           | Some nets \<Rightarrow>
               (case dummy of
                  None \<Rightarrow> Err Setup_Verifier
                | Some d \<Rightarrow>
                    (case key of
                       None \<Rightarrow> Err Setup_Key
                     | Some k \<Rightarrow>
                         Ok (lib\<lparr>sv_canonical_host := canonical, sv_trusted := nets, sv_dummy_hash := d,
                                  sv_csrf_key := k\<rparr>, new_portal)))))"

text \<open>The networks \<open>New\<close> trusts: the loopback addresses.\<close>

definition default_networks :: "string list" where
  "default_networks = [''127.0.0.0/8'', ''::1/128'']"

section \<open>Small texts of the pages\<close>

text \<open>\<open>initial\<close>: the first rune of a name, encoded again.\<close>

definition initial :: "string \<Rightarrow> string" where
  "initial v = (case runes v of [] \<Rightarrow> [] | r # _ \<Rightarrow> encode_rune r)"

text \<open>\<open>ago\<close>: the age of an instant, rounded to a second, in the largest unit that fits.\<close>

datatype age = Never | Seconds_Ago int | Minutes_Ago int | Hours_Ago int int | Days_Ago int

definition round_second :: "int \<Rightarrow> int" where
  "round_second d =
     (if d < 0 then - ((- d + second div 2) div second) else (d + second div 2) div second)"

definition ago :: "int \<Rightarrow> int \<Rightarrow> age" where
  "ago now t =
     (if t = zero_instant then Never
      else
        let d = round_second (now - t);
            quot = (\<lambda>x y. if x < 0 then - (- x div y) else x div y)
        in if d < 60 then Seconds_Ago d
           else if d < 3600 then Minutes_Ago (quot d 60)
           else if d < 48 * 3600 then Hours_Ago (quot d 3600) (quot d 60 mod 60)
           else Days_Ago (quot d 86400))"

text \<open>\<open>actionKorean\<close>: the label of an action of the audit log.\<close>

definition action_labels :: "(string \<times> string) list" where
  "action_labels =
     [(''user.create'', ko [0xC0AC, 0xC6A9, 0xC790, 0x20, 0xC0DD, 0xC131]), (''user.enable'', ko [0xC0AC, 0xC6A9, 0xC790, 0x20, 0xD65C, 0xC131, 0xD654]),
      (''user.disable'', ko [0xC0AC, 0xC6A9, 0xC790, 0x20, 0xBE44, 0xD65C, 0xC131, 0xD654]), (''user.password.reset'', ko [0xC784, 0xC2DC, 0x20, 0xBE44, 0xBC00, 0xBC88, 0xD638, 0x20, 0xBC1C, 0xAE09]),
      (''user.password.change'', ko [0xC0AC, 0xC6A9, 0xC790, 0x20, 0xBE44, 0xBC00, 0xBC88, 0xD638, 0x20, 0xBCC0, 0xACBD]), (''admin.password.change'', ko [0xAD00, 0xB9AC, 0xC790, 0x20, 0xBE44, 0xBC00, 0xBC88, 0xD638, 0x20, 0xBCC0, 0xACBD]),
      (''token.issue'', ko [0xD1A0, 0xD070, 0x20, 0xBC1C, 0xAE09]), (''token.revoke'', ko [0xD1A0, 0xD070, 0x20, 0xD3D0, 0xAE30]), (''reserve'', ko [0xC8FC, 0xC18C, 0x20, 0xC608, 0xC57D]),
      (''release'', ko [0xC8FC, 0xC18C, 0x20, 0xC608, 0xC57D, 0x20, 0xD574, 0xC81C]), (''session.kill'', ko [0xC5F0, 0xACB0, 0x20, 0xC885, 0xB8CC])]"

definition action_korean :: "string \<Rightarrow> string" where
  "action_korean v =
     (case map_of action_labels v of Some label \<Rightarrow> if label = [] then v else label | None \<Rightarrow> v)"

end
