(* ===== verification/Web_Limit.thy ===== *)
theory Web_Limit
  imports Web_Session
begin

text \<open>
  How the portal keeps its tables bounded, and how it slows password guessing down: the
  invariant of the state in memory over every operation on it, and the number of login
  attempts that pass in any minute.
\<close>

section \<open>Tables with a bounded number of entries\<close>

definition capped :: "nat \<Rightarrow> (string \<times> 'v) list \<Rightarrow> bool" where
  "capped n xs \<longleftrightarrow> distinct (map fst xs) \<and> length xs \<le> n"

definition count_of :: "('v \<Rightarrow> bool) \<Rightarrow> (string \<times> 'v) list \<Rightarrow> nat" where
  "count_of P xs = length (filter (\<lambda>(k, v). P v) xs)"

lemma count_of_simps [simp]:
  "count_of P [] = 0"
  "count_of P ((k, v) # xs) = (if P v then 1 else 0) + count_of P xs"
  by (simp_all add: count_of_def)

lemma distinct_filter_keys: "distinct (map fst xs) \<Longrightarrow> distinct (map fst (filter Q xs))"
  by (simp add: distinct_map_filter)

lemma capped_filter: "capped n xs \<Longrightarrow> capped n (filter Q xs)"
  by (auto simp: capped_def distinct_filter_keys intro: order_trans [OF length_filter_le])

lemma capped_delete: "capped n xs \<Longrightarrow> capped n (AList.delete k xs)"
  by (simp add: AList.delete_eq capped_filter)

lemma length_update: "length (AList.update k v xs) = (if k \<in> fst ` set xs then length xs else Suc (length xs))"
  by (induction xs) auto

lemma capped_update:
  "capped n xs \<Longrightarrow> length xs < n \<or> k \<in> fst ` set xs \<Longrightarrow> capped n (AList.update k v xs)"
  by (auto simp: capped_def length_update AList.distinct_update)

lemma count_filter_le: "count_of P (filter Q xs) \<le> count_of P xs"
  by (induction xs) auto

lemma count_delete_le: "count_of P (AList.delete k xs) \<le> count_of P xs"
  by (simp add: AList.delete_eq count_filter_le)

lemma count_update_le: "count_of P (AList.update k v xs) \<le> count_of P xs + (if P v then 1 else 0)"
  by (induction xs) auto

lemma count_delete_member:
  "(k, v) \<in> set xs \<Longrightarrow> P v \<Longrightarrow> count_of P (AList.delete k xs) < count_of P xs"
proof (induction xs)
  case (Cons x xs)
  obtain k' v' where x: "x = (k', v')" by (cases x)
  have "count_of P (AList.delete k xs) \<le> count_of P xs" by (rule count_delete_le)
  then show ?case using Cons by (auto simp: x)
qed simp

text \<open>A value found in the table after an update, a deletion or a filter.\<close>

lemma set_update_cases: "(k', w) \<in> set (AList.update k v xs) \<Longrightarrow> (k' = k \<and> w = v) \<or> (k', w) \<in> set xs"
  by (induction xs) (auto split: if_splits)

lemma set_delete_subset: "set (AList.delete k xs) \<subseteq> set xs"
  by (auto simp: AList.delete_eq)

section \<open>The oldest session of a principal\<close>

definition permutes_entries :: "(web_sessions \<Rightarrow> web_sessions) \<Rightarrow> bool" where
  "permutes_entries ord \<longleftrightarrow> (\<forall>ss. mset (ord ss) = mset ss)"

lemma oldest_of_member: "oldest_of ss best e \<in> insert best (fst ` set ss)"
  by (induction ss best e rule: oldest_of.induct) auto

lemma oldest_of_first:
  assumes "ss \<noteq> []"
  shows "oldest_of ss [] e \<in> fst ` set ss"
proof -
  obtain k s xs where ss: "ss = (k, s) # xs" using assms by (cases ss) auto
  show ?thesis using oldest_of_member [of xs k "ws_expires s"] by (simp add: ss)
qed

lemma make_room_count:
  assumes ord: "permutes_entries ord" and "count_of (same_principal a i) ss \<le> max_sessions_per_principal"
  shows "count_of (same_principal a i) (make_room ord a i ss) < max_sessions_per_principal"
proof -
  let ?mine = "filter (\<lambda>(k, s). same_principal a i s) (ord ss)"
  have m: "mset ?mine = mset (filter (\<lambda>(k, s). same_principal a i s) ss)"
    using ord by (simp add: permutes_entries_def)
  have len: "length ?mine = count_of (same_principal a i) ss"
    using m by (metis count_of_def size_mset)
  show ?thesis
  proof (cases "max_sessions_per_principal \<le> length ?mine")
    case True
    then have "?mine \<noteq> []" by (auto simp: max_sessions_per_principal_def)
    then have "oldest_of ?mine [] zero_instant \<in> fst ` set ?mine" by (rule oldest_of_first)
    then obtain s where "(oldest_of ?mine [] zero_instant, s) \<in> set ss" "same_principal a i s"
      using mset_eq_setD [OF ord [unfolded permutes_entries_def, rule_format, of ss]] by auto
    then have "count_of (same_principal a i) (AList.delete (oldest_of ?mine [] zero_instant) ss)
        < count_of (same_principal a i) ss"
      by (rule count_delete_member)
    with True assms(2) show ?thesis by (simp add: make_room_def Let_def)
  next
    case False
    with len show ?thesis by (simp add: make_room_def Let_def)
  qed
qed

lemma make_room_parts:
  "capped n ss \<Longrightarrow> capped n (make_room ord a i ss)"
  "count_of P (make_room ord a i ss) \<le> count_of P ss"
  "set (make_room ord a i ss) \<subseteq> set ss"
  by (simp_all add: make_room_def Let_def capped_delete count_delete_le set_delete_subset)

section \<open>The operations on the state in memory\<close>

inductive portal_step :: "portal \<Rightarrow> portal \<Rightarrow> bool" where
  step_current: "portal_step p (snd (current_session cookie now fail d p))"
| step_create: "permutes_entries ord \<Longrightarrow>
    portal_step p (snd (create_web_session ord new_id lock_key cred csrf clk fail d p))"
| step_logout: "portal_step p (p\<lparr>pt_sessions := AList.delete c (pt_sessions p)\<rparr>)"
| step_invalidate: "portal_step p (invalidate_principal a i p)"
| step_attempt: "portal_step p (snd (begin_login_attempt uc ip username now p))"

definition buckets_ok :: "nat \<Rightarrow> buckets \<Rightarrow> bool" where
  "buckets_ok limit bs \<longleftrightarrow>
     capped max_login_fail_entries bs \<and> (\<forall>(k, f) \<in> set bs. 0 < lf_count f \<and> lf_count f \<le> limit)"

definition portal_inv :: "portal \<Rightarrow> bool" where
  "portal_inv p \<longleftrightarrow>
     capped max_web_sessions (pt_sessions p) \<and>
     (\<forall>a i. count_of (same_principal a i) (pt_sessions p) \<le> max_sessions_per_principal) \<and>
     (\<forall>(k, s) \<in> set (pt_sessions p). ws_is_admin s \<longrightarrow> ws_user_id s = 0) \<and>
     buckets_ok max_login_fails (pt_fails p) \<and> buckets_ok max_ip_login_attempts (pt_ip_fails p)"

lemma buckets_ok_filter: "buckets_ok n bs \<Longrightarrow> buckets_ok n (filter Q bs)"
  by (auto simp: buckets_ok_def capped_filter)

lemma buckets_ok_allow:
  assumes "buckets_ok limit bs" "0 < limit"
  shows "buckets_ok limit (snd (allow_login_attempt bs key limit now))"
proof -
  have entry: "buckets_ok limit (AList.update key f bs)"
    if "length bs < max_login_fail_entries \<or> key \<in> fst ` set bs" "0 < lf_count f" "lf_count f \<le> limit" for f
    using assms(1) that by (auto simp: buckets_ok_def intro: capped_update dest!: set_update_cases)
  show ?thesis
  proof (cases "map_of bs key")
    case None
    then show ?thesis using assms by (auto simp: allow_login_attempt_def Let_def no_fail_def intro!: entry)
  next
    case (Some f)
    have e: "(key, f) \<in> set bs" by (rule map_of_SomeD [OF Some])
    then have k: "key \<in> fst ` set bs" by force
    have old: "buckets_ok limit (AList.update key g bs)" if "0 < lf_count g" "lf_count g \<le> limit" for g
      using entry k that by blast
    from Some show ?thesis
      using assms by (simp add: allow_login_attempt_def Let_def no_fail_def old)
  qed
qed

lemma portal_inv_sessions:
  assumes "portal_inv p" "capped max_web_sessions ss" "set ss \<subseteq> set (pt_sessions p)"
    and "\<And>a i. count_of (same_principal a i) ss \<le> count_of (same_principal a i) (pt_sessions p)"
  shows "portal_inv (p\<lparr>pt_sessions := ss\<rparr>)"
  using assms(1-3) order_trans [OF assms(4)] by (auto simp: portal_inv_def)

lemma admin_credential_zero:
  "credential_unchanged cred (credential_for_username nm fail d) \<Longrightarrow> cr_is_admin cred \<Longrightarrow> cr_user_id cred = 0"
  by (auto simp: credential_unchanged_def credential_for_username_def no_credential_def
      split: if_splits sum.splits prod.splits)

lemma portal_inv_filter: "portal_inv p \<Longrightarrow> portal_inv (p\<lparr>pt_sessions := filter Q (pt_sessions p)\<rparr>)"
  by (rule portal_inv_sessions) (auto simp: portal_inv_def capped_filter count_filter_le)

lemma portal_inv_delete: "portal_inv p \<Longrightarrow> portal_inv (p\<lparr>pt_sessions := AList.delete c (pt_sessions p)\<rparr>)"
  by (simp add: AList.delete_eq portal_inv_filter)

lemma portal_inv_create:
  assumes "portal_inv p" "permutes_entries ord"
  shows "portal_inv (snd (create_web_session ord new_id lock_key cred csrf clk fail d p))"
proof -
  let ?a = "cr_is_admin cred" and ?i = "cr_user_id cred"
  let ?kept = "prune_sessions (clk 0) (pt_sessions p)"
  let ?ss = "make_room ord ?a ?i ?kept"
  have kept: "capped max_web_sessions ?kept"
      "count_of (same_principal a i) ?kept \<le> max_sessions_per_principal" for a i
    using assms(1) count_filter_le [of "same_principal a i" _ "pt_sessions p"]
    by (auto simp: portal_inv_def prune_sessions_def capped_filter intro: order_trans)
  have ss: "capped max_web_sessions ?ss" "set ?ss \<subseteq> set (pt_sessions p)"
      "count_of (same_principal a i) ?ss \<le> count_of (same_principal a i) (pt_sessions p)" for a i
    using make_room_parts(1) [OF kept(1)] make_room_parts(3) [of ord ?a ?i ?kept] make_room_parts(2) [of "same_principal a i" ord ?a ?i ?kept]
      count_filter_le [of "same_principal a i" _ "pt_sessions p"]
    by (auto simp: prune_sessions_def intro: order_trans)
  have new: "count_of (same_principal a i) (AList.update new_id (session_for cred csrf (clk 1)) ?ss)
      \<le> max_sessions_per_principal" for a i
  proof -
    have le: "count_of (same_principal a i) ?ss \<le> max_sessions_per_principal"
      using ss(3) assms(1) by (meson order_trans portal_inv_def)
    have "same_principal a i (session_for cred csrf (clk 1)) \<Longrightarrow>
        same_principal a i = same_principal ?a ?i"
      by (auto simp: same_principal_def session_for_def fun_eq_iff)
    then have "same_principal a i (session_for cred csrf (clk 1)) \<Longrightarrow>
        count_of (same_principal a i) ?ss < max_sessions_per_principal"
      using make_room_count [OF assms(2) kept(2) [of ?a ?i]] by simp
    with le count_update_le [of "same_principal a i" new_id "session_for cred csrf (clk 1)" ?ss]
    show ?thesis by (auto split: if_splits)
  qed
  have "portal_inv (p\<lparr>pt_sessions := ?ss\<rparr>)"
    by (rule portal_inv_sessions [OF assms(1) ss])
  moreover have "portal_inv (p\<lparr>pt_sessions := AList.update new_id (session_for cred csrf (clk 1)) ?ss,
      pt_fails := AList.delete lock_key (pt_fails p)\<rparr>)"
    if "length ?ss < max_web_sessions" "?a \<longrightarrow> ?i = 0"
  proof -
    have "\<forall>(k, s) \<in> set (AList.update new_id (session_for cred csrf (clk 1)) ?ss). ws_is_admin s \<longrightarrow> ws_user_id s = 0"
      using assms(1) ss(2) that(2) by (fastforce simp: portal_inv_def session_for_def dest!: set_update_cases)
    then show ?thesis
      using assms(1) new ss(1) that(1) capped_update [OF ss(1)]
      by (simp add: portal_inv_def AList.delete_eq buckets_ok_filter)
  qed
  moreover have "?a \<longrightarrow> ?i = 0"
    if "credential_unchanged cred (credential_for_username (cr_username cred) fail d)"
    using admin_credential_zero [OF that] by simp
  ultimately show ?thesis using assms(1) by (simp add: create_web_session_def Let_def)
qed

lemma portal_inv_attempt:
  assumes "portal_inv p"
  shows "portal_inv (snd (begin_login_attempt uc ip username now p))"
proof -
  have "0 < max_login_fails" "0 < max_ip_login_attempts"
    by (simp_all add: max_login_fails_def max_ip_login_attempts_def)
  with assms show ?thesis
    using buckets_ok_allow [of max_ip_login_attempts "prune_bucket now (pt_ip_fails p)" ip now]
      buckets_ok_allow [of max_login_fails "prune_bucket now (pt_fails p)" "login_failure_key uc ip username" now]
    by (auto simp: begin_login_attempt_def Let_def prune_login_failures_def portal_inv_def prune_bucket_def
        buckets_ok_filter split: prod.splits)
qed

lemma portal_step_inv:
  assumes "portal_inv p" "portal_step p q"
  shows "portal_inv q"
  using assms(2,1)
  by cases (auto simp: current_session_def invalidate_principal_def portal_inv_delete portal_inv_filter
      portal_inv_create portal_inv_attempt split: option.split)

interpretation portal_machine: invariant_machine portal_step portal_inv
  by unfold_locales (rule portal_step_inv)

text \<open>
  C28: Whatever browsers send and however the clock runs, the tables the portal keeps in memory
  stay bounded: at most 1024 sessions, at most 16 of one user (or of the administrator), at
  most 1024 accounts and 1024 addresses with counted attempts, and no count above its limit.
\<close>

theorem portal_tables_stay_bounded:
  assumes "runs portal_step new_portal p"
  shows "length (pt_sessions p) \<le> 1024 \<and> distinct (map fst (pt_sessions p))
    \<and> (\<forall>a i. length (filter (\<lambda>(k, s). same_principal a i s) (pt_sessions p)) \<le> 16)
    \<and> length (pt_fails p) \<le> 1024 \<and> length (pt_ip_fails p) \<le> 1024
    \<and> list_all (\<lambda>(k, f). lf_count f \<le> 5) (pt_fails p) \<and> list_all (\<lambda>(k, f). lf_count f \<le> 20) (pt_ip_fails p)"
proof -
  have "portal_inv new_portal"
    by (simp add: portal_inv_def new_portal_def capped_def buckets_ok_def)
  with assms have "portal_inv p" by (rule portal_machine.runs_inv)
  then show ?thesis
    by (auto simp: portal_inv_def capped_def buckets_ok_def count_of_def max_web_sessions_def list_all_iff
        max_sessions_per_principal_def max_login_fail_entries_def max_login_fails_def max_ip_login_attempts_def)
qed

theorem portal_tables_stay_bounded_witness:
  "\<exists>p. runs portal_step new_portal p \<and> map_of (pt_ip_fails p) ''10.0.0.1'' \<noteq> None \<and> length (pt_ip_fails p) \<le> 1024"
proof -
  let ?p = "snd (begin_login_attempt id ''10.0.0.1'' ''bob'' second new_portal)"
  have run: "runs portal_step new_portal ?p" by (intro runs_one step_attempt)
  have "map_of (pt_ip_fails ?p) ''10.0.0.1'' \<noteq> None"
    by (simp add: begin_login_attempt_def prune_login_failures_def prune_bucket_def new_portal_def
        allow_login_attempt_def max_ip_login_attempts_def max_login_fail_entries_def no_fail_def Let_def split: prod.splits)
  with run portal_tables_stay_bounded [OF run] show ?thesis by blast
qed

section \<open>Counting the attempts that pass\<close>

text \<open>
  \<open>paced limit key hist bs t\<close>: by time \<open>t\<close> the attempts for \<open>key\<close> that passed are \<open>hist\<close>. No
  window of \<open>login_lockout\<close> holds more than \<open>limit\<close> of them, and the entry of the key counts at
  least those of the last such window.
\<close>

definition in_window :: "int \<Rightarrow> int list \<Rightarrow> int list" where
  "in_window a hist = filter (\<lambda>h. a \<le> h \<and> h < a + login_lockout) hist"

definition since :: "int \<Rightarrow> int list \<Rightarrow> int list" where
  "since t hist = filter (\<lambda>h. t - login_lockout < h) hist"

definition paced :: "nat \<Rightarrow> string \<Rightarrow> int list \<Rightarrow> buckets \<Rightarrow> int \<Rightarrow> bool" where
  "paced limit key hist bs t \<longleftrightarrow>
     (\<forall>a. length (in_window a hist) \<le> limit) \<and>
     (case map_of bs key of
        None \<Rightarrow> \<forall>h \<in> set hist. h + login_lockout \<le> t
      | Some f \<Rightarrow>
          lf_count f \<le> limit \<and> lf_last_seen f \<le> t \<and> (\<forall>h \<in> set hist. h \<le> lf_last_seen f) \<and>
          length (since (lf_last_seen f) hist) \<le> lf_count f \<and>
          (limit \<le> lf_count f \<longrightarrow> lf_until f = lf_last_seen f + login_lockout))"

lemma since_mono: "s \<le> t \<Longrightarrow> length (since t hist) \<le> length (since s hist)"
  by (induction hist) (auto simp: since_def)

lemma since_none: "\<forall>h \<in> set hist. h + login_lockout \<le> t \<Longrightarrow> since t hist = []"
  by (force simp: since_def filter_empty_conv)

lemma in_window_since: "t < a + login_lockout \<Longrightarrow> length (in_window a hist) \<le> length (since t hist)"
  by (induction hist) (auto simp: since_def in_window_def)

lemma in_window_snoc:
  assumes "length (since t (hist @ [t])) \<le> n" "length (in_window a hist) \<le> n"
  shows "length (in_window a (hist @ [t])) \<le> n"
proof (cases "a \<le> t \<and> t < a + login_lockout")
  case True
  then show ?thesis using in_window_since [of t a "hist @ [t]"] assms(1) by linarith
next
  case False
  with assms(2) show ?thesis by (auto simp: in_window_def)
qed

text \<open>
  The contract of a limiter: a positive number of attempts. What its client proves once is
  used for the limit per address and for the limit per address and account.
\<close>

locale rate_limit =
  fixes limit :: nat
  assumes limit_pos: "0 < limit"
begin

lemma paced_start: "map_of bs key = None \<Longrightarrow> paced limit key [] bs t"
  by (simp add: paced_def in_window_def)

lemma paced_later: "paced limit key hist bs s \<Longrightarrow> s \<le> t \<Longrightarrow> paced limit key hist bs t"
  by (force simp: paced_def split: option.splits)

lemma paced_prune:
  assumes "paced limit key hist bs t" "distinct (map fst bs)"
  shows "paced limit key hist (prune_bucket t bs) t"
proof (cases "map_of bs key")
  case None
  then have "map_of (prune_bucket t bs) key = None"
    by (auto simp: prune_bucket_def map_of_eq_None_iff)
  with assms None show ?thesis by (simp add: paced_def)
next
  case (Some f)
  show ?thesis
  proof (cases "lf_until f \<le> t \<and> login_fail_retention < t - lf_last_seen f")
    case True
    have "b = f" if "(key, b) \<in> set bs" for b
      using map_of_is_SomeI [OF assms(2) that] Some by simp
    with True have "key \<notin> fst ` set (prune_bucket t bs)"
      by (auto simp: prune_bucket_def)
    then have "map_of (prune_bucket t bs) key = None" by (simp add: map_of_eq_None_iff)
    with True Some assms(1) show ?thesis
      by (force simp: paced_def login_fail_retention_def login_lockout_def second_def)
  next
    case False
    have "map_of (prune_bucket t bs) key = Some f"
      using False Some assms(2)
      by (auto simp: prune_bucket_def distinct_filter_keys intro!: map_of_is_SomeI dest: map_of_SomeD)
    with assms(1) Some show ?thesis by (simp add: paced_def)
  qed
qed

lemma paced_other:
  assumes "paced limit key hist bs t" "k \<noteq> key"
  shows "paced limit key hist (snd (allow_login_attempt bs k n t)) t"
    and "paced limit key hist (AList.delete k bs) t"
proof -
  have same: "map_of bs' key = map_of bs key \<Longrightarrow> paced limit key hist bs' t" for bs'
    using assms(1) by (simp add: paced_def)
  show "paced limit key hist (snd (allow_login_attempt bs k n t)) t"
    using assms(2) by (intro same) (simp add: allow_login_attempt_def Let_def AList.update_conv')
  show "paced limit key hist (AList.delete k bs) t"
    using assms(2) by (intro same) simp
qed

lemma paced_refused:
  "allow_login_attempt bs key limit t = (False, bs') \<Longrightarrow> bs' = bs"
  by (auto simp: allow_login_attempt_def Let_def split: if_splits)

lemma paced_passed:
  assumes "paced limit key hist bs t" "allow_login_attempt bs key limit t = (True, bs')"
  shows "paced limit key (hist @ [t]) bs' t"
proof -
  define f where "f = (case map_of bs key of None \<Rightarrow> no_fail | Some f \<Rightarrow> f)"
  define g where "g = (if limit \<le> lf_count f then no_fail else f)"
  have bs': "bs' = AList.update key
      \<lparr>lf_count = lf_count g + 1, lf_until = (if limit \<le> lf_count g + 1 then t + login_lockout else lf_until g),
       lf_last_seen = t\<rparr> bs" and open_now: "\<not> (limit \<le> lf_count f \<and> t < lf_until f)"
    using assms(2) by (auto simp: allow_login_attempt_def Let_def f_def g_def split: if_splits)
  have past: "\<forall>h \<in> set hist. h \<le> t"
    using assms(1) by (force simp: paced_def login_lockout_def second_def split: option.splits)
  have cnt: "length (since t hist) \<le> lf_count g \<and> lf_count g < limit"
  proof (cases "map_of bs key")
    case None
    then have "since t hist = []" using assms(1) by (simp add: paced_def since_none)
    with None show ?thesis using limit_pos by (simp add: f_def g_def no_fail_def)
  next
    case (Some e)
    then have e: "lf_last_seen e \<le> t" "length (since (lf_last_seen e) hist) \<le> lf_count e"
        "\<forall>h \<in> set hist. h \<le> lf_last_seen e" "limit \<le> lf_count e \<longrightarrow> lf_until e = lf_last_seen e + login_lockout"
      using assms(1) by (simp_all add: paced_def)
    show ?thesis
    proof (cases "limit \<le> lf_count e")
      case True
      then have "\<forall>h \<in> set hist. h + login_lockout \<le> t"
        using e open_now Some by (force simp: f_def)
      then show ?thesis using True Some limit_pos by (simp add: since_none f_def g_def no_fail_def)
    next
      case False
      then show ?thesis using e since_mono [OF e(1), of hist] Some by (simp add: f_def g_def)
    qed
  qed
  have now: "length (since t (hist @ [t])) \<le> lf_count g + 1"
    using cnt by (simp add: since_def login_lockout_def second_def)
  have "length (in_window a (hist @ [t])) \<le> limit" for a
    using now cnt assms(1) by (intro in_window_snoc) (auto simp: paced_def)
  then show ?thesis
    using now cnt past by (auto simp: paced_def bs' AList.update_conv')
qed

end

interpretation ip_limit: rate_limit max_ip_login_attempts
  by unfold_locales (simp add: max_ip_login_attempts_def)

interpretation account_limit: rate_limit max_login_fails
  by unfold_locales (simp add: max_login_fails_def)

section \<open>Sequences of attempts\<close>

text \<open>
  A history of the portal: attempts to log in, and successful logins, each of which clears
  the count of its address and account.
\<close>

datatype login_event = Attempt string string int | Signed_In string

fun passed :: "(rune \<Rightarrow> rune) \<Rightarrow> login_event list \<Rightarrow> portal \<Rightarrow> (string \<times> string \<times> int) list \<times> portal" where
  "passed uc [] p = ([], p)"
| "passed uc (Attempt ip name t # es) p =
     (let (ok, p1) = begin_login_attempt uc ip name t p;
          (ps, p2) = passed uc es p1
      in (if ok then (ip, name, t) # ps else ps, p2))"
| "passed uc (Signed_In key # es) p = passed uc es (p\<lparr>pt_fails := AList.delete key (pt_fails p)\<rparr>)"

fun event_times :: "login_event list \<Rightarrow> int list" where
  "event_times [] = []"
| "event_times (Attempt ip name t # es) = t # event_times es"
| "event_times (Signed_In key # es) = event_times es"

lemma paced_drop: "paced limit key (hist @ [t]) bs s \<Longrightarrow> paced limit key hist bs s"
  by (auto simp: paced_def in_window_def since_def split: option.splits) (meson le_add1 order_trans)+

lemma portal_inv_distinct:
  "portal_inv p \<Longrightarrow> distinct (map fst (pt_fails p)) \<and> distinct (map fst (pt_ip_fails p))"
  by (simp add: portal_inv_def buckets_ok_def capped_def)

lemma attempt_ip:
  assumes "portal_inv p" "paced max_ip_login_attempts ip hist (pt_ip_fails p) t"
    and "begin_login_attempt uc ip' name t p = (ok, p1)"
  shows "paced max_ip_login_attempts ip (if ok \<and> ip' = ip then hist @ [t] else hist) (pt_ip_fails p1) t"
proof -
  let ?bs = "prune_bucket t (pt_ip_fails p)"
  have pruned: "paced max_ip_login_attempts ip hist ?bs t"
    using ip_limit.paced_prune [OF assms(2)] portal_inv_distinct [OF assms(1)] by simp
  obtain ok1 bs1 where a: "allow_login_attempt ?bs ip' max_ip_login_attempts t = (ok1, bs1)"
    by (cases "allow_login_attempt ?bs ip' max_ip_login_attempts t")
  then have p1: "pt_ip_fails p1 = bs1" and ok: "ok \<Longrightarrow> ok1"
    using assms(3) by (auto simp: begin_login_attempt_def Let_def prune_login_failures_def split: if_splits prod.splits)
  show ?thesis
  proof (cases "ip' = ip")
    case False
    then show ?thesis using ip_limit.paced_other(1) [OF pruned False, of max_ip_login_attempts] a p1 by simp
  next
    case True
    show ?thesis
    proof (cases ok1)
      case False
      then show ?thesis using ip_limit.paced_refused [of ?bs ip t bs1] a True pruned p1 ok by auto
    next
      case ok1: True
      then show ?thesis
        using ip_limit.paced_passed [OF pruned, of bs1] a True p1 by (auto intro: paced_drop)
    qed
  qed
qed

lemma attempt_account:
  assumes "portal_inv p" "paced max_login_fails key hist (pt_fails p) t"
    and "begin_login_attempt uc ip' name t p = (ok, p1)"
  shows "paced max_login_fails key (if ok \<and> login_failure_key uc ip' name = key then hist @ [t] else hist)
    (pt_fails p1) t"
proof -
  let ?bs = "prune_bucket t (pt_fails p)" and ?k = "login_failure_key uc ip' name"
  have pruned: "paced max_login_fails key hist ?bs t"
    using account_limit.paced_prune [OF assms(2)] portal_inv_distinct [OF assms(1)] by simp
  obtain ok1 bs1 where a: "allow_login_attempt ?bs ?k max_login_fails t = (ok1, bs1)"
    by (cases "allow_login_attempt ?bs ?k max_login_fails t")
  consider (ip) "\<not> ok" "pt_fails p1 = ?bs" | (both) "ok = ok1" "pt_fails p1 = bs1"
    using assms(3) a
    by (auto simp: begin_login_attempt_def Let_def prune_login_failures_def split: if_splits prod.splits)
  then show ?thesis
  proof cases
    case ip
    with pruned show ?thesis by simp
  next
    case both
    show ?thesis
    proof (cases "?k = key")
      case False
      then show ?thesis using account_limit.paced_other(1) [OF pruned False, of max_login_fails] a both by simp
    next
      case True
      then show ?thesis
        using account_limit.paced_refused [of ?bs key t bs1] account_limit.paced_passed [OF pruned, of bs1]
          a both pruned
        by (cases ok1) auto
    qed
  qed
qed

lemma passed_ip:
  assumes "portal_inv p" "paced max_ip_login_attempts ip hist (pt_ip_fails p) t" "sorted (t # event_times es)"
  shows "length (in_window a (hist @ map (\<lambda>(i, n, s). s) (filter (\<lambda>(i, n, s). i = ip) (fst (passed uc es p)))))
    \<le> max_ip_login_attempts"
  using assms
proof (induction uc es p arbitrary: hist t rule: passed.induct)
  case (2 uc ip' name s es p)
  obtain ok p1 where b: "begin_login_attempt uc ip' name s p = (ok, p1)" by fastforce
  have "portal_inv p1" using portal_inv_attempt [OF 2(2), of uc ip' name s] b by simp
  moreover have "paced max_ip_login_attempts ip hist (pt_ip_fails p) s"
    using ip_limit.paced_later [OF 2(3)] 2(4) by simp
  then have "paced max_ip_login_attempts ip (if ok \<and> ip' = ip then hist @ [s] else hist) (pt_ip_fails p1) s"
    using attempt_ip [OF 2(2) _ b] by simp
  ultimately show ?case
    using 2(1) [OF b [symmetric] refl, of "if ok \<and> ip' = ip then hist @ [s] else hist" s] 2(4)
    by (auto simp: b split: prod.splits if_splits)
next
  case (3 uc key es p)
  have "portal_inv (p\<lparr>pt_fails := AList.delete key (pt_fails p)\<rparr>)"
    using 3(2) by (simp add: portal_inv_def AList.delete_eq buckets_ok_filter)
  then show ?case using 3 by simp
qed (auto simp: paced_def)

lemma passed_account:
  assumes "portal_inv p" "paced max_login_fails key hist (pt_fails p) t" "sorted (t # event_times es)"
    and "Signed_In key \<notin> set es"
  shows "length (in_window a (hist @ map (\<lambda>(i, n, s). s)
      (filter (\<lambda>(i, n, s). login_failure_key uc i n = key) (fst (passed uc es p))))) \<le> max_login_fails"
  using assms
proof (induction uc es p arbitrary: hist t rule: passed.induct)
  case (2 uc ip' name s es p)
  obtain ok p1 where b: "begin_login_attempt uc ip' name s p = (ok, p1)" by fastforce
  let ?hist = "if ok \<and> login_failure_key uc ip' name = key then hist @ [s] else hist"
  have "portal_inv p1" using portal_inv_attempt [OF 2(2), of uc ip' name s] b by simp
  moreover have "paced max_login_fails key hist (pt_fails p) s"
    using account_limit.paced_later [OF 2(3)] 2(4) by simp
  then have "paced max_login_fails key ?hist (pt_fails p1) s" using attempt_account [OF 2(2) _ b] by simp
  ultimately show ?case
    using 2(1) [OF b [symmetric] refl, of ?hist s] 2(4,5)
    by (auto simp: b split: prod.splits if_splits)
next
  case (3 uc k es p)
  have "portal_inv (p\<lparr>pt_fails := AList.delete k (pt_fails p)\<rparr>)"
    using 3(2) by (simp add: portal_inv_def AList.delete_eq buckets_ok_filter)
  moreover have "paced max_login_fails key hist (AList.delete k (pt_fails p)) t"
    using account_limit.paced_other(2) [OF 3(3), of k] 3(5) by auto
  ultimately show ?case using 3(1) [of hist t] 3(4,5) by simp
qed (auto simp: paced_def)

lemma passed_append:
  "passed uc (xs @ ys) p =
     (let (ps, q) = passed uc xs p; (qs, r) = passed uc ys q in (ps @ qs, r))"
  by (induction uc xs p rule: passed.induct) (auto simp: Let_def split: prod.splits)

lemma passed_state:
  assumes "portal_inv p" "paced max_login_fails key hist (pt_fails p) t" "sorted (t # event_times es)"
  shows "portal_inv (snd (passed uc es p)) \<and>
    (\<exists>hist'. paced max_login_fails key hist' (pt_fails (snd (passed uc es p))) (last (t # event_times es)))"
  using assms
proof (induction uc es p arbitrary: hist t rule: passed.induct)
  case (2 uc ip' name s es p)
  obtain ok p1 where b: "begin_login_attempt uc ip' name s p = (ok, p1)" by fastforce
  have "portal_inv p1" using portal_inv_attempt [OF 2(2), of uc ip' name s] b by simp
  moreover have "paced max_login_fails key hist (pt_fails p) s"
    using account_limit.paced_later [OF 2(3)] 2(4) by simp
  note attempt_account [OF 2(2) this b]
  ultimately show ?case
    using 2(1) [OF b [symmetric] refl] 2(4) by (fastforce simp: b split: prod.splits)
next
  case (3 uc k es p)
  let ?bs = "AList.delete k (pt_fails p)"
  have "portal_inv (p\<lparr>pt_fails := ?bs\<rparr>)"
    using 3(2) by (simp add: portal_inv_def AList.delete_eq buckets_ok_filter)
  moreover have "\<exists>hist'. paced max_login_fails key hist' ?bs t"
    using account_limit.paced_other(2) [OF 3(3), of k] account_limit.paced_start [of ?bs key t]
    by (cases "k = key") (auto simp: AList.delete_conv')
  ultimately show ?case using 3(1) 3(4) by fastforce
qed auto

lemma portal_inv_new: "portal_inv new_portal"
  by (simp add: portal_inv_def new_portal_def capped_def buckets_ok_def)

lemma event_times_append: "event_times (xs @ ys) = event_times xs @ event_times ys"
  by (induction xs rule: event_times.induct) simp_all

lemma sorted_before_after:
  "sorted (t # event_times (xs @ ys)) \<Longrightarrow>
     sorted (t # event_times xs) \<and> sorted (last (t # event_times xs) # event_times ys)"
  by (auto simp: event_times_append sorted_append)

lemma in_window_append: "in_window a (xs @ ys) = in_window a xs @ in_window a ys"
  by (simp add: in_window_def)

text \<open>
  C29: Password guessing is slow. In any history of attempts and logins with a clock that does
  not run backwards, no more than 20 attempts from one address get as far as the password
  within 60 seconds; and whatever came before, over any stretch of the history without a
  successful login to an account from an address (so since the last one), no more than 5 for that
  account from that address. (A successful login clears the count of its account and address.)
\<close>

theorem login_attempts_limited:
  assumes "sorted (event_times (before @ es))"
  shows "length (filter (\<lambda>(i, n, t). i = ip \<and> a \<le> t \<and> t < a + 60 * second)
            (fst (passed uc (before @ es) new_portal))) \<le> 20
    \<and> (Signed_In (login_failure_key uc ip name) \<notin> set es \<longrightarrow>
        length (filter (\<lambda>(i, n, t). login_failure_key uc i n = login_failure_key uc ip name \<and>
                                    a \<le> t \<and> t < a + 60 * second)
            (fst (passed uc es (snd (passed uc before new_portal))))) \<le> 5)"
proof -
  define t0 where "t0 = Min (insert 0 (set (event_times (before @ es))))"
  have sorted: "sorted (t0 # event_times (before @ es))" using assms by (auto simp: t0_def)
  have window: "length (in_window a (map (\<lambda>(i, n, t). t) (filter P xs))) =
      length (filter (\<lambda>(i, n, t). P (i, n, t) \<and> a \<le> t \<and> t < a + 60 * second) xs)" for P and xs :: "(string \<times> string \<times> int) list"
    by (induction xs) (auto simp: in_window_def login_lockout_def)
  let ?key = "login_failure_key uc ip name" and ?p = "snd (passed uc before new_portal)"
  have "paced max_ip_login_attempts ip [] (pt_ip_fails new_portal) t0"
    and start: "paced max_login_fails ?key [] (pt_fails new_portal) t0"
    by (simp_all add: new_portal_def ip_limit.paced_start account_limit.paced_start)
  then have ips: "length (filter (\<lambda>(i, n, t). i = ip \<and> a \<le> t \<and> t < a + 60 * second)
            (fst (passed uc (before @ es) new_portal))) \<le> 20"
    using passed_ip [OF portal_inv_new _ sorted, of ip "[]" a uc] by (simp add: window max_ip_login_attempts_def)
  have two: "sorted (t0 # event_times before)" "sorted (last (t0 # event_times before) # event_times es)"
    using sorted_before_after [OF sorted] by simp_all
  obtain hist where p: "portal_inv ?p" "paced max_login_fails ?key hist (pt_fails ?p) (last (t0 # event_times before))"
    using passed_state [OF portal_inv_new start two(1), of uc] by blast
  show ?thesis
    using ips passed_account [OF p two(2), of a uc] by (auto simp: window max_login_fails_def in_window_append intro: order_trans)
qed

theorem login_attempts_limited_witness:
  "length (filter (\<lambda>(i, n, t). login_failure_key id i n = login_failure_key id ''10.0.0.1'' ''bob'' \<and>
      0 \<le> t \<and> t < 0 + 60 * second)
    (fst (passed id (map (\<lambda>n. Attempt ''10.0.0.1'' ''bob'' (n * second)) [3, 4, 5, 6, 7, 8, 9])
      (snd (passed id [Attempt ''10.0.0.1'' ''bob'' second, Signed_In (login_failure_key id ''10.0.0.1'' ''bob'')] new_portal))))) \<le> 5"
proof -
  let ?key = "login_failure_key id ''10.0.0.1'' ''bob''"
  let ?before = "[Attempt ''10.0.0.1'' ''bob'' second, Signed_In ?key]"
  let ?es = "map (\<lambda>n. Attempt ''10.0.0.1'' ''bob'' (n * second)) [3, 4, 5, 6, 7, 8, 9]"
  have "Signed_In ?key \<notin> set ?es" by simp
  moreover have "sorted (event_times (?before @ ?es))" by (simp add: second_def)
  note login_attempts_limited [OF this, of "''10.0.0.1''" 0 id "''bob''"]
  ultimately show ?thesis by blast
qed

end
