(* ===== verification/Web_Effect.thy ===== *)
theory Web_Effect
  imports Web_Portal Web_Limit
begin

text \<open>
  What a request to the portal may do to the world. A relation between the world before and
  after is an effect when programs composed of parts with the effect have it; the two effects
  used are soundness (the tables in memory and the database move by their steps) and, for a
  user's own pages, confinement to the rows of that user.
\<close>

section \<open>Interface: an effect\<close>

locale effect =
  fixes R :: "world \<Rightarrow> world \<Rightarrow> bool"
  assumes R_frame: "w_portal w' = w_portal w \<Longrightarrow> w_db w' = w_db w \<Longrightarrow> R w w'"
    and R_trans: "R u v \<Longrightarrow> R v w \<Longrightarrow> R u w"
begin

abbreviation eff :: "'a web \<Rightarrow> bool" where "eff m \<equiv> state_io_rel R m"

lemma eff_return: "eff (State_Monad.return a)"
  by (simp add: state_io_rel_def R_frame)

lemma eff_bind: "eff m \<Longrightarrow> (\<And>x. eff (f x)) \<Longrightarrow> eff (State_Monad.bind m f)"
  by (auto simp: state_io_rel_def split: prod.split) (metis R_trans snd_conv)

lemma eff_clock: "eff clock"
  by (simp add: state_io_rel_def clock_def R_frame)

lemma eff_random: "eff (random_bytes n)"
  by (simp add: state_io_rel_def random_bytes_def R_frame)

lemma eff_gen: "eff hash_gen"
  by (simp add: state_io_rel_def hash_gen_def R_frame)

lemma eff_read: "eff (db_read n f)"
  by (simp add: state_io_rel_def db_read_def R_frame)

lemma eff_op:
  assumes "\<And>w. R w (w\<lparr>w_db := snd (f (w_faults w) (w_db w))\<rparr>)"
  shows "eff (db_op n f)"
proof -
  have "R w (w\<lparr>w_db := snd (f (w_faults w) (w_db w)), w_faults := fs\<rparr>)" for w fs
    by (rule R_trans [OF assms R_frame]) simp_all
  then show ?thesis by (auto simp: state_io_rel_def db_op_def split: prod.split) (metis snd_conv)
qed

lemma eff_memory:
  assumes "\<And>w. R w (w\<lparr>w_portal := snd (f (w_portal w))\<rparr>)"
  shows "eff (in_memory f)"
  using assms by (auto simp: state_io_rel_def in_memory_def split: prod.split) (metis snd_conv)

lemmas eff_basic = eff_return eff_bind eff_clock eff_random eff_gen eff_read

lemma eff_now: "eff store_now"
  by (simp add: store_now_def eff_basic)

lemma eff_hex: "eff (random_hex n)" "eff temporary_password"
  by (simp_all add: temporary_password_def random_hex_def eff_basic)

lemma eff_answer: "eff (answer_with a)" "eff (redirect to)" "eff (redirect_msg to msg err)" "eff not_found"
    "eff signed_out"
  by (simp_all add: answer_with_def redirect_def redirect_msg_def not_found_def signed_out_def eff_return)

lemma eff_domain: "eff domain_shown"
  by (simp add: domain_shown_def eff_basic)

lemma eff_chosen: "eff (chosen_password r)"
  by (simp add: chosen_password_def eff_hex eff_return)

lemma eff_checked: "eff (new_password_hash sv r h)"
  by (simp add: new_password_hash_def eff_basic)

lemmas eff_rules = eff_basic eff_now eff_hex eff_answer eff_domain eff_chosen eff_checked

end

text \<open>An effect that allows what every page does: to look the session up.\<close>

locale page_effect = effect +
  assumes R_session: "R w (w\<lparr>w_portal := snd (current_session c t fail d (w_portal w))\<rparr>)"
begin

lemma eff_session: "eff (session_now r)"
  by (auto simp: session_now_def intro!: eff_basic eff_memory R_session split: prod.split)

lemma eff_base: "eff (base r)"
  by (auto simp: base_def Let_def intro!: eff_rules eff_session)

lemma eff_auth: "eff m \<Longrightarrow> eff (auth r m)"
  by (auto simp: auth_def intro!: eff_rules eff_session split: option.split)

lemma eff_guards: "eff m \<Longrightarrow> eff (admin_only r m)" "eff m \<Longrightarrow> eff (user_only r m)"
  by (auto simp: admin_only_def user_only_def intro!: eff_rules eff_session eff_auth)

lemma eff_pages:
  "eff (index r)" "eff (home r)" "eff (users_page r)" "eff (render_user r u tk pw)" "eff (audit_page r)"
  "eff (settings_page r)" "eff (account_page r)" "eff (render_me r tk)" "eff (login_page sv r)"
  by (auto simp: index_def home_def users_page_def render_user_def audit_page_def settings_page_def
      account_page_def render_me_def login_page_def Let_def intro!: eff_rules eff_session eff_base
      split: sum.split option.split)

lemma eff_with_id: "(\<And>i. eff (k i)) \<Longrightarrow> eff (with_id seg k)"
  by (auto simp: with_id_def intro!: eff_rules split: option.split)

lemma eff_with_user: "(\<And>i u. eff (k i u)) \<Longrightarrow> eff (with_user seg k)"
  by (auto simp: with_user_def intro!: eff_rules eff_with_id split: sum.split)

lemma eff_user_page: "eff (user_page r seg)"
  by (auto simp: user_page_def intro!: eff_pages eff_with_user)

lemmas eff_page = eff_rules eff_session eff_base eff_pages eff_user_page

end

text \<open>An effect that allows the steps of the tables in memory.\<close>

locale memory_effect = page_effect +
  assumes R_memory: "portal_step (w_portal w) p \<Longrightarrow> R w (w\<lparr>w_portal := p\<rparr>)"
begin

lemma eff_step: "(\<And>p. portal_step p (snd (f p))) \<Longrightarrow> eff (in_memory f)"
  by (rule eff_memory) (rule R_memory)

lemma eff_cut: "eff (cut_off a i)"
  by (auto simp: cut_off_def intro!: eff_step step_invalidate)

lemma eff_start:
  "permutes_entries (sv_order sv) \<Longrightarrow> eff (start_session sv new_id key cred)"
  by (auto simp: start_session_def intro!: eff_page eff_step step_create split: prod.split)

lemma eff_login: "permutes_entries (sv_order sv) \<Longrightarrow> eff (login_submit sv r)"
  by (auto simp: login_submit_def Let_def intro!: eff_page eff_start eff_step step_attempt)

lemma eff_logout: "eff (logout r)"
proof -
  have "portal_step p (case wr_session_cookie r of None \<Rightarrow> p
      | Some c \<Rightarrow> p\<lparr>pt_sessions := AList.delete c (pt_sessions p)\<rparr>)" for p
    using step_logout [of p] step_current [of p None]
    by (auto simp: current_session_def split: option.split)
  then show ?thesis by (auto simp: logout_def intro!: eff_page eff_step)
qed

end

text \<open>An effect that allows writing the audit log.\<close>

locale audit_effect = page_effect +
  assumes R_audit: "R w (w\<lparr>w_db := audit_event uid action detail t fail (w_db w)\<rparr>)"
begin

lemma eff_audited: "eff (audited uid action detail)"
  by (auto simp: audited_def intro!: eff_rules eff_op R_audit)

end

text \<open>An effect that allows every step of the store and of the tables in memory.\<close>

locale store_effect = memory_effect +
  assumes R_store: "runs store_step (w_db w) d \<Longrightarrow> R w (w\<lparr>w_db := d\<rparr>)"

sublocale store_effect \<subseteq> writes: audit_effect R
  by unfold_locales (rule R_store, rule op_runs)

context store_effect
begin

lemma eff_store: "(\<And>fs d. runs store_step d (snd (f fs d))) \<Longrightarrow> eff (db_op n f)"
  by (rule eff_op) (rule R_store)

lemma run_passwords:
  "runs store_step d (snd (set_user_password gen i pw must fail d))"
  by (auto simp: set_user_password_def split: sum.split prod.split intro: runs_refl)
    (metis op_runs(3) snd_conv)+

lemma eff_give: "eff (give_password i pw must)"
  by (auto simp: give_password_def intro!: eff_page eff_store run_passwords)

lemma eff_issue: "eff (issue uid label)"
  by (auto simp: issue_def intro!: eff_page eff_store op_runs)

lemmas eff_changes = eff_page writes.eff_audited eff_give eff_issue eff_cut

lemma eff_user_handlers:
  "eff (user_create sv r)" "eff (user_set_disabled b seg)" "eff (user_limit r seg)"
  "eff (user_password_reset r seg)" "eff (token_issue sv r seg)"
  by (auto simp: user_create_def user_set_disabled_def user_limit_def user_password_reset_def
      token_issue_def intro!: eff_changes eff_with_id eff_with_user eff_store op_runs
      split: option.split sum.split)

lemma eff_object_handlers:
  "eff (token_revoke seg)" "eff (reservation_add sv r seg)" "eff (reservation_release sv seg)" "eff (session_kill seg)"
  by (auto simp: token_revoke_def reservation_add_def reservation_release_def session_kill_def Let_def
      intro!: eff_changes eff_with_id eff_store op_runs split: option.split sum.split)

lemma eff_own_handlers:
  "eff (admin_password_form sv r)" "eff (user_password_form sv r)" "eff (my_token_issue sv r)"
  "eff (my_token_revoke r seg)"
  by (auto simp: admin_password_form_def user_password_form_def my_token_issue_def my_token_revoke_def Let_def
      intro!: eff_changes eff_with_id eff_store op_runs split: option.split sum.split prod.split)

lemma eff_serve: "permutes_entries (sv_order sv) \<Longrightarrow> eff (serve_route sv r rt)"
  by (cases rt) (auto intro!: eff_page eff_guards eff_auth eff_login eff_logout eff_user_handlers
      eff_object_handlers eff_own_handlers)

lemma eff_handle: "permutes_entries (sv_order sv) \<Longrightarrow> eff (handle sv r)"
  by (auto simp: handle_def intro!: eff_page eff_serve)

end

section \<open>Requests keep both states sound\<close>

definition sound :: "world \<Rightarrow> world \<Rightarrow> bool" where
  "sound w w' \<longleftrightarrow> runs portal_step (w_portal w) (w_portal w') \<and> runs store_step (w_db w) (w_db w')"

interpretation sound: store_effect sound
proof
  show "sound w w'" if "w_portal w' = w_portal w" "w_db w' = w_db w" for w w'
    using that by (simp add: sound_def runs_refl)
  show "sound u w" if "sound u v" "sound v w" for u v w
    using that by (auto simp: sound_def intro: runs_trans)
  show "sound w (w\<lparr>w_portal := snd (current_session c t fail d (w_portal w))\<rparr>)" for w c t fail d
    by (simp add: sound_def runs_refl runs_one step_current)
  show "sound w (w\<lparr>w_db := d\<rparr>)" if "runs store_step (w_db w) d" for w d
    using that by (simp add: sound_def runs_refl)
  show "sound w (w\<lparr>w_portal := p\<rparr>)" if "portal_step (w_portal w) p" for w p
    using that by (simp add: sound_def runs_refl runs_one)
qed

text \<open>
  Whatever request arrives, with any clock, random source and failing statements, and
  whatever order the map of sessions is visited in, the portal leaves the database well formed
  and coherent, takes nothing back that was recorded, and keeps its tables bounded.
\<close>

theorem portal_requests_are_sound:
  assumes "permutes_entries (sv_order sv)" "store_inv (w_db w)" "portal_inv (w_portal w)"
    and "run_state (handle sv r) w = (reply, w')"
  shows "store_inv (w_db w') \<and> later (w_db w) (w_db w') \<and> portal_inv (w_portal w')"
proof -
  have "sound w w'"
    using state_io_relD [OF sound.eff_handle [OF assms(1)] assms(4)] .
  then show ?thesis
    using assms(2,3) store.runs_inv store.runs_rel portal_machine.runs_inv by (auto simp: sound_def)
qed

text \<open>A server and a world with bob's browser session, for examples.\<close>

definition sample_server :: server where
  "sample_server = \<lparr>sv_canonical_host = [], sv_trusted = [], sv_dummy_hash = ''h:dummy'', sv_csrf_key = ''key'',
     sv_lower = id, sv_fold = id, sv_print = (\<lambda>_. True), sv_compare = (\<lambda>h pw. h = ''h:'' @ pw),
     sv_sql_text = (\<lambda>_. ''database error''), sv_order = id\<rparr>"

definition sample_post :: "string list \<Rightarrow> (string \<Rightarrow> string) \<Rightarrow> web_request" where
  "sample_post path form = \<lparr>wr_method = ''POST'', wr_path = path, wr_host = ''portal'', wr_tls = True,
     wr_remote_addr = ''10.0.0.1:4000'', wr_origin = [], wr_real_ip = [], wr_forwarded_proto = [],
     wr_session_cookie = Some ''c1'', wr_csrf_cookie = None, wr_body = Body_Ok, wr_post_csrf = [],
     wr_form = form(''csrf'' := ''x1''), wr_query = (\<lambda>_. [])\<rparr>"

definition bob_session :: web_session where
  "bob_session = \<lparr>ws_expires = 1000 * second, ws_csrf = ''x1'', ws_is_admin = False, ws_user_id = 2,
     ws_username = ''bob'', ws_auth_version = 1, ws_must_change = False\<rparr>"

definition web_db :: db where
  "web_db = update_users (\<lambda>r. ur_id r = 2) (new_password ''h:bob-secret'' False) sample_db"

definition sample_world :: world where
  "sample_world = \<lparr>w_portal = new_portal\<lparr>pt_sessions := [(''c1'', bob_session)]\<rparr>, w_db = web_db,
     w_clk = (\<lambda>_. 500 * second), w_faults = (\<lambda>_. False), w_random = (\<lambda>i n. Some (replicate n (CHR ''r''))),
     w_bcrypt = (\<lambda>i pw. Some (''h:'' @ pw))\<rparr>"

lemma web_db_parts [simp]:
  "users web_db = [sample_user 1 ''alice'' 1, new_password ''h:bob-secret'' False (sample_user 2 ''bob'' 5)]"
  "tokens web_db = tokens sample_db" "sessions web_db = sessions sample_db"
  by (simp_all add: web_db_def update_users_def sample_user_def)

lemma web_db_inv: "store_inv web_db"
  unfolding web_db_def by (rule step_inv [OF st_password sample_inv])

lemma wf_web_db: "wf_db web_db"
  using web_db_inv by (simp add: store_inv_def)

lemma sample_portal_inv: "portal_inv (new_portal\<lparr>pt_sessions := [(''c1'', bob_session)]\<rparr>)"
  by (simp add: portal_inv_def new_portal_def capped_def buckets_ok_def max_web_sessions_def
      max_sessions_per_principal_def bob_session_def)

lemma sample_world_parts [simp]:
  "w_portal sample_world = new_portal\<lparr>pt_sessions := [(''c1'', bob_session)]\<rparr>" "w_db sample_world = web_db"
  "w_clk sample_world = (\<lambda>_. 500 * second)" "w_faults sample_world = (\<lambda>_. False)"
  "w_bcrypt sample_world = (\<lambda>i pw. Some (''h:'' @ pw))"
  by (simp_all add: sample_world_def)

lemma sample_order: "permutes_entries (sv_order sample_server)"
  by (simp add: permutes_entries_def sample_server_def)

theorem portal_requests_are_sound_witness:
  "store_inv (w_db (snd (run_state (handle sample_server (sample_post [''me'', ''tokens''] (\<lambda>_. ''laptop''))) sample_world)))"
  using portal_requests_are_sound [OF sample_order, of sample_world "sample_post [''me'', ''tokens''] (\<lambda>_. ''laptop'')"]
    web_db_inv sample_portal_inv
  by (metis prod.collapse sample_world_parts(1,2))

end
