(* ===== verification/Web_Guard.thy ===== *)
theory Web_Guard
  imports Web_Effect
begin

text \<open>
  Who may do what through the portal: which session stands behind a request, what a request
  without one can change (nothing), what a user can change (rows of that user), and how a
  login opens a session and a change of password ends it.
\<close>

section \<open>The session behind a request\<close>

definition vouched :: "web_request \<Rightarrow> world \<Rightarrow> web_session \<Rightarrow> bool" where
  "vouched r w s \<longleftrightarrow>
     (\<exists>c. wr_session_cookie r = Some c \<and> map_of (pt_sessions (w_portal w)) c = Some s) \<and>
     w_clk w 0 \<le> ws_expires s \<and> session_credential_current s (w_faults w 0) (w_db w)"

lemma session_now_run:
  assumes "run_state (session_now r) w = (x, w')"
  shows "w_db w' = w_db w \<and> w_bcrypt w' = w_bcrypt w \<and>
    (case x of
       Some s \<Rightarrow> vouched r w s \<and> w_portal w' = w_portal w
     | None \<Rightarrow> (\<forall>c. wr_session_cookie r = Some c \<longrightarrow> map_of (pt_sessions (w_portal w')) c = None))"
  using assms
  by (auto simp: session_now_def clock_def db_read_def in_memory_def current_session_def vouched_def AList.delete_conv'
      split: option.splits if_splits prod.splits)

lemma session_now_someD:
  assumes "run_state (session_now r) w = (Some s, w')"
  shows "vouched r w s" "w_portal w' = w_portal w" "w_db w' = w_db w" "w_bcrypt w' = w_bcrypt w"
  using session_now_run [OF assms] by simp_all

lemma session_now_noneD:
  assumes "run_state (session_now r) w = (None, w')"
  shows "wr_session_cookie r = Some c \<Longrightarrow> map_of (pt_sessions (w_portal w')) c = None" "w_db w' = w_db w"
    "w_bcrypt w' = w_bcrypt w"
  using session_now_run [OF assms] by simp_all

lemma vouched_same: "vouched r w s \<Longrightarrow> vouched r w1 s1 \<Longrightarrow> w_portal w1 = w_portal w \<Longrightarrow> s1 = s"
  by (auto simp: vouched_def)

lemma auth_run:
  assumes "run_state (auth r m) w = (a, w')"
  obtains (refused) "w_db w' = w_db w" "fst a = []"
        "(case snd a of Html p \<Rightarrow> False | Static_File \<Rightarrow> False | _ \<Rightarrow> True)" "snd a \<noteq> Redirect_To ''/login'' (Some Password_Changed) None"
    | (passed) s w1 where "vouched r w s" "w_portal w1 = w_portal w" "w_db w1 = w_db w" "w_bcrypt w1 = w_bcrypt w"
        "run_state m w1 = (a, w')" "wr_method r = ''POST'' \<Longrightarrow> wr_form r ''csrf'' = ws_csrf s"
        "ws_must_change s \<Longrightarrow> url_path_of r \<in> {''/account'', ''/account/password'', ''/logout''}"
proof -
  obtain x w1 where x: "run_state (session_now r) w = (x, w1)" by fastforce
  show thesis
  proof (cases x)
    case None
    then show thesis using assms x session_now_noneD(2) [of r w w1]
      by (intro refused) (auto simp: auth_def redirect_def answer_with_def)
  next
    case (Some s)
    note s = session_now_someD [OF x [unfolded Some]]
    consider (csrf) "wr_method r = ''POST''" "wr_form r ''csrf'' \<noteq> ws_csrf s"
      | (change) "ws_must_change s" "url_path_of r \<notin> {''/account'', ''/account/password'', ''/logout''}"
          "\<not> (wr_method r = ''POST'' \<and> wr_form r ''csrf'' \<noteq> ws_csrf s)"
      | (ok) "wr_method r = ''POST'' \<Longrightarrow> wr_form r ''csrf'' = ws_csrf s"
          "ws_must_change s \<Longrightarrow> url_path_of r \<in> {''/account'', ''/account/password'', ''/logout''}"
      by blast
    then show thesis
    proof cases
      case csrf
      with assms x Some s show thesis by (intro refused) (auto simp: auth_def answer_with_def)
    next
      case change
      with assms x Some s show thesis by (intro refused) (auto simp: auth_def answer_with_def)
    next
      case ok
      with assms x Some have "run_state m w1 = (a, w')" by (auto simp: auth_def split: if_splits)
      with ok s show thesis by (intro passed) auto
    qed
  qed
qed

lemma admin_run:
  assumes "run_state (admin_only r m) w = (a, w')" "w_db w' \<noteq> w_db w"
  obtains s w1 where "vouched r w s" "ws_is_admin s" "wr_method r = ''POST'' \<Longrightarrow> wr_form r ''csrf'' = ws_csrf s"
    "ws_must_change s \<Longrightarrow> url_path_of r \<in> {''/account'', ''/account/password'', ''/logout''}"
    "run_state m w1 = (a, w')" "w_db w1 = w_db w"
  using assms(1) unfolding admin_only_def
proof (cases rule: auth_run)
  case refused
  with assms(2) show thesis by simp
next
  case (passed s w1)
  obtain x w2 where x: "run_state (session_now r) w1 = (x, w2)" by fastforce
  show thesis
  proof (cases x)
    case None
    with passed(5) x assms(2) show thesis
      using session_now_noneD(2) [of r w1 w2] passed(3)
      by (simp add: or_no_session_def no_web_session_def answer_with_def)
  next
    case (Some s2)
    note s2 = session_now_someD [OF x [unfolded Some]]
    have eq: "s2 = s" by (rule vouched_same [OF passed(1) s2(1) passed(2)])
    have adm: "ws_is_admin s"
      using passed(5) x Some assms(2) s2 passed(3) eq
      by (auto simp: or_no_session_def answer_with_def split: if_splits)
    with passed(5) x Some eq have "run_state m w2 = (a, w')" by (simp add: or_no_session_def)
    with that passed s2 adm show thesis by simp
  qed
qed

lemma user_run:
  assumes "run_state (user_only r m) w = (a, w')"
  obtains (refused) "w_db w' = w_db w" "fst a = []" "snd a \<noteq> Redirect_To ''/login'' (Some Password_Changed) None"
    | (passed) s w1 where "vouched r w s" "wr_method r = ''POST'' \<Longrightarrow> wr_form r ''csrf'' = ws_csrf s"
    "ws_must_change s \<Longrightarrow> url_path_of r \<in> {''/account'', ''/account/password'', ''/logout''}"
    "run_state m w1 = (a, w')" "w_db w1 = w_db w" "w_bcrypt w1 = w_bcrypt w"
    "w_portal w1 = w_portal w \<and> \<not> ws_is_admin s \<or>
       (\<forall>c. wr_session_cookie r = Some c \<longrightarrow> map_of (pt_sessions (w_portal w1)) c = None)"
  using assms unfolding user_only_def
proof (cases rule: auth_run)
  case refused
  with that(1) show thesis by (auto split: answer.splits)
next
  case (passed s w1)
  obtain x w2 where x: "run_state (session_now r) w1 = (x, w2)" by fastforce
  show thesis
  proof (cases x)
    case None
    note n = session_now_noneD [OF x [unfolded None]]
    from passed(5) x None have "run_state m w2 = (a, w')" by (simp add: or_no_session_def no_web_session_def)
    with that(2) passed n show thesis by simp
  next
    case (Some s2)
    note s2 = session_now_someD [OF x [unfolded Some]]
    have eq: "s2 = s" by (rule vouched_same [OF passed(1) s2(1) passed(2)])
    show thesis
    proof (cases "ws_is_admin s")
      case True
      with passed(5) x Some eq s2 passed(3) have "w_db w' = w_db w" "a = ([], Redirect_To ''/'' None None)"
        by (auto simp: or_no_session_def redirect_def answer_with_def)
      with that(1) show thesis by simp
    next
      case False
      with passed(5) x Some eq have "run_state m w2 = (a, w')" by (simp add: or_no_session_def)
      with that(2) passed s2 False show thesis by simp
    qed
  qed
qed

section \<open>Effects: nothing, and only one's own\<close>

definition quiet :: "world \<Rightarrow> world \<Rightarrow> bool" where
  "quiet w w' \<longleftrightarrow> w_db w' = w_db w"

interpretation quiet: memory_effect quiet
  by unfold_locales (simp_all add: quiet_def)

lemma quietD: "state_io_rel quiet m \<Longrightarrow> run_state m w = (a, w') \<Longrightarrow> w_db w' = w_db w"
  using state_io_relD [of quiet m w a w'] by (simp add: quiet_def)

text \<open>
  What is not a row of user \<open>u\<close> is as before. (No user has the number 0, which a handler takes
  for the user of a session it no longer finds.)
\<close>

definition confined :: "int \<Rightarrow> db \<Rightarrow> db \<Rightarrow> bool" where
  "confined u d d' \<longleftrightarrow>
     settings d' = settings d \<and> reservations d' = reservations d \<and> proxies d' = proxies d \<and>
     filter (\<lambda>x. ur_id x \<notin> {u, 0}) (users d') = filter (\<lambda>x. ur_id x \<notin> {u, 0}) (users d) \<and>
     filter (\<lambda>t. tr_user_id t \<notin> {u, 0}) (tokens d') = filter (\<lambda>t. tr_user_id t \<notin> {u, 0}) (tokens d) \<and>
     filter (\<lambda>s. sr_user_id s \<notin> {u, 0}) (sessions d') = filter (\<lambda>s. sr_user_id s \<notin> {u, 0}) (sessions d)"

definition owned_by :: "web_request \<Rightarrow> int \<Rightarrow> world \<Rightarrow> bool" where
  "owned_by r u w \<longleftrightarrow>
     (\<forall>(k, s) \<in> set (pt_sessions (w_portal w)). wr_session_cookie r = Some k \<longrightarrow> ws_user_id s = u)"

definition own :: "web_request \<Rightarrow> int \<Rightarrow> world \<Rightarrow> world \<Rightarrow> bool" where
  "own r u w w' \<longleftrightarrow> (owned_by r u w \<longrightarrow> owned_by r u w' \<and> confined u (w_db w) (w_db w'))"

lemma confined_refl: "confined u d d"
  by (simp add: confined_def)

lemma owned_subset:
  "owned_by r u w \<Longrightarrow> set (pt_sessions p) \<subseteq> set (pt_sessions (w_portal w)) \<Longrightarrow> owned_by r u (w\<lparr>w_portal := p\<rparr>)"
  by (auto simp: owned_by_def)

interpretation own: audit_effect "own r u" for r u
proof
  show "own r u w w'" if "w_portal w' = w_portal w" "w_db w' = w_db w" for w w'
    using that by (simp add: own_def confined_refl owned_by_def)
  show "own r u a c" if "own r u a b" "own r u b c" for a b c
    using that by (auto simp: own_def confined_def)
  show "own r u w (w\<lparr>w_portal := snd (current_session c t fail d (w_portal w))\<rparr>)" for w c t fail d
    by (auto simp: own_def confined_refl current_session_def intro!: owned_subset
        dest: subsetD [OF set_delete_subset] split: option.split)
  show "own r u w (w\<lparr>w_db := audit_event uid action detail t fail (w_db w)\<rparr>)" for w uid action detail t fail
    by (auto simp: own_def owned_by_def confined_def audit_event_def insert_audit_def)
qed

subsection \<open>What a user's handlers do\<close>

lemma own_session_bind:
  assumes "\<And>x. ws_user_id (or_no_session x) \<in> {u, 0} \<Longrightarrow> state_io_rel (own r u) (f x)"
  shows "state_io_rel (own r u) (State_Monad.bind (session_now r) f)"
proof
  fix a w w'
  assume run: "run_state (State_Monad.bind (session_now r) f) w = (a, w')"
  obtain x w1 where x: "run_state (session_now r) w = (x, w1)" by fastforce
  then have first: "own r u w w1" using state_io_relD [OF own.eff_session] by blast
  show "own r u w w'"
  proof (cases "owned_by r u w")
    case True
    have "ws_user_id (or_no_session x) \<in> {u, 0}"
    proof (cases x)
      case (Some s)
      then have "vouched r w s" using session_now_someD [of r w s w1] x by simp
      with True Some show ?thesis
        by (auto simp: vouched_def owned_by_def or_no_session_def dest!: map_of_SomeD)
    qed (simp add: or_no_session_def no_web_session_def)
    then have "own r u w1 w'" using assms run x state_io_relD [of "own r u" "f x" w1 a w'] by simp
    with first show ?thesis by (rule own.R_trans)
  qed (simp add: own_def)
qed

lemma own_op:
  assumes "\<And>fs d. confined u d (snd (f fs d))"
  shows "state_io_rel (own r u) (db_op n f)"
  by (rule own.eff_op) (simp add: own_def owned_by_def assms)

lemma filter_upd_outside: "(\<And>x. P x \<Longrightarrow> \<not> Q x \<and> \<not> Q (f x)) \<Longrightarrow> filter Q (upd P f xs) = filter Q xs"
  by (induction xs) auto

lemma confined_issue: "uid \<in> {u, 0} \<Longrightarrow> confined u d (snd (issue_token uid label rnd t fs d))"
  by (auto simp: issue_token_def attempt_def insert_token_def Let_def confined_def
      split: sum.splits prod.splits if_splits)

lemma confined_revoke: "uid \<in> {u, 0} \<Longrightarrow> confined u d (snd (revoke_token_for_user i uid t fs d))"
  by (auto simp: revoke_token_for_user_def revoke_where_def revoke_rows_def kill_rows_def update_tokens_def
      update_sessions_def Let_def confined_def intro!: filter_upd_outside)

lemma confined_password:
  "i \<in> {u, 0} \<Longrightarrow> confined u d (snd (set_user_web_password_if_version i v h b fail d))"
  by (auto simp: set_user_web_password_if_version_def update_users_def new_password_def Let_def confined_def
      intro!: filter_upd_outside)

lemma own_issue: "uid \<in> {u, 0} \<Longrightarrow> state_io_rel (own r u) (issue uid label)"
  by (auto simp: issue_def intro!: own.eff_page own_op confined_issue)

lemma own_cut: "state_io_rel (own r u) (cut_off a i)"
  unfolding cut_off_def
  by (rule own.eff_memory) (auto simp: own_def confined_refl invalidate_principal_def intro!: owned_subset)

lemma own_found_bind:
  assumes "\<And>x. (\<And>y. x = Inr y \<Longrightarrow> u_id y = i) \<Longrightarrow> state_io_rel (own r u) (f x)"
  shows "state_io_rel (own r u) (State_Monad.bind (db_read n (\<lambda>fs d. user_by_id i (fs 0) d)) f)"
proof
  fix a and w w' :: world
  let ?x = "user_by_id i (w_faults w 0) (w_db w)"
  let ?w = "w\<lparr>w_faults := advance n (w_faults w)\<rparr>"
  assume "run_state (State_Monad.bind (db_read n (\<lambda>fs d. user_by_id i (fs 0) d)) f) w = (a, w')"
  then have run: "run_state (f ?x) ?w = (a, w')" by (simp add: db_read_def)
  have "?x = Inr y \<Longrightarrow> u_id y = i" for y
    by (auto simp: user_by_id_def query_row_def first_row_def scan_user_def split: if_splits list.splits
        dest!: filter_eq_ConsD)
  then have "own r u ?w w'" using state_io_relD [OF assms run] by blast
  moreover have "own r u w ?w" by (rule own.R_frame) simp_all
  ultimately show "own r u w w'" by (blast intro: own.R_trans)
qed

lemma own_issue_handler: "state_io_rel (own r u) (my_token_issue sv r)"
  unfolding my_token_issue_def Let_def
  by (rule own_session_bind)
    (auto intro!: own.eff_page own.eff_audited own_issue split: sum.split)

lemma own_revoke_handler: "state_io_rel (own r u) (my_token_revoke r seg)"
  unfolding my_token_revoke_def Let_def
  by (rule own_session_bind)
    (auto intro!: own.eff_page own.eff_audited own.eff_with_id own_op confined_revoke split: sum.split)

lemma own_password_handler: "state_io_rel (own r u) (user_password_form sv r)"
  unfolding user_password_form_def Let_def
  by (rule own_session_bind, rule own_found_bind)
    (auto intro!: own.eff_page own.eff_audited own_op own_cut confined_password split: sum.split)

end
