(* ===== verification/Web_Laws.thy ===== *)
theory Web_Laws
  imports Web_Guard
begin

text \<open>
  The laws of the portal as a whole: what a request needs before it changes anything, what a
  user can reach, and how passwords open and end sessions.
\<close>

section \<open>Roles\<close>

text \<open>The guard of a route: \<open>Some True\<close> for the administrator's, \<open>Some False\<close> for a user's own.\<close>

fun route_role :: "route \<Rightarrow> bool option" where
  "route_role R_Static = None"
| "route_role R_Login_Page = None"
| "route_role R_Login = None"
| "route_role R_Logout = None"
| "route_role R_Home = None"
| "route_role R_Not_Found = None"
| "route_role R_Me = Some False"
| "route_role R_My_Token_Issue = Some False"
| "route_role (R_My_Token_Revoke seg) = Some False"
| "route_role R_Account = Some False"
| "route_role R_My_Password = Some False"
| "route_role _ = Some True"

lemma serve_admin: "route_role rt = Some True \<Longrightarrow> \<exists>m. serve_route sv r rt = admin_only r m"
  by (cases rt) auto

lemma serve_quiet:
  "permutes_entries (sv_order sv) \<Longrightarrow> route_role rt = None \<Longrightarrow> state_io_rel quiet (serve_route sv r rt)"
  by (cases rt) (auto intro!: quiet.eff_page quiet.eff_auth quiet.eff_login quiet.eff_logout)

fun reads_only :: "route \<Rightarrow> bool" where
  "reads_only R_Static = True"
| "reads_only R_Login_Page = True"
| "reads_only R_Home = True"
| "reads_only R_Users = True"
| "reads_only (R_User seg) = True"
| "reads_only R_Audit = True"
| "reads_only R_Settings = True"
| "reads_only R_Me = True"
| "reads_only R_Account = True"
| "reads_only R_Not_Found = True"
| "reads_only _ = False"

lemma route_get_reads: "reads_only (route_get path)"
  by (simp add: route_get_def split: list.split)

lemma serve_reads_quiet: "reads_only rt \<Longrightarrow> state_io_rel quiet (serve_route sv r rt)"
  by (cases rt) (auto intro!: quiet.eff_page quiet.eff_auth quiet.eff_guards)

lemma serve_get_quiet:
  "wr_method r \<noteq> ''POST'' \<Longrightarrow> state_io_rel quiet (serve_route sv r (route_of r))"
  by (rule serve_reads_quiet) (simp add: route_of_def route_get_reads)

lemma handle_cases:
  assumes "run_state (handle sv r) w = (a, w')" "w_db w' \<noteq> w_db w"
  shows "run_state (serve_route sv r (route_of r)) w = (a, w')"
  using assms by (auto simp: handle_def answer_with_def split: if_splits)

lemma post_role:
  assumes "a \<noteq> ''users''" "a \<noteq> ''settings''" "a \<noteq> ''me''" "a \<noteq> ''tokens''" "a \<noteq> ''reservations''"
    "a \<noteq> ''sessions''"
  shows "route_role (route_post (a # rest)) = None \<or> route_post (a # rest) = R_My_Password"
proof (cases "a = ''account''")
  case True
  then show ?thesis by (simp add: route_post_def split: list.split)
next
  case False
  with assms show ?thesis by (simp add: route_post_def split: list.split)
qed

lemma change_path:
  assumes "wr_method r = ''POST''" "route_role (route_of r) \<noteq> None"
    and "url_path_of r \<in> {''/account'', ''/account/password'', ''/logout''}"
  shows "route_of r = R_My_Password"
proof (rule ccontr)
  assume other: "route_of r \<noteq> R_My_Password"
  have post: "route_of r = route_post (wr_path r)" using assms(1) by (simp add: route_of_def)
  moreover have "route_role (route_post []) = None" by (simp add: route_post_def)
  ultimately obtain a rest where path: "wr_path r = a # rest"
    using assms(2) by (metis list.exhaust)
  have a: "a \<in> {''users'', ''settings'', ''me'', ''tokens'', ''reservations'', ''sessions''}"
  proof (rule ccontr)
    assume "a \<notin> {''users'', ''settings'', ''me'', ''tokens'', ''reservations'', ''sessions''}"
    then have "a \<noteq> ''users''" "a \<noteq> ''settings''" "a \<noteq> ''me''" "a \<noteq> ''tokens''" "a \<noteq> ''reservations''"
      "a \<noteq> ''sessions''"
      by (simp_all only: insert_iff de_Morgan_disj not_False_eq_True simp_thms)
    from post_role [OF this, of rest] assms(2) other post path show False by (simp only: simp_thms)
  qed
  have "url_path_of r = CHR ''/'' # a @ concat (map (Cons (CHR ''/'')) rest)"
    by (simp add: url_path_of_def path)
  then have "hd (a @ concat (map (Cons (CHR ''/'')) rest)) \<in> {CHR ''a'', CHR ''l''}"
    using assms(3) by (metis empty_iff insert_iff list.sel(1,3))
  with a show False by (elim insertE) simp_all
qed

subsection \<open>A handler that finds no session\<close>

definition no_entry :: "web_request \<Rightarrow> world \<Rightarrow> bool" where
  "no_entry r w \<longleftrightarrow> (\<forall>c. wr_session_cookie r = Some c \<longrightarrow> map_of (pt_sessions (w_portal w)) c = None)"

lemma session_now_absent:
  "no_entry r w \<Longrightarrow> run_state (session_now r) w = (x, w1) \<Longrightarrow> x = None \<and> w_db w1 = w_db w"
  using session_now_run [of r w x w1]
  by (auto simp: no_entry_def vouched_def split: option.splits)

lemma no_user_zero: "wf_db d \<Longrightarrow> row ur_id 0 (users d) = None"
  by (simp add: wf_db_def wf_keys_def user_table.key_zero_unused)

lemma issue_zero: "wf_db d \<Longrightarrow> \<exists>e. issue_token 0 label rnd t fs d = (Err e, d)"
  using no_user_zero [of d]
  by (auto simp: issue_token_def attempt_def insert_token_def user_exists_def Let_def split: sum.split)

lemma revoke_zero:
  assumes "wf_db d"
  shows "\<exists>e. revoke_token_for_user i 0 t fs d = (Err e, d)"
proof -
  have "x \<in> set (tokens d) \<Longrightarrow> tr_user_id x \<noteq> 0" for x
    using assms no_user_zero [OF assms] by (auto simp: wf_db_def wf_refs_def user_exists_def)
  then have "filter (\<lambda>x. (tr_id x = i \<and> tr_user_id x = 0) \<and> tr_revoked_at x = None) (tokens d) = []"
    and "upd (\<lambda>x. (tr_id x = i \<and> tr_user_id x = 0) \<and> tr_revoked_at x = None) f (tokens d) = tokens d" for f
    by (auto simp: filter_empty_conv intro: upd_none)
  then show ?thesis
    by (auto simp: revoke_token_for_user_def revoke_where_def revoke_rows_def update_tokens_def Let_def)
qed

lemma absent_issue:
  assumes "no_entry r w" "wf_db (w_db w)" "run_state (my_token_issue sv r) w = (a, w')"
  shows "w_db w' = w_db w"
proof -
  obtain x w1 where x: "run_state (session_now r) w = (x, w1)" by fastforce
  note none = session_now_absent [OF assms(1) x]
  obtain y w2 where y: "run_state (issue 0 (wr_form r ''label'')) w1 = (y, w2)" by fastforce
  have "w_db w2 = w_db w1 \<and> (\<exists>e. y = Inl e)"
    using y issue_zero [of "w_db w1"] assms(2) none
    by (auto simp: issue_def random_bytes_def store_now_def clock_def db_op_def split: prod.splits)
      (metis Pair_inject)+
  then show ?thesis
    using assms(3) x y none
    by (auto simp: my_token_issue_def or_no_session_def no_web_session_def redirect_msg_def answer_with_def)
qed

lemma absent_revoke:
  assumes "no_entry r w" "wf_db (w_db w)" "run_state (my_token_revoke r seg) w = (a, w')"
  shows "w_db w' = w_db w"
proof -
  obtain x w1 where x: "run_state (session_now r) w = (x, w1)" by fastforce
  note none = session_now_absent [OF assms(1) x]
  show ?thesis
  proof (cases "path_id seg")
    case None
    with assms(3) x none show ?thesis
      by (auto simp: my_token_revoke_def with_id_def not_found_def answer_with_def)
  next
    case (Some i)
    obtain e where "revoke_token_for_user i 0 (unix (w_clk w1 0)) (w_faults w1) (w_db w1) = (Err e, w_db w1)"
      using revoke_zero [of "w_db w1"] assms(2) none by metis
    with assms(3) x none Some show ?thesis
      by (auto simp: my_token_revoke_def with_id_def or_no_session_def no_web_session_def store_now_def clock_def
          db_op_def not_found_def answer_with_def)
  qed
qed

lemma absent_password:
  assumes "no_entry r w" "wf_db (w_db w)" "run_state (user_password_form sv r) w = (a, w')"
  shows "w_db w' = w_db w \<and> a = ([], Plain_Error 404 No_Such_Page)"
proof -
  obtain x w1 where x: "run_state (session_now r) w = (x, w1)" by fastforce
  note none = session_now_absent [OF assms(1) x]
  have "\<exists>e. user_by_id 0 fail (w_db w1) = Inl e" for fail
    using no_user_zero [of "w_db w"] assms(2) none by (simp add: user_by_id_wf)
  then obtain e where "user_by_id 0 (w_faults w1 0) (w_db w1) = Inl e" by blast
  with assms(3) x none show ?thesis
    by (auto simp: user_password_form_def or_no_session_def no_web_session_def db_read_def not_found_def
        answer_with_def)
qed

text \<open>What runs behind the guard of a user's route.\<close>

fun user_handler :: "server \<Rightarrow> web_request \<Rightarrow> route \<Rightarrow> reply web" where
  "user_handler sv r R_My_Token_Issue = my_token_issue sv r"
| "user_handler sv r (R_My_Token_Revoke seg) = my_token_revoke r seg"
| "user_handler sv r R_My_Password = user_password_form sv r"
| "user_handler sv r R_Account = account_page r"
| "user_handler sv r _ = render_me r []"

lemma serve_user:
  "route_role rt = Some False \<Longrightarrow> serve_route sv r rt = user_only r (user_handler sv r rt)"
  by (cases rt) simp_all

lemma own_user_handler: "state_io_rel (own r u) (user_handler sv r rt)"
  by (cases rt) (auto intro!: own.eff_page own_issue_handler own_revoke_handler own_password_handler)

lemma absent_user_handler:
  assumes "no_entry r w" "wf_db (w_db w)" "run_state (user_handler sv r rt) w = (a, w')"
  shows "w_db w' = w_db w"
  using assms(3) absent_issue [OF assms(1,2)] absent_revoke [OF assms(1,2)] absent_password [OF assms(1,2)]
    quietD [OF quiet.eff_pages(8) [of r "[]"]] quietD [OF quiet.eff_pages(7) [of r]]
  by (cases rt) simp_all

section \<open>What a request needs\<close>

text \<open>
  C6: Apart from the login, nothing reaches the database without a session the portal vouches
  for. If a request changed it, the request was a \<open>POST\<close> with the cookie of a session that has
  not expired and whose password is still the current one, it carried that session's CSRF
  token, the route was one of the session's role, and a session with a temporary password got
  no further than the form that changes it.
\<close>

theorem changes_need_a_session:
  assumes "permutes_entries (sv_order sv)" "store_inv (w_db w)" "portal_inv (w_portal w)"
    and "run_state (handle sv r) w = (a, w')" "w_db w' \<noteq> w_db w"
  shows "\<exists>s. vouched r w s \<and> wr_method r = ''POST'' \<and> wr_form r ''csrf'' = ws_csrf s \<and>
    route_role (route_of r) = Some (ws_is_admin s) \<and> (ws_must_change s \<longrightarrow> route_of r = R_My_Password)"
proof -
  let ?rt = "route_of r"
  note run = handle_cases [OF assms(4,5)]
  have post: "wr_method r = ''POST''"
    using quietD [OF serve_get_quiet run] assms(5) by blast
  have role: "route_role ?rt \<noteq> None"
    using quietD [OF serve_quiet [OF assms(1)] run] assms(5) by blast
  note own_form = change_path [OF post role]
  show ?thesis
  proof (cases "route_role ?rt = Some True")
    case True
    then obtain m where "serve_route sv r ?rt = admin_only r m" using serve_admin by blast
    with run have "run_state (admin_only r m) w = (a, w')" by simp
    then show ?thesis
      by (rule admin_run [OF _ assms(5)]) (use True post own_form in auto)
  next
    case False
    with role have user: "route_role ?rt = Some False" by auto
    with run have "run_state (user_only r (user_handler sv r ?rt)) w = (a, w')" by (simp add: serve_user)
    then show ?thesis
    proof (cases rule: user_run)
      case refused
      with assms(5) show ?thesis by simp
    next
      case (passed s w1)
      have "\<not> no_entry r w1"
        using absent_user_handler [OF _ _ passed(4)] passed(5) assms(2,5) by (auto simp: store_inv_def)
      with passed(7) have "\<not> ws_is_admin s" by (auto simp: no_entry_def)
      with passed user post own_form show ?thesis by auto
    qed
  qed
qed

text \<open>
  C7: A user's own pages reach that user's rows only. Whatever such a request does, with any
  statement failing in between, the settings, the reservations, the tunnels and every user,
  token and session of somebody else are exactly as before.
\<close>

theorem users_change_only_their_own:
  assumes "portal_inv (w_portal w)" "route_role (route_of r) = Some False"
    and "wr_session_cookie r = Some c" "map_of (pt_sessions (w_portal w)) c = Some s"
    and "run_state (handle sv r) w = (a, w')"
  shows "settings (w_db w') = settings (w_db w) \<and> reservations (w_db w') = reservations (w_db w) \<and>
    proxies (w_db w') = proxies (w_db w) \<and>
    filter (\<lambda>x. ur_id x \<notin> {ws_user_id s, 0}) (users (w_db w')) = filter (\<lambda>x. ur_id x \<notin> {ws_user_id s, 0}) (users (w_db w)) \<and>
    filter (\<lambda>t. tr_user_id t \<notin> {ws_user_id s, 0}) (tokens (w_db w')) =
      filter (\<lambda>t. tr_user_id t \<notin> {ws_user_id s, 0}) (tokens (w_db w)) \<and>
    filter (\<lambda>x. sr_user_id x \<notin> {ws_user_id s, 0}) (sessions (w_db w')) =
      filter (\<lambda>x. sr_user_id x \<notin> {ws_user_id s, 0}) (sessions (w_db w))"
proof (cases "w_db w' = w_db w")
  case False
  let ?u = "ws_user_id s"
  have keys: "distinct (map fst (pt_sessions (w_portal w)))"
    using assms(1) by (simp add: portal_inv_def capped_def)
  have "b = s" if "(c, b) \<in> set (pt_sessions (w_portal w))" for b
    using map_of_is_SomeI [OF keys that] assms(4) by simp
  with assms(3) have owned: "owned_by r ?u w" by (auto simp: owned_by_def)
  have "state_io_rel (own r ?u) (serve_route sv r (route_of r))"
    unfolding serve_user [OF assms(2)] by (intro own.eff_guards own_user_handler)
  then have "own r ?u w w'" using handle_cases [OF assms(5) False] by (rule state_io_relD)
  with owned have "confined ?u (w_db w) (w_db w')" by (simp add: own_def)
  then show ?thesis by (simp add: confined_def)
qed simp

section \<open>Passwords open and end sessions\<close>

text \<open>A session whose version the user has left behind is never current again.\<close>

lemma old_version_dead:
  assumes "wf_db d'" "later d d'" "row ur_id (ws_user_id s) (users d) = Some u"
    and "\<not> ws_is_admin s" "ws_auth_version s < ur_web_auth_version u"
  shows "\<not> session_credential_current s fail d'"
proof -
  obtain v where "row ur_id (ws_user_id s) (users d') = Some v" "user_le u v"
    using later_user [OF assms(2,3)] by blast
  with assms(1,4,5) show ?thesis
    by (auto simp: session_credential_current_def user_by_id_wf scan_user_def user_le_def)
qed

lemma new_password_hash_run:
  assumes "run_state (new_password_hash sv r h) w = (Inr x, w')"
  shows "sv_compare sv h (wr_form r ''current_password'')" "wr_form r ''new_password'' = wr_form r ''confirm_password''"
    "w_bcrypt w 0 (wr_form r ''new_password'') = Some x" "w_db w' = w_db w" "w_portal w' = w_portal w"
    "valid_password (wr_form r ''new_password'') = None"
  using assms
  by (auto simp: new_password_hash_def hash_gen_def password_hash_def split: if_splits option.splits)

lemma new_password_hash_fail:
  "run_state (new_password_hash sv r h) w = (Inl e, w') \<Longrightarrow> w_db w' = w_db w"
  by (auto simp: new_password_hash_def hash_gen_def split: if_splits)

lemma user_password_run:
  assumes "wf_db (w_db w)" "run_state (user_password_form sv r) w = (a, w')"
    and "snd a = Redirect_To ''/login'' (Some Password_Changed) None"
  obtains s u where "vouched r w s" "row ur_id (ws_user_id s) (users (w_db w)) = Some u"
    "sv_compare sv (ur_web_password_hash u) (wr_form r ''current_password'')"
    "row ur_id (ws_user_id s) (users (w_db w')) = Some (new_password (the (w_bcrypt w 0 (wr_form r ''new_password''))) False u)"
    "w_bcrypt w 0 (wr_form r ''new_password'') \<noteq> None"
    "\<forall>(k, x) \<in> set (pt_sessions (w_portal w')). \<not> same_principal False (ws_user_id s) x"
proof -
  obtain x w1 where x: "run_state (session_now r) w = (x, w1)" by fastforce
  show thesis
  proof (cases x)
    case None
    then have "no_entry r w1" using session_now_noneD(1) [of r w w1] x by (simp add: no_entry_def)
    have zero: "row ur_id 0 (users (w_db w)) = None" by (rule no_user_zero [OF assms(1)])
    with x None assms(1,2,3) show thesis
      using session_now_noneD(2) [of r w w1]
      by (auto simp: user_password_form_def or_no_session_def no_web_session_def db_read_def user_by_id_wf
          not_found_def answer_with_def split: if_splits)
  next
    case (Some s)
    note s = session_now_someD [OF x [unfolded Some]]
    let ?w2 = "w1\<lparr>w_faults := advance 1 (w_faults w1)\<rparr>"
    obtain u where u: "row ur_id (ws_user_id s) (users (w_db w)) = Some u"
      and fault: "\<not> w_faults w1 0"
      using assms(1,2,3) x Some s(3)
      by (auto simp: user_password_form_def or_no_session_def db_read_def user_by_id_wf
          not_found_def answer_with_def split: if_splits option.splits)
    obtain y w3 where y: "run_state (new_password_hash sv r (ur_web_password_hash u)) ?w2 = (y, w3)" by fastforce
    obtain h where h: "y = Inr h"
      using assms(1,2,3) x Some s(3) u fault y
      by (cases y) (auto simp: user_password_form_def or_no_session_def db_read_def user_by_id_wf scan_user_def
          redirect_msg_def answer_with_def)
    note checked = new_password_hash_run [OF y [unfolded h]]
    let ?P = "\<lambda>v. ur_id v = ur_id u \<and> ur_web_auth_version v = ur_web_auth_version u"
    have id: "ur_id u = ws_user_id s" using u by (auto dest: row_SomeD)
    have db3: "w_db w3 = w_db w" using checked(4) s(3) by simp
    have rest: "w_faults w3 0 = False \<and> length (filter ?P (users (w_db w))) = 1 \<and>
        users (w_db w') = upd ?P (new_password h False) (users (w_db w)) \<and>
        w_portal w' = invalidate_principal False (ws_user_id s) (w_portal w3)"
      using assms(2,3) x Some s(3) u fault y h db3 id
      by (auto simp: user_password_form_def or_no_session_def db_read_def user_by_id_wf [OF assms(1)] scan_user_def
          redirect_msg_def answer_with_def db_op_def set_user_web_password_if_version_def Let_def
          audited_def store_now_def clock_def cut_off_def in_memory_def signed_out_def audit_event_def
          insert_audit_def update_users_def split: if_splits)
    have "row ur_id (ws_user_id s) (users (w_db w')) = Some (new_password h False u)"
      using rest u id by (simp add: row_upd new_password_def)
    then show thesis
      using that [OF s(1) u checked(1)] checked(3) rest s(4) by (auto simp: invalidate_principal_def)
  qed
qed

text \<open>
  C31: A user who changes the password proves the old one and signs out everywhere. When the
  form succeeds, the current password matched the stored hash, the account has the hash of
  the new one at the next version, no session of the user is left in memory, and the session
  that made the change is never vouched for again, whatever happens to the database later.
\<close>

theorem password_change_signs_out:
  assumes "store_inv (w_db w)" "permutes_entries (sv_order sv)" "portal_inv (w_portal w)" "route_of r = R_My_Password"
    and "run_state (handle sv r) w = (a, w')" "snd a = Redirect_To ''/login'' (Some Password_Changed) None"
    and "runs store_step (w_db w') d"
  shows "\<exists>s u h. vouched r w s \<and> row ur_id (ws_user_id s) (users (w_db w)) = Some u \<and>
    sv_compare sv (ur_web_password_hash u) (wr_form r ''current_password'') \<and>
    w_bcrypt w 0 (wr_form r ''new_password'') = Some h \<and>
    row ur_id (ws_user_id s) (users (w_db w')) = Some (new_password h False u) \<and>
    list_all (\<lambda>(k, x). \<not> same_principal False (ws_user_id s) x) (pt_sessions (w_portal w')) \<and>
    \<not> session_credential_current s fail d"
proof -
  have wf: "wf_db (w_db w)" using assms(1) by (simp add: store_inv_def)
  have inv': "store_inv (w_db w')" using portal_requests_are_sound [OF assms(2,1,3,5)] by simp
  then have later: "later (w_db w') d" and wfd: "wf_db d"
    using store.runs_rel [OF assms(7)] store.runs_inv [OF assms(7)] by (auto simp: store_inv_def)
  have "run_state (serve_route sv r R_My_Password) w = (a, w')"
    using assms(4,5,6) by (auto simp: handle_def answer_with_def split: if_splits)
  then have "run_state (user_only r (user_password_form sv r)) w = (a, w')" by simp
  then show ?thesis
  proof (cases rule: user_run)
    case refused
    with assms(6) show ?thesis by simp
  next
    case (passed s w1)
    have wf1: "wf_db (w_db w1)" using wf passed(5) by simp
    have "\<not> no_entry r w1"
      using absent_password [OF _ wf1 passed(4)] assms(6) by auto
    with passed(7) have same: "w_portal w1 = w_portal w" and user: "\<not> ws_is_admin s"
      by (auto simp: no_entry_def)
    from user_password_run [OF wf1 passed(4) assms(6)]
    obtain t u where t: "vouched r w1 t" "row ur_id (ws_user_id t) (users (w_db w1)) = Some u"
      "sv_compare sv (ur_web_password_hash u) (wr_form r ''current_password'')"
      "row ur_id (ws_user_id t) (users (w_db w')) =
         Some (new_password (the (w_bcrypt w1 0 (wr_form r ''new_password''))) False u)"
      "w_bcrypt w1 0 (wr_form r ''new_password'') \<noteq> None"
      "\<forall>(k, x) \<in> set (pt_sessions (w_portal w')). \<not> same_principal False (ws_user_id t) x"
      by blast
    have eq: "t = s" by (rule vouched_same [OF passed(1) t(1) same])
    obtain h where h: "w_bcrypt w 0 (wr_form r ''new_password'') = Some h"
      using t(5) passed(6) by auto
    have u: "row ur_id (ws_user_id s) (users (w_db w)) = Some u" using t(2) eq passed(5) by simp
    have new: "row ur_id (ws_user_id s) (users (w_db w')) = Some (new_password h False u)"
      using t(4) eq passed(6) h by simp
    have "ws_auth_version s = ur_web_auth_version u"
      using passed(1) user u wf
      by (auto simp: vouched_def session_credential_current_def user_by_id_wf scan_user_def split: if_splits)
    then have "\<not> session_credential_current s fail d"
      by (intro old_version_dead [OF wfd later new user]) (simp add: new_password_def)
    with passed(1) u t(3,6) h new eq show ?thesis
      by (auto simp: list_all_iff)
  qed
qed

lemma credential_current:
  assumes "wf_db d" "cr_hash (credential_for_username username fail d) \<noteq> []"
    and "\<not> cr_disabled (credential_for_username username fail d)"
  shows "session_credential_current (session_for (credential_for_username username fail d) csrf now) False d"
proof (cases fail)
  case True
  with assms show ?thesis
    by (auto simp: credential_for_username_def admin_web_credential_def user_by_name_def no_credential_def)
next
  case False
  show ?thesis
  proof (cases "username = admin_username")
    case True
    with False assms show ?thesis
      by (auto simp: credential_for_username_def no_credential_def session_for_def session_credential_current_def
          split: sum.splits prod.splits if_splits)
  next
    case other: False
    then obtain u where u: "row ur_name username (users d) = Some u"
      using False assms
      by (auto simp: credential_for_username_def user_by_name_def wf_filter no_credential_def split: option.splits)
    then have "row ur_id (ur_id u) (users d) = Some u" using assms(1) by (auto simp: wf_rows dest: row_SomeD)
    with False other u assms show ?thesis
      by (auto simp: credential_for_username_def user_by_name_def wf_filter session_for_def
          session_credential_current_def user_by_id_wf scan_user_def)
  qed
qed

text \<open>
  C32: A login opens a session only after every check, and a session that works. If a request
  is answered with a session cookie, its form token and origin were accepted, its address and
  account had attempts left, the password matched the stored hash of an enabled account; then
  the table holds, under the number in the cookie, a session with that account's role, number
  and version, which the portal vouches for.
\<close>

theorem login_opens_session:
  assumes "wf_db (w_db w)" "run_state (login_submit sv r) w = (a, w')" "Set_Session sid e \<in> set (fst a)"
  shows "\<exists>cred csrf now.
    login_csrf_valid (sv_csrf_key sv) r (w_clk w 0) \<and>
    (trim_space (wr_origin r) = ''null'' \<or> login_origin_allowed sv r) \<and>
    fst (begin_login_attempt (sv_lower sv) (client_ip sv r) (trim_space (wr_form r ''username'')) (w_clk w 1) (w_portal w)) \<and>
    cred = credential_for_username (trim_space (wr_form r ''username'')) (w_faults w 0) (w_db w) \<and>
    sv_compare sv (cr_hash cred) (wr_form r ''password'') \<and> \<not> cr_disabled cred \<and>
    map_of (pt_sessions (w_portal w')) sid = Some (session_for cred csrf now) \<and>
    session_credential_current (session_for cred csrf now) False (w_db w') \<and> w_db w' = w_db w"
proof -
  let ?u = "trim_space (wr_form r ''username'')"
  let ?cred = "credential_for_username ?u (w_faults w 0) (w_db w)"
  obtain ok p1 where att: "begin_login_attempt (sv_lower sv) (client_ip sv r) ?u (w_clk w 1) (w_portal w) = (ok, p1)"
    by fastforce
  let ?w1 = "w\<lparr>w_clk := advance 1 (advance 1 (w_clk w)), w_portal := p1, w_faults := advance 1 (w_faults w)\<rparr>"
  have checks: "login_csrf_valid (sv_csrf_key sv) r (w_clk w 0)"
      "trim_space (wr_origin r) = ''null'' \<or> login_origin_allowed sv r" ok
      "cr_hash ?cred \<noteq> []" "\<not> cr_disabled ?cred" "sv_compare sv (cr_hash ?cred) (wr_form r ''password'')"
    using assms(2,3) att
    by (auto simp: login_submit_def clock_def in_memory_def db_read_def Let_def answer_with_def redirect_msg_def
        advance_def split: if_splits prod.splits)
  obtain nid w2 where nid: "run_state (random_hex 32) ?w1 = (nid, w2)" by fastforce
  obtain made w3 where made: "run_state (start_session sv nid (login_failure_key (sv_lower sv) (client_ip sv r) ?u) ?cred) w2
      = (made, w3)" by fastforce
  have fin: "made" "nid = sid" "w' = w3\<lparr>w_clk := advance 1 (w_clk w3)\<rparr>"
    using assms(2,3) att checks nid made
    by (auto simp: login_submit_def clock_def in_memory_def db_read_def Let_def answer_with_def redirect_msg_def
        advance_def split: if_splits prod.splits)
  have w2: "w_db w2 = w_db w" "w_portal w2 = p1"
    using nid by (auto simp: random_hex_def random_bytes_def)
  have w3: "w_db w3 = w_db w" "\<exists>csrf now. map_of (pt_sessions (w_portal w3)) nid = Some (session_for ?cred csrf now)"
    using made fin(1) w2
    by (auto simp: start_session_def db_read_def clock_def random_hex_def random_bytes_def in_memory_def
        create_web_session_def Let_def AList.update_conv' split: if_splits prod.splits)
      (intro exI, rule refl)
  then obtain csrf now where "map_of (pt_sessions (w_portal w')) sid = Some (session_for ?cred csrf now)"
    using fin by auto
  moreover have "session_credential_current (session_for ?cred csrf now) False (w_db w')"
    using credential_current [OF assms(1) checks(4,5)] w3(1) fin by simp
  ultimately show ?thesis using checks att w3(1) fin by auto
qed

section \<open>Examples\<close>

lemma advance_const [simp]: "advance n (\<lambda>_. c) = (\<lambda>_. c)"
  by (simp add: advance_def fun_eq_iff)

lemma sample_world_streams [simp]: "sample_world\<lparr>w_clk := \<lambda>_. 500 * second, w_faults := \<lambda>_. False\<rparr> = sample_world"
  by (simp add: sample_world_def)

lemma bob_current: "session_credential_current bob_session False web_db"
  by (simp add: session_credential_current_def bob_session_def user_by_id_def new_password_def sample_user_def
      scan_user_def bool_int_def)

lemma sample_session_run:
  "run_state (session_now (sample_post path form)) sample_world = (Some bob_session, sample_world)"
proof -
  have "500 * second \<le> ws_expires bob_session" by (simp add: bob_session_def second_def)
  with bob_current show ?thesis
    by (simp add: session_now_def clock_def db_read_def in_memory_def current_session_def sample_world_def
        sample_post_def new_portal_def)
qed

lemma sample_user_route:
  "route_role rt = Some False \<Longrightarrow> run_state (serve_route sv (sample_post path form) rt) sample_world =
     run_state (user_handler sv (sample_post path form) rt) sample_world"
  by (simp add: serve_user user_only_def auth_def sample_session_run or_no_session_def)
    (simp add: sample_post_def bob_session_def)

lemma sample_handle: "handle sample_server (sample_post path form) =
    serve_route sample_server (sample_post path form) (route_post path)"
  by (simp add: handle_def sample_server_def sample_post_def route_of_def)

abbreviation revoke_post :: web_request where
  "revoke_post \<equiv> sample_post [''me'', ''tokens'', ''2'', ''revoke''] (\<lambda>_. [])"

lemma revoke_post_run:
  obtains a w' where "run_state (handle sample_server revoke_post) sample_world = (a, w')" "w_db w' \<noteq> web_db"
proof -
  have id: "path_id ''2'' = Some 2"
    by (simp add: path_id_def parse_int_def parse_uint_def is_digit_def digit_val_def)
  have "revoke_token_for_user 2 2 500 (\<lambda>_. False) web_db =
      (Ok (), kill_rows (\<lambda>s. sr_token_id s = 2 \<and> sr_user_id s = 2) (revoke_rows (\<lambda>t. tr_id t = 2 \<and> tr_user_id t = 2) 500 web_db))"
    by (simp add: revoke_token_for_user_def revoke_where_def Let_def sample_token_row_def)
  then have "w_db (snd (run_state (my_token_revoke revoke_post ''2'') sample_world)) =
      audit_event 2 ''token.revoke'' by_user_revoked 500 False (kill_rows (\<lambda>s. sr_token_id s = 2 \<and> sr_user_id s = 2)
        (revoke_rows (\<lambda>t. tr_id t = 2 \<and> tr_user_id t = 2) 500 web_db))"
    by (simp add: my_token_revoke_def sample_session_run or_no_session_def with_id_def id store_now_def clock_def
        unix_def second_def db_op_def audited_def redirect_msg_def answer_with_def bob_session_def)
  then have "tokens (w_db (snd (run_state (my_token_revoke revoke_post ''2'') sample_world))) \<noteq> tokens web_db"
    by (simp add: audit_event_def insert_audit_def kill_rows_def update_sessions_def revoke_rows_def
        update_tokens_def sample_token_row_def)
  then show thesis
    using sample_user_route [of "R_My_Token_Revoke ''2''" sample_server "[''me'', ''tokens'', ''2'', ''revoke'']" "\<lambda>_. []"]
    by (intro that [OF prod.collapse [symmetric]]) (auto simp: sample_handle route_post_def)
qed

theorem changes_need_a_session_witness:
  "\<exists>s. vouched revoke_post sample_world s \<and> wr_form revoke_post ''csrf'' = ws_csrf s \<and> \<not> ws_is_admin s"
proof -
  obtain a w' where w: "run_state (handle sample_server revoke_post) sample_world = (a, w')" "w_db w' \<noteq> web_db"
    by (rule revoke_post_run)
  have "route_of revoke_post = R_My_Token_Revoke ''2''"
    by (simp add: route_of_def sample_post_def route_post_def)
  with changes_need_a_session [OF sample_order _ _ w(1)] w(2) web_db_inv sample_portal_inv
  show ?thesis by fastforce
qed

theorem users_change_only_their_own_witness:
  "\<exists>w'. w_db w' \<noteq> web_db \<and> run_state (handle sample_server revoke_post) sample_world = (fst (run_state (handle sample_server revoke_post) sample_world), w') \<and>
     filter (\<lambda>t. tr_user_id t \<notin> {2, 0}) (tokens (w_db w')) = filter (\<lambda>t. tr_user_id t \<notin> {2, 0}) (tokens web_db)"
proof -
  obtain a w' where w: "run_state (handle sample_server revoke_post) sample_world = (a, w')" "w_db w' \<noteq> web_db"
    by (rule revoke_post_run)
  have "route_role (route_of revoke_post) = Some False"
    by (simp add: route_of_def sample_post_def route_post_def)
  from users_change_only_their_own [OF _ this _ _ w(1), of "''c1''" bob_session] w
  show ?thesis
    using sample_portal_inv by (auto simp: sample_post_def new_portal_def bob_session_def)
qed

abbreviation password_post :: web_request where
  "password_post \<equiv> sample_post [''account'', ''password'']
     (\<lambda>k. if k = ''current_password'' then ''bob-secret'' else ''better-secret'')"

lemma password_post_run:
  "snd (fst (run_state (handle sample_server password_post) sample_world)) =
     Redirect_To ''/login'' (Some Password_Changed) None"
proof -
  have form: "wr_form password_post ''current_password'' = ''bob-secret''"
      "wr_form password_post ''new_password'' = ''better-secret''"
      "wr_form password_post ''confirm_password'' = ''better-secret''"
    by (simp_all add: sample_post_def)
  have valid: "valid_password ''better-secret'' = None"
    using runes_ascii [of "''better-secret''"] by (simp add: valid_password_def ascii_def del: runes.simps)
  have found: "user_by_id 2 False web_db = Ok (scan_user (new_password ''h:bob-secret'' False (sample_user 2 ''bob'' 5)))"
    by (simp add: user_by_id_def sample_user_def new_password_def)
  have changed: "fst (set_user_web_password_if_version 2 1 h False False web_db) = Ok True" for h
    by (simp add: set_user_web_password_if_version_def sample_user_def new_password_def)
  have "snd (fst (run_state (user_password_form sample_server password_post) sample_world)) =
     Redirect_To ''/login'' (Some Password_Changed) None"
    using changed [of "''h:better-secret''"]
    by (auto simp: user_password_form_def sample_session_run or_no_session_def db_read_def found form
        new_password_hash_def sample_server_def hash_gen_def password_hash_def valid scan_user_def new_password_def
        sample_user_def db_op_def audited_def store_now_def clock_def cut_off_def in_memory_def signed_out_def
        bob_session_def bool_int_def split: prod.split)
  then show ?thesis
    using sample_user_route [of R_My_Password sample_server "[''account'', ''password'']"
        "\<lambda>k. if k = ''current_password'' then ''bob-secret'' else ''better-secret''"]
    by (simp add: sample_handle route_post_def)
qed

theorem password_change_signs_out_witness:
  "\<not> session_credential_current bob_session False
     (w_db (snd (run_state (handle sample_server password_post) sample_world)))"
proof -
  obtain a w' where w: "run_state (handle sample_server password_post) sample_world = (a, w')" by fastforce
  have "route_of password_post = R_My_Password"
    by (simp add: route_of_def sample_post_def route_post_def)
  from password_change_signs_out [OF _ sample_order _ this w _ runs_refl, where fail = False] password_post_run w
  obtain s where "vouched password_post sample_world s" "\<not> session_credential_current s False (w_db w')"
    using web_db_inv sample_portal_inv by auto
  moreover have "s = bob_session"
    using \<open>vouched password_post sample_world s\<close> by (simp add: vouched_def sample_post_def)
  ultimately show ?thesis using w by simp
qed

definition sample_login_token :: string where
  "sample_login_token = sign_csrf ''key'' (csrf_payload (replicate 32 (CHR ''n'')) (400 * second))"

definition sample_login_post :: web_request where
  "sample_login_post = (sample_post [''login''] (\<lambda>k. if k = ''username'' then ''bob'' else ''bob-secret''))
     \<lparr>wr_session_cookie := None, wr_csrf_cookie := Some sample_login_token, wr_post_csrf := [sample_login_token]\<rparr>"

lemma sample_login_valid: "login_csrf_valid ''key'' sample_login_post (500 * second)"
proof -
  have "valid_login_csrf_token ''key'' sample_login_token (500 * second)"
    unfolding sample_login_token_def
    by (subst own_csrf_valid) (simp_all add: unix_def login_csrf_ttl_def second_def int64_def)
  then show ?thesis
    by (simp add: login_csrf_valid_def sample_login_post_def) (auto simp: valid_login_csrf_token_def)
qed

lemma sample_login_run:
  "\<exists>sid e. Set_Session sid e \<in> set (fst (fst (run_state (login_submit sample_server sample_login_post) sample_world)))"
proof -
  have name: "trim_space ''bob'' = ''bob''" by (rule trim_space_visible) (simp_all add: visible_def)
  have chars: "\<not> list_ex is_control (runes ''bob'')" 
    using runes_ascii [of "''bob''"] by (simp add: ascii_def is_control_def del: runes.simps)
  have cred: "credential_for_username ''bob'' False web_db =
      \<lparr>cr_hash = ''h:bob-secret'', cr_is_admin = False, cr_user_id = 2, cr_username = ''bob'', cr_auth_version = 1,
       cr_must_change = False, cr_disabled = False\<rparr>"
    by (simp add: credential_for_username_def admin_username_def user_by_name_def sample_user_def new_password_def
        scan_user_def bool_int_def)
  have allowed: "\<exists>p. begin_login_attempt uc ip ''bob'' now (new_portal\<lparr>pt_sessions := ss\<rparr>) = (True, p) \<and> pt_sessions p = ss"
    for uc ip now ss
    by (simp add: begin_login_attempt_def prune_login_failures_def prune_bucket_def new_portal_def
        allow_login_attempt_def max_ip_login_attempts_def max_login_fails_def max_login_fail_entries_def no_fail_def
        Let_def)
  obtain p where p: "begin_login_attempt id (client_ip sample_server sample_login_post) ''bob'' (500 * second)
      (new_portal\<lparr>pt_sessions := [(''c1'', bob_session)]\<rparr>) = (True, p)" "pt_sessions p = [(''c1'', bob_session)]"
    using allowed by blast
  have created: "fst (create_web_session id nid key \<lparr>cr_hash = ''h:bob-secret'', cr_is_admin = False, cr_user_id = 2,
      cr_username = ''bob'', cr_auth_version = 1, cr_must_change = False, cr_disabled = False\<rparr> csrf clk False web_db p)"
    for nid key csrf clk
    using cred p(2)
    by (auto simp: create_web_session_def credential_unchanged_def make_room_def prune_sessions_def Let_def
        max_web_sessions_def max_sessions_per_principal_def)
  have form: "wr_form sample_login_post ''username'' = ''bob''" "wr_form sample_login_post ''password'' = ''bob-secret''"
      "wr_origin sample_login_post = []"
    by (simp_all add: sample_login_post_def sample_post_def)
  have sv: "sv_lower sample_server = id" "sv_order sample_server = id" "sv_csrf_key sample_server = ''key''"
      "sv_compare sample_server = (\<lambda>h pw. h = ''h:'' @ pw)"
    by (simp_all add: sample_server_def)
  show ?thesis
    using sample_login_valid p(1) created
    by (simp add: login_submit_def clock_def in_memory_def db_read_def form sv name chars cred random_hex_def
        random_bytes_def start_session_def max_login_username_bytes_def login_origin_allowed_def Let_def
        sample_world_def split_beta del: runes.simps)
qed

theorem login_opens_session_witness:
  "\<exists>sid s. map_of (pt_sessions (w_portal (snd (run_state (login_submit sample_server sample_login_post) sample_world)))) sid
      = Some s \<and> ws_user_id s = 2 \<and> ws_auth_version s = 1"
proof -
  obtain sid e where "Set_Session sid e \<in> set (fst (fst (run_state (login_submit sample_server sample_login_post) sample_world)))"
    using sample_login_run by blast
  from login_opens_session [OF _ prod.collapse [symmetric] this] wf_web_db
  obtain cred csrf now where cred: "cred = credential_for_username (trim_space ''bob'') False web_db"
    and found: "map_of (pt_sessions (w_portal (snd (run_state (login_submit sample_server sample_login_post) sample_world)))) sid
      = Some (session_for cred csrf now)"
    by (auto simp: sample_login_post_def sample_post_def)
  have "trim_space ''bob'' = ''bob''" by (rule trim_space_visible) (simp_all add: visible_def)
  with cred have "ws_user_id (session_for cred csrf now) = 2" "ws_auth_version (session_for cred csrf now) = 1"
    by (simp_all add: credential_for_username_def admin_username_def user_by_name_def sample_user_def new_password_def
        scan_user_def session_for_def)
  with found show ?thesis by blast
qed

end
