(* ===== verification/Go_Lines.thy ===== *)
theory Go_Lines
  imports Go_Strconv
begin

text \<open>
  The line scanner of \<open>bufio\<close>, \<open>strings.Fields\<close>, \<open>strings.ToLower\<close> of hexadecimal text and
  the lexical path functions of \<open>path/filepath\<close> on Unix and the environment, as the two
  command-line programs use them.
\<close>

section \<open>Lines\<close>

text \<open>
  The lines of a text: each ends at a newline, which is not part of it, and a last line without
  one counts only when it is not empty. \<open>bufio.ScanLines\<close> also drops one carriage return.
\<close>

fun raw_lines :: "string \<Rightarrow> string list" where
  "raw_lines [] = []"
| "raw_lines (c # s) =
     (if c = chr 10 then [] # raw_lines s
      else (case cut (chr 10) s of
              None \<Rightarrow> [c # s]
            | Some _ \<Rightarrow> (case raw_lines s of [] \<Rightarrow> [[c]] | x # xs \<Rightarrow> (c # x) # xs)))"

definition drop_cr :: "string \<Rightarrow> string" where
  "drop_cr s = (if s \<noteq> [] \<and> last s = chr 13 then butlast s else s)"

datatype scan_error = Line_Too_Long | Read_Failed

text \<open>
  A \<open>bufio.Scanner\<close> whose buffer may grow to \<open>limit\<close> bytes: the lines it yields before it stops,
  and why it stopped. A line that fills the buffer is an error. \<open>broken\<close> says that the reader
  failed after the last byte.
\<close>

definition scan_lines :: "nat \<Rightarrow> bool \<Rightarrow> string \<Rightarrow> string list \<times> scan_error option" where
  "scan_lines limit broken s =
     (let ls = raw_lines s; fitting = takeWhile (\<lambda>l. length l < limit) ls in
      (map drop_cr fitting,
       if length fitting < length ls then Some Line_Too_Long
       else if broken then Some Read_Failed else None))"

definition max_scan_token :: nat where
  "max_scan_token = 65536"

section \<open>Fields\<close>

text \<open>\<open>strings.Fields\<close>: the text cut at runs of white space\<close>

function fields_from :: "string \<Rightarrow> string \<Rightarrow> string list" where
  "fields_from cur [] = (if cur = [] then [] else [cur])"
| "fields_from cur (c # s) =
     (case next_rune c s of (r, rest) \<Rightarrow>
        if (case r of Some x \<Rightarrow> x \<in> set space_runes | None \<Rightarrow> False)
        then (if cur = [] then [] else [cur]) @ fields_from [] rest
        else fields_from (cur @ take (Suc (length s) - length rest) (c # s)) rest)"
  by pat_completeness auto
termination
  by (relation "measure (\<lambda>(cur, s). length s)") (simp_all add: next_rune_shorter)

definition go_fields :: "string \<Rightarrow> string list" where
  "go_fields s = fields_from [] s"

text \<open>The lines of a text of whole lines are those lines.\<close>

lemma raw_lines_append: "chr 10 \<notin> set l \<Longrightarrow> raw_lines (l @ chr 10 # s) = l # raw_lines s"
proof (induction l)
  case (Cons c l)
  then have "cut (chr 10) (l @ chr 10 # s) = Some (l, s)" by (intro cut_append) simp
  with Cons show ?case by auto
qed simp

lemma raw_lines_concat:
  "list_all (\<lambda>l. chr 10 \<notin> set l) ls \<Longrightarrow> raw_lines (concat (map (\<lambda>l. l @ [chr 10]) ls)) = ls"
  by (induction ls) (simp_all add: raw_lines_append)

section \<open>Lower-case hexadecimal text\<close>

lemma hex_val_ascii: "hex_val c = Some v \<Longrightarrow> ascii c \<and> v < 16"
  by (auto simp: hex_val_def ascii_def Let_def split: if_splits)

lemma hex_char_lower: "hex_val c = Some v \<Longrightarrow> chr (lower_ascii (byte c)) = hex_char v"
  by (auto simp: hex_val_def hex_char_def lower_ascii_def Let_def split: if_splits)

lemma hex_decode_ascii: "hex_decode s = Some t \<Longrightarrow> list_all ascii s"
  by (induction s arbitrary: t rule: hex_decode.induct)
    (auto split: option.splits dest: hex_val_ascii)

text \<open>Lowering decodable text gives the text the encoder writes.\<close>

lemma hex_lower:
  assumes "hex_decode s = Some t"
  shows "to_lower uc s = hex_encode t"
proof -
  have "map (\<lambda>c. chr (lower_ascii (byte c))) s = hex_encode t" using assms
  proof (induction s arbitrary: t rule: hex_decode.induct)
    case (3 a b s)
    then obtain x y u where xy: "hex_val a = Some x" "hex_val b = Some y" "hex_decode s = Some u"
      and t: "t = chr (x * 16 + y) # u" by (auto split: option.splits)
    have "x < 16" "y < 16" using xy by (auto dest: hex_val_ascii)
    then have "byte (chr (x * 16 + y)) = x * 16 + y" by (intro byte_chr) simp
    with 3(1) [OF xy(3)] xy \<open>y < 16\<close> show ?case by (simp add: t hex_char_lower del: of_char_of)
  qed auto
  with hex_decode_ascii [OF assms] show ?thesis by (simp add: to_lower_ascii)
qed

section \<open>Paths\<close>

text \<open>\<open>filepath.Clean\<close>, on the components between the slashes; the accumulator is reversed.\<close>

fun clean_components :: "bool \<Rightarrow> string list \<Rightarrow> string list \<Rightarrow> string list" where
  "clean_components rooted acc [] = rev acc"
| "clean_components rooted acc (c # cs) =
     (if c = [] \<or> c = ''.'' then clean_components rooted acc cs
      else if c = ''..'' then
        (case acc of
           [] \<Rightarrow> clean_components rooted (if rooted then [] else [c]) cs
         | a # as \<Rightarrow> clean_components rooted (if a = ''..'' then c # acc else as) cs)
      else clean_components rooted (c # acc) cs)"

definition clean_path :: "string \<Rightarrow> string" where
  "clean_path p =
     (let rooted = prefix ''/'' p;
          body = join_with ''/'' (clean_components rooted [] (split_on (CHR ''/'') p))
      in if rooted then ''/'' @ body else if body = [] then ''.'' else body)"

text \<open>\<open>filepath.Dir\<close> and \<open>filepath.Join\<close>\<close>

definition path_dir :: "string \<Rightarrow> string" where
  "path_dir p = clean_path (take (nat (last_index (CHR ''/'') p + 1)) p)"

definition path_join :: "string list \<Rightarrow> string" where
  "path_join ps =
     (let qs = filter (\<lambda>p. p \<noteq> []) ps in if qs = [] then [] else clean_path (join_with ''/'' qs))"

text \<open>The paths of the files beside another file are told apart by their last component.\<close>

definition beside :: "string \<Rightarrow> string \<Rightarrow> string" where
  "beside p name = path_join [path_dir p, name]"

section \<open>The environment\<close>

text \<open>\<open>os.Getenv\<close>: the first entry with the name, or the empty text\<close>

definition getenv :: "string list \<Rightarrow> string \<Rightarrow> string" where
  "getenv env name =
     (case find (prefix (name @ ''='')) env of None \<Rightarrow> [] | Some e \<Rightarrow> drop (length name + 1) e)"

end
