(* ===== verification/Upd_Release.thy ===== *)
theory Upd_Release
  imports Go_Lines Go_Json Go_Sha256 Go_Http
begin

text \<open>
  What the updater reads (\<open>cmd/ktunnel/update.go\<close>): version numbers and their order, the
  release document of GitHub, the name of the asset for a platform, and the published SHA-256
  sums. The texts of the errors are constructors of \<open>update_error\<close>.
\<close>

section \<open>Constants and data\<close>

definition github_repo :: string where "github_repo = ''johyunchol/ktunnel''"
definition github_api_version :: string where "github_api_version = ''2022-11-28''"
definition max_release_json :: nat where "max_release_json = 4194304"
definition max_checksum_file :: nat where "max_checksum_file = 1048576"
definition max_binary_size :: nat where "max_binary_size = 268435456"

record release_asset =
  as_name :: string
  as_url :: string
  as_digest :: string
  as_size :: int

record github_release =
  gr_tag_name :: string
  gr_html_url :: string
  gr_assets :: "release_asset list"

record updater =
  up_api_base :: string
  up_repo :: string
  up_version :: string
  up_goos :: string
  up_goarch :: string

text \<open>The updater of a program of this version, built for this system and processor.\<close>

definition default_updater :: "string \<Rightarrow> string \<Rightarrow> string \<Rightarrow> updater" where
  "default_updater version goos goarch =
     \<lparr>up_api_base = ''https://api.github.com'', up_repo = github_repo, up_version = version,
      up_goos = goos, up_goarch = goarch\<rparr>"

datatype update_error =
    Request_Failed | Response_Too_Large | Release_Forbidden int | Release_Status int | Release_Malformed
  | Release_Unstable string | Not_A_Release string
  | Asset_Too_Large | Asset_Elsewhere | Asset_Status int
  | No_Checksum | Checksum_Missing | Checksum_Duplicate | Sums_Unreadable scan_error
  | Windows_Manual | Executable_Unknown | Managed_By_Uv | Update_Locked | Lock_Failed
  | Executable_Missing | Asset_Missing | Directory_Not_Writable | Checksum_Mismatch
  | Disk_Failed | Preflight_Failed | Backup_Failed | Replace_Failed
  | Rolled_Back | Rollback_Failed | Backup_Left

section \<open>Versions\<close>

text \<open>A version is the three numbers of \<open>semver\<close>, each below \<open>2^64\<close>.\<close>

type_synonym semver = "nat list"

fun semver_parts :: "string list \<Rightarrow> semver option" where
  "semver_parts [] = Some []"
| "semver_parts (p # ps) =
     (if p = [] \<or> 1 < length p \<and> hd p = CHR ''0'' then None
      else (case parse_uint p of
              Inl _ \<Rightarrow> None
            | Inr n \<Rightarrow> map_option (Cons n) (semver_parts ps)))"

definition parse_stable_semver :: "string \<Rightarrow> semver option" where
  "parse_stable_semver s0 =
     (let s = trim_space (trim_prefix ''v'' s0) in
      if s = [] \<or> contains_any s ''+-'' then None
      else
        let parts = split_on (CHR ''.'') s in
        if length parts \<noteq> 3 then None else semver_parts parts)"

fun newer_loop :: "semver \<Rightarrow> semver \<Rightarrow> bool" where
  "newer_loop (c # cs) (l # ls) = (if l \<noteq> c then c < l else newer_loop cs ls)"
| "newer_loop _ _ = False"

definition newer_version :: "string \<Rightarrow> string \<Rightarrow> bool \<times> bool" where
  "newer_version current latest =
     (case parse_stable_semver current of
        None \<Rightarrow> (False, False)
      | Some c \<Rightarrow>
          (case parse_stable_semver latest of
             None \<Rightarrow> (False, False)
           | Some l \<Rightarrow> (newer_loop c l, True)))"

section \<open>The release document\<close>

definition no_asset :: release_asset where
  "no_asset = \<lparr>as_name = [], as_url = [], as_digest = [], as_size = 0\<rparr>"

definition no_release :: github_release where
  "no_release = \<lparr>gr_tag_name = [], gr_html_url = [], gr_assets = []\<rparr>"

definition store_asset_field :: "string \<Rightarrow> json \<Rightarrow> release_asset \<Rightarrow> release_asset option" where
  "store_asset_field k v a =
     (if equal_fold k ''name'' then map_option (\<lambda>x. a\<lparr>as_name := x\<rparr>) (store_string v (as_name a))
      else if equal_fold k ''url'' then map_option (\<lambda>x. a\<lparr>as_url := x\<rparr>) (store_string v (as_url a))
      else if equal_fold k ''digest'' then map_option (\<lambda>x. a\<lparr>as_digest := x\<rparr>) (store_string v (as_digest a))
      else if equal_fold k ''size'' then map_option (\<lambda>x. a\<lparr>as_size := x\<rparr>) (store_int v (as_size a))
      else Some a)"

text \<open>
  An array is decoded into the backing array of the slice, element by element, so a second
  \<open>assets\<close> member of a document is decoded into what the first one left there. The state of the
  decoder is the release and that backing array.
\<close>

fun store_assets_into :: "json list \<Rightarrow> release_asset list \<Rightarrow> release_asset list option" where
  "store_assets_into [] backing = Some []"
| "store_assets_into (v # vs) backing =
     (case store_struct store_asset_field v (if backing = [] then no_asset else hd backing) of
        None \<Rightarrow> None
      | Some a \<Rightarrow> map_option (Cons a) (store_assets_into vs (tl backing)))"

definition store_assets ::
    "json \<Rightarrow> github_release \<times> release_asset list \<Rightarrow> (github_release \<times> release_asset list) option" where
  "store_assets v st =
     (case st of (r, backing) \<Rightarrow>
        (case v of
           JNull \<Rightarrow> Some (r\<lparr>gr_assets := []\<rparr>, [])
         | JArr [] \<Rightarrow> Some (r\<lparr>gr_assets := []\<rparr>, [])
         | JArr vs \<Rightarrow>
             map_option (\<lambda>as. (r\<lparr>gr_assets := as\<rparr>, as @ drop (length as) backing)) (store_assets_into vs backing)
         | _ \<Rightarrow> None))"

definition store_release_field ::
    "string \<Rightarrow> json \<Rightarrow> github_release \<times> release_asset list \<Rightarrow> (github_release \<times> release_asset list) option" where
  "store_release_field k v st =
     (case st of (r, backing) \<Rightarrow>
        if equal_fold k ''tag_name''
        then map_option (\<lambda>x. (r\<lparr>gr_tag_name := x\<rparr>, backing)) (store_string v (gr_tag_name r))
        else if equal_fold k ''html_url''
        then map_option (\<lambda>x. (r\<lparr>gr_html_url := x\<rparr>, backing)) (store_string v (gr_html_url r))
        else if equal_fold k ''assets'' then store_assets v st
        else Some st)"

definition unmarshal_release :: "string \<Rightarrow> github_release option" where
  "unmarshal_release b =
     (case json_parse b of
        None \<Rightarrow> None
      | Some v \<Rightarrow> map_option fst (store_struct store_release_field v (no_release, [])))"

definition decode_release :: "string \<Rightarrow> update_error + github_release" where
  "decode_release b =
     (case unmarshal_release b of
        None \<Rightarrow> Err Release_Malformed
      | Some rel \<Rightarrow>
          if parse_stable_semver (gr_tag_name rel) = None then Err (Release_Unstable (gr_tag_name rel)) else Ok rel)"

section \<open>Assets and sums\<close>

definition asset_name :: "updater \<Rightarrow> string" where
  "asset_name u =
     ''ktunnel-'' @ up_goos u @ ''-'' @ up_goarch u @ (if up_goos u = ''windows'' then ''.exe'' else [])"

definition find_asset :: "github_release \<Rightarrow> string \<Rightarrow> release_asset option" where
  "find_asset rel name = find (\<lambda>a. as_name a = name) (gr_assets rel)"

text \<open>Text that decodes as hexadecimal is ASCII, so lowering it reads no Unicode table.\<close>

definition lower_hex :: "string \<Rightarrow> string" where
  "lower_hex s = to_lower (\<lambda>r. r) s"

definition digest_sha256 :: "string \<Rightarrow> string option" where
  "digest_sha256 s =
     (case cut (CHR '':'') (trim_space s) of
        None \<Rightarrow> None
      | Some (alg, value) \<Rightarrow>
          if \<not> equal_fold alg ''sha256'' \<or> length value \<noteq> 64 then None
          else if hex_decode value = None then None
          else Some (lower_hex value))"

text \<open>The loop over the lines of \<open>SHA256SUMS\<close>; an empty \<open>found\<close> means none yet.\<close>

fun checksum_loop :: "string \<Rightarrow> string \<Rightarrow> string list \<Rightarrow> update_error + string" where
  "checksum_loop name found [] = Ok found"
| "checksum_loop name found (l # ls) =
     (let fs = go_fields l in
      if length fs < 2 \<or> length (hd fs) \<noteq> 64 then checksum_loop name found ls
      else if trim_prefix ''*'' (last fs) = name then
        (if hex_decode (hd fs) = None then checksum_loop name found ls
         else if found \<noteq> [] then Err Checksum_Duplicate
         else checksum_loop name (lower_hex (hd fs)) ls)
      else checksum_loop name found ls)"

definition checksum_for :: "string \<Rightarrow> string \<Rightarrow> update_error + string" where
  "checksum_for data name =
     (case scan_lines max_scan_token False data of
        (ls, stop) \<Rightarrow>
          (case checksum_loop name [] ls of
             Inl e \<Rightarrow> Err e
           | Inr found \<Rightarrow>
               (case stop of
                  Some e \<Rightarrow> Err (Sums_Unreadable e)
                | None \<Rightarrow> if found = [] then Err Checksum_Missing else Ok found)))"

section \<open>Requests\<close>

record http_request =
  hq_url :: string
  hq_headers :: "(string \<times> string) list"

record http_response =
  hs_status :: int
  hs_length :: int
  hs_body :: string
  hs_broken :: bool

text \<open>
  What the HTTP client of the standard library does with one request: it fails, it has an
  answer, or it has followed a redirect as far as building the next request.
\<close>

datatype hop = Hop_Failed | Hop_Answer http_response | Hop_Redirect http_request

type_synonym transport = "http_request \<Rightarrow> hop"

text \<open>The redirect policy the client had before, if any: an error, or the request it left.\<close>

type_synonym redirect_policy = "http_request \<Rightarrow> http_request list \<Rightarrow> http_request option"

definition drop_auth :: "http_request \<Rightarrow> http_request" where
  "drop_auth q = q\<lparr>hq_headers := filter (\<lambda>(k, v). k \<noteq> ''Authorization'') (hq_headers q)\<rparr>"

definition check_redirect :: "redirect_policy option \<Rightarrow> http_request \<Rightarrow> http_request list \<Rightarrow> http_request option" where
  "check_redirect previous next via =
     (case (case previous of
              None \<Rightarrow> Some (drop_auth next)
            | Some p \<Rightarrow> map_option drop_auth (p (drop_auth next) via)) of
        None \<Rightarrow> None
      | Some q \<Rightarrow> if 10 \<le> length via then None else Some q)"

text \<open>The requests sent, in order, and the outcome.\<close>

function send :: "transport \<Rightarrow> redirect_policy option \<Rightarrow> http_request list \<Rightarrow> http_request \<Rightarrow>
    http_request list \<times> (update_error + http_response)" where
  "send net previous via q =
     (let sent = via @ [q] in
      case net q of
        Hop_Failed \<Rightarrow> (sent, Err Request_Failed)
      | Hop_Answer r \<Rightarrow> (sent, Ok r)
      | Hop_Redirect next \<Rightarrow>
          (case check_redirect previous next sent of
             None \<Rightarrow> (sent, Err Request_Failed)
           | Some q' \<Rightarrow> send net previous sent q'))"
  by pat_completeness auto
termination
  by (relation "measure (\<lambda>(net, previous, via, q). 10 - length via)")
    (auto simp: check_redirect_def split: option.splits if_splits)

declare send.simps [simp del]

definition first_request :: "updater \<Rightarrow> string \<Rightarrow> string \<Rightarrow> string \<Rightarrow> http_request" where
  "first_request u url accept tok =
     \<lparr>hq_url = url,
      hq_headers =
        [(''Accept'', accept), (''X-GitHub-Api-Version'', github_api_version),
         (''User-Agent'', ''ktunnel/'' @ up_version u)] @
        (if tok = [] then [] else [(''Authorization'', ''Bearer '' @ tok)])\<rparr>"

definition http_get ::
    "updater \<Rightarrow> redirect_policy option \<Rightarrow> transport \<Rightarrow> string \<Rightarrow> string \<Rightarrow> string \<Rightarrow>
     http_request list \<times> (update_error + http_response)" where
  "http_get u previous net url accept tok = send net previous [] (first_request u url accept tok)"

definition read_limited :: "http_response \<Rightarrow> nat \<Rightarrow> update_error + string" where
  "read_limited r limit =
     (if limit < length (hs_body r) then Err Response_Too_Large
      else if hs_broken r then Err Request_Failed
      else Ok (hs_body r))"

definition trim_right :: "char \<Rightarrow> string \<Rightarrow> string" where
  "trim_right c s = rev (dropWhile (\<lambda>x. x = c) (rev s))"

definition release_url :: "updater \<Rightarrow> string" where
  "release_url u = trim_right (CHR ''/'') (up_api_base u) @ ''/repos/'' @ up_repo u @ ''/releases/latest''"

definition read_release :: "update_error + http_response \<Rightarrow> update_error + github_release" where
  "read_release resp =
     (case resp of
        Inl e \<Rightarrow> Err e
      | Inr r \<Rightarrow>
          if hs_status r \<noteq> 200 then
            Err (if hs_status r = 401 \<or> hs_status r = 403 \<or> hs_status r = 404
                 then Release_Forbidden (hs_status r) else Release_Status (hs_status r))
          else
            (case read_limited r max_release_json of
               Inl e \<Rightarrow> Err e
             | Inr b \<Rightarrow> decode_release b))"

definition latest_release ::
    "updater \<Rightarrow> redirect_policy option \<Rightarrow> transport \<Rightarrow> string \<Rightarrow>
     http_request list \<times> (update_error + github_release)" where
  "latest_release u previous net tok =
     (case http_get u previous net (release_url u) ''application/vnd.github+json'' tok of
        (sent, resp) \<Rightarrow> (sent, read_release resp))"

text \<open>Whether the address of an asset is one of the API the updater talks to.\<close>

definition asset_url_ok :: "updater \<Rightarrow> release_asset \<Rightarrow> bool" where
  "asset_url_ok u a =
     (case (parse_url (as_url a), parse_url (up_api_base u)) of
        (Some x, Some y) \<Rightarrow> url_scheme x = url_scheme y \<and> url_host x = url_host y
      | _ \<Rightarrow> False)"

text \<open>
  \<open>download\<close>: what reaches the destination before an error, and whether there was one. An answer
  over the limit writes one byte more than the limit.
\<close>

definition read_download :: "update_error + http_response \<Rightarrow> nat \<Rightarrow> string \<times> update_error option" where
  "read_download resp limit =
     (case resp of
        Inl e \<Rightarrow> ([], Some e)
      | Inr r \<Rightarrow>
          if hs_status r \<noteq> 200 then ([], Some (Asset_Status (hs_status r)))
          else if int limit < hs_length r then ([], Some Asset_Too_Large)
          else if limit < length (hs_body r) then (take (limit + 1) (hs_body r), Some Asset_Too_Large)
          else (hs_body r, if hs_broken r then Some Request_Failed else None))"

definition download ::
    "updater \<Rightarrow> redirect_policy option \<Rightarrow> transport \<Rightarrow> release_asset \<Rightarrow> string \<Rightarrow> nat \<Rightarrow>
     http_request list \<times> string \<times> update_error option" where
  "download u previous net a tok limit =
     (if int limit < as_size a then ([], [], Some Asset_Too_Large)
      else if \<not> asset_url_ok u a then ([], [], Some Asset_Elsewhere)
      else (case http_get u previous net (as_url a) ''application/octet-stream'' tok of
              (sent, resp) \<Rightarrow> (sent, read_download resp limit)))"

definition expected_checksum ::
    "updater \<Rightarrow> redirect_policy option \<Rightarrow> transport \<Rightarrow> github_release \<Rightarrow> release_asset \<Rightarrow> string \<Rightarrow>
     http_request list \<times> (update_error + string)" where
  "expected_checksum u previous net rel binary tok =
     (case digest_sha256 (as_digest binary) of
        Some h \<Rightarrow> ([], Ok h)
      | None \<Rightarrow>
          (case find_asset rel ''SHA256SUMS'' of
             None \<Rightarrow> ([], Err No_Checksum)
           | Some sums \<Rightarrow>
               (case download u previous net sums tok max_checksum_file of
                  (sent, data, None) \<Rightarrow> (sent, checksum_for data (as_name binary))
                | (sent, data, Some e) \<Rightarrow> (sent, Err e))))"

end
