(* ===== verification/Upd_Install.thy ===== *)
theory Upd_Install
  imports Upd_Release "HOL-Library.State_Monad"
begin

text \<open>
  The updater at work (\<open>cmd/ktunnel/update.go\<close>): the lock, the temporary files, the preflight of
  the new binary, the replacement with its backup and rollback, and the daily passive check.
  Programs run in the state monad over a machine: its files, what it does when it is asked, and
  the record of every state its files went through, which is what another process, or the next
  start after a crash, would find.
\<close>

section \<open>The machine\<close>

record disk_file =
  f_data :: string
  f_mode :: nat
  f_mtime :: int

type_synonym files = "string \<Rightarrow> disk_file option"

text \<open>What running a binary gives: the pieces it writes to its standard output, and how it ends.\<close>

record execution =
  ex_output :: "string list"
  ex_failed :: bool
  ex_timeout :: bool

text \<open>
  \<open>m_fault\<close> is the next outcome of a system call on a file: \<open>None\<close> when it succeeds, \<open>Some n\<close> when it
  fails, a write after \<open>n\<close> bytes. \<open>m_names\<close> are the random names a temporary file is tried with.
\<close>

record machine =
  m_files :: files
  m_past :: "files list"
  m_fault :: "nat \<Rightarrow> nat option"
  m_clk :: "nat \<Rightarrow> int"
  m_names :: "nat \<Rightarrow> string list"
  m_net :: "nat \<Rightarrow> transport"
  m_sent :: "http_request list"
  m_exec :: "nat \<Rightarrow> string list \<Rightarrow> string \<Rightarrow> execution"
  m_env :: "string list"

type_synonym 'a prog = "(machine, 'a) state"

definition shift :: "(nat \<Rightarrow> 'a) \<Rightarrow> nat \<Rightarrow> 'a" where
  "shift f i = f (Suc i)"

text \<open>A change of the files, recorded; a read of them; the next fault, reading of the clock, names.\<close>

definition set_files :: "files \<Rightarrow> machine \<Rightarrow> machine" where
  "set_files fs m = m\<lparr>m_files := fs, m_past := m_past m @ [m_files m]\<rparr>"

definition next_fault :: "nat option prog" where
  "next_fault = State (\<lambda>m. (m_fault m 0, m\<lparr>m_fault := shift (m_fault m)\<rparr>))"

definition now_ns :: "int prog" where
  "now_ns = State (\<lambda>m. (m_clk m 0, m\<lparr>m_clk := shift (m_clk m)\<rparr>))"

definition next_names :: "string list prog" where
  "next_names = State (\<lambda>m. (m_names m 0, m\<lparr>m_names := shift (m_names m)\<rparr>))"

definition look :: "(files \<Rightarrow> 'a) \<Rightarrow> 'a prog" where
  "look f = State (\<lambda>m. (f (m_files m), m))"

definition change :: "(files \<Rightarrow> files) \<Rightarrow> unit prog" where
  "change f = State (\<lambda>m. ((), set_files (f (m_files m)) m))"

section \<open>System calls\<close>

datatype sys_error = Sys_Exists | Sys_Not_Found | Sys_Other

type_synonym 'a sys = "(sys_error + 'a) prog"

definition sys_call :: "'a sys \<Rightarrow> 'a sys" where
  "sys_call p = do {
     f \<leftarrow> next_fault;
     case f of None \<Rightarrow> p | Some _ \<Rightarrow> State_Monad.return (Err Sys_Other) }"

text \<open>\<open>os.OpenFile\<close> with \<open>O_CREATE|O_EXCL\<close>, \<open>os.Stat\<close>, \<open>os.Open\<close> for reading\<close>

definition create_excl :: "string \<Rightarrow> nat \<Rightarrow> unit sys" where
  "create_excl p mode = sys_call (do {
     there \<leftarrow> look (\<lambda>fs. fs p \<noteq> None);
     if there then State_Monad.return (Err Sys_Exists)
     else do {
       t \<leftarrow> now_ns;
       change (\<lambda>fs. fs(p \<mapsto> \<lparr>f_data = [], f_mode = mode, f_mtime = t\<rparr>));
       State_Monad.return (Ok ()) } })"

definition stat_file :: "string \<Rightarrow> disk_file sys" where
  "stat_file p = sys_call (do {
     f \<leftarrow> look (\<lambda>fs. fs p);
     State_Monad.return (case f of None \<Rightarrow> Err Sys_Not_Found | Some f \<Rightarrow> Ok f) })"

text \<open>Appending to an open file: a failing write leaves a part of the data.\<close>

definition append_file :: "string \<Rightarrow> string \<Rightarrow> unit sys" where
  "append_file p data = do {
     f \<leftarrow> next_fault;
     t \<leftarrow> now_ns;
     change (\<lambda>fs. fs(p := map_option (\<lambda>x.
       x\<lparr>f_data := f_data x @ (case f of None \<Rightarrow> data | Some n \<Rightarrow> take n data), f_mtime := t\<rparr>) (fs p)));
     State_Monad.return (case f of None \<Rightarrow> Ok () | Some _ \<Rightarrow> Err Sys_Other) }"

definition chmod_file :: "string \<Rightarrow> nat \<Rightarrow> unit sys" where
  "chmod_file p mode = sys_call (do {
     change (\<lambda>fs. fs(p := map_option (\<lambda>x. x\<lparr>f_mode := mode\<rparr>) (fs p)));
     State_Monad.return (Ok ()) })"

text \<open>\<open>File.Sync\<close>, \<open>File.Close\<close>, \<open>File.Seek\<close>: they fail or change nothing a reader of the file sees.\<close>

definition touch_nothing :: "unit sys" where
  "touch_nothing = sys_call (State_Monad.return (Ok ()))"

text \<open>\<open>os.Rename\<close> replaces the target in one step.\<close>

definition rename_file :: "string \<Rightarrow> string \<Rightarrow> unit sys" where
  "rename_file a b = sys_call (do {
     f \<leftarrow> look (\<lambda>fs. fs a);
     case f of
       None \<Rightarrow> State_Monad.return (Err Sys_Not_Found)
     | Some x \<Rightarrow> do {
         change (\<lambda>fs. if a = b then fs else fs(b \<mapsto> x, a := None));
         State_Monad.return (Ok ()) } })"

definition remove_file :: "string \<Rightarrow> unit sys" where
  "remove_file p = sys_call (do {
     there \<leftarrow> look (\<lambda>fs. fs p \<noteq> None);
     if there then do { change (\<lambda>fs. fs(p := None)); State_Monad.return (Ok ()) }
     else State_Monad.return (Err Sys_Not_Found) })"

text \<open>\<open>os.CreateTemp(dir, prefix + "*")\<close>: up to ten thousand random names\<close>

fun try_names :: "string \<Rightarrow> string list \<Rightarrow> string sys" where
  "try_names pre [] = State_Monad.return (Err Sys_Exists)"
| "try_names pre (n # ns) = do {
     r \<leftarrow> create_excl (pre @ n) 384;
     case r of
       Inr _ \<Rightarrow> State_Monad.return (Ok (pre @ n))
     | Inl e \<Rightarrow> if e = Sys_Exists then try_names pre ns else State_Monad.return (Err e) }"

definition create_temp :: "string \<Rightarrow> string \<Rightarrow> string sys" where
  "create_temp dir pre = do {
     ns \<leftarrow> next_names;
     try_names (dir @ (if suffix ''/'' dir then [] else ''/'') @ pre) (take 10000 ns) }"

section \<open>Requests and running a binary\<close>

text \<open>One exchange with the network.\<close>

definition exchange :: "(transport \<Rightarrow> http_request list \<times> 'a) \<Rightarrow> 'a prog" where
  "exchange f = State (\<lambda>m. case f (m_net m 0) of
     (sent, a) \<Rightarrow> (a, m\<lparr>m_net := shift (m_net m), m_sent := m_sent m @ sent\<rparr>))"

text \<open>\<open>boundedWriter\<close> over a buffer: what the buffer holds, and the room left\<close>

definition bounded_write :: "string \<Rightarrow> string \<times> nat \<Rightarrow> string \<times> nat" where
  "bounded_write p w =
     (case w of (buf, remaining) \<Rightarrow>
        let p' = (if remaining < length p then take remaining p else p) in
        if p' = [] then (buf, remaining) else (buf @ p', remaining - length p'))"

definition replace_env :: "string list \<Rightarrow> string \<Rightarrow> string \<Rightarrow> string list" where
  "replace_env env key val =
     (let pre = key @ ''='' in filter (\<lambda>item. \<not> prefix pre item) env @ [pre @ val])"

definition preflight_env :: "string list \<Rightarrow> string list" where
  "preflight_env env = replace_env env ''KTUNNEL_UPDATE_PREFLIGHT'' ''1''"

definition version_line :: "string \<Rightarrow> string" where
  "version_line tag = ''ktunnel '' @ tag @ [chr 10]"

text \<open>What \<open>verifyBinary\<close> makes of a run of the binary.\<close>

definition accepts :: "string \<Rightarrow> execution \<Rightarrow> bool" where
  "accepts tag x \<longleftrightarrow>
     \<not> ex_timeout x \<and> \<not> ex_failed x \<and> fst (fold bounded_write (ex_output x) ([], 4096)) = version_line tag"

definition verify_binary :: "string \<Rightarrow> string \<Rightarrow> bool prog" where
  "verify_binary p tag = State (\<lambda>m.
     (case m_files m p of
        None \<Rightarrow> False
      | Some f \<Rightarrow> accepts tag (m_exec m 0 (preflight_env (m_env m)) (f_data f)),
      m\<lparr>m_exec := shift (m_exec m)\<rparr>))"

section \<open>The lock of an explicit update\<close>

text \<open>The clock counts nanoseconds; a lock older than ten minutes is stale.\<close>

definition lock_lifetime :: int where "lock_lifetime = 600000000000"

definition lock_path :: "string \<Rightarrow> string" where
  "lock_path p = beside p ''.ktunnel-update.lock''"

definition lock_fresh :: "int \<Rightarrow> disk_file \<Rightarrow> bool" where
  "lock_fresh now f \<longleftrightarrow> now < f_mtime f \<or> now - f_mtime f \<le> lock_lifetime"

fun lock_attempts :: "nat \<Rightarrow> string \<Rightarrow> string \<Rightarrow> int \<Rightarrow> update_error option prog" where
  "lock_attempts 0 lp note now = State_Monad.return (Some Update_Locked)"
| "lock_attempts (Suc n) lp note now = do {
     r \<leftarrow> create_excl lp 384;
     case r of
       Inr _ \<Rightarrow> do {
         _ \<leftarrow> append_file lp note;
         _ \<leftarrow> touch_nothing;
         _ \<leftarrow> touch_nothing;
         State_Monad.return None }
     | Inl e \<Rightarrow>
         if e \<noteq> Sys_Exists then State_Monad.return (Some Lock_Failed)
         else do {
           s \<leftarrow> stat_file lp;
           case s of
             Inl _ \<Rightarrow> State_Monad.return (Some Update_Locked)
           | Inr f \<Rightarrow>
               if lock_fresh now f then State_Monad.return (Some Update_Locked)
               else do {
                 d \<leftarrow> remove_file lp;
                 case d of
                   Inl _ \<Rightarrow> State_Monad.return (Some Update_Locked)
                 | Inr _ \<Rightarrow> lock_attempts n lp note now } } }"

definition acquire_lock :: "string \<Rightarrow> int \<Rightarrow> int \<Rightarrow> update_error option prog" where
  "acquire_lock p pid now =
     lock_attempts 2 (lock_path p) (''pid='' @ itoa pid @ '' time='' @ itoa (now div 1000000000) @ [chr 10]) now"

section \<open>Backup and installation\<close>

text \<open>Run a cleanup after a program, as a deferred call does, and keep the program's result.\<close>

definition finally_do :: "'a prog \<Rightarrow> ('a \<Rightarrow> 'b prog) \<Rightarrow> 'a prog" where
  "finally_do p c = do { r \<leftarrow> p; _ \<leftarrow> c r; State_Monad.return r }"

text \<open>Go on with a value, or return early with what the caller says.\<close>

definition or_fail :: "'r \<Rightarrow> 'a sys \<Rightarrow> ('a \<Rightarrow> 'r prog) \<Rightarrow> 'r prog" where
  "or_fail e p k = do {
     r \<leftarrow> p;
     case r of Inl _ \<Rightarrow> State_Monad.return e | Inr a \<Rightarrow> k a }"

definition sync_directory :: "unit prog" where
  "sync_directory = do { _ \<leftarrow> touch_nothing; _ \<leftarrow> touch_nothing; State_Monad.return () }"

text \<open>\<open>backupExecutable\<close>: the name of the backup\<close>

definition fill_backup :: "string \<Rightarrow> string \<Rightarrow> nat \<Rightarrow> bool prog" where
  "fill_backup p name mode =
     or_fail False (stat_file p) (\<lambda>source.
     or_fail False (append_file name (take (max_binary_size + 1) (f_data source))) (\<lambda>_.
     or_fail False touch_nothing (\<lambda>_.
       if max_binary_size < length (f_data source) then State_Monad.return False
       else
         or_fail False (chmod_file name mode) (\<lambda>_.
         or_fail False touch_nothing (\<lambda>_.
         or_fail False touch_nothing (\<lambda>_. State_Monad.return True))))))"

definition backup_executable :: "string \<Rightarrow> nat \<Rightarrow> string option prog" where
  "backup_executable p mode =
     or_fail None (create_temp (path_dir p) ''.ktunnel-backup-'') (\<lambda>name. do {
       ok \<leftarrow> finally_do (fill_backup p name mode)
               (\<lambda>ok. if ok then State_Monad.return (Ok ()) else remove_file name);
       State_Monad.return (if ok then Some name else None) })"

text \<open>The mode of the new binary: that of the old one, made executable when it was not.\<close>

definition new_mode :: "nat \<Rightarrow> nat" where
  "new_mode mode = (if mode AND 73 = 0 then mode OR 493 else mode)"

text \<open>
  The outcome of an installation under way: its error, and the flags \<open>keep\<close> (the temporary file
  has been moved to its place) and \<open>cleanupBackup\<close> (the backup is still to be removed).
\<close>

record outcome =
  oc_error :: "update_error option"
  oc_keep :: bool
  oc_cleanup :: bool

abbreviation failed :: "update_error \<Rightarrow> outcome" where
  "failed e \<equiv> \<lparr>oc_error = Some e, oc_keep = False, oc_cleanup = False\<rparr>"

definition swap_in :: "string \<Rightarrow> string \<Rightarrow> string \<Rightarrow> string \<Rightarrow> outcome prog" where
  "swap_in p tmp backup tag =
     or_fail \<lparr>oc_error = Some Replace_Failed, oc_keep = False, oc_cleanup = True\<rparr> (rename_file tmp p) (\<lambda>_. do {
       sync_directory;
       ok \<leftarrow> verify_binary p tag;
       if \<not> ok then
         or_fail \<lparr>oc_error = Some Rollback_Failed, oc_keep = True, oc_cleanup = False\<rparr> (rename_file backup p) (\<lambda>_. do {
           sync_directory;
           State_Monad.return \<lparr>oc_error = Some Rolled_Back, oc_keep = True, oc_cleanup = False\<rparr> })
       else
         or_fail \<lparr>oc_error = Some Backup_Left, oc_keep = True, oc_cleanup = True\<rparr> (remove_file backup) (\<lambda>_. do {
           sync_directory;
           State_Monad.return \<lparr>oc_error = None, oc_keep = True, oc_cleanup = False\<rparr> }) })"

definition replace_binary :: "string \<Rightarrow> string \<Rightarrow> nat \<Rightarrow> string \<Rightarrow> outcome prog" where
  "replace_binary p tmp mode tag = do {
     b \<leftarrow> backup_executable p mode;
     case b of
       None \<Rightarrow> State_Monad.return (failed Backup_Failed)
     | Some backup \<Rightarrow> do {
         sync_directory;
         finally_do (swap_in p tmp backup tag)
           (\<lambda>r. if oc_cleanup r then remove_file backup else State_Monad.return (Ok ())) } }"

text \<open>
  What happens to the temporary file, from the download to the replacement: the sum is checked,
  the file made executable and run once before it takes the place of the program.
\<close>

definition preflight_and_swap :: "string \<Rightarrow> string \<Rightarrow> nat \<Rightarrow> string \<Rightarrow> outcome prog" where
  "preflight_and_swap p tmp mode tag = do {
     ok \<leftarrow> verify_binary tmp tag;
     if \<not> ok then State_Monad.return (failed Preflight_Failed) else replace_binary p tmp mode tag }"

definition check_and_swap ::
    "string \<Rightarrow> string \<Rightarrow> string \<Rightarrow> update_error option \<Rightarrow> string \<Rightarrow> nat \<Rightarrow> string \<Rightarrow> outcome prog" where
  "check_and_swap p tmp data err expected mode tag =
     (case err of
        Some e \<Rightarrow> State_Monad.return (failed e)
      | None \<Rightarrow>
          if hex_encode (sha256 data) \<noteq> expected then State_Monad.return (failed Checksum_Mismatch)
          else
            or_fail (failed Disk_Failed) (chmod_file tmp (new_mode mode)) (\<lambda>_.
            or_fail (failed Disk_Failed) touch_nothing (\<lambda>_.
            or_fail (failed Disk_Failed) touch_nothing (\<lambda>_. preflight_and_swap p tmp mode tag))))"

definition fill_and_swap ::
    "updater \<Rightarrow> redirect_policy option \<Rightarrow> string \<Rightarrow> string \<Rightarrow> string \<Rightarrow> release_asset \<Rightarrow> string \<Rightarrow> nat \<Rightarrow> string \<Rightarrow>
     outcome prog" where
  "fill_and_swap u policy tok p tmp asset expected mode tag = do {
     (data, err) \<leftarrow> exchange (\<lambda>net. download u policy net asset tok max_binary_size);
     or_fail (failed Disk_Failed) (if data = [] then State_Monad.return (Ok ()) else append_file tmp data)
       (\<lambda>_. check_and_swap p tmp data err expected mode tag) }"

text \<open>\<open>install\<close> from the creation of the temporary file, from the sum, and from the lock on.\<close>

definition install_temp ::
    "updater \<Rightarrow> redirect_policy option \<Rightarrow> string \<Rightarrow> string \<Rightarrow> release_asset \<Rightarrow> string \<Rightarrow> nat \<Rightarrow> string \<Rightarrow> string \<Rightarrow>
     update_error option prog" where
  "install_temp u policy tok p asset expected mode tag tmp = do {
     r \<leftarrow> finally_do (fill_and_swap u policy tok p tmp asset expected mode tag)
           (\<lambda>r. if oc_keep r then State_Monad.return (Ok ()) else remove_file tmp);
     State_Monad.return (oc_error r) }"

definition install_asset ::
    "updater \<Rightarrow> redirect_policy option \<Rightarrow> github_release \<Rightarrow> string \<Rightarrow> string \<Rightarrow> nat \<Rightarrow> release_asset \<Rightarrow>
     update_error option prog" where
  "install_asset u policy rel tok p mode asset = do {
     h \<leftarrow> exchange (\<lambda>net. expected_checksum u policy net rel asset tok);
     case h of
       Inl e \<Rightarrow> State_Monad.return (Some e)
     | Inr expected \<Rightarrow>
         or_fail (Some Directory_Not_Writable) (create_temp (path_dir p) ''.ktunnel-update-'')
           (install_temp u policy tok p asset expected mode (gr_tag_name rel)) }"

definition install_locked ::
    "updater \<Rightarrow> redirect_policy option \<Rightarrow> github_release \<Rightarrow> string \<Rightarrow> string \<Rightarrow> update_error option prog" where
  "install_locked u policy rel tok p =
     or_fail (Some Executable_Missing) (stat_file p) (\<lambda>info.
       case find_asset rel (asset_name u) of
         None \<Rightarrow> State_Monad.return (Some Asset_Missing)
       | Some asset \<Rightarrow> install_asset u policy rel tok p (f_mode info) asset)"

definition is_uv_install :: "string \<Rightarrow> bool" where
  "is_uv_install p =
     (let clean = clean_path p in contains clean ''/uv/tools/'' \<or> contains clean ''/uv/tool/'')"

text \<open>
  \<open>install\<close>. The path of the running program, with symbolic links resolved, comes from the
  operating system: \<open>exe\<close> is \<open>None\<close> when it cannot be told.
\<close>

definition install ::
    "updater \<Rightarrow> redirect_policy option \<Rightarrow> github_release \<Rightarrow> string \<Rightarrow> string option \<Rightarrow> int \<Rightarrow>
     update_error option prog" where
  "install u policy rel tok exe pid =
     (if up_goos u = ''windows'' then State_Monad.return (Some Windows_Manual)
      else
        (case exe of
           None \<Rightarrow> State_Monad.return (Some Executable_Unknown)
         | Some p \<Rightarrow>
             if is_uv_install p then State_Monad.return (Some Managed_By_Uv)
             else do {
               t \<leftarrow> now_ns;
               l \<leftarrow> acquire_lock p pid t;
               case l of
                 Some e \<Rightarrow> State_Monad.return (Some e)
               | None \<Rightarrow> finally_do (install_locked u policy rel tok p) (\<lambda>_. remove_file (lock_path p)) }))"

section \<open>Checking and updating\<close>

datatype update_outcome = Up_To_Date | Update_Available string | Updated string | Update_Error update_error

text \<open>\<open>check\<close> and \<open>run\<close>; the GitHub token was read before.\<close>

definition check_release ::
    "updater \<Rightarrow> redirect_policy option \<Rightarrow> string \<Rightarrow> (update_error + github_release \<times> bool) prog" where
  "check_release u policy tok =
     (if parse_stable_semver (up_version u) = None
      then State_Monad.return (Err (Not_A_Release (up_version u)))
      else do {
        rel \<leftarrow> exchange (\<lambda>net. latest_release u policy net tok);
        State_Monad.return
          (case rel of
             Inl e \<Rightarrow> Err e
           | Inr r \<Rightarrow> Ok (r, fst (newer_version (up_version u) (gr_tag_name r)))) })"

definition run_update ::
    "updater \<Rightarrow> redirect_policy option \<Rightarrow> string \<Rightarrow> bool \<Rightarrow> string option \<Rightarrow> int \<Rightarrow> update_outcome prog" where
  "run_update u policy tok check_only exe pid = do {
     c \<leftarrow> check_release u policy tok;
     case c of
       Inl e \<Rightarrow> State_Monad.return (Update_Error e)
     | Inr (rel, newer) \<Rightarrow>
         if \<not> newer then State_Monad.return Up_To_Date
         else if check_only then State_Monad.return (Update_Available (gr_tag_name rel))
         else do {
           r \<leftarrow> install u policy rel tok exe pid;
           State_Monad.return (case r of None \<Rightarrow> Updated (gr_tag_name rel) | Some e \<Rightarrow> Update_Error e) } }"

end
