(* ===== verification/Upd_Lock.thy ===== *)
theory Upd_Lock
  imports Upd_Install Prelude
begin

text \<open>
  Several processes at the lock of an explicit update (\<open>acquireExplicitUpdateLock\<close>), interleaved
  at the granularity of their system calls, with a clock and with processes that die. The lock
  is exclusive as long as no lock file grows stale; two processes that find the same stale lock
  can both take it.
\<close>

section \<open>Processes\<close>

text \<open>Where a process is; the number is the attempt of the loop it is in.\<close>

datatype lock_pc =
    Outside
  | Creating nat
  | Statting nat
  | Removing nat
  | Holding
  | Gone

text \<open>\<open>ls_lock\<close> is the time of modification of the lock file, if there is one; \<open>ls_started\<close> is the
  time a process read before the first attempt.\<close>

record lock_state =
  ls_lock :: "int option"
  ls_now :: int
  ls_pc :: "nat \<Rightarrow> lock_pc"
  ls_started :: "nat \<Rightarrow> int"

definition goto :: "nat \<Rightarrow> lock_pc \<Rightarrow> lock_state \<Rightarrow> lock_state" where
  "goto i pc s = s\<lparr>ls_pc := (ls_pc s)(i := pc)\<rparr>"

text \<open>
  The lock is held from the creation of the file on; what the holder writes into it moves the time of
  modification (step \<open>stamp\<close>, any number of times). The age test is on the time the process
  started with.
\<close>

definition stale_for :: "int \<Rightarrow> int \<Rightarrow> bool" where
  "stale_for now t \<longleftrightarrow> \<not> (now < t \<or> now - t \<le> lock_lifetime)"

inductive lock_step :: "lock_state \<Rightarrow> lock_state \<Rightarrow> bool" where
  tick: "0 \<le> d \<Longrightarrow> lock_step s (s\<lparr>ls_now := ls_now s + d\<rparr>)"
| arrive: "ls_pc s i = Outside \<Longrightarrow>
    lock_step s (goto i (Creating 0) (s\<lparr>ls_started := (ls_started s)(i := ls_now s)\<rparr>))"
| create: "ls_pc s i = Creating n \<Longrightarrow> n < 2 \<Longrightarrow> ls_lock s = None \<Longrightarrow>
    lock_step s (goto i Holding (s\<lparr>ls_lock := Some (ls_now s)\<rparr>))"
| exists: "ls_pc s i = Creating n \<Longrightarrow> n < 2 \<Longrightarrow> ls_lock s = Some t \<Longrightarrow> lock_step s (goto i (Statting n) s)"
| give_up: "ls_pc s i = Creating n \<Longrightarrow> 2 \<le> n \<Longrightarrow> lock_step s (goto i Gone s)"
| stat_missing: "ls_pc s i = Statting n \<Longrightarrow> ls_lock s = None \<Longrightarrow> lock_step s (goto i Gone s)"
| stat_fresh: "ls_pc s i = Statting n \<Longrightarrow> ls_lock s = Some t \<Longrightarrow> \<not> stale_for (ls_started s i) t \<Longrightarrow>
    lock_step s (goto i Gone s)"
| stat_stale: "ls_pc s i = Statting n \<Longrightarrow> ls_lock s = Some t \<Longrightarrow> stale_for (ls_started s i) t \<Longrightarrow>
    lock_step s (goto i (Removing n) s)"
| remove: "ls_pc s i = Removing n \<Longrightarrow> ls_lock s = Some t \<Longrightarrow>
    lock_step s (goto i (Creating (n + 1)) (s\<lparr>ls_lock := None\<rparr>))"
| remove_missing: "ls_pc s i = Removing n \<Longrightarrow> ls_lock s = None \<Longrightarrow> lock_step s (goto i Gone s)"
| stamp: "ls_pc s i = Holding \<Longrightarrow> ls_lock s = Some t \<Longrightarrow> lock_step s (s\<lparr>ls_lock := Some (ls_now s)\<rparr>)"
| release: "ls_pc s i = Holding \<Longrightarrow> lock_step s (goto i Gone (s\<lparr>ls_lock := None\<rparr>))"
| die: "lock_step s (goto i Gone s)"

inductive_cases lock_stepE: "lock_step s t"

section \<open>Exclusion while no lock is old\<close>

text \<open>
  While the lock file, if there is one, is at most ten minutes old, nobody judges it stale, so
  whoever holds the lock is the one that made the file.
\<close>

definition no_old_lock :: "lock_state \<Rightarrow> bool" where
  "no_old_lock s \<longleftrightarrow> (\<forall>t. ls_lock s = Some t \<longrightarrow> ls_now s - t \<le> lock_lifetime)"

definition fresh_step :: "lock_state \<Rightarrow> lock_state \<Rightarrow> bool" where
  "fresh_step s t \<longleftrightarrow> lock_step s t \<and> no_old_lock s"

text \<open>Nobody is about to remove the lock, and it has at most one holder, whose file is there.\<close>

definition lock_in_order :: "lock_state \<Rightarrow> bool" where
  "lock_in_order s \<longleftrightarrow>
     (\<forall>i n. ls_pc s i \<noteq> Removing n) \<and>
     (\<forall>i n. ls_pc s i = Creating n \<or> ls_pc s i = Statting n \<longrightarrow> ls_started s i \<le> ls_now s) \<and>
     (\<forall>i j. ls_pc s i = Holding \<longrightarrow> ls_lock s \<noteq> None \<and> (ls_pc s j = Holding \<longrightarrow> i = j))"

lemma idle_in_order: "\<forall>i. ls_pc s i \<in> {Outside, Gone} \<Longrightarrow> lock_in_order s"
  unfolding lock_in_order_def by (metis empty_iff insert_iff lock_pc.distinct lock_pc.simps)

lemma not_judged_stale:
  assumes "lock_in_order s" "no_old_lock s" "ls_pc s i = Statting n" "ls_lock s = Some t"
  shows "\<not> stale_for (ls_started s i) t"
proof -
  have "ls_started s i \<le> ls_now s" "ls_now s - t \<le> lock_lifetime"
    using assms by (auto simp: lock_in_order_def no_old_lock_def)
  then show ?thesis by (auto simp: stale_for_def)
qed

lemma in_order_step: "lock_step s t \<Longrightarrow> no_old_lock s \<Longrightarrow> lock_in_order s \<Longrightarrow> lock_in_order t"
proof (induction rule: lock_step.induct)
  case (tick d s)
  then show ?case by (fastforce simp: lock_in_order_def)
next
  case (stat_stale s i n t)
  then show ?case using not_judged_stale by blast
next
  case (remove s i n t)
  then show ?case by (simp add: lock_in_order_def)
next
  case (remove_missing s i n)
  then show ?case by (simp add: lock_in_order_def)
qed (auto simp: lock_in_order_def goto_def)

interpretation lock_machine: invariant_machine fresh_step lock_in_order
  by unfold_locales (auto simp: fresh_step_def intro: in_order_step)

definition quiet_lock :: "int option \<Rightarrow> int \<Rightarrow> lock_state" where
  "quiet_lock l n = \<lparr>ls_lock = l, ls_now = n, ls_pc = (\<lambda>_. Outside), ls_started = (\<lambda>_. 0)\<rparr>"

section \<open>Two processes at a stale lock\<close>

text \<open>
  Two processes find the lock of one that died eleven minutes ago. Both judge it stale; the
  first removes it and takes the lock, and the second then removes the lock of the first.
\<close>

lemma stale_lock_taken_twice:
  "\<exists>t. runs lock_step (quiet_lock (Some 0) 660000000000) t \<and> ls_pc t 0 = Holding \<and> ls_pc t 1 = Holding"
proof -
  let ?arrive = "\<lambda>i s. goto i (Creating 0) (s\<lparr>ls_started := (ls_started s)(i := ls_now s)\<rparr>)"
  let ?remove = "\<lambda>i s. goto i (Creating 1) (s\<lparr>ls_lock := None\<rparr>)"
  let ?create = "\<lambda>i s. goto i Holding (s\<lparr>ls_lock := Some (ls_now s)\<rparr>)"
  define s where "s = quiet_lock (Some 0) 660000000000"
  define s1 where "s1 = goto 0 (Removing 0) (goto 0 (Statting 0) (?arrive 0 s))"
  define s2 where "s2 = goto 1 (Removing 0) (goto 1 (Statting 0) (?arrive 1 s1))"
  define s3 where "s3 = ?create 0 (?remove 0 s2)"
  define s4 where "s4 = ?create 1 (?remove 1 s3)"
  note defs = s_def s1_def s2_def s3_def s4_def quiet_lock_def goto_def stale_for_def lock_lifetime_def
  have judge: "runs lock_step u (goto i (Removing 0) (goto i (Statting 0) (?arrive i u)))"
    if "ls_pc u i = Outside" "ls_lock u = Some 0" "ls_now u = 660000000000" for u i
  proof -
    have "lock_step u (?arrive i u)" using that(1) by (rule arrive)
    moreover have "lock_step (?arrive i u) (goto i (Statting 0) (?arrive i u))"
      by (rule exists) (use that in \<open>simp_all add: goto_def\<close>)
    moreover have "lock_step (goto i (Statting 0) (?arrive i u)) (goto i (Removing 0) (goto i (Statting 0) (?arrive i u)))"
      by (rule stat_stale [where t = 0]) (use that in \<open>simp_all add: goto_def stale_for_def lock_lifetime_def\<close>)
    ultimately show ?thesis by (meson runs_one runs_trans)
  qed
  have take: "runs lock_step u (?create i (?remove i u))" if "ls_pc u i = Removing 0" "ls_lock u = Some t" for u i t
  proof -
    have "lock_step u (?remove i u)" using remove [OF that] by simp
    moreover have "lock_step (?remove i u) (?create i (?remove i u))"
      by (rule create [where n = 1]) (simp_all add: goto_def)
    ultimately show ?thesis by (meson runs_one runs_trans)
  qed
  have "runs lock_step s s1" unfolding s1_def by (rule judge) (simp_all add: s_def quiet_lock_def)
  moreover have "runs lock_step s1 s2" unfolding s2_def by (rule judge) (simp_all add: defs)
  moreover have "runs lock_step s2 s3" unfolding s3_def by (rule take [where t = 0]) (simp_all add: defs)
  moreover have "runs lock_step s3 s4" unfolding s4_def by (rule take [where t = 660000000000]) (simp_all add: defs)
  ultimately have "runs lock_step s s4" by (meson runs_trans)
  moreover have "ls_pc s4 0 = Holding" "ls_pc s4 1 = Holding" by (simp_all add: defs)
  ultimately show ?thesis unfolding s_def by blast
qed

section \<open>What the lock is worth\<close>

text \<open>
  C36: In any interleaving of any number of processes that take, write, hold, release or die with
  the lock, at most one process holds it while no lock file grows older than ten minutes, and
  while one does the lock file is there. This is so from any state where every process is
  outside or gone, whatever lock file there is, and from any state in order; the states that are reached
  are in order again. Once a lock file is older the lock is not exclusive: two processes that
  find the lock of a dead one can both end up holding it.
\<close>

theorem lock_exclusive_while_fresh:
  assumes "(\<forall>i. ls_pc s i \<in> {Outside, Gone}) \<or> lock_in_order s" "runs fresh_step s t"
  shows "lock_in_order t \<and>
    (ls_pc t i = Holding \<and> ls_pc t j = Holding \<longrightarrow> i = j) \<and> (ls_pc t i = Holding \<longrightarrow> ls_lock t \<noteq> None) \<and>
    (\<exists>u. runs lock_step (quiet_lock (Some 0) 660000000000) u \<and> ls_pc u 0 = Holding \<and> ls_pc u 1 = Holding)"
proof -
  have "lock_in_order s" using assms(1) idle_in_order by blast
  with assms(2) have "lock_in_order t" by (rule lock_machine.runs_inv)
  then show ?thesis using stale_lock_taken_twice by (auto simp: lock_in_order_def)
qed

theorem lock_exclusive_while_fresh_witness:
  "\<exists>t. runs fresh_step (quiet_lock None 0) t \<and> ls_pc t 0 = Holding \<and> ls_pc t 1 \<noteq> Holding \<and> ls_lock t = Some 0"
proof -
  let ?s = "quiet_lock None 0"
  let ?s1 = "goto 0 (Creating 0) (?s\<lparr>ls_started := (ls_started ?s)(0 := ls_now ?s)\<rparr>)"
  let ?s2 = "goto 0 Holding (?s1\<lparr>ls_lock := Some (ls_now ?s1)\<rparr>)"
  have "lock_step ?s ?s1" by (rule arrive) (simp add: quiet_lock_def)
  moreover have "lock_step ?s1 ?s2" by (rule create [where n = 0]) (simp_all add: quiet_lock_def goto_def)
  moreover have "no_old_lock ?s" "no_old_lock ?s1" by (simp_all add: no_old_lock_def quiet_lock_def goto_def)
  ultimately have "fresh_step ?s ?s1" "fresh_step ?s1 ?s2" by (simp_all add: fresh_step_def)
  then have run: "runs fresh_step ?s ?s2" by (blast intro: runs_one runs_trans)
  have "ls_pc ?s2 0 = Holding" "ls_lock ?s2 = Some 0" by (simp_all add: quiet_lock_def goto_def)
  with lock_exclusive_while_fresh [OF _ run, of 0 1] show ?thesis
    by (intro exI [of _ ?s2] conjI run) (auto simp: quiet_lock_def goto_def)
qed

end
