(* ===== verification/Upd_Laws.thy ===== *)
theory Upd_Laws
  imports Upd_Release
begin

text \<open>
  What the updater may rely on: the order of versions, the sums it accepts, and where its
  credentials go.
\<close>

section \<open>Versions\<close>

lemma newer_loop_lex: "length c = length l \<Longrightarrow> newer_loop c l \<longleftrightarrow> ord_class.lexordp c l"
  by (induction c l rule: newer_loop.induct) auto

lemma semver_parts_length: "semver_parts ps = Some v \<Longrightarrow> length v = length ps"
  by (induction ps arbitrary: v) (auto split: if_splits sum.splits)

lemma parse_stable_semver_length: "parse_stable_semver s = Some v \<Longrightarrow> length v = 3"
  by (auto simp: parse_stable_semver_def Let_def split: if_splits dest: semver_parts_length)

lemma newer_version_iff:
  "fst (newer_version c l) \<longleftrightarrow>
     (\<exists>a b. parse_stable_semver c = Some a \<and> parse_stable_semver l = Some b \<and> ord_class.lexordp a b)"
  "snd (newer_version c l) \<longleftrightarrow> parse_stable_semver c \<noteq> None \<and> parse_stable_semver l \<noteq> None"
  by (auto simp: newer_version_def newer_loop_lex dest!: parse_stable_semver_length split: option.split)

text \<open>A version as a release tag, and that it is read back.\<close>

definition version_tag :: "nat \<Rightarrow> nat \<Rightarrow> nat \<Rightarrow> string" where
  "version_tag x y z = ''v'' @ join_with ''.'' [nat_digits x, nat_digits y, nat_digits z]"

lemma semver_parts_digits:
  "n \<le> max_uint64 \<Longrightarrow> semver_parts (nat_digits n # ps) = map_option (Cons n) (semver_parts ps)"
proof -
  assume n: "n \<le> max_uint64"
  have "\<not> (1 < length (nat_digits n) \<and> hd (nat_digits n) = CHR ''0'')"
    using hd_nat_digits_nonzero [of n] by (cases "n = 0") (auto simp: nat_digits.simps [of 0])
  with n show ?thesis by (auto simp: parse_uint_def uint_loop_digits)
qed

lemma nat_digits_free: "is_digit c = False \<Longrightarrow> c \<notin> set (nat_digits n)"
  by (auto dest: nat_digits_digits)

lemma parse_version_tag:
  assumes "x \<le> max_uint64" "y \<le> max_uint64" "z \<le> max_uint64"
  shows "parse_stable_semver (version_tag x y z) = Some [x, y, z]"
proof -
  let ?s = "join_with ''.'' [nat_digits x, nat_digits y, nat_digits z]"
  have dot: "CHR ''.'' \<notin> set (nat_digits n)" "CHR ''+'' \<notin> set (nat_digits n)" "CHR ''-'' \<notin> set (nat_digits n)" for n
    by (simp_all add: nat_digits_free is_digit_def)
  have "visible (hd ?s)" "visible (last ?s)"
    using nat_digits_digits [OF last_in_set [OF nat_digits_nonempty [of z]]] hd_nat_digits [of x]
    by (simp_all add: is_digit_visible)
  then have "trim_space ?s = ?s" by (intro trim_space_visible) simp_all
  moreover have "trim_prefix ''v'' (version_tag x y z) = ?s"
    by (simp add: trim_prefix_def version_tag_def)
  moreover have "\<not> contains_any ?s ''+-''"
    using dot by (auto simp: contains_any_def list_ex_iff)
  moreover have "split_on (CHR ''.'') ?s = [nat_digits x, nat_digits y, nat_digits z]"
    using dot(1) by (intro split_on_join) auto
  ultimately show ?thesis
    using assms unfolding parse_stable_semver_def Let_def
    by (simp add: semver_parts_digits del: join_with.simps semver_parts.simps(2)) simp
qed

lemma lexordp_less_trans: "ord_class.lexordp a b \<Longrightarrow> ord_class.lexordp b c \<Longrightarrow> ord_class.lexordp a (c :: nat list)"
  by (rule lexordp_trans)

lemma lexordp_less_irrefl: "\<not> ord_class.lexordp a (a :: nat list)"
  by (rule lexordp_irreflexive')

lemma lexordp_less_total: "ord_class.lexordp a b \<or> a = b \<or> ord_class.lexordp b (a :: nat list)"
  using lexordp_linear by auto

text \<open>
  C33: On release tags the comparison is that of the three numbers, so 0.10.0 is newer than
  0.9.9; on all texts it is a strict order, total on the texts that are versions, and a text
  that is no version is newer than nothing and never replaced.
\<close>

theorem newer_version_order:
  assumes "list_all (\<lambda>n. n \<le> max_uint64) [x, y, z, x', y', z']"
  shows "newer_version (version_tag x y z) (version_tag x' y' z') =
      (x < x' \<or> x = x' \<and> (y < y' \<or> y = y' \<and> z < z'), True) \<and>
    (fst (newer_version a b) \<and> fst (newer_version b c) \<longrightarrow> fst (newer_version a c)) \<and>
    \<not> (fst (newer_version a b) \<and> fst (newer_version b a)) \<and>
    (snd (newer_version a b) \<longrightarrow>
       fst (newer_version a b) \<or> fst (newer_version b a) \<or> parse_stable_semver a = parse_stable_semver b) \<and>
    (fst (newer_version a b) \<longrightarrow> parse_stable_semver a \<noteq> None \<and> parse_stable_semver b \<noteq> None)"
proof (intro conjI)
  show "newer_version (version_tag x y z) (version_tag x' y' z') =
      (x < x' \<or> x = x' \<and> (y < y' \<or> y = y' \<and> z < z'), True)"
    using assms by (auto simp: newer_version_def parse_version_tag)
  show "fst (newer_version a b) \<and> fst (newer_version b c) \<longrightarrow> fst (newer_version a c)"
    unfolding newer_version_iff using lexordp_less_trans by fastforce
  show "\<not> (fst (newer_version a b) \<and> fst (newer_version b a))"
    unfolding newer_version_iff using lexordp_less_trans lexordp_less_irrefl by fastforce
  show "snd (newer_version a b) \<longrightarrow>
      fst (newer_version a b) \<or> fst (newer_version b a) \<or> parse_stable_semver a = parse_stable_semver b"
    unfolding newer_version_iff using lexordp_less_total by fastforce
  show "fst (newer_version a b) \<longrightarrow> parse_stable_semver a \<noteq> None \<and> parse_stable_semver b \<noteq> None"
    unfolding newer_version_iff by auto
qed

theorem newer_version_order_witness:
  "newer_version (version_tag 0 9 9) (version_tag 0 10 0) = (True, True) \<and>
   fst (newer_version (version_tag 0 9 9) (version_tag 1 0 0))"
proof -
  have "fst (newer_version (version_tag 0 10 0) (version_tag 1 0 0))"
    using newer_version_order [of 0 10 0 1 0 0] by simp
  then show ?thesis
    using newer_version_order [of 0 9 9 0 10 0 "version_tag 0 9 9" "version_tag 0 10 0" "version_tag 1 0 0"] by simp
qed

section \<open>Sums\<close>

text \<open>A published sum: the text of 32 bytes.\<close>

definition sum_text :: "string \<Rightarrow> bool" where
  "sum_text h \<longleftrightarrow> (\<exists>b. length b = 32 \<and> h = hex_encode b)"

lemma hex_decode_length: "hex_decode s = Some t \<Longrightarrow> length s = 2 * length t"
  by (induction s arbitrary: t rule: hex_decode.induct) (auto split: option.splits)

lemma lower_hex_sum: "hex_decode s = Some t \<Longrightarrow> length s = 64 \<Longrightarrow> lower_hex s = hex_encode t \<and> length t = 32"
  by (auto simp: lower_hex_def hex_lower dest: hex_decode_length)

lemma lower_hex_text: "hex_decode s \<noteq> None \<Longrightarrow> length s = 64 \<Longrightarrow> sum_text (lower_hex s)"
  by (auto simp: sum_text_def dest: lower_hex_sum)

lemma hex_encode_empty [simp]: "hex_encode b = [] \<longleftrightarrow> b = []"
  by (cases b) simp_all

lemma sum_text_nonempty: "sum_text h \<Longrightarrow> h \<noteq> []"
  by (auto simp: sum_text_def)

lemma digest_sha256_text: "digest_sha256 s = Some h \<Longrightarrow> sum_text h"
  by (auto simp: digest_sha256_def intro!: lower_hex_text split: option.splits if_splits)

lemma equal_fold_refl: "list_all ascii t \<Longrightarrow> equal_fold t t"
  by (auto simp: equal_fold_def runes_ascii fold_rune_def list_all_iff ascii_def)

lemma hex_encode_ends:
  assumes "b \<noteq> []"
  shows "visible (last (hex_encode b))"
proof -
  have "hex_encode b \<noteq> []" using assms by simp
  then show ?thesis by (meson hex_encode_chars last_in_set)
qed

lemma hex_encode_ascii: "list_all ascii (hex_encode b)"
  by (rule hex_decode_ascii [OF hex_decode_encode])

text \<open>The digest GitHub publishes for some bytes is read back.\<close>

lemma sha256_ascii: "list_all ascii ''sha256''"
  by (simp add: ascii_def)

lemma digest_of:
  assumes "length b = 32"
  shows "digest_sha256 (''sha256'' @ CHR '':'' # hex_encode b) = Some (hex_encode b)"
proof -
  have b: "b \<noteq> []" using assms by auto
  define alg where "alg = ''sha256''"
  have alg: "alg \<noteq> []" "CHR '':'' \<notin> set alg" by (simp_all add: alg_def)
  have vis: "visible (hd alg)" by (simp add: alg_def visible_def)
  have fold: "equal_fold alg ''sha256''"
    unfolding alg_def by (rule equal_fold_refl [OF sha256_ascii])
  have "trim_space (alg @ CHR '':'' # hex_encode b) = alg @ CHR '':'' # hex_encode b"
    using hex_encode_ends [OF b] alg(1) vis b by (intro trim_space_visible) simp_all
  then have "cut (CHR '':'') (trim_space (alg @ CHR '':'' # hex_encode b)) = Some (alg, hex_encode b)"
    by (simp only: cut_append [OF alg(2)])
  moreover have len: "length (hex_encode b) = 64" "hex_decode (hex_encode b) \<noteq> None"
    using assms by (simp_all add: hex_decode_encode)
  moreover have "lower_hex (hex_encode b) = hex_encode b"
    using lower_hex_sum [OF hex_decode_encode len(1)] by (rule conjunct1)
  ultimately have "digest_sha256 (alg @ CHR '':'' # hex_encode b) = Some (hex_encode b)"
    using fold by (simp only: digest_sha256_def option.case prod.case) simp
  then show ?thesis by (simp only: alg_def)
qed

text \<open>The entry of a line for an asset, and the entries of a file: the specification of the search.\<close>

definition sum_entry :: "string \<Rightarrow> string \<Rightarrow> string option" where
  "sum_entry name l =
     (let fs = go_fields l in
      if 2 \<le> length fs \<and> length (hd fs) = 64 \<and> trim_prefix ''*'' (last fs) = name
      then map_option hex_encode (hex_decode (hd fs)) else None)"

lemma sum_entry_text: "sum_entry name l = Some h \<Longrightarrow> sum_text h"
  by (auto simp: sum_entry_def Let_def sum_text_def split: if_splits) (metis hex_decode_length lower_hex_sum)

lemma fields_visible: "list_all visible x \<Longrightarrow> fields_from cur (x @ s) = fields_from (cur @ x) s"
proof (induction x arbitrary: cur)
  case (Cons c x)
  then have "next_rune c (x @ s) = (Some (byte c), x @ s)" "byte c \<notin> set space_runes"
    by (auto simp: next_rune_def visible_def space_runes_def)
  with Cons show ?case by simp
qed simp

lemma fields_space: "fields_from cur (CHR '' '' # s) = (if cur = [] then [] else [cur]) @ fields_from [] s"
  by (simp add: next_rune_def space_runes_def)

lemma go_fields_two:
  assumes "list_all visible x" "list_all visible y" "x \<noteq> []" "y \<noteq> []"
  shows "go_fields (x @ CHR '' '' # y) = [x, y]"
  using assms fields_visible [of x "[]" "CHR '' '' # y"] fields_visible [of y "[]" "[]"]
  unfolding go_fields_def by (simp del: fields_from.simps(2) add: fields_space)

text \<open>The line a release publishes for some bytes is an entry with their sum.\<close>

lemma sum_entry_line:
  assumes "length b = 32" "list_all visible n" "n \<noteq> []" "trim_prefix ''*'' n = name"
  shows "sum_entry name (hex_encode b @ CHR '' '' # n) = Some (hex_encode b)"
proof -
  have "hex_encode b \<noteq> []" "list_all visible (hex_encode b)"
    using assms(1) hex_encode_chars [of _ b] by (auto simp: list_all_iff)
  then have "go_fields (hex_encode b @ CHR '' '' # n) = [hex_encode b, n]"
    using assms by (intro go_fields_two)
  with assms show ?thesis by (simp add: sum_entry_def hex_decode_encode)
qed

lemma raw_lines_single: "chr 10 \<notin> set l \<Longrightarrow> l \<noteq> [] \<Longrightarrow> raw_lines l = [l]"
  by (cases l) (auto simp: cut_None_iff [THEN iffD2])

lemma checksum_loop_entries:
  "checksum_loop name found ls =
     (let hs = List.map_filter (sum_entry name) ls in
      if found = [] then (case hs of [] \<Rightarrow> Ok [] | [h] \<Rightarrow> Ok h | _ \<Rightarrow> Err Checksum_Duplicate)
      else if hs = [] then Ok found else Err Checksum_Duplicate)"
proof (induction ls arbitrary: found)
  case (Cons l ls)
  let ?fs = "go_fields l"
  show ?case
  proof (cases "sum_entry name l")
    case None
    then have "checksum_loop name found (l # ls) = checksum_loop name found ls"
      by (auto simp: sum_entry_def Let_def split: if_splits)
    with None Cons.IH show ?thesis by (simp add: map_filter_simps Let_def)
  next
    case (Some h)
    then obtain t where t: "2 \<le> length ?fs" "length (hd ?fs) = 64" "trim_prefix ''*'' (last ?fs) = name"
      "hex_decode (hd ?fs) = Some t" "h = hex_encode t"
      by (auto simp: sum_entry_def Let_def split: if_splits)
    then have "checksum_loop name found (l # ls) =
        (if found \<noteq> [] then Err Checksum_Duplicate else checksum_loop name h ls)"
      using lower_hex_sum [OF t(4)] by (simp add: Let_def)
    moreover have "h \<noteq> []" using sum_entry_text [OF Some] by (rule sum_text_nonempty)
    ultimately show ?thesis using Some Cons.IH [of h] by (auto simp: map_filter_simps Let_def split: list.split)
  qed
qed (simp add: map_filter_simps)

text \<open>
  C34: \<open>checksumFor\<close> finds a sum exactly when the whole file could be read and has one valid
  line for the asset; two lines for it are refused even when they agree, and the sum found is
  the lower-case text of 32 bytes whatever the case in the file.
\<close>

theorem checksum_for_unique_entry:
  "(checksum_for data name = Ok h \<longleftrightarrow>
     snd (scan_lines max_scan_token False data) = None \<and>
     List.map_filter (sum_entry name) (fst (scan_lines max_scan_token False data)) = [h]) \<and>
   (checksum_for data name = Ok h \<longrightarrow> sum_text h)"
proof -
  obtain ls stop where sc: "scan_lines max_scan_token False data = (ls, stop)" by fastforce
  have sums: "x \<in> set (List.map_filter (sum_entry name) ls) \<Longrightarrow> sum_text x" for x
    by (force simp: map_filter_def dest: sum_entry_text)
  then have ne: "x \<in> set (List.map_filter (sum_entry name) ls) \<Longrightarrow> x \<noteq> []" for x
    using sum_text_nonempty by blast
  have iff: "checksum_for data name = Ok h \<longleftrightarrow> stop = None \<and> List.map_filter (sum_entry name) ls = [h]"
    unfolding checksum_for_def sc
    by (auto simp: checksum_loop_entries Let_def split: list.splits option.splits dest: ne) (metis list.set_intros(1) ne)+
  then show ?thesis unfolding sc using sums by auto
qed

theorem checksum_for_unique_entry_witness:
  "checksum_for (hex_encode (sha256 ''x'') @ CHR '' '' # ''*k'') ''k'' = Ok (hex_encode (sha256 ''x'')) \<and>
   sum_text (hex_encode (sha256 ''x''))"
proof -
  let ?h = "hex_encode (sha256 ''x'')"
  have "sum_entry ''k'' (?h @ CHR '' '' # ''*k'') = Some ?h"
    by (rule sum_entry_line) (simp_all add: visible_def trim_prefix_def)
  moreover have "scan_lines max_scan_token False (?h @ CHR '' '' # ''*k'') = ([?h @ CHR '' '' # ''*k''], None)"
  proof -
    have "chr 10 \<notin> set ?h" using hex_encode_chars [of "chr 10" "sha256 ''x''"] by (auto simp: visible_def)
    moreover have "chr 10 \<notin> set '' *k''" by (simp add: char_of_def)
    ultimately have "raw_lines (?h @ CHR '' '' # ''*k'') = [?h @ CHR '' '' # ''*k'']"
      by (intro raw_lines_single) simp_all
    then show ?thesis by (simp add: scan_lines_def max_scan_token_def drop_cr_def char_of_def)
  qed
  ultimately show ?thesis
    using checksum_for_unique_entry [of "?h @ CHR '' '' # ''*k''" "''k''" ?h]
    by (simp add: map_filter_simps)
qed

section \<open>Credentials\<close>

definition carries_token :: "http_request \<Rightarrow> bool" where
  "carries_token q \<longleftrightarrow> list_ex (\<lambda>(k, v). k = ''Authorization'') (hq_headers q)"

lemma drop_auth_clean: "\<not> carries_token (drop_auth q)"
  by (auto simp: carries_token_def drop_auth_def list_ex_iff)

lemma check_redirect_clean: "check_redirect p next via = Some q \<Longrightarrow> \<not> carries_token q \<and> length via < 10"
  by (auto simp: check_redirect_def drop_auth_clean split: option.splits if_splits)

lemma send_sent:
  assumes "length via < 10" "list_all (\<lambda>q. \<not> carries_token q) (tl (via @ [q]))"
  shows "\<exists>more. fst (send net p via q) = via @ q # more \<and> length (via @ q # more) \<le> 10 \<and>
    list_all (\<lambda>q. \<not> carries_token q) (tl (via @ q # more))"
  using assms
proof (induction net p via q rule: send.induct)
  case (1 net p via q)
  show ?case
  proof (cases "net q")
    case (Hop_Redirect nxt)
    show ?thesis
    proof (cases "check_redirect p nxt (via @ [q])")
      case None
      with 1(2-) Hop_Redirect show ?thesis by (subst send.simps) simp
    next
      case (Some q')
      note c = check_redirect_clean [OF this]
      have "list_all (\<lambda>q. \<not> carries_token q) (tl ((via @ [q]) @ [q']))"
        using c 1(3) by (cases via) simp_all
      with 1(1) [OF refl Hop_Redirect Some] c obtain more where
        "fst (send net p (via @ [q]) q') = via @ q # q' # more" "length (via @ q # q' # more) \<le> 10"
        "list_all (\<lambda>q. \<not> carries_token q) (tl (via @ q # q' # more))" by auto
      with Hop_Redirect Some show ?thesis by (subst send.simps) simp
    qed
  next
    case Hop_Failed
    with 1(2-) show ?thesis by (subst send.simps) simp
  next
    case (Hop_Answer r)
    with 1(2-) show ?thesis by (subst send.simps) simp
  qed
qed

lemma http_get_sent:
  "\<exists>more. fst (http_get u p net url accept tok) = first_request u url accept tok # more \<and>
     length more < 10 \<and> list_all (\<lambda>q. \<not> carries_token q) more"
  using send_sent [of "[]" "first_request u url accept tok" net p] by (auto simp: http_get_def)

text \<open>The requests of a download: none, or one to the host of the API and after it redirects, to any
  host, without the token.\<close>

definition confined :: "updater \<Rightarrow> http_request list \<Rightarrow> bool" where
  "confined u sent \<longleftrightarrow>
     length sent \<le> 10 \<and> list_all (\<lambda>q. \<not> carries_token q) (tl sent) \<and>
     (case sent of
        [] \<Rightarrow> True
      | q # _ \<Rightarrow>
          (case (parse_url (hq_url q), parse_url (up_api_base u)) of
             (Some x, Some y) \<Rightarrow> url_scheme x = url_scheme y \<and> url_host x = url_host y
           | _ \<Rightarrow> False))"

lemma download_confined: "confined u (fst (download u p net a tok limit))"
  using http_get_sent [of u p net "as_url a" "''application/octet-stream''" tok]
  by (auto simp: download_def confined_def asset_url_ok_def first_request_def
      split: prod.splits option.splits)

lemma github_url:
  "\<exists>y. parse_url ''https://api.github.com'' = Some y \<and> url_scheme y = ''https'' \<and> url_host y = ''api.github.com''"
proof -
  have "map_option (\<lambda>y. (url_scheme y, url_host y)) (parse_url ''https://api.github.com'') =
      Some (''https'', ''api.github.com'')" by code_simp
  then show ?thesis by auto
qed

text \<open>
  C35: Whatever the network answers, the updater follows at most nine redirects, and the GitHub
  token goes out with the first request only, to the address the updater chose. That first
  request for an asset goes to the scheme and host of the configured API (a redirect may lead
  elsewhere, without the token). For the updater the program uses, the API is \<open>https\<close> at
  \<open>api.github.com\<close>, and the release is that of this repository.
\<close>

theorem credentials_stay_home:
  "confined u (fst (download u p net a tok limit)) \<and>
   confined u (fst (expected_checksum u p net rel a tok)) \<and>
   (\<exists>more. fst (latest_release u p net tok) =
       first_request u (release_url u) ''application/vnd.github+json'' tok # more \<and>
     length more < 10 \<and> list_all (\<lambda>q. \<not> carries_token q) more) \<and>
   (asset_url_ok (default_updater version os arch) a \<longleftrightarrow>
     (\<exists>x. parse_url (as_url a) = Some x \<and> url_scheme x = ''https'' \<and> url_host x = ''api.github.com'')) \<and>
   release_url (default_updater version os arch) = ''https://api.github.com/repos/johyunchol/ktunnel/releases/latest''"
proof (intro conjI)
  show "confined u (fst (download u p net a tok limit))" by (rule download_confined)
  have "confined u []" by (simp add: confined_def)
  moreover have "confined u (fst (download u p net s tok max_checksum_file))" for s by (rule download_confined)
  ultimately show "confined u (fst (expected_checksum u p net rel a tok))"
    by (auto simp: expected_checksum_def split: option.split prod.split) (metis fst_conv)+
  show "\<exists>more. fst (latest_release u p net tok) =
       first_request u (release_url u) ''application/vnd.github+json'' tok # more \<and>
     length more < 10 \<and> list_all (\<lambda>q. \<not> carries_token q) more"
    using http_get_sent [of u p net "release_url u" "''application/vnd.github+json''" tok]
    by (simp add: latest_release_def split: prod.split) (metis fst_conv)
  show "asset_url_ok (default_updater version os arch) a \<longleftrightarrow>
     (\<exists>x. parse_url (as_url a) = Some x \<and> url_scheme x = ''https'' \<and> url_host x = ''api.github.com'')"
    using github_url by (elim exE conjE) (simp add: asset_url_ok_def default_updater_def split: option.split)
  show "release_url (default_updater version os arch) = ''https://api.github.com/repos/johyunchol/ktunnel/releases/latest''"
    unfolding release_url_def default_updater_def github_repo_def updater.simps by code_simp
qed

end
