(* ===== verification/Upd_Safe.thy ===== *)
theory Upd_Safe
  imports Upd_Install Upd_Laws
begin

text \<open>
  An interrupted or failing update never leaves the machine without a working binary: in every
  state the files pass through, the path of the program holds the old binary or one whose sum
  was published and which answered the preflight. The proof is a small logic of triples over the
  programs of \<open>Upd_Install\<close>, whose assertions track the files exactly.
\<close>

section \<open>Triples\<close>

definition triple :: "(machine \<Rightarrow> bool) \<Rightarrow> 'a prog \<Rightarrow> ('a \<Rightarrow> machine \<Rightarrow> bool) \<Rightarrow> bool" where
  "triple A p B \<longleftrightarrow> (\<forall>m. A m \<longrightarrow> B (fst (run_state p m)) (snd (run_state p m)))"

named_theorems triples \<open>what a program does to a machine\<close>

lemma tripleI: "(\<And>m. A m \<Longrightarrow> B (fst (run_state p m)) (snd (run_state p m))) \<Longrightarrow> triple A p B"
  by (simp add: triple_def)

lemma triple_return: "(\<And>m. A m \<Longrightarrow> B a m) \<Longrightarrow> triple A (State_Monad.return a) B"
  by (simp add: triple_def)

lemma triple_bind: "triple A p C \<Longrightarrow> (\<And>a. triple (C a) (k a) B) \<Longrightarrow> triple A (State_Monad.bind p k) B"
  by (simp add: triple_def split_beta)

lemma triple_post: "triple A p C \<Longrightarrow> (\<And>a m. C a m \<Longrightarrow> B a m) \<Longrightarrow> triple A p B"
  by (simp add: triple_def)

lemma triple_pre: "triple C p B \<Longrightarrow> (\<And>m. A m \<Longrightarrow> C m) \<Longrightarrow> triple A p B"
  by (simp add: triple_def)

lemma triple_ex: "(\<And>x. triple (A x) p B) \<Longrightarrow> triple (\<lambda>m. \<exists>x. A x m) p B"
  by (auto simp: triple_def)

lemma triple_pure: "(F \<Longrightarrow> triple A p B) \<Longrightarrow> triple (\<lambda>m. F \<and> A m) p B"
  by (auto simp: triple_def)

text \<open>What holds after a failure, and after a success with a value.\<close>

definition either :: "(machine \<Rightarrow> bool) \<Rightarrow> ('a \<Rightarrow> machine \<Rightarrow> bool) \<Rightarrow> sys_error + 'a \<Rightarrow> machine \<Rightarrow> bool" where
  "either F S r = (case r of Inl _ \<Rightarrow> F | Inr a \<Rightarrow> S a)"

lemma either_simps [simp]: "either F S (Inl e) = F" "either F S (Inr a) = S a"
  by (simp_all add: either_def)

lemma triple_or_fail:
  assumes "triple A p (either F S)" "\<And>m. F m \<Longrightarrow> B e m" "\<And>a. triple (S a) (k a) B"
  shows "triple A (or_fail e p k) B"
  unfolding or_fail_def
proof (rule triple_bind [OF assms(1)])
  show "triple (either F S r) (case r of Inl _ \<Rightarrow> State_Monad.return e | Inr a \<Rightarrow> k a) B" for r
    using assms(2,3) by (cases r) (simp_all add: triple_return)
qed

lemma triple_ignore: "triple A p (either B (\<lambda>_. B)) \<Longrightarrow> triple A p (\<lambda>_. B)"
  by (erule triple_post) (auto simp: either_def split: sum.splits)

lemma triple_finally:
  assumes "triple A p C" "\<And>r. triple (C r) (c r) (\<lambda>_. B r)"
  shows "triple A (finally_do p c) B"
  unfolding finally_do_def
  by (rule triple_bind [OF assms(1)], rule triple_bind [OF assms(2)], rule triple_return)

section \<open>The machine under an update\<close>

text \<open>
  What is fixed during an update: the machine at the start, the path of the program, the binary
  there, the release and how it is fetched.
\<close>

record setting_up =
  su_start :: machine
  su_path :: string
  su_old :: disk_file
  su_updater :: updater
  su_policy :: "redirect_policy option"
  su_release :: github_release
  su_token :: string

definition faulty :: "setting_up \<Rightarrow> bool" where
  "faulty z \<longleftrightarrow> m_fault (su_start z) \<noteq> (\<lambda>_. None)"

definition same_as_old :: "setting_up \<Rightarrow> disk_file \<Rightarrow> bool" where
  "same_as_old z x \<longleftrightarrow> f_data x = f_data (su_old z) \<and> f_mode x = f_mode (su_old z)"

text \<open>The bytes have the sum published for the platform, and ran as the released version.\<close>

definition published :: "setting_up \<Rightarrow> string \<Rightarrow> bool" where
  "published z h \<longleftrightarrow>
     (\<exists>asset i. find_asset (su_release z) (asset_name (su_updater z)) = Some asset \<and>
        snd (expected_checksum (su_updater z) (su_policy z) (m_net (su_start z) i) (su_release z) asset (su_token z)) = Ok h)"

definition preflighted :: "setting_up \<Rightarrow> string \<Rightarrow> bool" where
  "preflighted z d \<longleftrightarrow>
     (\<exists>i. accepts (gr_tag_name (su_release z)) (m_exec (su_start z) i (preflight_env (m_env (su_start z))) d))"

definition genuine :: "setting_up \<Rightarrow> disk_file \<Rightarrow> bool" where
  "genuine z x \<longleftrightarrow>
     published z (hex_encode (sha256 (f_data x))) \<and> preflighted z (f_data x) \<and>
     f_mode x = new_mode (f_mode (su_old z))"

definition working :: "setting_up \<Rightarrow> files \<Rightarrow> bool" where
  "working z fs \<longleftrightarrow> (\<exists>x. fs (su_path z) = Some x \<and> (same_as_old z x \<or> genuine z x))"

text \<open>The machine is one the update can have reached, and its files are \<open>K\<close>.\<close>

definition at :: "setting_up \<Rightarrow> files \<Rightarrow> machine \<Rightarrow> bool" where
  "at z K m \<longleftrightarrow>
     m_files m = K \<and> working z K \<and> list_all (working z) (m_past m) \<and> m_env m = m_env (su_start z) \<and>
     (\<exists>i. m_exec m = (\<lambda>j. m_exec (su_start z) (i + j))) \<and> (\<exists>i. m_net m = (\<lambda>j. m_net (su_start z) (i + j))) \<and>
     (\<not> faulty z \<longrightarrow> m_fault m = (\<lambda>_. None))"

lemma shift_stream: "(\<exists>i. shift f = (\<lambda>j. g (i + j)))" if "f = (\<lambda>j. g (i + j))" for i :: nat
proof (rule exI [of _ "Suc i"])
  show "shift f = (\<lambda>j. g (Suc i + j))" using that by (auto simp: shift_def)
qed

lemma at_set_files:
  "at z K m \<Longrightarrow> working z K' \<Longrightarrow> at z K' (set_files K' m)"
  by (auto simp: at_def set_files_def)

lemma at_files: "at z K m \<Longrightarrow> m_files m = K"
  by (simp add: at_def)

lemma at_fault: "at z K m \<Longrightarrow> at z K (m\<lparr>m_fault := shift (m_fault m)\<rparr>)"
  by (auto simp: at_def shift_def)

lemma at_other: "at z K m \<Longrightarrow> at z K (m\<lparr>m_clk := c\<rparr>)" "at z K m \<Longrightarrow> at z K (m\<lparr>m_names := n\<rparr>)"
  by (auto simp: at_def)

lemma at_fault_faulty: "at z K m \<Longrightarrow> m_fault m 0 = Some n \<Longrightarrow> faulty z"
  by (auto simp: at_def)

lemma working_other: "working z K \<Longrightarrow> q \<noteq> su_path z \<Longrightarrow> working z (K(q := v))"
  by (auto simp: working_def)

lemma working_absent: "working z K \<Longrightarrow> K q = None \<Longrightarrow> q \<noteq> su_path z"
  by (auto simp: working_def)

section \<open>System calls\<close>

lemma triple_now: "triple (at z K) now_ns (\<lambda>_. at z K)"
  by (rule tripleI) (simp add: now_ns_def at_other)

lemma triple_names: "triple (at z K) next_names (\<lambda>_. at z K)"
  by (rule tripleI) (simp add: next_names_def at_other)

lemma triple_look: "triple (at z K) (look f) (\<lambda>r m. r = f K \<and> at z K m)"
  by (rule tripleI) (auto simp: look_def at_def)

lemma triple_change: "working z (f K) \<Longrightarrow> triple (at z K) (change f) (\<lambda>_. at z (f K))"
  by (rule tripleI) (simp add: change_def at_files at_set_files)

text \<open>A call that fails changes nothing and means that the machine has faults.\<close>

lemma triple_sys_call:
  assumes "triple (at z K) p B" "faulty z \<Longrightarrow> (\<And>m. at z K m \<Longrightarrow> B (Err Sys_Other) m)"
  shows "triple (at z K) (sys_call p) B"
proof -
  have "triple (at z K) next_fault (\<lambda>f m. at z K m \<and> (f \<noteq> None \<longrightarrow> faulty z))"
    by (rule tripleI) (auto simp: next_fault_def at_fault dest: at_fault_faulty)
  then show ?thesis
    unfolding sys_call_def
    by (rule triple_bind) (use assms in \<open>auto simp: triple_def split: option.split\<close>)
qed

lemma triple_trivial: "\<not> working z K \<Longrightarrow> triple (at z K) p B"
  by (simp add: triple_def at_def)

text \<open>A new file: its name was free, and it is empty.\<close>

definition made :: "setting_up \<Rightarrow> files \<Rightarrow> nat \<Rightarrow> string \<Rightarrow> machine \<Rightarrow> bool" where
  "made z K mode q m \<longleftrightarrow>
     (\<exists>t. K q = None \<and> at z (K(q \<mapsto> \<lparr>f_data = [], f_mode = mode, f_mtime = t\<rparr>)) m)"

lemma triple_create: "triple (at z K) (create_excl q mode) (either (at z K) (\<lambda>_. made z K mode q))"
proof (cases "working z K")
  case True
  then have "K q = None \<Longrightarrow> working z (K(q \<mapsto> f))" for f
    by (simp add: working_other working_absent)
  then have "K q = None \<Longrightarrow> triple (at z K)
      (change (\<lambda>fs. fs(q \<mapsto> \<lparr>f_data = [], f_mode = mode, f_mtime = t\<rparr>))) (\<lambda>_. made z K mode q)" for t
    by (intro triple_post [OF triple_change]) (auto simp: made_def)
  then show ?thesis
    unfolding create_excl_def
    by (auto intro!: triple_sys_call triple_bind [OF triple_look] triple_pure triple_bind [OF triple_now]
        triple_bind [of "at z K"] triple_return)
qed (rule triple_trivial)

lemma triple_stat: "triple (at z K) (stat_file q) (either (at z K) (\<lambda>f m. K q = Some f \<and> at z K m))"
  unfolding stat_file_def
  by (rule triple_sys_call, rule triple_bind [OF triple_look])
    (auto intro!: triple_return split: option.split)

lemma triple_append:
  assumes "K q = Some x" "q \<noteq> su_path z"
  shows "triple (at z K) (append_file q data)
    (either (\<lambda>m. \<exists>y. at z (K(q \<mapsto> y)) m)
       (\<lambda>_ m. \<exists>y. (f_data y = f_data x @ data \<and> f_mode y = f_mode x) \<and> at z (K(q \<mapsto> y)) m))"
proof -
  have flt: "triple (at z K) next_fault (\<lambda>_. at z K)"
    by (rule tripleI) (simp add: next_fault_def at_fault)
  have chg: "triple (at z K) (change (\<lambda>fs. fs(q := map_option (\<lambda>x. x\<lparr>f_data := f_data x @ d, f_mtime := t\<rparr>) (fs q))))
      (\<lambda>_. at z (K(q \<mapsto> x\<lparr>f_data := f_data x @ d, f_mtime := t\<rparr>)))" for d t
    using triple_change [of z "\<lambda>fs. fs(q := map_option (\<lambda>x. x\<lparr>f_data := f_data x @ d, f_mtime := t\<rparr>) (fs q))" K] assms
    by (cases "working z K") (simp_all add: working_other triple_trivial)
  show ?thesis
    unfolding append_file_def
  proof (rule triple_bind [OF flt], rule triple_bind [OF triple_now], rule triple_bind [OF chg], rule triple_return)
    fix f t m
    assume "at z (K(q \<mapsto> x\<lparr>f_data := f_data x @ (case f of None \<Rightarrow> data | Some n \<Rightarrow> take n data), f_mtime := t\<rparr>)) m"
    then show "either (\<lambda>m. \<exists>y. at z (K(q \<mapsto> y)) m)
       (\<lambda>_ m. \<exists>y. (f_data y = f_data x @ data \<and> f_mode y = f_mode x) \<and> at z (K(q \<mapsto> y)) m)
       (case f of None \<Rightarrow> Ok () | Some _ \<Rightarrow> Err Sys_Other) m"
      by (cases f) (auto simp del: fun_upd_apply
          intro: exI [of _ "x\<lparr>f_data := f_data x @ data, f_mtime := t\<rparr>"])
  qed
qed

lemma triple_chmod:
  assumes "K q = Some x" "q \<noteq> su_path z"
  shows "triple (at z K) (chmod_file q mode) (either (at z K) (\<lambda>_. at z (K(q \<mapsto> x\<lparr>f_mode := mode\<rparr>))))"
proof (cases "working z K")
  case True
  then show ?thesis
    using triple_change [of z "\<lambda>fs. fs(q := map_option (\<lambda>x. x\<lparr>f_mode := mode\<rparr>) (fs q))" K] assms
    unfolding chmod_file_def by (auto intro!: triple_sys_call triple_bind triple_return simp: working_other)
qed (rule triple_trivial)

lemma triple_nothing: "triple (at z K) touch_nothing (either (at z K) (\<lambda>_. at z K))"
  unfolding touch_nothing_def by (auto intro!: triple_sys_call triple_return)

lemma triple_sync: "triple (at z K) sync_directory (\<lambda>_. at z K)"
  unfolding sync_directory_def by (intro triple_bind [OF triple_ignore [OF triple_nothing]] triple_return)

text \<open>A rename onto the path of the program: only of a binary that works.\<close>

lemma triple_rename:
  assumes "K a = Some x" "a \<noteq> su_path z" "same_as_old z x \<or> genuine z x"
  shows "triple (at z K) (rename_file a (su_path z))
    (either (\<lambda>m. faulty z \<and> at z K m) (\<lambda>_. at z (K(su_path z \<mapsto> x, a := None))))"
proof -
  have "working z (K(su_path z \<mapsto> x, a := None))" using assms by (auto simp: working_def)
  then show ?thesis
    using triple_change [of z "\<lambda>fs. fs(su_path z \<mapsto> x, a := None)" K] assms
    unfolding rename_file_def
    by (auto intro!: triple_sys_call triple_bind [OF triple_look] triple_pure triple_bind triple_return)
qed

lemma triple_remove:
  assumes "q \<noteq> su_path z"
  shows "triple (at z K) (remove_file q)
    (either (\<lambda>m. (faulty z \<or> K q = None) \<and> at z K m) (\<lambda>_. at z (K(q := None))))"
proof (cases "working z K")
  case True
  then show ?thesis
    using triple_change [of z "\<lambda>fs. fs(q := None)" K] assms
    unfolding remove_file_def
    by (auto intro!: triple_sys_call triple_bind [OF triple_look] triple_pure triple_bind triple_return
        simp: working_other)
qed (rule triple_trivial)

lemma triple_verify:
  assumes "K q = Some x"
  shows "triple (at z K) (verify_binary q (gr_tag_name (su_release z)))
    (\<lambda>r m. (r \<longrightarrow> preflighted z (f_data x)) \<and> at z K m)"
proof (rule tripleI)
  fix m assume m: "at z K m"
  then obtain i where i: "m_exec m = (\<lambda>j. m_exec (su_start z) (i + j))" by (auto simp: at_def)
  have "at z K (m\<lparr>m_exec := shift (m_exec m)\<rparr>)" using m shift_stream [OF i] by (simp add: at_def)
  with m i assms show
    "(fst (run_state (verify_binary q (gr_tag_name (su_release z))) m) \<longrightarrow> preflighted z (f_data x)) \<and>
     at z K (snd (run_state (verify_binary q (gr_tag_name (su_release z))) m))"
    by (auto simp: verify_binary_def preflighted_def at_def)
qed

lemma triple_exchange:
  "triple (at z K) (exchange f) (\<lambda>r m. (\<exists>i. r = snd (f (m_net (su_start z) i))) \<and> at z K m)"
proof (rule tripleI)
  fix m assume m: "at z K m"
  then obtain i where i: "m_net m = (\<lambda>j. m_net (su_start z) (i + j))" by (auto simp: at_def)
  have "at z K (m\<lparr>m_net := shift (m_net m), m_sent := s\<rparr>)" for s using m shift_stream [OF i] by (simp add: at_def)
  with i show "(\<exists>i. fst (run_state (exchange f) m) = snd (f (m_net (su_start z) i))) \<and> at z K (snd (run_state (exchange f) m))"
    by (auto simp: exchange_def split: prod.split intro!: exI [of _ i])
qed

text \<open>A temporary file is new: it is none of the files there were.\<close>

lemma triple_try_names: "triple (at z K) (try_names pre ns) (either (at z K) (made z K 384))"
proof (induction ns)
  case (Cons n ns)
  show ?case
    unfolding try_names.simps
  proof (rule triple_bind [OF triple_create])
    show "triple (either (at z K) (\<lambda>_. made z K 384 (pre @ n)) r)
      (case r of
         Inr _ \<Rightarrow> State_Monad.return (Ok (pre @ n))
       | Inl e \<Rightarrow> if e = Sys_Exists then try_names pre ns else State_Monad.return (Err e))
      (either (at z K) (made z K 384))" for r :: "sys_error + unit"
      by (cases r) (simp_all add: triple_return Cons.IH)
  qed
qed (simp add: triple_return)

lemma triple_temp: "triple (at z K) (create_temp dir pre) (either (at z K) (made z K 384))"
  unfolding create_temp_def by (rule triple_bind [OF triple_names triple_try_names])

lemma triple_made:
  "(\<And>t. K q = None \<Longrightarrow> triple (at z (K(q \<mapsto> \<lparr>f_data = [], f_mode = mode, f_mtime = t\<rparr>))) p B) \<Longrightarrow>
   triple (made z K mode q) p B"
  by (auto simp: triple_def made_def)

section \<open>The programs\<close>

text \<open>Files left over, which takes a fault.\<close>

definition litter :: "setting_up \<Rightarrow> files \<Rightarrow> files \<Rightarrow> bool" where
  "litter z K K' \<longleftrightarrow> K \<subseteq>\<^sub>m K' \<and> (faulty z \<or> K' = K)"

lemma litter_refl [simp]: "litter z K K"
  by (simp add: litter_def)

lemma litter_more: "faulty z \<Longrightarrow> K q = None \<Longrightarrow> litter z K (K(q \<mapsto> x))"
  by (auto simp: litter_def map_le_def)

lemma litter_drop: "litter z K K' \<Longrightarrow> litter z (K(q := None)) (K'(q := None))"
  by (auto simp: litter_def map_le_def)

text \<open>What is at the path of the program after an outcome.\<close>

definition verdict :: "setting_up \<Rightarrow> update_error option \<Rightarrow> disk_file \<Rightarrow> bool" where
  "verdict z r x \<longleftrightarrow>
     (if r = None then genuine z x
      else if r \<in> {Some Rollback_Failed, Some Backup_Left} then faulty z \<and> genuine z x
      else same_as_old z x)"

definition settled :: "setting_up \<Rightarrow> files \<Rightarrow> update_error option \<Rightarrow> machine \<Rightarrow> bool" where
  "settled z K r m \<longleftrightarrow> (\<exists>x K'. (litter z (K(su_path z \<mapsto> x)) K' \<and> verdict z r x) \<and> at z K' m)"

lemma settledI: "litter z (K(su_path z \<mapsto> x)) K' \<Longrightarrow> verdict z r x \<Longrightarrow> at z K' m \<Longrightarrow> settled z K r m"
  by (auto simp: settled_def)

lemma settled_same:
  "at z K m \<Longrightarrow> K (su_path z) = Some x \<Longrightarrow> same_as_old z x \<Longrightarrow>
   r \<notin> {None, Some Rollback_Failed, Some Backup_Left} \<Longrightarrow> settled z K r m"
  by (rule settledI [of z K x K]) (auto simp: verdict_def fun_upd_idem)

lemma triple_fill_backup:
  assumes "K (su_path z) = Some x" "K name = Some y" "name \<noteq> su_path z" "f_data y = []"
  shows "triple (at z K) (fill_backup (su_path z) name mode)
    (\<lambda>r m. \<exists>b. (r \<longrightarrow> f_data b = f_data x \<and> f_mode b = mode) \<and> at z (K(name \<mapsto> b)) m)"
proof -
  let ?Q = "\<lambda>r m. \<exists>b. (r \<longrightarrow> f_data b = f_data x \<and> f_mode b = mode) \<and> at z (K(name \<mapsto> b)) m"
  have weak: "?Q False m" if "at z (K(name \<mapsto> b)) m" for b m using that by blast
  have start: "?Q False m" if "at z K m" for m
    using weak [of y m] that assms(2) by (simp add: fun_upd_idem)
  have seal: "triple (at z (K(name \<mapsto> b\<lparr>f_mode := mode\<rparr>)))
      (or_fail False touch_nothing (\<lambda>_. or_fail False touch_nothing (\<lambda>_. State_Monad.return True))) ?Q"
    if "f_data b = f_data x" for b
    by (intro triple_or_fail [OF triple_nothing] triple_return exI [of _ "b\<lparr>f_mode := mode\<rparr>"])
      (use that weak in simp_all)
  have mode: "triple (at z (K(name \<mapsto> b))) (or_fail False (chmod_file name mode) (\<lambda>_.
      or_fail False touch_nothing (\<lambda>_. or_fail False touch_nothing (\<lambda>_. State_Monad.return True)))) ?Q"
    if "f_data b = f_data x" for b
  proof (rule triple_or_fail [OF triple_chmod])
    show "triple (at z ((K(name \<mapsto> b))(name \<mapsto> b\<lparr>f_mode := mode\<rparr>)))
      (or_fail False touch_nothing (\<lambda>_. or_fail False touch_nothing (\<lambda>_. State_Monad.return True))) ?Q"
      using seal [OF that] by simp
  qed (use assms weak in auto)
  note app = triple_append [where q = name and x = y and K = K and z = z, OF assms(2,3)]
  show ?thesis
    unfolding fill_backup_def
  proof (rule triple_or_fail [OF triple_stat], erule start, rule triple_pure,
      rule triple_or_fail [OF app], blast, rule triple_ex, rule triple_pure,
      rule triple_or_fail [OF triple_nothing], erule weak)
    fix source b :: disk_file
    assume *: "K (su_path z) = Some source"
      "f_data b = f_data y @ take (max_binary_size + 1) (f_data source) \<and> f_mode b = f_mode y"
    show "triple (at z (K(name \<mapsto> b)))
      (if max_binary_size < length (f_data source) then State_Monad.return False
       else or_fail False (chmod_file name mode) (\<lambda>_.
         or_fail False touch_nothing (\<lambda>_. or_fail False touch_nothing (\<lambda>_. State_Monad.return True)))) ?Q"
      using * assms(1,4) mode [of b] by (auto intro!: triple_return weak)
  qed
qed

text \<open>Removing a file that was made leaves the files as they were, or litter.\<close>

lemma triple_remove_made:
  assumes "K q = None" "q \<noteq> su_path z"
  shows "triple (\<lambda>m. \<exists>b. at z (K(q \<mapsto> b)) m) (remove_file q) (\<lambda>_ m. \<exists>K'. litter z K K' \<and> at z K' m)"
proof (rule triple_ex, rule triple_post [OF triple_remove [OF assms(2)]])
  fix b r m
  assume "either (\<lambda>m. (faulty z \<or> (K(q \<mapsto> b)) q = None) \<and> at z (K(q \<mapsto> b)) m) (\<lambda>_. at z (K(q \<mapsto> b, q := None))) r m"
  then consider "faulty z" "at z (K(q \<mapsto> b)) m" | "at z (K(q := None)) m"
    by (cases r) auto
  then show "\<exists>K'. litter z K K' \<and> at z K' m"
    by cases (use assms litter_more [of z K q b] in \<open>auto simp: fun_upd_idem intro: exI [of _ K]\<close>)
qed

lemma triple_backup:
  assumes "K (su_path z) = Some (su_old z)"
  shows "triple (at z K) (backup_executable (su_path z) (f_mode (su_old z)))
    (\<lambda>r m. case r of None \<Rightarrow> \<exists>K'. litter z K K' \<and> at z K' m
       | Some name \<Rightarrow> \<exists>b. (K name = None \<and> same_as_old z b) \<and> at z (K(name \<mapsto> b)) m)"
  unfolding backup_executable_def
proof (rule triple_or_fail [OF triple_temp], simp, blast intro: litter_refl, rule triple_made)
  fix name t
  let ?K = "K(name \<mapsto> \<lparr>f_data = [], f_mode = 384, f_mtime = t\<rparr>)"
  let ?Q = "\<lambda>ok m. if ok then \<exists>b. (K name = None \<and> same_as_old z b) \<and> at z (K(name \<mapsto> b)) m
                    else \<exists>K'. litter z K K' \<and> at z K' m"
  assume name: "K name = None"
  then have other: "name \<noteq> su_path z" using assms by auto
  have fill: "triple (at z ?K) (fill_backup (su_path z) name (f_mode (su_old z)))
    (\<lambda>r m. \<exists>b. (r \<longrightarrow> f_data b = f_data (su_old z) \<and> f_mode b = f_mode (su_old z)) \<and> at z (?K(name \<mapsto> b)) m)"
    by (rule triple_fill_backup) (use assms other in auto)
  have "triple (at z ?K) (finally_do (fill_backup (su_path z) name (f_mode (su_old z)))
      (\<lambda>ok. if ok then State_Monad.return (Ok ()) else remove_file name)) ?Q"
  proof (rule triple_finally [OF fill])
    fix ok
    show "triple (\<lambda>m. \<exists>b. (ok \<longrightarrow> f_data b = f_data (su_old z) \<and> f_mode b = f_mode (su_old z)) \<and> at z (?K(name \<mapsto> b)) m)
      (if ok then State_Monad.return (Ok ()) else remove_file name) (\<lambda>_. ?Q ok)"
    proof (cases ok)
      case True
      then show ?thesis using name by (auto simp: same_as_old_def intro!: triple_return)
    next
      case False
      then show ?thesis using triple_remove_made [where K = K and z = z and q = name] name other by simp
    qed
  qed
  then show "triple (at z ?K) (do {
      ok \<leftarrow> finally_do (fill_backup (su_path z) name (f_mode (su_old z)))
             (\<lambda>ok. if ok then State_Monad.return (Ok ()) else remove_file name);
      State_Monad.return (if ok then Some name else None) })
    (\<lambda>r m. case r of None \<Rightarrow> \<exists>K'. litter z K K' \<and> at z K' m
       | Some name \<Rightarrow> \<exists>b. (K name = None \<and> same_as_old z b) \<and> at z (K(name \<mapsto> b)) m)"
    by (rule triple_bind) (auto intro!: triple_return split: if_splits)
qed

text \<open>The replacement: the new binary is at hand, the old one has a backup.\<close>

lemma triple_swap:
  assumes K: "K (su_path z) = Some (su_old z)" "K tmp = Some x" "K backup = Some b"
    and other: "tmp \<noteq> su_path z" "backup \<noteq> su_path z" "tmp \<noteq> backup"
    and good: "genuine z x" "same_as_old z b"
  shows "triple (at z K) (swap_in (su_path z) tmp backup (gr_tag_name (su_release z)))
    (\<lambda>r m.
       (r = \<lparr>oc_error = Some Replace_Failed, oc_keep = False, oc_cleanup = True\<rparr> \<and> at z K m) \<or>
       (r = \<lparr>oc_error = Some Rollback_Failed, oc_keep = True, oc_cleanup = False\<rparr> \<and> faulty z \<and>
          at z (K(su_path z \<mapsto> x, tmp := None)) m) \<or>
       (r = \<lparr>oc_error = Some Rolled_Back, oc_keep = True, oc_cleanup = False\<rparr> \<and>
          at z (K(su_path z \<mapsto> b, tmp := None, backup := None)) m) \<or>
       (r = \<lparr>oc_error = Some Backup_Left, oc_keep = True, oc_cleanup = True\<rparr> \<and> faulty z \<and>
          at z (K(su_path z \<mapsto> x, tmp := None)) m) \<or>
       (r = \<lparr>oc_error = None, oc_keep = True, oc_cleanup = False\<rparr> \<and>
          at z (K(su_path z \<mapsto> x, tmp := None, backup := None)) m))" (is "triple _ _ ?Q")
proof -
  let ?K = "K(su_path z \<mapsto> x, tmp := None)"
  note rename = triple_rename [where K = K and z = z, OF K(2) other(1) disjI2 [OF good(1)]]
  have K': "?K backup = Some b" "?K (su_path z) = Some x" using K other by auto
  note undo = triple_rename [where K = ?K and z = z, OF K'(1) other(2) disjI1 [OF good(2)]]
  note verify = triple_verify [where K = ?K and z = z, OF K'(2)]
  note drop = triple_remove [where K = ?K and z = z, OF other(2)]
  have K'': "?K(su_path z \<mapsto> b, backup := None) = K(su_path z \<mapsto> b, tmp := None, backup := None)"
    using other by auto
  show ?thesis
    unfolding swap_in_def
  proof (rule triple_or_fail [OF rename], blast, rule triple_bind [OF triple_sync], rule triple_bind [OF verify],
      rule triple_pure, split if_split, intro conjI impI)
    show "triple (at z ?K) (or_fail \<lparr>oc_error = Some Rollback_Failed, oc_keep = True, oc_cleanup = False\<rparr>
        (rename_file backup (su_path z)) (\<lambda>_. do {
          _ \<leftarrow> sync_directory;
          State_Monad.return \<lparr>oc_error = Some Rolled_Back, oc_keep = True, oc_cleanup = False\<rparr> })) ?Q"
      by (rule triple_or_fail [OF undo], blast, rule triple_bind [OF triple_sync], rule triple_return)
        (simp only: K'', blast)
    show "triple (at z ?K) (or_fail \<lparr>oc_error = Some Backup_Left, oc_keep = True, oc_cleanup = True\<rparr>
        (remove_file backup) (\<lambda>_. do {
          _ \<leftarrow> sync_directory;
          State_Monad.return \<lparr>oc_error = None, oc_keep = True, oc_cleanup = False\<rparr> })) ?Q"
      by (rule triple_or_fail [OF drop], use K'(1) in \<open>fastforce simp del: fun_upd_apply\<close>,
          rule triple_bind [OF triple_sync], rule triple_return, blast)
  qed
qed

text \<open>An outcome: without \<open>keep\<close> the temporary file is still there.\<close>

definition ended :: "setting_up \<Rightarrow> files \<Rightarrow> string \<Rightarrow> outcome \<Rightarrow> machine \<Rightarrow> bool" where
  "ended z K tmp r m \<longleftrightarrow>
     (if oc_keep r then settled z (K(tmp := None)) (oc_error r) m
      else \<exists>y. settled z (K(tmp \<mapsto> y)) (oc_error r) m)"

lemma settled_litter:
  "litter z K K' \<Longrightarrow> at z K' m \<Longrightarrow> K (su_path z) = Some x \<Longrightarrow> verdict z r x \<Longrightarrow> settled z K r m"
  by (rule settledI [of z K x K']) (simp_all add: fun_upd_idem)

lemma same_as_old_refl [simp]: "same_as_old z (su_old z)"
  by (simp add: same_as_old_def)

text \<open>The outcomes of the replacement, with the backup removed where it is to be.\<close>

lemma ended_swap:
  assumes K: "K (su_path z) = Some (su_old z)" "K tmp = Some x" "K backup = None"
    and other: "tmp \<noteq> su_path z" "backup \<noteq> su_path z" "tmp \<noteq> backup"
    and good: "genuine z x" "same_as_old z b"
    and r: "(r = \<lparr>oc_error = Some Replace_Failed, oc_keep = False, oc_cleanup = True\<rparr> \<and> at z (K(backup \<mapsto> b)) m) \<or>
       (r = \<lparr>oc_error = Some Rollback_Failed, oc_keep = True, oc_cleanup = False\<rparr> \<and> faulty z \<and>
          at z (K(backup \<mapsto> b, su_path z \<mapsto> x, tmp := None)) m) \<or>
       (r = \<lparr>oc_error = Some Rolled_Back, oc_keep = True, oc_cleanup = False\<rparr> \<and>
          at z (K(backup \<mapsto> b, su_path z \<mapsto> b, tmp := None, backup := None)) m) \<or>
       (r = \<lparr>oc_error = Some Backup_Left, oc_keep = True, oc_cleanup = True\<rparr> \<and> faulty z \<and>
          at z (K(backup \<mapsto> b, su_path z \<mapsto> x, tmp := None)) m) \<or>
       (r = \<lparr>oc_error = None, oc_keep = True, oc_cleanup = False\<rparr> \<and>
          at z (K(backup \<mapsto> b, su_path z \<mapsto> x, tmp := None, backup := None)) m)"
  shows "ended z K tmp r (snd (run_state (if oc_cleanup r then remove_file backup else State_Monad.return (Ok ())) m))"
proof -
  let ?m = "snd (run_state (remove_file backup) m)" and ?K = "K(tmp := None, su_path z \<mapsto> x)"
  have eqs: "K(backup \<mapsto> b, su_path z \<mapsto> x, tmp := None) = ?K(backup \<mapsto> b)"
    "K(backup \<mapsto> b, su_path z \<mapsto> b, tmp := None, backup := None) = K(tmp := None, su_path z \<mapsto> b)"
    "K(backup \<mapsto> b, su_path z \<mapsto> x, tmp := None, backup := None) = ?K"
    using other K by auto
  have gone: "\<exists>K'. litter z K1 K' \<and> at z K' ?m" if "at z (K1(backup \<mapsto> b)) m" "K1 backup = None" for K1
    using triple_remove_made [where K = K1 and z = z and q = backup] that other(2) by (auto simp: triple_def)
  have keep: "ended z K tmp \<lparr>oc_error = e, oc_keep = True, oc_cleanup = c\<rparr> m'"
    if "litter z (K(tmp := None, su_path z \<mapsto> y)) K'" "at z K' m'" "verdict z e y" for e y c K' m'
    using settledI [OF that(1,3,2)] by (simp add: ended_def)
  have undone: "ended z K tmp \<lparr>oc_error = Some Replace_Failed, oc_keep = False, oc_cleanup = True\<rparr> m'"
    if "litter z K K'" "at z K' m'" for K' m'
    using settled_litter [OF that K(1), of "Some Replace_Failed"] K(2)
    by (auto simp: ended_def verdict_def fun_upd_idem intro!: exI [of _ x])
  have v: "verdict z None x" "verdict z (Some Rolled_Back) b"
    "faulty z \<Longrightarrow> verdict z (Some Rollback_Failed) x" "faulty z \<Longrightarrow> verdict z (Some Backup_Left) x"
    using good by (simp_all add: verdict_def)
  have free: "?K backup = None" using other K(3) by simp
  show ?thesis
    using r unfolding eqs(2,3) unfolding eqs(1)
    by (elim disjE conjE)
      (use gone [of K] K(3) gone [of ?K] free keep [OF litter_refl _ v(1)] keep [OF litter_refl _ v(2)]
         keep [OF litter_more [where K = ?K and q = backup] _ v(3)] keep [OF _ _ v(4)] undone
       in \<open>auto simp del: fun_upd_apply\<close>)
qed

lemma triple_replace:
  assumes K: "K (su_path z) = Some (su_old z)" "K tmp = Some x" and tmp: "tmp \<noteq> su_path z" and good: "genuine z x"
  shows "triple (at z K) (replace_binary (su_path z) tmp (f_mode (su_old z)) (gr_tag_name (su_release z))) (ended z K tmp)"
  unfolding replace_binary_def
proof (rule triple_bind [OF triple_backup [where K = K and z = z, OF K(1)]])
  fix r :: "string option"
  show "triple (\<lambda>m. case r of None \<Rightarrow> \<exists>K'. litter z K K' \<and> at z K' m
       | Some name \<Rightarrow> \<exists>b. (K name = None \<and> same_as_old z b) \<and> at z (K(name \<mapsto> b)) m)
     (case r of
        None \<Rightarrow> State_Monad.return (failed Backup_Failed)
      | Some backup \<Rightarrow> do {
          _ \<leftarrow> sync_directory;
          finally_do (swap_in (su_path z) tmp backup (gr_tag_name (su_release z)))
            (\<lambda>r. if oc_cleanup r then remove_file backup else State_Monad.return (Ok ())) })
     (ended z K tmp)"
  proof (cases r)
    case None
    have "ended z K tmp (failed Backup_Failed) m" if "litter z K K'" "at z K' m" for K' m
      using settled_litter [OF that K(1), of "Some Backup_Failed"] K(2)
      by (auto simp: ended_def verdict_def fun_upd_idem intro!: exI [of _ x])
    then show ?thesis using None by (auto intro!: triple_return)
  next
    case (Some backup)
    have "triple (at z (K(backup \<mapsto> b))) (do {
        _ \<leftarrow> sync_directory;
        finally_do (swap_in (su_path z) tmp backup (gr_tag_name (su_release z)))
          (\<lambda>r. if oc_cleanup r then remove_file backup else State_Monad.return (Ok ())) })
      (ended z K tmp)" if b: "K backup = None" "same_as_old z b" for b
    proof -
      have other: "backup \<noteq> su_path z" "tmp \<noteq> backup" using b K by auto
      have "(K(backup \<mapsto> b)) (su_path z) = Some (su_old z)" "(K(backup \<mapsto> b)) tmp = Some x"
        "(K(backup \<mapsto> b)) backup = Some b" using K other by auto
      note swap = triple_swap [where K = "K(backup \<mapsto> b)" and z = z, OF this tmp other good b(2)]
      show ?thesis
        by (rule triple_bind [OF triple_sync], rule triple_finally [OF swap], rule tripleI)
          (rule ended_swap [OF K b(1) tmp other good b(2)])
    qed
    then show ?thesis using Some by (auto intro!: triple_ex triple_pure)
  qed
qed

section \<open>The installation\<close>

definition hard_error :: "update_error option \<Rightarrow> bool" where
  "hard_error r \<longleftrightarrow> r \<notin> {None, Some Rollback_Failed, Some Backup_Left}"

lemma ended_failed:
  assumes "at z (K(tmp \<mapsto> y)) m" "K (su_path z) = Some (su_old z)" "tmp \<noteq> su_path z" "hard_error (Some e)"
  shows "ended z K tmp (failed e) m"
  using settled_same [OF assms(1), of "su_old z" "Some e"] assms(2-4)
  by (auto simp: ended_def hard_error_def)

lemma ended_upd: "ended z (K(tmp \<mapsto> x)) tmp = ended z K tmp"
  by (rule ext)+ (simp add: ended_def)

text \<open>The errors of the network and of the sums are none of those of the replacement.\<close>

lemma send_error: "snd (send net p via q) = Inl e \<Longrightarrow> e = Request_Failed"
proof (induction net p via q rule: send.induct)
  case (1 net p via q)
  then show ?case
    by (subst (asm) (2) send.simps) (auto simp: Let_def split: hop.splits option.splits)
qed

lemma download_hard:
  assumes "snd (snd (download u p net a tok limit)) = Some e"
  shows "hard_error (Some e)"
proof -
  have "snd (http_get u p net x y tok) = Inl e' \<Longrightarrow> hard_error (Some e')" for x y e'
    unfolding http_get_def by (drule send_error) (simp add: hard_error_def)
  with assms show ?thesis
    unfolding download_def read_download_def
    by (auto simp: hard_error_def split: if_splits prod.splits sum.splits) (metis snd_conv)+
qed

lemma checksum_for_hard: "checksum_for data name = Inl e \<Longrightarrow> hard_error (Some e)"
  by (auto simp: checksum_for_def checksum_loop_entries Let_def hard_error_def
      split: prod.splits if_splits list.splits option.splits)

lemma expected_checksum_hard: "snd (expected_checksum u p net rel a tok) = Inl e \<Longrightarrow> hard_error (Some e)"
  by (auto simp: expected_checksum_def hard_error_def split: option.splits prod.splits
      dest!: checksum_for_hard) (metis download_hard hard_error_def insertCI snd_conv)+

text \<open>From here on the temporary file is \<open>tmp\<close>, whatever it holds.\<close>

lemma triple_preflight:
  assumes K: "K (su_path z) = Some (su_old z)" and tmp: "tmp \<noteq> su_path z"
    and sum: "published z (hex_encode (sha256 (f_data x)))" and mode: "f_mode x = new_mode (f_mode (su_old z))"
  shows "triple (at z (K(tmp \<mapsto> x)))
    (preflight_and_swap (su_path z) tmp (f_mode (su_old z)) (gr_tag_name (su_release z))) (ended z K tmp)"
  unfolding preflight_and_swap_def
proof (rule triple_bind [OF triple_verify [where x = x]], simp, rule triple_pure)
  fix ok
  assume ok: "ok \<longrightarrow> preflighted z (f_data x)"
  show "triple (at z (K(tmp \<mapsto> x)))
      (if \<not> ok then State_Monad.return (failed Preflight_Failed)
       else replace_binary (su_path z) tmp (f_mode (su_old z)) (gr_tag_name (su_release z))) (ended z K tmp)"
  proof (cases ok)
    case True
    with ok sum mode have "genuine z x" by (simp add: genuine_def)
    then have "triple (at z (K(tmp \<mapsto> x)))
      (replace_binary (su_path z) tmp (f_mode (su_old z)) (gr_tag_name (su_release z))) (ended z (K(tmp \<mapsto> x)) tmp)"
      using K tmp by (intro triple_replace [where x = x]) auto
    with True show ?thesis by (simp add: ended_upd)
  next
    case False
    then show ?thesis using K tmp by (auto intro!: triple_return ended_failed simp: hard_error_def)
  qed
qed

lemma triple_check_and_swap:
  assumes K: "K (su_path z) = Some (su_old z)" and tmp: "tmp \<noteq> su_path z" and sum: "published z expected"
    and err: "\<And>e. err = Some e \<Longrightarrow> hard_error (Some e)" and x: "f_data x = data"
  shows "triple (at z (K(tmp \<mapsto> x)))
    (check_and_swap (su_path z) tmp data err expected (f_mode (su_old z)) (gr_tag_name (su_release z))) (ended z K tmp)"
proof -
  have fail: "ended z K tmp (failed e) m" if "at z (K(tmp \<mapsto> x)) m" "hard_error (Some e)" for e x m
    using ended_failed [OF that(1) K tmp that(2)] .
  have disk: "hard_error (Some Disk_Failed)" "hard_error (Some Checksum_Mismatch)" by (simp_all add: hard_error_def)
  let ?x = "x\<lparr>f_mode := new_mode (f_mode (su_old z))\<rparr>"
  have mode: "triple (at z (K(tmp \<mapsto> x))) (chmod_file tmp (new_mode (f_mode (su_old z))))
      (either (at z (K(tmp \<mapsto> x))) (\<lambda>_. at z (K(tmp \<mapsto> ?x))))"
    using triple_chmod [where K = "K(tmp \<mapsto> x)" and z = z and q = tmp and x = x] tmp by simp
  have "triple (at z (K(tmp \<mapsto> x)))
      (or_fail (failed Disk_Failed) (chmod_file tmp (new_mode (f_mode (su_old z)))) (\<lambda>_.
       or_fail (failed Disk_Failed) touch_nothing (\<lambda>_.
       or_fail (failed Disk_Failed) touch_nothing (\<lambda>_.
         preflight_and_swap (su_path z) tmp (f_mode (su_old z)) (gr_tag_name (su_release z))))))
      (ended z K tmp)" if "hex_encode (sha256 (f_data x)) = expected"
    by (rule triple_or_fail [OF mode], erule fail, rule disk,
        (rule triple_or_fail [OF triple_nothing], erule fail, rule disk)+, rule triple_preflight)
      (simp_all add: that sum K tmp)
  then show ?thesis
    using x unfolding check_and_swap_def by (auto intro!: triple_return fail disk err split: option.split)
qed

lemma triple_fill_and_swap:
  assumes K: "K (su_path z) = Some (su_old z)" "K tmp = Some y" "f_data y = []" and tmp: "tmp \<noteq> su_path z"
    and sum: "published z expected"
  shows "triple (at z K)
    (fill_and_swap u p tok (su_path z) tmp asset expected (f_mode (su_old z)) (gr_tag_name (su_release z)))
    (ended z K tmp)"
  unfolding fill_and_swap_def
proof (rule triple_bind [OF triple_exchange], rule triple_pure, clarify)
  fix data err i
  assume d: "(data, err) = snd (download u p (m_net (su_start z) i) asset tok max_binary_size)"
  have hard: "hard_error (Some e)" if "err = Some e" for e
    by (rule download_hard [of u p "m_net (su_start z) i" asset tok max_binary_size])
      (simp add: d [symmetric] that)
  note app = triple_append [where K = K and q = tmp and z = z and x = y, OF K(2) tmp, of data]
  have "triple (at z K) (if data = [] then State_Monad.return (Ok ()) else append_file tmp data)
      (either (\<lambda>m. \<exists>x. at z (K(tmp \<mapsto> x)) m) (\<lambda>_ m. \<exists>x. f_data x = data \<and> at z (K(tmp \<mapsto> x)) m))"
  proof (cases "data = []")
    case True
    then show ?thesis using K(2,3) by (auto intro!: triple_return exI [of _ y] simp: fun_upd_idem)
  next
    case False
    then show ?thesis using K(3) by (auto simp: either_def split: sum.splits intro!: triple_post [OF app])
  qed
  moreover have "hard_error (Some Disk_Failed)" by (simp add: hard_error_def)
  ultimately show "triple (at z K)
      (or_fail (failed Disk_Failed) (if data = [] then State_Monad.return (Ok ()) else append_file tmp data)
        (\<lambda>_. check_and_swap (su_path z) tmp data err expected (f_mode (su_old z)) (gr_tag_name (su_release z))))
      (ended z K tmp)"
    using K(1) tmp sum hard
    by (elim triple_or_fail) (blast intro: ended_failed, intro triple_ex triple_pure triple_check_and_swap)
qed

text \<open>Under the lock.\<close>

lemma triple_settle:
  assumes "tmp \<noteq> su_path z" "K tmp = None"
  shows "triple (\<lambda>m. ended z K tmp r m) (if oc_keep r then State_Monad.return (Ok ()) else remove_file tmp)
    (\<lambda>_. settled z K (oc_error r))"
proof (cases "oc_keep r")
  case True
  then show ?thesis using assms by (auto intro!: triple_return simp: ended_def fun_upd_idem)
next
  case False
  have "triple (\<lambda>m. (litter z (K(tmp \<mapsto> y, su_path z \<mapsto> x)) K' \<and> verdict z (oc_error r) x) \<and> at z K' m) (remove_file tmp)
      (\<lambda>_. settled z K (oc_error r))" for x y K'
  proof (rule triple_pure, rule triple_post [OF triple_remove [OF assms(1)]], elim conjE)
    fix a m
    assume l: "litter z (K(tmp \<mapsto> y, su_path z \<mapsto> x)) K'" and v: "verdict z (oc_error r) x"
      and "either (\<lambda>m. (faulty z \<or> K' tmp = None) \<and> at z K' m) (\<lambda>_. at z (K'(tmp := None))) a m"
    then consider "faulty z \<or> K' tmp = None" "at z K' m" | "at z (K'(tmp := None)) m" by (cases a) auto
    then show "settled z K (oc_error r) m"
    proof cases
      case 1
      have "K' tmp = Some y" using l assms(1) by (auto simp: litter_def map_le_def dom_def)
      with 1 have "faulty z" by simp
      moreover have "K(su_path z \<mapsto> x) \<subseteq>\<^sub>m K'"
        using l assms by (auto simp: litter_def map_le_def dom_def split: if_splits)
      ultimately show ?thesis using 1 v by (auto simp: litter_def intro: settledI)
    next
      case 2
      have "(K(tmp \<mapsto> y, su_path z \<mapsto> x))(tmp := None) = K(su_path z \<mapsto> x)" using assms by auto
      then have "litter z (K(su_path z \<mapsto> x)) (K'(tmp := None))" using litter_drop [OF l, of tmp] by simp
      with 2 v show ?thesis by (blast intro: settledI)
    qed
  qed
  then have "triple (\<lambda>m. \<exists>y. settled z (K(tmp \<mapsto> y)) (oc_error r) m) (remove_file tmp) (\<lambda>_. settled z K (oc_error r))"
    unfolding settled_def by (intro triple_ex)
  with False show ?thesis by (simp add: ended_def)
qed

lemma settled_fail:
  "at z K m \<Longrightarrow> K (su_path z) = Some (su_old z) \<Longrightarrow> hard_error (Some e) \<Longrightarrow> settled z K (Some e) m"
  using settled_same [of z K m "su_old z" "Some e"] by (simp add: hard_error_def)

lemma triple_install_temp:
  assumes K: "K (su_path z) = Some (su_old z)" and sum: "published z h"
  shows "triple (made z K 384 tmp)
    (install_temp (su_updater z) (su_policy z) (su_token z) (su_path z) asset h (f_mode (su_old z))
       (gr_tag_name (su_release z)) tmp) (settled z K)"
  unfolding install_temp_def
proof (rule triple_made)
  fix t
  let ?f = "\<lparr>f_data = [], f_mode = 384, f_mtime = t\<rparr> :: disk_file"
  assume free: "K tmp = None"
  with K have tmp: "tmp \<noteq> su_path z" by auto
  have "triple (at z (K(tmp \<mapsto> ?f)))
      (fill_and_swap (su_updater z) (su_policy z) (su_token z) (su_path z) tmp asset h
         (f_mode (su_old z)) (gr_tag_name (su_release z))) (ended z K tmp)"
    using triple_fill_and_swap [where K = "K(tmp \<mapsto> ?f)" and z = z and y = ?f and tmp = tmp] K tmp sum
    by (simp add: ended_upd)
  then show "triple (at z (K(tmp \<mapsto> ?f))) (do {
      r \<leftarrow> finally_do (fill_and_swap (su_updater z) (su_policy z) (su_token z) (su_path z) tmp asset h
             (f_mode (su_old z)) (gr_tag_name (su_release z)))
           (\<lambda>r. if oc_keep r then State_Monad.return (Ok ()) else remove_file tmp);
      State_Monad.return (oc_error r) }) (settled z K)"
    by (rule triple_bind [OF triple_finally [OF _ triple_settle [where K = K and z = z, OF tmp free]] triple_return])
qed

lemma triple_install_asset:
  assumes K: "K (su_path z) = Some (su_old z)"
    and asset: "find_asset (su_release z) (asset_name (su_updater z)) = Some asset"
  shows "triple (at z K)
    (install_asset (su_updater z) (su_policy z) (su_release z) (su_token z) (su_path z) (f_mode (su_old z)) asset)
    (settled z K)"
  unfolding install_asset_def
proof (rule triple_bind [OF triple_exchange], rule triple_pure, elim exE)
  fix h i
  assume h: "h = snd (expected_checksum (su_updater z) (su_policy z) (m_net (su_start z) i) (su_release z) asset (su_token z))"
  show "triple (at z K) (case h of
      Inl e \<Rightarrow> State_Monad.return (Some e)
    | Inr expected \<Rightarrow>
        or_fail (Some Directory_Not_Writable) (create_temp (path_dir (su_path z)) ''.ktunnel-update-'')
          (install_temp (su_updater z) (su_policy z) (su_token z) (su_path z) asset expected (f_mode (su_old z))
             (gr_tag_name (su_release z)))) (settled z K)"
  proof (cases h)
    case (Inl e)
    with h have "hard_error (Some e)"
      using expected_checksum_hard [of "su_updater z" "su_policy z" "m_net (su_start z) i" "su_release z" asset "su_token z" e]
      by simp
    with Inl show ?thesis using K by (auto intro!: triple_return settled_fail)
  next
    case (Inr expected)
    with h asset have "published z expected" by (auto simp: published_def intro!: exI [of _ i])
    then show ?thesis
      unfolding Inr sum.case
      by (intro triple_or_fail [OF triple_temp _ triple_install_temp [where K = K and z = z, OF K]])
        (auto intro!: settled_fail K simp: hard_error_def)
  qed
qed

lemma triple_install_locked:
  assumes K: "K (su_path z) = Some (su_old z)"
  shows "triple (at z K)
    (install_locked (su_updater z) (su_policy z) (su_release z) (su_token z) (su_path z)) (settled z K)"
  unfolding install_locked_def
proof (rule triple_or_fail [OF triple_stat], erule settled_fail, rule K, simp add: hard_error_def,
    rule triple_pure)
  fix info
  assume "K (su_path z) = Some info"
  with K have info: "info = su_old z" by simp
  show "triple (at z K) (case find_asset (su_release z) (asset_name (su_updater z)) of
      None \<Rightarrow> State_Monad.return (Some Asset_Missing)
    | Some asset \<Rightarrow> install_asset (su_updater z) (su_policy z) (su_release z) (su_token z) (su_path z) (f_mode info) asset)
    (settled z K)"
    using triple_install_asset [where K = K and z = z, OF K] unfolding info
    by (cases "find_asset (su_release z) (asset_name (su_updater z))")
      (auto intro!: triple_return settled_fail K simp: hard_error_def)
qed

section \<open>The lock\<close>

lemma triple_lock_attempts:
  assumes "lp \<noteq> su_path z"
  shows "triple (at z K) (lock_attempts n lp note now)
    (\<lambda>r m. \<exists>K'. (K'(lp := None) = K(lp := None) \<and> (r = None \<longrightarrow> K' lp \<noteq> None) \<and>
       (r = None \<or> r \<in> {Some Update_Locked, Some Lock_Failed})) \<and> at z K' m)"
proof (induction n arbitrary: K)
  case 0
  then show ?case by (auto intro!: triple_return)
next
  case (Suc n)
  let ?Q = "\<lambda>r m. \<exists>K'. (K'(lp := None) = K(lp := None) \<and> (r = None \<longrightarrow> K' lp \<noteq> None) \<and>
       (r = None \<or> r \<in> {Some Update_Locked, Some Lock_Failed})) \<and> at z K' m"
  have busy: "?Q (Some Update_Locked) m" "?Q (Some Lock_Failed) m" if "at z K m" for m
    using that by (auto intro!: exI [of _ K])
  have noted: "triple (made z K 384 lp) (do {
      _ \<leftarrow> append_file lp note; _ \<leftarrow> touch_nothing; _ \<leftarrow> touch_nothing; State_Monad.return None }) ?Q"
  proof (rule triple_made)
    fix t
    let ?f = "\<lparr>f_data = [], f_mode = 384, f_mtime = t\<rparr> :: disk_file"
    have got: "?Q None m" if "at z (K(lp \<mapsto> y)) m" for y m
      using that by (auto intro!: exI [of _ "K(lp \<mapsto> y)"])
    have "triple (at z (K(lp \<mapsto> ?f))) (append_file lp note) (\<lambda>_ m. \<exists>y. at z (K(lp \<mapsto> y)) m)"
      by (rule triple_post [OF triple_append [where x = ?f]])
        (use assms in \<open>auto simp: either_def split: sum.splits\<close>)
    then show "triple (at z (K(lp \<mapsto> ?f))) (do {
        _ \<leftarrow> append_file lp note; _ \<leftarrow> touch_nothing; _ \<leftarrow> touch_nothing; State_Monad.return None }) ?Q"
      by (rule triple_bind)
        (intro triple_ex triple_bind [OF triple_ignore [OF triple_nothing]] triple_return, erule got)
  qed
  have again: "triple (at z (K(lp := None))) (lock_attempts n lp note now) ?Q"
    using Suc [of "K(lp := None)"] by (simp only: fun_upd_upd)
  have steal: "triple (at z K) (do {
      d \<leftarrow> remove_file lp;
      case d of Inl _ \<Rightarrow> State_Monad.return (Some Update_Locked) | Inr _ \<Rightarrow> lock_attempts n lp note now }) ?Q"
  proof (rule triple_bind [OF triple_remove [where K = K and z = z, OF assms]])
    show "triple (either (\<lambda>m. (faulty z \<or> K lp = None) \<and> at z K m) (\<lambda>_. at z (K(lp := None))) d)
      (case d of Inl _ \<Rightarrow> State_Monad.return (Some Update_Locked) | Inr _ \<Rightarrow> lock_attempts n lp note now) ?Q" for d
      using again by (cases d) (auto intro!: triple_return busy)
  qed
  have look: "triple (either (at z K) (\<lambda>f m. K lp = Some f \<and> at z K m) s)
      (case s of
         Inl _ \<Rightarrow> State_Monad.return (Some Update_Locked)
       | Inr f \<Rightarrow>
           if lock_fresh now f then State_Monad.return (Some Update_Locked)
           else do {
             d \<leftarrow> remove_file lp;
             case d of Inl _ \<Rightarrow> State_Monad.return (Some Update_Locked) | Inr _ \<Rightarrow> lock_attempts n lp note now }) ?Q" for s
    using steal by (cases s) (auto intro!: triple_return busy triple_pure)
  show ?case
    unfolding lock_attempts.simps
  proof (rule triple_bind [OF triple_create])
    fix r :: "sys_error + unit"
    show "triple (either (at z K) (\<lambda>_. made z K 384 lp) r)
      (case r of
         Inr _ \<Rightarrow> do { _ \<leftarrow> append_file lp note; _ \<leftarrow> touch_nothing; _ \<leftarrow> touch_nothing; State_Monad.return None }
       | Inl e \<Rightarrow>
           if e \<noteq> Sys_Exists then State_Monad.return (Some Lock_Failed)
           else do {
             s \<leftarrow> stat_file lp;
             case s of
               Inl _ \<Rightarrow> State_Monad.return (Some Update_Locked)
             | Inr f \<Rightarrow>
                 if lock_fresh now f then State_Monad.return (Some Update_Locked)
                 else do {
                   d \<leftarrow> remove_file lp;
                   case d of Inl _ \<Rightarrow> State_Monad.return (Some Update_Locked) | Inr _ \<Rightarrow> lock_attempts n lp note now } })
      ?Q"
      using noted triple_bind [OF triple_stat look] by (cases r) (auto intro!: triple_return busy)
  qed
qed

section \<open>What an update leaves behind\<close>

text \<open>The path of the program holds what the verdict says; beside it and the lock, nothing changed.\<close>

definition left_behind :: "setting_up \<Rightarrow> files \<Rightarrow> update_error option \<Rightarrow> machine \<Rightarrow> bool" where
  "left_behind z K r m \<longleftrightarrow>
     (\<exists>x K'. (litter z ((K(lock_path (su_path z) := None))(su_path z \<mapsto> x)) (K'(lock_path (su_path z) := None)) \<and>
        verdict z r x \<and>
        (faulty z \<or> K' (lock_path (su_path z)) = None \<or> K' = K \<or> r \<in> {Some Update_Locked, Some Lock_Failed})) \<and> at z K' m)"

lemma triple_unlock:
  assumes "lock_path (su_path z) \<noteq> su_path z"
    and "K1(lock_path (su_path z) := None) = K(lock_path (su_path z) := None)"
  shows "triple (settled z K1 r) (remove_file (lock_path (su_path z))) (\<lambda>_. left_behind z K r)"
  unfolding settled_def
proof (rule triple_ex, rule triple_ex, rule triple_pure, rule triple_post [OF triple_remove [OF assms(1)]], elim conjE)
  fix x K' a m
  let ?l = "lock_path (su_path z)"
  assume l: "litter z (K1(su_path z \<mapsto> x)) K'" and v: "verdict z r x"
    and "either (\<lambda>m. (faulty z \<or> K' ?l = None) \<and> at z K' m) (\<lambda>_. at z (K'(?l := None))) a m"
  moreover have "K1(su_path z \<mapsto> x, ?l := None) = (K1(?l := None))(su_path z \<mapsto> x)"
    using assms(1) by auto
  then have "litter z ((K(?l := None))(su_path z \<mapsto> x)) (K'(?l := None))"
    using litter_drop [OF l, of ?l] assms(2) by simp
  ultimately consider "litter z ((K(?l := None))(su_path z \<mapsto> x)) (K'(?l := None))" "faulty z \<or> K' ?l = None" "at z K' m"
    | "litter z ((K(?l := None))(su_path z \<mapsto> x)) ((K'(?l := None))(?l := None))" "at z (K'(?l := None)) m"
    by (cases a) (auto simp del: fun_upd_apply)
  then show "left_behind z K r m"
  proof cases
    case 1
    with v show ?thesis unfolding left_behind_def by blast
  next
    case 2
    with v show ?thesis unfolding left_behind_def by (intro exI [of _ x] exI [of _ "K'(?l := None)"]) simp
  qed
qed

lemma triple_install:
  assumes K: "K (su_path z) = Some (su_old z)" and lock: "lock_path (su_path z) \<noteq> su_path z"
  shows "triple (at z K)
    (install (su_updater z) (su_policy z) (su_release z) (su_token z) (Some (su_path z)) pid) (left_behind z K)"
proof -
  let ?l = "lock_path (su_path z)"
  have stay: "left_behind z K (Some e) m" if "hard_error (Some e)" "at z K' m" "K'(?l := None) = K(?l := None)"
    "K' = K \<or> e \<in> {Update_Locked, Lock_Failed}" for e K' m
  proof -
    have "verdict z (Some e) (su_old z)" using that(1) by (simp add: verdict_def hard_error_def)
    moreover have "(K(?l := None))(su_path z \<mapsto> su_old z) = K'(?l := None)"
      using K lock that(3) by (simp add: fun_upd_idem)
    ultimately show ?thesis
      unfolding left_behind_def using that(2,4) by (intro exI [of _ "su_old z"] exI [of _ K']) auto
  qed
  have early: "triple (at z K) (State_Monad.return (Some e)) (left_behind z K)"
    if "e \<in> {Windows_Manual, Managed_By_Uv}" for e
    by (rule triple_return, erule stay [rotated]) (use that in \<open>auto simp: hard_error_def\<close>)
  have "triple (\<lambda>m. \<exists>K'. (K'(?l := None) = K(?l := None) \<and> (l = None \<longrightarrow> K' ?l \<noteq> None) \<and>
         (l = None \<or> l \<in> {Some Update_Locked, Some Lock_Failed})) \<and> at z K' m)
      (case l of
         Some e \<Rightarrow> State_Monad.return (Some e)
       | None \<Rightarrow> finally_do (install_locked (su_updater z) (su_policy z) (su_release z) (su_token z) (su_path z))
                   (\<lambda>_. remove_file ?l)) (left_behind z K)" for l
  proof (rule triple_ex, rule triple_pure, elim conjE)
    fix K1
    assume K1: "K1(?l := None) = K(?l := None)" and l: "l = None \<or> l \<in> {Some Update_Locked, Some Lock_Failed}"
    have "K1 (su_path z) = Some (su_old z)" using K lock fun_cong [OF K1, of "su_path z"] by simp
    note inner = triple_install_locked [where K = K1 and z = z, OF this]
    show "triple (at z K1)
      (case l of
         Some e \<Rightarrow> State_Monad.return (Some e)
       | None \<Rightarrow> finally_do (install_locked (su_updater z) (su_policy z) (su_release z) (su_token z) (su_path z))
                   (\<lambda>_. remove_file ?l)) (left_behind z K)"
    proof (cases l)
      case None
      then show ?thesis
        using triple_finally [OF inner triple_unlock [where K = K and z = z, OF lock K1]] by simp
    next
      case (Some e)
      then show ?thesis using l K1 by (auto intro!: triple_return stay simp: hard_error_def)
    qed
  qed
  then show ?thesis
    unfolding install_def acquire_lock_def
    by (auto intro!: early triple_bind [OF triple_now] triple_bind [OF triple_lock_attempts [OF lock]])
qed

text \<open>
  C8: An update leaves a working binary behind, however the disk, the network and the new
  binary behave. In every state the files pass through, and so after a crash at any point, the
  path of the program holds the old binary, byte for byte and with its mode, or one that has the
  published sum, answered the preflight with the version of the release and is executable. When
  \<open>install\<close> succeeds it is the new one; when it fails it is the old one, unless the disk refused
  the rollback or the removal of the backup. No other file is changed or left over, the lock
  included, unless the disk failed.
\<close>

theorem update_keeps_a_working_binary:
  assumes "m_files m p = Some old" "m_past m = []" "lock_path p \<noteq> p"
    and z: "z = \<lparr>su_start = m, su_path = p, su_old = old, su_updater = u, su_policy = policy,
                 su_release = rel, su_token = tok\<rparr>"
    and run: "run_state (install u policy rel tok (Some p) pid) m = (r, m')"
  shows "list_all (working z) (m_past m' @ [m_files m']) \<and>
    (\<exists>x. m_files m' p = Some x \<and> verdict z r x) \<and>
    (faulty z \<or> (\<forall>q. q \<in> {p, lock_path p} \<or> m_files m' q = m_files m q)) \<and>
    (faulty z \<or> m_files m' (lock_path p) = None \<or> m_files m' = m_files m \<or> r \<in> {Some Update_Locked, Some Lock_Failed})"
proof -
  have "at z (m_files m) m"
    using assms(1,2) by (auto simp: at_def z working_def faulty_def same_as_old_def intro!: exI [of _ 0])
  moreover have "triple (at z (m_files m)) (install u policy rel tok (Some p) pid) (left_behind z (m_files m))"
    using triple_install [of "m_files m" z pid] assms(1,3) by (simp add: z)
  ultimately have "left_behind z (m_files m) r m'" using run by (auto simp: triple_def)
  then obtain x K' where l: "litter z ((m_files m)(lock_path p := None, p \<mapsto> x)) (K'(lock_path p := None))"
    and v: "verdict z r x" and at: "at z K' m'"
    and lk: "faulty z \<or> K' (lock_path p) = None \<or> K' = m_files m \<or> r \<in> {Some Update_Locked, Some Lock_Failed}"
    by (auto simp: left_behind_def z)
  have K': "m_files m' = K'" using at by (simp add: at_def)
  from l have "(K'(lock_path p := None)) p = Some x" by (auto simp: litter_def map_le_def dom_def)
  then have "m_files m' p = Some x" using assms(3) K' by simp
  moreover have "faulty z \<or> (\<forall>q. q \<in> {p, lock_path p} \<or> m_files m' q = m_files m q)"
    using l unfolding litter_def K' by (auto simp: fun_eq_iff split: if_splits)
  ultimately show ?thesis using v lk at unfolding K' by (auto simp: at_def)
qed

section \<open>An update that succeeds\<close>

definition sample_updater :: updater where
  "sample_updater = default_updater ''v1.0.0'' ''linux'' ''amd64''"

definition sample_asset :: release_asset where
  "sample_asset = \<lparr>as_name = ''ktunnel-linux-amd64'', as_url = ''https://api.github.com/a/1'',
     as_digest = ''sha256'' @ CHR '':'' # hex_encode (sha256 ''new''), as_size = 3\<rparr>"

definition sample_release :: github_release where
  "sample_release = \<lparr>gr_tag_name = ''v1.0.1'', gr_html_url = [], gr_assets = [sample_asset]\<rparr>"

definition sample_machine :: machine where
  "sample_machine =
     \<lparr>m_files = [''/b/k'' \<mapsto> \<lparr>f_data = ''old'', f_mode = 493, f_mtime = 0\<rparr>], m_past = [],
      m_fault = (\<lambda>_. None), m_clk = (\<lambda>_. 0), m_names = (\<lambda>i. [''1'', ''2'']),
      m_net = (\<lambda>_ q. Hop_Answer \<lparr>hs_status = 200, hs_length = 3, hs_body = ''new'', hs_broken = False\<rparr>), m_sent = [],
      m_exec = (\<lambda>_ env d. \<lparr>ex_output = [''ktunnel '', ''v1.0.1'' @ [chr 10]], ex_failed = False, ex_timeout = False\<rparr>),
      m_env = [''HOME=/b'']\<rparr>"

definition sample_setting :: setting_up where
  "sample_setting =
     \<lparr>su_start = sample_machine, su_path = ''/b/k'',
      su_old = \<lparr>f_data = ''old'', f_mode = 493, f_mtime = 0\<rparr>, su_updater = sample_updater, su_policy = None,
      su_release = sample_release, su_token = []\<rparr>"

lemma sample_paths:
  "lock_path ''/b/k'' = ''/b/.ktunnel-update.lock''" "path_dir ''/b/k'' = ''/b''" "is_uv_install ''/b/k'' = False"
  "new_mode 493 = 493"
  by code_simp+

lemma sample_url: "asset_url_ok sample_updater sample_asset"
  unfolding asset_url_ok_def sample_updater_def default_updater_def sample_asset_def updater.simps release_asset.simps by code_simp

lemma sample_found: "find_asset sample_release (asset_name sample_updater) = Some sample_asset"
proof -
  have "asset_name sample_updater = ''ktunnel-linux-amd64''" by code_simp
  then show ?thesis by (simp add: find_asset_def sample_release_def sample_asset_def)
qed

lemma sample_sum:
  "expected_checksum sample_updater None net sample_release sample_asset [] = ([], Ok (hex_encode (sha256 ''new'')))"
proof -
  have "digest_sha256 (as_digest sample_asset) = Some (hex_encode (sha256 ''new''))"
    by (simp only: sample_asset_def release_asset.simps digest_of [OF sha256_length])
  then show ?thesis by (simp add: expected_checksum_def)
qed

lemma sample_download:
  "download sample_updater None (m_net sample_machine i) sample_asset [] max_binary_size =
     ([first_request sample_updater (as_url sample_asset) ''application/octet-stream'' []], ''new'', None)"
  using sample_url
  by (simp add: download_def http_get_def send.simps sample_machine_def read_download_def max_binary_size_def sample_asset_def)

lemma sample_preflight:
  "accepts ''v1.0.1'' \<lparr>ex_output = [''ktunnel '', ''v1.0.1'' @ [chr 10]], ex_failed = False, ex_timeout = False\<rparr>"
  by code_simp

lemma shift_const: "shift (\<lambda>_. c) = (\<lambda>_. c)"
  by (simp add: shift_def fun_eq_iff)

lemmas machine_defs =
  next_fault_def now_ns_def next_names_def look_def change_def set_files_def sys_call_def create_excl_def
  stat_file_def append_file_def chmod_file_def touch_nothing_def rename_file_def remove_file_def create_temp_def
  exchange_def verify_binary_def or_fail_def finally_do_def sync_directory_def

lemma sample_run:
  "fst (run_state (install sample_updater None sample_release [] (Some ''/b/k'') 1) sample_machine) = None"
proof -
  have e: "max_binary_size = 268435456" by (simp add: max_binary_size_def)
  have t: "gr_tag_name sample_release = ''v1.0.1''" by (simp add: sample_release_def)
  have g: "up_goos sample_updater \<noteq> ''windows''" by (simp add: sample_updater_def default_updater_def)
  define net where "net = m_net sample_machine 0"
  define ex where "ex = (\<lambda>(env :: string list) (d :: string). \<lparr>ex_output = [''ktunnel '', ''v1.0.1'' @ [chr 10]], ex_failed = False, ex_timeout = False\<rparr>)"
  have x: "accepts ''v1.0.1'' (ex env d)" for env d unfolding ex_def by (rule sample_preflight)
  define f where "f = m_files sample_machine"
  have f: "f ''/b/k'' = Some \<lparr>f_data = ''old'', f_mode = 493, f_mtime = 0\<rparr>" "q \<noteq> ''/b/k'' \<Longrightarrow> f q = None" for q
    by (simp_all add: f_def sample_machine_def)
  have m: "sample_machine = \<lparr>m_files = f, m_past = [], m_fault = (\<lambda>_. None), m_clk = (\<lambda>_. 0), m_names = (\<lambda>i. [''1'', ''2'']),
      m_net = (\<lambda>_. net), m_sent = [], m_exec = (\<lambda>_. ex), m_env = [''HOME=/b'']\<rparr>"
    by (simp add: sample_machine_def f_def net_def ex_def)
  have dl': "download sample_updater None net sample_asset [] 268435456 =
     ([first_request sample_updater (as_url sample_asset) ''application/octet-stream'' []], ''new'', None)"
    using sample_download [of 0] by (simp add: net_def e)
  define h where "h = hex_encode (sha256 ''new'')"
  have ec': "expected_checksum sample_updater None net sample_release sample_asset [] = ([], Ok h)"
    by (simp add: sample_sum h_def)
  show ?thesis
    unfolding install_def m
    by (simp add: g acquire_lock_def sample_paths shift_const numeral_2_eq_2 machine_defs f install_locked_def sample_found install_asset_def
      ec' install_temp_def fill_and_swap_def dl' e check_and_swap_def h_def [symmetric] preflight_and_swap_def
      t x replace_binary_def backup_executable_def fill_backup_def swap_in_def)
qed

theorem update_keeps_a_working_binary_witness:
  "\<exists>m' x. run_state (install sample_updater None sample_release [] (Some ''/b/k'') 1) sample_machine = (None, m') \<and>
     m_files m' ''/b/k'' = Some x \<and> genuine sample_setting x \<and>
     list_all (working sample_setting) (m_past m') \<and> m_files m' (lock_path ''/b/k'') = None"
proof -
  define m' where "m' = snd (run_state (install sample_updater None sample_release [] (Some ''/b/k'') 1) sample_machine)"
  have run: "run_state (install sample_updater None sample_release [] (Some ''/b/k'') 1) sample_machine = (None, m')"
    using sample_run by (simp add: m'_def prod_eq_iff)
  have "\<not> faulty sample_setting" by (simp add: faulty_def sample_setting_def sample_machine_def)
  moreover have "m_files sample_machine (lock_path ''/b/k'') = None" by (simp add: sample_paths sample_machine_def)
  moreover have "m_files sample_machine ''/b/k'' = Some \<lparr>f_data = ''old'', f_mode = 493, f_mtime = 0\<rparr>"
    "m_past sample_machine = []" "lock_path ''/b/k'' \<noteq> ''/b/k''"
    by (simp_all add: sample_paths sample_machine_def)
  moreover note update_keeps_a_working_binary [OF this sample_setting_def run]
  ultimately show ?thesis using run by (auto simp: verdict_def)
qed

end
