(* ===== verification/Upd_Passive.thy ===== *)
theory Upd_Passive
  imports Upd_Safe
begin

text \<open>
  The daily passive check and the commands around the updater (\<open>cmd/ktunnel/update.go\<close>): the
  GitHub token, the place of the cache, the claim of the day's check, and \<open>ktunnel update\<close> and
  \<open>ktunnel version\<close>. The environment is the list of its entries, as \<open>os.Environ\<close> gives it.
\<close>

section \<open>The environment\<close>

text \<open>\<open>gh\<close> is what \<open>gh auth token\<close> prints, or \<open>None\<close> when it fails.\<close>

definition github_token :: "string list \<Rightarrow> string option \<Rightarrow> string" where
  "github_token env gh =
     (case find (\<lambda>t. t \<noteq> []) (map (\<lambda>name. trim_space (getenv env name)) [''GH_TOKEN'', ''GITHUB_TOKEN'']) of
        Some t \<Rightarrow> t
      | None \<Rightarrow> (case gh of None \<Rightarrow> [] | Some out \<Rightarrow> trim_space out))"

text \<open>\<open>base\<close> is the user's cache directory, when the system has one.\<close>

definition update_cache_dir :: "string list \<Rightarrow> string option \<Rightarrow> string option" where
  "update_cache_dir env base =
     (let dir = trim_space (getenv env ''KTUNNEL_UPDATE_CACHE_DIR'') in
      if dir \<noteq> [] then Some dir else map_option (\<lambda>b. path_join [b, ''ktunnel'']) base)"

definition cache_path :: "string option \<Rightarrow> string option" where
  "cache_path dir = map_option (\<lambda>d. path_join [d, ''last-update-check'']) dir"

section \<open>The claim of the day\<close>

definition update_cache_ttl :: int where "update_cache_ttl = 86400000000000"
definition second_ns :: int where "second_ns = 1000000000"

definition read_file :: "string \<Rightarrow> string sys" where
  "read_file p = do {
     f \<leftarrow> stat_file p;
     State_Monad.return (case f of Inl e \<Rightarrow> Err e | Inr f \<Rightarrow> Ok (f_data f)) }"

text \<open>Whether the stamp in the file is one of the last day: the clock is read once or twice.\<close>

definition stamp_recent :: "string \<Rightarrow> bool prog" where
  "stamp_recent b =
     (case parse_int (trim_space b) of
        (stamp, None) \<Rightarrow> do {
          t \<leftarrow> now_ns;
          if t < stamp * second_ns then State_Monad.return False
          else do {
            t' \<leftarrow> now_ns;
            State_Monad.return (t' - stamp * second_ns < update_cache_ttl) } }
      | _ \<Rightarrow> State_Monad.return False)"

text \<open>Writing the new stamp beside the old one and moving it into place.\<close>

definition write_stamp :: "string \<Rightarrow> bool prog" where
  "write_stamp path =
     or_fail False (create_temp (path_dir path) ''.last-update-check-'') (\<lambda>name.
       finally_do
         (do {
           _ \<leftarrow> chmod_file name 384;
           t \<leftarrow> now_ns;
           w \<leftarrow> append_file name (itoa (t div second_ns) @ [chr 10]);
           c \<leftarrow> touch_nothing;
           if \<not> is_ok w \<or> \<not> is_ok c then State_Monad.return False
           else or_fail False (rename_file name path) (\<lambda>_. State_Monad.return True) })
         (\<lambda>_. remove_file name))"

text \<open>Under the lock of the cache.\<close>

definition claim_locked :: "string \<Rightarrow> bool prog" where
  "claim_locked path = do {
     b \<leftarrow> read_file path;
     recent \<leftarrow> (case b of Inl _ \<Rightarrow> State_Monad.return False | Inr b \<Rightarrow> stamp_recent b);
     if recent then State_Monad.return False else write_stamp path }"

definition claim_at :: "string \<Rightarrow> bool prog" where
  "claim_at path =
     (let lp = path @ ''.lock'';
          go = finally_do (do { _ \<leftarrow> touch_nothing; claim_locked path }) (\<lambda>_. remove_file lp)
      in or_fail False touch_nothing (\<lambda>_. do {
           l \<leftarrow> create_excl lp 384;
           case l of
             Inr _ \<Rightarrow> go
           | Inl _ \<Rightarrow>
               or_fail False (stat_file lp) (\<lambda>f. do {
                 t \<leftarrow> now_ns;
                 if t - f_mtime f \<le> 60 * second_ns then State_Monad.return False
                 else or_fail False (remove_file lp) (\<lambda>_. or_fail False (create_excl lp 384) (\<lambda>_. go)) }) }))"

definition claim_passive_check :: "string option \<Rightarrow> bool prog" where
  "claim_passive_check dir =
     (case cache_path dir of None \<Rightarrow> State_Monad.return False | Some path \<Rightarrow> claim_at path)"

text \<open>\<open>passive\<close>: the version to tell the user about, if any\<close>

definition passive_check :: "updater \<Rightarrow> redirect_policy option \<Rightarrow> string option \<Rightarrow> string \<Rightarrow> string option prog" where
  "passive_check u policy dir tok = do {
     env \<leftarrow> State (\<lambda>m. (m_env m, m));
     if getenv env ''KTUNNEL_NO_UPDATE_CHECK'' = ''1'' \<or> getenv env ''CI'' \<noteq> [] then State_Monad.return None
     else if parse_stable_semver (up_version u) = None then State_Monad.return None
     else do {
       claimed \<leftarrow> claim_passive_check dir;
       if \<not> claimed then State_Monad.return None
       else do {
         c \<leftarrow> check_release u policy tok;
         State_Monad.return
           (case c of
              Inr (rel, True) \<Rightarrow> Some (gr_tag_name rel)
            | _ \<Rightarrow> None) } } }"

text \<open>\<open>passiveUpdateCheck\<close> does nothing unless the error output is a terminal.\<close>

definition passive_update_check ::
    "bool \<Rightarrow> updater \<Rightarrow> redirect_policy option \<Rightarrow> string option \<Rightarrow> string \<Rightarrow> string option prog" where
  "passive_update_check terminal u policy dir tok =
     (if \<not> terminal then State_Monad.return None else passive_check u policy dir tok)"

section \<open>Commands\<close>

datatype version_note = No_Note | Cannot_Check update_error | New_Version string | Latest_Version

definition cmd_update ::
    "updater \<Rightarrow> redirect_policy option \<Rightarrow> string \<Rightarrow> string option \<Rightarrow> int \<Rightarrow> string list \<Rightarrow> update_outcome option prog" where
  "cmd_update u policy tok exe pid args =
     (if args = [''--check''] then do { r \<leftarrow> run_update u policy tok True exe pid; State_Monad.return (Some r) }
      else if args \<noteq> [] then State_Monad.return None
      else do { r \<leftarrow> run_update u policy tok False exe pid; State_Monad.return (Some r) })"

definition cmd_version :: "updater \<Rightarrow> redirect_policy option \<Rightarrow> string \<Rightarrow> (string \<times> version_note) prog" where
  "cmd_version u policy tok = do {
     env \<leftarrow> State (\<lambda>m. (m_env m, m));
     let line = version_line (up_version u);
     if getenv env ''KTUNNEL_UPDATE_PREFLIGHT'' = ''1'' then State_Monad.return (line, No_Note)
     else if parse_stable_semver (up_version u) = None then State_Monad.return (line, No_Note)
     else do {
       c \<leftarrow> check_release u policy tok;
       State_Monad.return
         (line,
          case c of
            Inl e \<Rightarrow> Cannot_Check e
          | Inr (rel, newer) \<Rightarrow> if newer then New_Version (gr_tag_name rel) else Latest_Version) } }"

section \<open>The preflight asks nobody\<close>

lemma replace_env_getenv: "CHR ''='' \<notin> set key \<Longrightarrow> getenv (replace_env env key val) key = val"
proof -
  have "find (prefix (key @ ''='')) (filter (\<lambda>item. \<not> prefix (key @ ''='') item) env) = None"
    by (induction env) auto
  then have "find (prefix (key @ ''='')) (filter (\<lambda>item. \<not> prefix (key @ ''='') item) env @ [key @ ''='' @ val]) =
      Some (key @ ''='' @ val)"
    by (induction env) (auto simp: prefix_def)
  then show ?thesis by (simp add: getenv_def replace_env_def Let_def)
qed

text \<open>
  The updater runs the new binary as \<open>ktunnel version\<close> in the environment of the preflight. There
  the command prints its version and touches neither the network nor a file: the check of a new
  binary cannot start another update.
\<close>

lemma preflight_is_quiet:
  assumes "m_env m = preflight_env env"
  shows "run_state (cmd_version u policy tok) m = ((version_line (up_version u), No_Note), m)"
  using replace_env_getenv [of "''KTUNNEL_UPDATE_PREFLIGHT''" env "''1''"] assms
  by (simp add: cmd_version_def preflight_env_def)

text \<open>A release whose binary says its own tag passes the preflight of the updater.\<close>

lemma bounded_write_take: "bounded_write p (buf, r) = (buf @ take r p, r - length p)"
  by (auto simp: bounded_write_def Let_def)

lemma fold_bounded: "fold bounded_write ps (buf, r) = (buf @ take r (concat ps), r - length (concat ps))"
  by (induction ps arbitrary: buf r) (simp_all add: bounded_write_take)

lemma accepts_iff:
  "accepts tag x \<longleftrightarrow> \<not> ex_timeout x \<and> \<not> ex_failed x \<and> take 4096 (concat (ex_output x)) = version_line tag"
  by (simp add: accepts_def fold_bounded)

end
