(* ===== verification/Cli_Config.thy ===== *)
theory Cli_Config
  imports Upd_Passive Kt_Text
begin

text \<open>
  The profile of the client (\<open>cmd/ktunnel/config.go\<close>) and its random names (\<open>names.go\<close>): where
  the profile lives, how it is read with what the file system says about it, how it is written,
  and the relay it names, which is always the one in the token.
\<close>

section \<open>The profile\<close>

record config =
  cf_server_addr :: string
  cf_server_port :: int
  cf_domain :: string
  cf_token :: string
  cf_token_version :: string
  cf_tls_server_name :: string

datatype config_error =
    No_Home | Not_Logged_In | Config_Io | Unsafe_Directory | Directory_Permissions nat | Unsafe_File
  | File_Permissions nat | Changed_While_Opening | Config_Unreadable scan_error | Config_Incomplete | Config_Token_Invalid

text \<open>\<open>home\<close> and \<open>appdata\<close> are \<open>os.UserHomeDir\<close> and, on Windows, \<open>os.UserConfigDir\<close>.\<close>

definition config_dir :: "string list \<Rightarrow> string \<Rightarrow> string option \<Rightarrow> string option \<Rightarrow> config_error + string" where
  "config_dir env goos home appdata =
     (if getenv env ''KTUNNEL_CONFIG_DIR'' \<noteq> [] then Ok (getenv env ''KTUNNEL_CONFIG_DIR'')
      else if goos \<noteq> ''windows'' then
        (if getenv env ''XDG_CONFIG_HOME'' \<noteq> [] then Ok (path_join [getenv env ''XDG_CONFIG_HOME'', ''ktunnel''])
         else (case home of None \<Rightarrow> Err No_Home | Some h \<Rightarrow> Ok (path_join [h, ''.config'', ''ktunnel''])))
      else (case appdata of None \<Rightarrow> Err No_Home | Some b \<Rightarrow> Ok (path_join [b, ''ktunnel''])))"

definition config_path :: "config_error + string \<Rightarrow> config_error + string" where
  "config_path dir = (case dir of Inl e \<Rightarrow> Err e | Inr d \<Rightarrow> Ok (path_join [d, ''config'']))"

section \<open>Reading\<close>

definition config_line :: "string \<Rightarrow> config \<Rightarrow> config" where
  "config_line l0 c =
     (let l = trim_space l0 in
      if l = [] \<or> prefix [CHR 0x23] l then c
      else
        (case cut (CHR ''='') l of
           None \<Rightarrow> c
         | Some (key, val) \<Rightarrow>
             let k = trim_space key; v = trim_set [CHR 0x22] (trim_space val) in
             if k = ''SERVER_ADDR'' then c\<lparr>cf_server_addr := v\<rparr>
             else if k = ''SERVER_PORT'' then
               (case atoi v of None \<Rightarrow> c | Some n \<Rightarrow> c\<lparr>cf_server_port := n\<rparr>)
             else if k = ''DOMAIN'' then c\<lparr>cf_domain := v\<rparr>
             else if k = ''TOKEN'' then c\<lparr>cf_token := v\<rparr>
             else if k = ''TOKEN_VERSION'' then c\<lparr>cf_token_version := v\<rparr>
             else if k = ''TLS_SERVER_NAME'' then c\<lparr>cf_tls_server_name := v\<rparr>
             else c))"

definition empty_config :: config where
  "empty_config =
     \<lparr>cf_server_addr = [], cf_server_port = 7000, cf_domain = [], cf_token = [], cf_token_version = [],
      cf_tls_server_name = []\<rparr>"

text \<open>The relay is taken from the token, whatever the file says beside it.\<close>

definition relay_of_token :: "config \<Rightarrow> server_info \<Rightarrow> config" where
  "relay_of_token c info =
     c\<lparr>cf_server_addr := si_addr info, cf_server_port := si_port info, cf_domain := si_domain info,
       cf_token_version := si_token_version info, cf_tls_server_name := si_tls_server_name info\<rparr>"

definition read_config :: "bool \<Rightarrow> string \<Rightarrow> config_error + config" where
  "read_config broken body =
     (case scan_lines max_scan_token broken body of
        (ls, stop) \<Rightarrow>
          let c = fold config_line ls empty_config in
          (case stop of
             Some e \<Rightarrow> Err (Config_Unreadable e)
           | None \<Rightarrow>
               if cf_server_addr c = [] \<or> cf_domain c = [] \<or> cf_token c = [] then Err Config_Incomplete
               else (case parse_token (cf_token c) of
                       Inl _ \<Rightarrow> Err Config_Token_Invalid
                     | Inr info \<Rightarrow> Ok (relay_of_token c info))))"

text \<open>What \<open>Lstat\<close> or \<open>Stat\<close> says of a name: the kind of file, its permissions and which file it is.\<close>

datatype file_kind = Regular_File | Directory | Symbolic_Link | Other_File

record file_info =
  fi_kind :: file_kind
  fi_perm :: nat
  fi_inode :: nat

datatype lookup = Absent_File | Lookup_Failed | Found file_info

text \<open>An open file: what \<open>Stat\<close> says of it, its bytes, and whether reading them failed at the end.\<close>

record open_file =
  op_info :: "file_info option"
  op_body :: string
  op_broken :: bool

definition check_directory :: "string \<Rightarrow> lookup \<Rightarrow> config_error option" where
  "check_directory goos l =
     (case l of
        Absent_File \<Rightarrow> Some Not_Logged_In
      | Lookup_Failed \<Rightarrow> Some Config_Io
      | Found i \<Rightarrow>
          if fi_kind i \<noteq> Directory then Some Unsafe_Directory
          else if goos \<noteq> ''windows'' \<and> fi_perm i \<noteq> 448 then Some (Directory_Permissions (fi_perm i))
          else None)"

definition check_file :: "string \<Rightarrow> lookup \<Rightarrow> config_error + file_info" where
  "check_file goos l =
     (case l of
        Absent_File \<Rightarrow> Err Not_Logged_In
      | Lookup_Failed \<Rightarrow> Err Config_Io
      | Found i \<Rightarrow>
          if fi_kind i \<noteq> Regular_File then Err Unsafe_File
          else if goos \<noteq> ''windows'' \<and> fi_perm i \<noteq> 384 then Err (File_Permissions (fi_perm i))
          else Ok i)"

definition load_config :: "string \<Rightarrow> config_error + string \<Rightarrow> lookup \<Rightarrow> lookup \<Rightarrow> open_file option \<Rightarrow> config_error + config" where
  "load_config goos dir dir_info file_info file =
     (case config_path dir of
        Inl e \<Rightarrow> Err e
      | Inr _ \<Rightarrow>
          (case check_directory goos dir_info of
             Some e \<Rightarrow> Err e
           | None \<Rightarrow>
               (case check_file goos file_info of
                  Inl e \<Rightarrow> Err e
                | Inr i \<Rightarrow>
                    (case file of
                       None \<Rightarrow> Err Config_Io
                     | Some f \<Rightarrow>
                         (case op_info f of
                            None \<Rightarrow> Err Config_Io
                          | Some j \<Rightarrow>
                              if fi_kind j \<noteq> Regular_File \<or> fi_inode i \<noteq> fi_inode j then Err Changed_While_Opening
                              else read_config (op_broken f) (op_body f))))))"

section \<open>Writing\<close>

definition config_entry :: "(rune \<Rightarrow> bool) \<Rightarrow> string \<Rightarrow> string \<Rightarrow> string" where
  "config_entry pr key val = key @ CHR ''='' # go_quote pr val"

definition config_lines :: "(rune \<Rightarrow> bool) \<Rightarrow> config \<Rightarrow> string list" where
  "config_lines pr c =
     [CHR 0x23 # '' ktunnel configuration - written by '' @ CHR 0x60 # ''ktunnel login'' @ [CHR 0x60],
      config_entry pr ''SERVER_ADDR'' (cf_server_addr c),
      config_entry pr ''SERVER_PORT'' (itoa (cf_server_port c)),
      config_entry pr ''DOMAIN'' (cf_domain c),
      config_entry pr ''TOKEN_VERSION'' (cf_token_version c),
      config_entry pr ''TLS_SERVER_NAME'' (cf_tls_server_name c),
      config_entry pr ''TOKEN'' (cf_token c)]"

definition config_body :: "(rune \<Rightarrow> bool) \<Rightarrow> config \<Rightarrow> string" where
  "config_body pr c = concat (map (\<lambda>l. l @ [chr 10]) (config_lines pr c))"

text \<open>
  \<open>Save\<close>. What the file system says of the directory and of an old profile are arguments; the
  temporary file and the replacement are programs over the files of a machine. The result is
  the error, if any. A directory that cannot be flushed at all (\<open>fs.ErrInvalid\<close>) counts as flushed.
\<close>

definition sync_config_dir :: "string \<Rightarrow> config_error option prog" where
  "sync_config_dir goos =
     (if goos = ''windows'' then State_Monad.return None
      else
        or_fail (Some Config_Io) touch_nothing (\<lambda>_.
        or_fail (Some Config_Io) touch_nothing (\<lambda>_. State_Monad.return None)))"

text \<open>The error, and the flag \<open>keep\<close>: the temporary file has taken the place of the profile.\<close>

definition fill_config :: "string \<Rightarrow> string \<Rightarrow> string \<Rightarrow> string \<Rightarrow> (config_error option \<times> bool) prog" where
  "fill_config goos tmp path body =
     (let bad = (Some Config_Io, False) in
      or_fail bad (chmod_file tmp 384) (\<lambda>_.
      or_fail bad (append_file tmp body) (\<lambda>_.
      or_fail bad touch_nothing (\<lambda>_.
      or_fail bad touch_nothing (\<lambda>_.
      or_fail bad (rename_file tmp path) (\<lambda>_. do {
        e \<leftarrow> sync_config_dir goos;
        State_Monad.return (e, True) }))))))"

definition replace_config :: "string \<Rightarrow> string \<Rightarrow> string \<Rightarrow> string \<Rightarrow> config_error option prog" where
  "replace_config goos dir path body =
     or_fail (Some Config_Io) (create_temp dir ''.config-'') (\<lambda>tmp. do {
       r \<leftarrow> finally_do (fill_config goos tmp path body)
         (\<lambda>r. do { _ \<leftarrow> touch_nothing; if snd r then State_Monad.return (Ok ()) else remove_file tmp });
       State_Monad.return (fst r) })"

definition save_config ::
    "(rune \<Rightarrow> bool) \<Rightarrow> string \<Rightarrow> config_error + string \<Rightarrow> lookup \<Rightarrow> lookup \<Rightarrow> config \<Rightarrow> config_error option prog" where
  "save_config pr goos dir dir_info file_info c =
     (case dir of
        Inl e \<Rightarrow> State_Monad.return (Some e)
      | Inr d \<Rightarrow>
          or_fail (Some Config_Io) touch_nothing (\<lambda>_.
            case dir_info of
              Found i \<Rightarrow>
                if fi_kind i \<noteq> Directory then State_Monad.return (Some Unsafe_Directory)
                else
                  or_fail (Some Config_Io) touch_nothing (\<lambda>_.
                    let path = path_join [d, ''config''] in
                    case file_info of
                      Lookup_Failed \<Rightarrow> State_Monad.return (Some Config_Io)
                    | Absent_File \<Rightarrow> replace_config goos d path (config_body pr c)
                    | Found j \<Rightarrow>
                        if fi_kind j \<noteq> Regular_File then State_Monad.return (Some Unsafe_File)
                        else replace_config goos d path (config_body pr c))
            | _ \<Rightarrow> State_Monad.return (Some Config_Io)))"

section \<open>Random names\<close>

definition adjectives :: "string list" where
  "adjectives =
     [''amber'', ''brave'', ''bright'', ''calm'', ''clever'', ''cobalt'', ''cosmic'', ''crimson'',
      ''eager'', ''frosty'', ''fuzzy'', ''gentle'', ''golden'', ''happy'', ''jolly'', ''lunar'',
      ''lucky'', ''mellow'', ''neat'', ''noble'', ''quiet'', ''rapid'', ''silent'', ''solar'',
      ''swift'', ''tidy'', ''vivid'', ''witty'', ''zesty'']"

definition nouns :: "string list" where
  "nouns =
     [''otter'', ''falcon'', ''panda'', ''maple'', ''cedar'', ''comet'', ''ember'', ''harbor'',
      ''lantern'', ''meadow'', ''nimbus'', ''orchid'', ''pebble'', ''quartz'', ''ripple'',
      ''summit'', ''thicket'', ''violet'', ''walrus'', ''zephyr'', ''badger'', ''dolphin'',
      ''finch'', ''grove'', ''heron'']"

definition hex_digit_chars :: string where "hex_digit_chars = ''0123456789abcdef''"

text \<open>
  \<open>rand.Int(rand.Reader, n)\<close> is the argument \<open>rnd\<close>: call number and bound to a number below the
  bound, or \<open>None\<close> when the source fails.
\<close>

definition pick :: "(nat \<Rightarrow> nat \<Rightarrow> nat option) \<Rightarrow> nat \<Rightarrow> 'a list \<Rightarrow> 'a option" where
  "pick rnd i xs = map_option (\<lambda>n. xs ! n) (rnd i (length xs))"

definition random_name :: "(nat \<Rightarrow> nat \<Rightarrow> nat option) \<Rightarrow> string option" where
  "random_name rnd =
     (case pick rnd 0 adjectives of
        None \<Rightarrow> None
      | Some adj \<Rightarrow>
          (case pick rnd 1 nouns of
             None \<Rightarrow> None
           | Some noun \<Rightarrow>
               (case those (map (\<lambda>i. pick rnd (2 + i) hex_digit_chars) [0..<4]) of
                  None \<Rightarrow> None
                | Some suff \<Rightarrow> Some (adj @ ''-'' @ noun @ ''-'' @ suff))))"

end
