(* ===== verification/Go_Flag.thy ===== *)
theory Go_Flag
  imports Go_Strconv "HOL-Library.Multiset"
begin

text \<open>
  Go's \<open>flag\<close> package as the two command-line programs use it: a set of flags with their
  variables, \<open>FlagSet.Parse\<close> with the option to go on after an error, and the values of string,
  integer and boolean flags. Integers are read by \<open>strconv.ParseInt(s, 0, 64)\<close>, with its prefixes
  and underscores.
\<close>

section \<open>Integers in any base\<close>

definition lower_byte :: "char \<Rightarrow> nat" where
  "lower_byte c = (if 65 \<le> byte c \<and> byte c \<le> 90 then byte c + 32 else byte c)"

text \<open>The base that the prefix of a number says, and the number without the prefix.\<close>

definition base_prefix :: "string \<Rightarrow> nat \<times> string" where
  "base_prefix s =
     (if s \<noteq> [] \<and> hd s = CHR ''0'' then
        (if 3 \<le> length s \<and> lower_byte (s ! 1) = 98 then (2, drop 2 s)
         else if 3 \<le> length s \<and> lower_byte (s ! 1) = 111 then (8, drop 2 s)
         else if 3 \<le> length s \<and> lower_byte (s ! 1) = 120 then (16, drop 2 s)
         else (8, drop 1 s))
      else (10, s))"

definition any_digit :: "char \<Rightarrow> nat option" where
  "any_digit c =
     (if is_digit c then Some (digit_val c)
      else if 97 \<le> lower_byte c \<and> lower_byte c \<le> 122 then Some (lower_byte c - 87)
      else None)"

text \<open>The value so far and whether an underscore was skipped.\<close>

fun base_loop :: "nat \<Rightarrow> nat \<Rightarrow> bool \<Rightarrow> string \<Rightarrow> (nat \<times> bool) option" where
  "base_loop base n us [] = Some (n, us)"
| "base_loop base n us (c # s) =
     (if c = CHR ''_'' then base_loop base n True s
      else (case any_digit c of
              None \<Rightarrow> None
            | Some d \<Rightarrow>
                if base \<le> d then None
                else if max_uint64 < n * base + d then None
                else base_loop base (n * base + d) us s))"

text \<open>\<open>underscoreOK\<close>: what was seen last is a digit, an underscore or neither.\<close>

datatype seen = Saw_Start | Saw_Digit | Saw_Underscore | Saw_Other

fun underscore_loop :: "bool \<Rightarrow> seen \<Rightarrow> string \<Rightarrow> bool" where
  "underscore_loop hex saw [] = (saw \<noteq> Saw_Underscore)"
| "underscore_loop hex saw (c # s) =
     (if is_digit c \<or> hex \<and> 97 \<le> lower_byte c \<and> lower_byte c \<le> 102 then underscore_loop hex Saw_Digit s
      else if c = CHR ''_'' then saw = Saw_Digit \<and> underscore_loop hex Saw_Underscore s
      else saw \<noteq> Saw_Underscore \<and> underscore_loop hex Saw_Other s)"

definition underscore_ok :: "string \<Rightarrow> bool" where
  "underscore_ok s =
     (if 2 \<le> length s \<and> hd s = CHR ''0'' \<and> lower_byte (s ! 1) \<in> {98, 111, 120}
      then underscore_loop (lower_byte (s ! 1) = 120) Saw_Digit (drop 2 s)
      else underscore_loop False Saw_Start s)"

text \<open>\<open>strconv.ParseUint(s, 0, 64)\<close> and \<open>strconv.ParseInt(s, 0, 64)\<close>, an error being \<open>None\<close>\<close>

definition parse_uint0 :: "string \<Rightarrow> nat option" where
  "parse_uint0 s =
     (if s = [] then None
      else
        (case base_prefix s of (base, body) \<Rightarrow>
           (case base_loop base 0 False body of
              None \<Rightarrow> None
            | Some (n, us) \<Rightarrow> if us \<and> \<not> underscore_ok s then None else Some n)))"

definition parse_int0 :: "string \<Rightarrow> int option" where
  "parse_int0 s =
     (case s of
        [] \<Rightarrow> None
      | c # rest \<Rightarrow>
          let neg = (c = CHR ''-''); body = (if c = CHR ''-'' \<or> c = CHR ''+'' then rest else s)
          in (case parse_uint0 body of
                None \<Rightarrow> None
              | Some n \<Rightarrow>
                  if \<not> neg \<and> max_int64 < int n \<or> neg \<and> max_int64 + 1 < int n then None
                  else Some (if neg then - int n else int n)))"

text \<open>\<open>strconv.ParseBool\<close>\<close>

definition parse_bool :: "string \<Rightarrow> bool option" where
  "parse_bool s =
     (if s \<in> {''1'', ''t'', ''T'', ''true'', ''TRUE'', ''True''} then Some True
      else if s \<in> {''0'', ''f'', ''F'', ''false'', ''FALSE'', ''False''} then Some False
      else None)"

section \<open>Flag sets\<close>

datatype flag_value = FStr string | FInt int | FBool bool

text \<open>
  A set of flags: for each name the variable it sets; the variables with their values. The kind of
  a flag is the kind of the value its variable holds.
\<close>

type_synonym flag_names = "(string \<times> string) list"
type_synonym flag_vars = "string \<Rightarrow> flag_value"

datatype flag_error = Bad_Syntax string | Not_Defined string | Help_Wanted | Needs_Argument string | Invalid_Value string string

definition set_flag :: "flag_value \<Rightarrow> string \<Rightarrow> flag_value option" where
  "set_flag old s =
     (case old of
        FStr _ \<Rightarrow> Some (FStr s)
      | FInt _ \<Rightarrow> map_option FInt (parse_int0 s)
      | FBool _ \<Rightarrow> map_option FBool (parse_bool s))"

text \<open>The name of a flag argument and the value after \<open>=\<close>: the first byte is never a separator.\<close>

definition split_flag :: "string \<Rightarrow> string \<times> string option" where
  "split_flag s =
     (case s of
        [] \<Rightarrow> ([], None)
      | c # t \<Rightarrow> (case cut (CHR ''='') t of None \<Rightarrow> (s, None) | Some (n, v) \<Rightarrow> (c # n, Some v)))"

text \<open>\<open>parseOne\<close> and \<open>Parse\<close>: the variables, and the arguments from the first that is no flag.\<close>

fun parse_flags :: "flag_names \<Rightarrow> flag_vars \<Rightarrow> string list \<Rightarrow> flag_error + flag_vars \<times> string list" where
  "parse_flags names vars [] = Ok (vars, [])"
| "parse_flags names vars (s # args) =
     (if length s < 2 \<or> hd s \<noteq> CHR ''-'' then Ok (vars, s # args)
      else if s = ''--'' then Ok (vars, args)
      else
        let body = (if s ! 1 = CHR ''-'' then drop 2 s else drop 1 s) in
        if body = [] \<or> hd body = CHR ''-'' \<or> hd body = CHR ''='' then Err (Bad_Syntax s)
        else
          (case split_flag body of (name, val) \<Rightarrow>
             (case map_of names name of
                None \<Rightarrow> Err (if name = ''help'' \<or> name = ''h'' then Help_Wanted else Not_Defined name)
              | Some var \<Rightarrow>
                  (case (vars var, val, args) of
                     (FBool b, v, _) \<Rightarrow>
                       (case set_flag (FBool b) (case v of None \<Rightarrow> ''true'' | Some x \<Rightarrow> x) of
                          None \<Rightarrow> Err (Invalid_Value name (case v of None \<Rightarrow> ''true'' | Some x \<Rightarrow> x))
                        | Some x \<Rightarrow> parse_flags names (vars(var := x)) args)
                   | (old, Some v, _) \<Rightarrow>
                       (case set_flag old v of
                          None \<Rightarrow> Err (Invalid_Value name v)
                        | Some x \<Rightarrow> parse_flags names (vars(var := x)) args)
                   | (old, None, []) \<Rightarrow> Err (Needs_Argument name)
                   | (old, None, v # rest) \<Rightarrow>
                       (case set_flag old v of
                          None \<Rightarrow> Err (Invalid_Value name v)
                        | Some x \<Rightarrow> parse_flags names (vars(var := x)) rest)))))"

section \<open>Flags before and after positional arguments\<close>

text \<open>
  \<open>splitArgs\<close> of both programs: positional arguments and flags apart, each in order. \<open>lone\<close> says
  whether a single hyphen is positional, and \<open>valued\<close> which flags take the next argument.
\<close>

definition is_flag :: "bool \<Rightarrow> string \<Rightarrow> bool" where
  "is_flag lone a \<longleftrightarrow> prefix ''-'' a \<and> \<not> (lone \<and> a = ''-'')"

definition takes_value :: "string list \<Rightarrow> string \<Rightarrow> bool" where
  "takes_value valued a \<longleftrightarrow> CHR ''='' \<notin> set a \<and> a \<in> set valued"

fun split_args :: "bool \<Rightarrow> string list \<Rightarrow> string list \<Rightarrow> string list \<times> string list" where
  "split_args lone valued [] = ([], [])"
| "split_args lone valued (a # args) =
     (if \<not> is_flag lone a
      then (case split_args lone valued args of (pos, flags) \<Rightarrow> (a # pos, flags))
      else if takes_value valued a then
        (case args of
           [] \<Rightarrow> ([], [a])
         | v # rest \<Rightarrow> (case split_args lone valued rest of (pos, flags) \<Rightarrow> (pos, a # v # flags)))
      else (case split_args lone valued args of (pos, flags) \<Rightarrow> (pos, a # flags)))"

text \<open>Nothing is lost, and what is positional is no flag.\<close>

lemma split_args_mset:
  "mset (fst (split_args lone valued args)) + mset (snd (split_args lone valued args)) = mset args"
proof (induction lone valued args rule: split_args.induct)
  case (2 lone valued a args)
  then show ?case
    by (subst (1 2) split_args.simps(2)) (auto simp: split_beta simp del: split_args.simps(2) split: list.split)
qed simp

lemma split_args_positional: "list_all (\<lambda>p. \<not> is_flag lone p) (fst (split_args lone valued args))"
proof (induction lone valued args rule: split_args.induct)
  case (2 lone valued a args)
  then show ?case
    by (subst split_args.simps(2)) (auto simp: split_beta simp del: split_args.simps(2) split: list.split)
qed simp

text \<open>
  A list of arguments is balanced when no flag at its end still waits for its value. A positional
  argument after such a list is split off, wherever the flags around it are.
\<close>

fun balanced :: "bool \<Rightarrow> string list \<Rightarrow> string list \<Rightarrow> bool" where
  "balanced lone valued [] = True"
| "balanced lone valued (a # args) =
     (if is_flag lone a \<and> takes_value valued a
      then (case args of [] \<Rightarrow> False | _ # rest \<Rightarrow> balanced lone valued rest)
      else balanced lone valued args)"

lemma split_args_append:
  "balanced lone valued xs \<Longrightarrow>
   split_args lone valued (xs @ ys) =
     (fst (split_args lone valued xs) @ fst (split_args lone valued ys),
      snd (split_args lone valued xs) @ snd (split_args lone valued ys))"
proof (induction lone valued xs rule: balanced.induct)
  case (2 lone valued a args)
  show ?case
  proof (cases "is_flag lone a \<and> takes_value valued a")
    case True
    with 2(3) obtain v rest where "args = v # rest" "balanced lone valued rest"
      by (subst (asm) balanced.simps(2)) (auto split: list.splits)
    with True 2(1) show ?thesis by (simp add: split_beta del: split_args.simps(2) add: split_args.simps(2) [of _ _ a])
  next
    case False
    with 2(3) have "balanced lone valued args" by (subst (asm) balanced.simps(2)) simp
    with 2(2) False show ?thesis by (auto simp: split_beta simp del: split_args.simps(2) simp: split_args.simps(2) [of _ _ a])
  qed
qed simp

lemma split_args_anywhere:
  assumes "balanced lone valued xs" "\<not> is_flag lone p"
  shows "split_args lone valued (xs @ p # ys) =
    (fst (split_args lone valued xs) @ p # fst (split_args lone valued ys),
     snd (split_args lone valued (xs @ ys)))"
  using split_args_append [OF assms(1), of "p # ys"] split_args_append [OF assms(1), of ys] assms(2)
  by (simp add: split_beta)

end
