(* ===== verification/Cli_Client.thy ===== *)
theory Cli_Client
  imports Cli_Config Go_Flag
begin

text \<open>
  The commands of the client (\<open>cmd/ktunnel/main.go\<close>), the trust anchors it writes for frp
  (\<open>relay_tls.go\<close>) and a tunnel from its start to its end (\<open>tunnel.go\<close>). The files are those of a
  machine; what the user types, the answers of the operating system on the profile's
  directory, and the life of the frp client as the watching loop sees it are arguments.
\<close>

section \<open>Errors\<close>

text \<open>How a tunnel that was started ends; \<open>Client_Ended\<close> carries the error of frp's client, if any.\<close>

datatype tunnel_end = Client_Ended "string option" | Proxy_Refused string | Connection_Lost

datatype client_error =
    Login_Usage | Token_Empty | Stdin_Failed scan_error | No_Token_On_Stdin | One_Token_Expected
  | Password_Failed | Bad_Token token_error | Config_Failed config_error | Remove_Failed
  | Flag_Failed flag_error | Tunnel_Usage string | Bad_Port string | Legacy_Token
  | Bad_Subdomain string | Random_Source_Failed | Remote_Missing
  | Tls_Needs_Kt2 | Anchor_Invalid | Anchor_Failed | Bad_Client_Config | Unsupported_Type string
  | Config_Source_Failed | Service_Failed | Tunnel_Ended tunnel_end
  | Update_Usage | Update_Failed update_error | Unknown_Command string

section \<open>Reading the token of a login\<close>

text \<open>A text that must not be blank\<close>

definition nonblank :: "string \<Rightarrow> client_error + string" where
  "nonblank s = (if trim_space s = [] then Err Token_Empty else Ok (trim_space s))"

text \<open>
  Standard input: a terminal, where \<open>typed\<close> is what was entered without echo (\<open>None\<close> on an
  error), or a stream of bytes that may break.
\<close>

datatype stdin = Terminal "string option" | Piped bool string

definition stdin_limit :: nat where "stdin_limit = 8192"

definition read_login_token :: "string list \<Rightarrow> stdin \<Rightarrow> client_error + string" where
  "read_login_token args inp =
     (case args of
        [a] \<Rightarrow> nonblank a
      | a # b # rest \<Rightarrow> Err Login_Usage
      | [] \<Rightarrow>
          (case inp of
             Terminal typed \<Rightarrow> (case typed of None \<Rightarrow> Err Password_Failed | Some v \<Rightarrow> nonblank v)
           | Piped broken s \<Rightarrow>
               (case scan_lines stdin_limit broken s of
                  ([], Some e) \<Rightarrow> Err (Stdin_Failed e)
                | ([], None) \<Rightarrow> Err No_Token_On_Stdin
                | (l # ls, stop) \<Rightarrow>
                    (case nonblank l of
                       Inl e \<Rightarrow> Err e
                     | Inr tok \<Rightarrow>
                         if list_ex (\<lambda>x. trim_space x \<noteq> []) ls then Err One_Token_Expected
                         else (case stop of Some e \<Rightarrow> Err (Stdin_Failed e) | None \<Rightarrow> Ok tok)))))"

section \<open>The client and its surroundings\<close>

text \<open>
  What one command finds: the system, the answers on the profile's directory and file, standard
  input, the tables and sources of Go, and the updater with its policy, token, cache, program
  path and process number.
\<close>

record client =
  cl_goos :: string
  cl_home :: "string option"
  cl_appdata :: "string option"
  cl_dir_info :: lookup
  cl_file_info :: lookup
  cl_file :: "open_file option"
  cl_stdin :: stdin
  cl_printable :: "rune \<Rightarrow> bool"
  cl_random :: "nat \<Rightarrow> nat \<Rightarrow> nat option"
  cl_updater :: updater
  cl_policy :: "redirect_policy option"
  cl_github :: string
  cl_cache :: "string option"
  cl_exe :: "string option"
  cl_pid :: int
  cl_stderr_terminal :: bool

definition get_env :: "string list prog" where
  "get_env = State (\<lambda>m. (m_env m, m))"

definition client_dir :: "client \<Rightarrow> string list \<Rightarrow> config_error + string" where
  "client_dir cl env = config_dir env (cl_goos cl) (cl_home cl) (cl_appdata cl)"

definition client_load :: "client \<Rightarrow> string list \<Rightarrow> config_error + config" where
  "client_load cl env =
     load_config (cl_goos cl) (client_dir cl env) (cl_dir_info cl) (cl_file_info cl) (cl_file cl)"

section \<open>Login, logout, status\<close>

definition login_config :: "string \<Rightarrow> server_info \<Rightarrow> config" where
  "login_config tok info =
     \<lparr>cf_server_addr = si_addr info, cf_server_port = si_port info, cf_domain = si_domain info,
      cf_token = tok, cf_token_version = si_token_version info,
      cf_tls_server_name = si_tls_server_name info\<rparr>"

definition cmd_login :: "client \<Rightarrow> string list \<Rightarrow> client_error option prog" where
  "cmd_login cl args =
     (case read_login_token args (cl_stdin cl) of
        Inl e \<Rightarrow> State_Monad.return (Some e)
      | Inr tok \<Rightarrow>
          (case parse_token tok of
             Inl e \<Rightarrow> State_Monad.return (Some (Bad_Token e))
           | Inr info \<Rightarrow> do {
               env \<leftarrow> get_env;
               e \<leftarrow> save_config (cl_printable cl) (cl_goos cl) (client_dir cl env) (cl_dir_info cl)
                      (cl_file_info cl) (login_config tok info);
               State_Monad.return (map_option Config_Failed e) }))"

definition cmd_logout :: "client \<Rightarrow> client_error option prog" where
  "cmd_logout cl = do {
     env \<leftarrow> get_env;
     case config_path (client_dir cl env) of
       Inl e \<Rightarrow> State_Monad.return (Some (Config_Failed e))
     | Inr path \<Rightarrow> do {
         r \<leftarrow> remove_file path;
         State_Monad.return
           (case r of
              Inl e \<Rightarrow> if e = Sys_Not_Found then None else Some Remove_Failed
            | Inr _ \<Rightarrow> None) } }"

text \<open>What \<open>status\<close> shows of a token: eight characters of its secret\<close>

definition token_prefix :: "string \<Rightarrow> string" where
  "token_prefix tok =
     (let i = last_index (CHR ''.'') tok in
      if 0 \<le> i \<and> 9 < int (length tok) - i then take 8 (drop (nat (i + 1)) tok) else tok)"

definition status_text :: "config \<Rightarrow> string" where
  "status_text cfg =
     ''server  '' @ cf_server_addr cfg @ '':'' @ itoa (cf_server_port cfg) @ [chr 10] @
     ''domain  *.'' @ cf_domain cfg @ [chr 10] @
     ''token   '' @ token_prefix (cf_token cfg) @ encode_rune 0x2026 @ [chr 10] @
     (if cf_token_version cfg = token_version_current
      then ''tls     required ('' @ cf_tls_server_name cfg @ '')'' @ [chr 10]
      else ''tls     legacy token (request a new kt2 token before opening a tunnel)'' @ [chr 10])"

definition cmd_status :: "client \<Rightarrow> (client_error + string) prog" where
  "cmd_status cl = do {
     env \<leftarrow> get_env;
     State_Monad.return
       (case client_load cl env of
          Inl e \<Rightarrow> Err (Config_Failed e)
        | Inr cfg \<Rightarrow> Ok (status_text cfg)) }"

end
