(* ===== verification/Cli_Tunnel.thy ===== *)
theory Cli_Tunnel
  imports Cli_Client
begin

text \<open>
  A tunnel of the client: its command line (\<open>cmdTunnel\<close> in \<open>cmd/ktunnel/main.go\<close>), the trust
  anchors written for frp (\<open>relay_tls.go\<close>), the configuration of frp's client and the loop that
  watches it (\<open>tunnel.go\<close>), and the dispatch of all commands. The loop may run forever: it is a
  partial function of the events it meets.
\<close>

section \<open>A tunnel\<close>

record tunnel =
  tn_name :: string
  tn_type :: string
  tn_local_ip :: string
  tn_local_port :: int
  tn_remote_port :: int

definition public_url :: "tunnel \<Rightarrow> config \<Rightarrow> string" where
  "public_url t cfg =
     (if tn_type t = ''tcp'' then cf_server_addr cfg @ '':'' @ itoa (tn_remote_port t)
      else ''https://'' @ tn_name t @ ''.'' @ cf_domain cfg)"

section \<open>The trust anchors\<close>

text \<open>\<open>os.WriteFile\<close> and \<open>os.RemoveAll\<close>\<close>

definition write_file :: "string \<Rightarrow> string \<Rightarrow> nat \<Rightarrow> unit sys" where
  "write_file p data mode =
     or_fail (Err Sys_Other)
       (sys_call (do {
          t \<leftarrow> now_ns;
          change (\<lambda>fs. fs(p \<mapsto>
            (case fs p of None \<Rightarrow> \<lparr>f_data = [], f_mode = mode, f_mtime = t\<rparr>
             | Some f \<Rightarrow> f\<lparr>f_data := [], f_mtime := t\<rparr>)));
          State_Monad.return (Ok ()) }))
       (\<lambda>_. or_fail (Err Sys_Other) (append_file p data) (\<lambda>_. touch_nothing))"

definition remove_all :: "string \<Rightarrow> unit sys" where
  "remove_all d = sys_call (do {
     change (\<lambda>fs p. if p = d \<or> prefix (d @ ''/'') p then None else fs p);
     State_Monad.return (Ok ()) })"

text \<open>
  \<open>materializeRelayCA\<close>: the embedded anchors, whether \<open>x509\<close> reads a certificate in them, and the
  directory \<open>os.MkdirTemp\<close> makes. The result is the directory, to be removed, and the file.
\<close>

definition materialize_relay_ca :: "string \<Rightarrow> bool \<Rightarrow> string option \<Rightarrow> (client_error + string \<times> string) prog" where
  "materialize_relay_ca anchors readable dir =
     (if \<not> readable then State_Monad.return (Err Anchor_Invalid)
      else
        (case dir of
           None \<Rightarrow> State_Monad.return (Err Anchor_Failed)
         | Some d \<Rightarrow> do {
             w \<leftarrow> write_file (path_join [d, ''ca.pem'']) anchors 384;
             case w of
               Inl _ \<Rightarrow> do { _ \<leftarrow> remove_all d; State_Monad.return (Err Anchor_Failed) }
             | Inr _ \<Rightarrow> State_Monad.return (Ok (d, path_join [d, ''ca.pem''])) }))"

section \<open>The configuration of frp's client\<close>

record frp_common =
  fc_server_addr :: string
  fc_server_port :: int
  fc_login_fail_exit :: bool
  fc_metadatas :: "(string \<times> string) list"
  fc_tls_enable :: bool
  fc_trusted_ca_file :: string
  fc_server_name :: string
  fc_heartbeat_interval :: int
  fc_heartbeat_timeout :: int
  fc_log_level :: string

record frp_base =
  fb_name :: string
  fb_type :: string
  fb_local_ip :: string
  fb_local_port :: int

datatype frp_proxy = Http_Proxy frp_base string | Tcp_Proxy frp_base int

definition frp_common_of :: "config \<Rightarrow> string \<Rightarrow> bool \<Rightarrow> frp_common" where
  "frp_common_of cfg ca_file verbose =
     \<lparr>fc_server_addr = cf_server_addr cfg, fc_server_port = cf_server_port cfg, fc_login_fail_exit = True,
      fc_metadatas = [(''token'', cf_token cfg)], fc_tls_enable = True, fc_trusted_ca_file = ca_file,
      fc_server_name = cf_tls_server_name cfg, fc_heartbeat_interval = 30, fc_heartbeat_timeout = 90,
      fc_log_level = (if verbose then ''info'' else ''warn'')\<rparr>"

definition frp_proxy_of :: "tunnel \<Rightarrow> frp_proxy option" where
  "frp_proxy_of t =
     (let base = \<lparr>fb_name = tn_name t, fb_type = tn_type t, fb_local_ip = tn_local_ip t,
                  fb_local_port = tn_local_port t\<rparr>
      in if tn_type t = ''http'' then Some (Http_Proxy base (tn_name t))
         else if tn_type t = ''tcp'' then Some (Tcp_Proxy base (tn_remote_port t))
         else None)"

text \<open>
  The events of the loop: frp's client ends, or the ticker fires, when the proxy has a status or
  none and the clock, read at most once a tick, shows nanoseconds.
\<close>

datatype phase = Phase_Running | Phase_Start_Err string | Phase_Other

datatype watch_event = Ended "string option" | Tick "phase option" int

text \<open>
  frp itself: \<open>Complete\<close>, which may refuse a configuration, the configuration source,
  \<open>NewService\<close>, and the events of a service that runs. What they answer is an argument, with the
  anchors, what \<open>x509\<close> makes of them, the new directory, whether the user interrupted the tunnel, and
  whether the check for updates that a live tunnel starts beside it ended before the program did.
\<close>

record relay_side =
  rs_complete :: "frp_common \<Rightarrow> bool"
  rs_source :: "frp_proxy \<Rightarrow> bool"
  rs_service :: "frp_common \<Rightarrow> frp_proxy \<Rightarrow> bool"
  rs_life :: "frp_common \<Rightarrow> frp_proxy \<Rightarrow> nat \<Rightarrow> watch_event"
  rs_anchors :: string
  rs_anchors_ok :: bool
  rs_ca_dir :: "string option"
  rs_interrupted :: bool
  rs_checked :: bool

definition start_service ::
    "relay_side \<Rightarrow> tunnel \<Rightarrow> config \<Rightarrow> bool \<Rightarrow> string \<Rightarrow> client_error + frp_common \<times> frp_proxy" where
  "start_service rs t cfg verbose ca_file =
     (let common = frp_common_of cfg ca_file verbose in
      if \<not> rs_complete rs common then Err Bad_Client_Config
      else
        (case frp_proxy_of t of
           None \<Rightarrow> Err (Unsupported_Type (tn_type t))
         | Some proxy \<Rightarrow>
             if \<not> rs_source rs proxy then Err Config_Source_Failed
             else if \<not> rs_service rs common proxy then Err Service_Failed
             else Ok (common, proxy)))"

section \<open>Watching a tunnel\<close>

definition lost_after :: int where "lost_after = 15000000000"

text \<open>After \<open>cancel()\<close>: waiting for frp's client to end\<close>

partial_function (option) await_end :: "(nat \<Rightarrow> watch_event) \<Rightarrow> nat \<Rightarrow> nat option" where
  "await_end ev i = (case ev i of Ended _ \<Rightarrow> Some i | Tick _ _ \<Rightarrow> await_end ev (Suc i))"

text \<open>
  The loop from event \<open>i\<close> on. \<open>calls\<close> counts the calls of \<open>onReady\<close>, which is given when
  \<open>ready\<close>, \<open>announced\<close> and \<open>last\<close> are the variables of the loop. The result is how the tunnel
  ended, the calls, and the event it ended at.
\<close>

definition start_error :: "phase option \<Rightarrow> string option" where
  "start_error st = (case st of Some (Phase_Start_Err msg) \<Rightarrow> Some msg | _ \<Rightarrow> None)"

partial_function (option) watch ::
    "(nat \<Rightarrow> watch_event) \<Rightarrow> bool \<Rightarrow> bool \<Rightarrow> nat \<Rightarrow> int \<Rightarrow> nat \<Rightarrow> (tunnel_end \<times> nat \<times> nat) option" where
  "watch ev ready announced calls last_running i =
     (case ev i of
        Ended e \<Rightarrow> Some (Client_Ended e, calls, i)
      | Tick st now \<Rightarrow>
          if start_error st \<noteq> None then
            map_option (\<lambda>j. (Proxy_Refused (trim_prefix ''start proxy error: '' (the (start_error st))), calls, j))
              (await_end ev (Suc i))
          else if st = Some Phase_Running then
            (if \<not> announced \<and> ready then watch ev ready True (Suc calls) now (Suc i)
             else watch ev ready announced calls now (Suc i))
          else if announced \<and> lost_after < now - last_running then
            map_option (\<lambda>j. (Connection_Lost, calls, j)) (await_end ev (Suc i))
          else watch ev ready announced calls last_running (Suc i))"

section \<open>A tunnel from its start to its end\<close>

definition prepare_tunnel ::
    "relay_side \<Rightarrow> tunnel \<Rightarrow> config \<Rightarrow> bool \<Rightarrow> (client_error + string \<times> frp_common \<times> frp_proxy) prog" where
  "prepare_tunnel rs t cfg verbose =
     (if cf_token_version cfg \<noteq> token_version_current \<or> cf_tls_server_name cfg = []
      then State_Monad.return (Err Tls_Needs_Kt2)
      else do {
        ca \<leftarrow> materialize_relay_ca (rs_anchors rs) (rs_anchors_ok rs) (rs_ca_dir rs);
        case ca of
          Inl e \<Rightarrow> State_Monad.return (Err e)
        | Inr (d, ca_file) \<Rightarrow>
            (case start_service rs t cfg verbose ca_file of
               Inl e \<Rightarrow> do { _ \<leftarrow> remove_all d; State_Monad.return (Err e) }
             | Inr (common, proxy) \<Rightarrow> State_Monad.return (Ok (d, common, proxy))) })"

definition end_error :: "tunnel_end \<Rightarrow> client_error option" where
  "end_error e = (if e = Client_Ended None then None else Some (Tunnel_Ended e))"

text \<open>
  \<open>Run\<close>: the error, and how often the tunnel was announced; \<open>None\<close> while it runs for ever. What
  \<open>onReady\<close> does happens at the announcement.
\<close>

definition run_tunnel ::
    "relay_side \<Rightarrow> tunnel \<Rightarrow> config \<Rightarrow> bool \<Rightarrow> unit prog \<Rightarrow> machine \<Rightarrow>
     ((client_error option \<times> nat) \<times> machine) option" where
  "run_tunnel rs t cfg verbose on_ready m =
     (case run_state (prepare_tunnel rs t cfg verbose) m of
        (Inl e, m') \<Rightarrow> Some ((Some e, 0), m')
      | (Inr (d, common, proxy), m') \<Rightarrow>
          map_option (\<lambda>(e, calls, _).
              ((end_error e, calls),
               snd (run_state (do { _ \<leftarrow> (if calls = 0 then State_Monad.return () else on_ready); remove_all d }) m')))
            (watch (rs_life rs common proxy) True False 0 0 0))"

section \<open>The command line of a tunnel\<close>

definition tunnel_flags :: flag_names where
  "tunnel_flags =
     [(''name'', ''name''), (''host'', ''host''), (''remote'', ''remote''), (''verbose'', ''verbose''),
      (''n'', ''name''), (''V'', ''verbose'')]"

definition tunnel_vars :: flag_vars where
  "tunnel_vars =
     (\<lambda>_. FStr [])(''name'' := FStr [], ''host'' := FStr ''127.0.0.1'', ''remote'' := FInt 0, ''verbose'' := FBool False)"

definition value_flags :: "string list" where
  "value_flags = [''-name'', ''--name'', ''-n'', ''-host'', ''--host'', ''-remote'', ''--remote'']"

definition str_var :: "flag_vars \<Rightarrow> string \<Rightarrow> string" where
  "str_var vars x = (case vars x of FStr s \<Rightarrow> s | _ \<Rightarrow> [])"

definition int_var :: "flag_vars \<Rightarrow> string \<Rightarrow> int" where
  "int_var vars x = (case vars x of FInt n \<Rightarrow> n | _ \<Rightarrow> 0)"

definition bool_var :: "flag_vars \<Rightarrow> string \<Rightarrow> bool" where
  "bool_var vars x = (case vars x of FBool b \<Rightarrow> b | _ \<Rightarrow> False)"

definition name_tunnel ::
    "(nat \<Rightarrow> nat \<Rightarrow> nat option) \<Rightarrow> string \<Rightarrow> flag_vars \<Rightarrow> int \<Rightarrow> client_error + tunnel" where
  "name_tunnel rnd kind vars port =
     (let t = \<lparr>tn_name = str_var vars ''name'', tn_type = kind, tn_local_ip = str_var vars ''host'',
               tn_local_port = port, tn_remote_port = 0\<rparr>;
          remote = int_var vars ''remote''
      in if kind = ''http'' then
           (if tn_name t = [] then
              (case random_name rnd of None \<Rightarrow> Err Random_Source_Failed | Some n \<Rightarrow> Ok (t\<lparr>tn_name := n\<rparr>))
            else if \<not> subdomain_re (tn_name t) then Err (Bad_Subdomain (tn_name t))
            else Ok t)
         else if kind = ''tcp'' then
           (if remote = 0 then Err Remote_Missing
            else Ok (t\<lparr>tn_remote_port := remote,
                       tn_name := (if tn_name t = [] then ''tcp-'' @ itoa remote else tn_name t)\<rparr>))
         else Ok t)"

text \<open>The arguments and the profile give the tunnel and whether to be verbose.\<close>

definition plan_tunnel ::
    "(nat \<Rightarrow> nat \<Rightarrow> nat option) \<Rightarrow> config_error + config \<Rightarrow> string \<Rightarrow> string list \<Rightarrow>
     client_error + config \<times> tunnel \<times> bool" where
  "plan_tunnel rnd profile kind args =
     (case split_args True value_flags args of
        (positional, flags) \<Rightarrow>
          (case parse_flags tunnel_flags tunnel_vars flags of
             Inl e \<Rightarrow> Err (Flag_Failed e)
           | Inr (vars, _) \<Rightarrow>
               (case positional of
                  [] \<Rightarrow> Err (Tunnel_Usage kind)
                | p # _ \<Rightarrow>
                    (case atoi p of
                       None \<Rightarrow> Err (Bad_Port p)
                     | Some port \<Rightarrow>
                         if port < 1 \<or> 65535 < port then Err (Bad_Port p)
                         else
                           (case profile of
                              Inl e \<Rightarrow> Err (Config_Failed e)
                            | Inr cfg \<Rightarrow>
                                if cf_token_version cfg \<noteq> token_version_current then Err Legacy_Token
                                else
                                  (case name_tunnel rnd kind vars port of
                                     Inl e \<Rightarrow> Err e
                                   | Inr t \<Rightarrow> Ok (cfg, t, bool_var vars ''verbose'')))))))"

text \<open>
  Once live, a tunnel starts the daily check for updates in the background, which nothing waits for.
  An interrupted tunnel is no failure.
\<close>

definition background_check :: "client \<Rightarrow> relay_side \<Rightarrow> unit prog" where
  "background_check cl rs =
     (if rs_checked rs
      then do {
        _ \<leftarrow> passive_update_check (cl_stderr_terminal cl) (cl_updater cl) (cl_policy cl) (cl_cache cl) (cl_github cl);
        State_Monad.return () }
      else State_Monad.return ())"

definition cmd_tunnel ::
    "client \<Rightarrow> relay_side \<Rightarrow> string \<Rightarrow> string list \<Rightarrow> machine \<Rightarrow> (client_error option \<times> machine) option" where
  "cmd_tunnel cl rs kind args m =
     (case plan_tunnel (cl_random cl) (client_load cl (m_env m)) kind args of
        Inl e \<Rightarrow> Some (Some e, m)
      | Inr (cfg, t, verbose) \<Rightarrow>
          map_option (\<lambda>((e, _), m'). (if rs_interrupted rs then None else e, m'))
            (run_tunnel rs t cfg verbose (background_check cl rs) m))"

section \<open>All commands\<close>

datatype command =
    Do_Usage | Do_Login "string list" | Do_Logout | Do_Status | Do_Tunnel string "string list"
  | Do_Update "string list" | Do_Version | Do_Unknown string

definition command_of :: "string list \<Rightarrow> command" where
  "command_of args =
     (case args of
        [] \<Rightarrow> Do_Usage
      | cmd # rest \<Rightarrow>
          if cmd = ''login'' then Do_Login rest
          else if cmd = ''logout'' then Do_Logout
          else if cmd \<in> {''status'', ''whoami''} then Do_Status
          else if cmd = ''http'' then Do_Tunnel ''http'' rest
          else if cmd = ''tcp'' then Do_Tunnel ''tcp'' rest
          else if cmd \<in> {''update'', ''upgrade''} then Do_Update rest
          else if cmd \<in> {''version'', ''-v'', ''--version''} then Do_Version
          else if cmd \<in> {''help'', ''-h'', ''--help''} then Do_Usage
          else Do_Unknown cmd)"

definition run_then_check :: "client \<Rightarrow> client_error option prog \<Rightarrow> client_error option prog" where
  "run_then_check cl p = do {
     e \<leftarrow> p;
     if e \<noteq> None then State_Monad.return e
     else do {
       _ \<leftarrow> passive_update_check (cl_stderr_terminal cl) (cl_updater cl) (cl_policy cl) (cl_cache cl) (cl_github cl);
       State_Monad.return None } }"

definition status_error :: "client_error + string \<Rightarrow> client_error option" where
  "status_error r = (case r of Inl e \<Rightarrow> Some e | Inr _ \<Rightarrow> None)"

definition update_error_of :: "update_outcome option \<Rightarrow> client_error option" where
  "update_error_of r =
     (case r of
        None \<Rightarrow> Some Update_Usage
      | Some (Update_Error e) \<Rightarrow> Some (Update_Failed e)
      | Some _ \<Rightarrow> None)"

definition run_client ::
    "client \<Rightarrow> relay_side \<Rightarrow> string list \<Rightarrow> machine \<Rightarrow> (client_error option \<times> machine) option" where
  "run_client cl rs args m =
     (case command_of args of
        Do_Usage \<Rightarrow> Some (None, m)
      | Do_Login rest \<Rightarrow> Some (run_state (run_then_check cl (cmd_login cl rest)) m)
      | Do_Logout \<Rightarrow> Some (run_state (run_then_check cl (cmd_logout cl)) m)
      | Do_Status \<Rightarrow>
          Some (run_state (run_then_check cl (do { r \<leftarrow> cmd_status cl; State_Monad.return (status_error r) })) m)
      | Do_Tunnel kind rest \<Rightarrow> cmd_tunnel cl rs kind rest m
      | Do_Update rest \<Rightarrow>
          Some (run_state (do {
            r \<leftarrow> cmd_update (cl_updater cl) (cl_policy cl) (cl_github cl) (cl_exe cl) (cl_pid cl) rest;
            State_Monad.return (update_error_of r) }) m)
      | Do_Version \<Rightarrow>
          Some (run_state (do {
            _ \<leftarrow> cmd_version (cl_updater cl) (cl_policy cl) (cl_github cl);
            State_Monad.return None }) m)
      | Do_Unknown cmd \<Rightarrow> Some (Some (Unknown_Command cmd), m))"

end
