(* ===== verification/Cli_Profile.thy ===== *)
theory Cli_Profile
  imports Cli_Client
begin

text \<open>
  Laws of the client's profile: what a login writes is read back, and it is written as a whole
  or not at all. The second is shown with the triples of \<open>Upd_Safe\<close>, over a condition that the
  files satisfy at every moment.
\<close>

section \<open>A profile reads back\<close>

text \<open>Visible text without a quote or a backslash is quoted as it is.\<close>

definition plain :: "char \<Rightarrow> bool" where
  "plain c \<longleftrightarrow> visible c \<and> c \<noteq> CHR 0x22 \<and> c \<noteq> CHR 0x5C"

lemma plain_byte: "plain c \<longleftrightarrow> 0x21 \<le> byte c \<and> byte c < 0x7F \<and> byte c \<noteq> 0x22 \<and> byte c \<noteq> 0x5C"
proof -
  have "c = CHR 0x22 \<longleftrightarrow> byte c = 0x22" "c = CHR 0x5C \<longleftrightarrow> byte c = 0x5C"
    using of_char_eq_iff [of c "CHR 0x22", where 'a = nat] of_char_eq_iff [of c "CHR 0x5C", where 'a = nat] by auto
  then show ?thesis by (auto simp: plain_def visible_def)
qed

lemma go_quote_body_plain: "list_all plain s \<Longrightarrow> go_quote_body pr s = s"
  by (induction s)
    (auto simp: plain_byte next_rune_def go_quote_rune_def printable_def encode_ascii)

lemma go_quote_plain: "list_all plain s \<Longrightarrow> go_quote pr s = CHR 0x22 # s @ [CHR 0x22]"
  by (simp add: go_quote_def go_quote_body_plain)

text \<open>A quoted text is one line, and a text that is not empty stays so without the quotes.\<close>

definition one_line :: "string \<Rightarrow> bool" where
  "one_line s \<longleftrightarrow> chr 10 \<notin> set s"

lemma one_line_simps [simp]:
  "one_line []" "one_line (c # s) \<longleftrightarrow> byte c \<noteq> 10 \<and> one_line s" "one_line (s @ t) \<longleftrightarrow> one_line s \<and> one_line t"
  using of_char_eq_iff [of c "chr 10", where 'a = nat] by (auto simp: one_line_def)

lemma hex_char_one_line [simp]: "n < 16 \<Longrightarrow> byte (hex_char n) \<noteq> 10"
  by (simp add: hex_char_def)

lemma u_escape_one_line: "n < 65536 \<Longrightarrow> one_line (u_escape n)"
  by (simp add: u_escape_def)

lemma encode_rune_bytes:
  assumes "0x80 \<le> r" "c \<in> set (encode_rune r)"
  shows "0x80 \<le> byte c"
proof -
  define q where "q = (if scalar r then r else rune_error)"
  have q: "0x80 \<le> q" "q < 0x110000" using assms(1) by (auto simp: q_def scalar_def)
  then have d: "q div 262144 < 5" by simp
  have e: "q < 0x800 \<Longrightarrow> q div 64 < 32" "q < 0x10000 \<Longrightarrow> q div 4096 < 16" by simp_all
  have m: "n mod 64 < 64" for n :: nat by simp
  show ?thesis
    using assms(2) q d e m unfolding encode_rune_def q_def [symmetric] Let_def
    by (auto split: if_splits simp: less_Suc_eq_le)
qed

lemma encode_rune_one_line:
  assumes "r \<noteq> 10" shows "one_line (encode_rune r)"
proof (cases "r < 0x80")
  case True
  with assms show ?thesis by (simp add: encode_ascii)
next
  case False
  then have "c \<in> set (encode_rune r) \<Longrightarrow> byte c \<noteq> 10" for c
    using encode_rune_bytes [of r c] by auto
  moreover have "byte (chr 10) = (10 :: nat)" by simp
  ultimately show ?thesis unfolding one_line_def by metis
qed

lemma go_quote_rune_ends:
  assumes "next_rune c s = (r, rest)"
  shows "one_line (go_quote_rune pr c r)" "go_quote_rune pr c r \<noteq> []" "hd (go_quote_rune pr c r) \<noteq> CHR 0x22"
proof -
  have x: "n < 256 \<Longrightarrow> one_line (x_escape n)" for n
    by (simp add: x_escape_def less_mult_imp_div_less)
  have u: "n < 0x110000 \<Longrightarrow> one_line (big_u_escape n)" for n
    using u_escape_one_line [of "n mod 65536"] by (simp add: big_u_escape_def u_escape_def)
  show "one_line (go_quote_rune pr c r)"
  proof (cases r)
    case None
    then show ?thesis by (simp add: go_quote_rune_def x)
  next
    case (Some n)
    then have sc: "scalar n" using next_rune_sound [of c s n rest] assms by simp
    have l: "letter_escape n = Some y \<Longrightarrow> byte y \<noteq> 10" for y
      by (auto simp: letter_escape_def split: if_splits)
    have "printable pr n \<Longrightarrow> n \<noteq> 10" by (auto simp: printable_def)
    with Some sc x u_escape_one_line u l show ?thesis
      by (auto simp: go_quote_rune_def scalar_def encode_rune_one_line split: option.split)
  qed
  show "go_quote_rune pr c r \<noteq> []"
    by (auto simp: go_quote_rune_def x_escape_def u_escape_def big_u_escape_def split: option.split)
  have e: "n \<noteq> 0x22 \<Longrightarrow> hd (encode_rune n) \<noteq> CHR 0x22" for n
    using encode_rune_bytes [of n "hd (encode_rune n)"]
    by (cases "n < 0x80") (auto simp: encode_ascii dest: arg_cong [where f = byte])
  show "hd (go_quote_rune pr c r) \<noteq> CHR 0x22"
    by (auto simp: go_quote_rune_def x_escape_def u_escape_def big_u_escape_def e split: option.split)
qed

lemma go_quote_one_line: "one_line (go_quote pr s)"
proof -
  have "one_line (go_quote_body pr s)"
    by (induction pr s rule: go_quote_body.induct) (auto simp: go_quote_rune_ends split: prod.split)
  then show ?thesis by (simp add: go_quote_def)
qed


lemma trim_quotes_Nil: "trim_set [CHR 0x22] x = [] \<longleftrightarrow> (\<forall>c \<in> set x. c = CHR 0x22)"
proof -
  have "dropWhile P (rev (dropWhile P x)) = [] \<longleftrightarrow> (\<forall>c \<in> set x. P c)" for P :: "char \<Rightarrow> bool"
  proof -
    have "set x = set (takeWhile P x) \<union> set (dropWhile P x)"
      by (metis set_append takeWhile_dropWhile_id)
    moreover have "\<forall>c \<in> set (takeWhile P x). P c" by (auto dest: set_takeWhileD)
    ultimately show ?thesis by (auto simp: dropWhile_eq_Nil_conv)
  qed
  then show ?thesis by (simp add: trim_set_def)
qed

lemma go_quote_untrimmed: "trim_space (go_quote pr s) = go_quote pr s"
  by (rule trim_space_visible) (simp_all add: go_quote_def visible_def)

lemma go_quote_trim: "trim_set [CHR 0x22] (trim_space (go_quote pr s)) = [] \<longleftrightarrow> s = []"
proof (cases s)
  case (Cons c t)
  obtain r rest where nr: "next_rune c t = (r, rest)" by fastforce
  then have "hd (go_quote_rune pr c r) \<in> set (go_quote pr s)" "hd (go_quote_rune pr c r) \<noteq> CHR 0x22"
    using go_quote_rune_ends(2,3) [OF nr, of pr] Cons by (auto simp: go_quote_def)
  then have "\<not> (\<forall>c \<in> set (go_quote pr s). c = CHR 0x22)" by blast
  with Cons show ?thesis by (simp add: go_quote_untrimmed trim_quotes_Nil)
qed (simp add: go_quote_untrimmed trim_quotes_Nil, simp add: go_quote_def)

lemma drop_quotes: "CHR 0x22 \<notin> set s \<Longrightarrow> s \<noteq> [] \<Longrightarrow> dropWhile (\<lambda>c. c = CHR 0x22) (s @ t) = s @ t"
  by (cases s) auto

lemma quoted_plain: "list_all plain s \<Longrightarrow> trim_set [CHR 0x22] (trim_space (go_quote pr s)) = s"
proof -
  assume s: "list_all plain s"
  have "CHR 0x22 \<notin> set s" using s by (auto simp: list_all_iff plain_def)
  then show ?thesis
    using drop_quotes [of s "[CHR 0x22]"] drop_quotes [of "rev s" "[]"]
    by (subst go_quote_untrimmed, subst go_quote_plain [OF s], cases "s = []") (simp_all add: trim_set_def)
qed


text \<open>The characters of a token.\<close>

lemma b64_val_plain: "b64_val c = Some n \<Longrightarrow> plain c"
  by (auto simp: b64_val_def plain_byte Let_def split: if_splits)

lemma sextets_plain:
  "sextets s = Some ns \<Longrightarrow> chr 10 \<notin> set s \<Longrightarrow> chr 13 \<notin> set s \<Longrightarrow> list_all plain s"
  by (induction s arbitrary: ns) (auto simp: sextets.simps dest: b64_val_plain split: option.splits)

lemma token_plain:
  assumes ok: "parse_token tok = Ok info" and tr: "trim_space tok = tok"
    and lf: "chr 10 \<notin> set tok" "chr 13 \<notin> set tok"
  shows "list_all plain tok"
proof -
  obtain version blob sec secret where parts: "split_on (CHR ''.'') tok = [version, blob, sec]"
    "b64_decode sec = Some secret"
    and v: "version = token_version_current \<and> parse_v2_server blob = Ok info \<or>
      version = token_version_legacy \<and> parse_v1_server blob = Ok info"
    using parse_token_cases [OF ok] unfolding tr by metis
  have sub: "set version \<subseteq> set tok" "set blob \<subseteq> set tok" "set sec \<subseteq> set tok"
    using split_on_parts [of _ "CHR ''.''" tok] parts by auto
  have "b64_decode blob \<noteq> None"
    using v by (auto simp: parse_v1_server_def parse_v2_server_def split: option.splits)
  with parts(2) obtain xs ys where "sextets sec = Some xs" "sextets blob = Some ys"
    unfolding b64_decode_def by (metis bind.bind_lzero not_None_eq)
  with sub lf have "list_all plain sec" "list_all plain blob" by (blast intro: sextets_plain)+
  moreover have "list_all plain version"
    using v by (auto simp: token_version_current_def token_version_legacy_def plain_byte)
  moreover have "tok = version @ CHR ''.'' # blob @ CHR ''.'' # sec"
    using join_split [of "CHR ''.''" tok] parts by simp
  ultimately show ?thesis by (simp add: plain_byte)
qed

lemma parse_token_names: "parse_token tok = Ok info \<Longrightarrow> si_addr info \<noteq> [] \<and> si_domain info \<noteq> []"
  by (erule parse_token_cases) (auto dest!: parse_v1_sound(1) parse_v2_sound(1) simp: validate_server_info_def split: if_splits)

text \<open>Reading the lines that were written.\<close>

lemma config_line_entry:
  assumes "key \<noteq> []" "list_all visible key" "CHR ''='' \<notin> set key" "hd key \<noteq> CHR 0x23"
  shows "config_line (config_entry pr key val) c =
    (let v = trim_set [CHR 0x22] (trim_space (go_quote pr val)) in
     if key = ''SERVER_ADDR'' then c\<lparr>cf_server_addr := v\<rparr>
     else if key = ''SERVER_PORT'' then (case atoi v of None \<Rightarrow> c | Some n \<Rightarrow> c\<lparr>cf_server_port := n\<rparr>)
     else if key = ''DOMAIN'' then c\<lparr>cf_domain := v\<rparr>
     else if key = ''TOKEN'' then c\<lparr>cf_token := v\<rparr>
     else if key = ''TOKEN_VERSION'' then c\<lparr>cf_token_version := v\<rparr>
     else if key = ''TLS_SERVER_NAME'' then c\<lparr>cf_tls_server_name := v\<rparr>
     else c)"
proof -
  have vis: "visible (hd key)" "visible (last key)" using assms(1,2) by (simp_all add: list_all_iff)
  have "trim_space (config_entry pr key val) = config_entry pr key val"
    using assms(1) vis by (intro trim_space_visible) (simp_all add: config_entry_def go_quote_def visible_def)
  moreover have "cut (CHR ''='') (config_entry pr key val) = Some (key, go_quote pr val)"
    unfolding config_entry_def by (rule cut_append [OF assms(3)])
  moreover have "config_entry pr key val \<noteq> [] \<and> \<not> prefix [CHR 0x23] (config_entry pr key val)"
    using assms(1,4) by (cases key) (simp_all add: config_entry_def)
  moreover have "trim_space key = key" using assms(1) vis by (intro trim_space_visible)
  ultimately show ?thesis unfolding config_line_def Let_def by simp
qed

lemma scan_written:
  assumes "list_all one_line ls" "list_all (\<lambda>l. byte (last l) \<noteq> 13) ls" "list_all (\<lambda>l. length l < limit) ls"
  shows "scan_lines limit False (concat (map (\<lambda>l. l @ [chr 10]) ls)) = (ls, None)"
proof -
  have "raw_lines (concat (map (\<lambda>l. l @ [chr 10]) ls)) = ls"
    using assms(1) by (intro raw_lines_concat) (auto simp: one_line_def list_all_iff)
  moreover have "takeWhile (\<lambda>l. length l < limit) ls = ls"
    using assms(3) by (simp add: takeWhile_eq_all_conv list_all_iff)
  moreover have "map drop_cr ls = ls"
    using assms(2) by (intro map_idI) (auto simp: drop_cr_def list_all_iff)
  ultimately show ?thesis unfolding scan_lines_def Let_def by (simp only: less_irrefl if_False)
qed


lemma config_lines_scan:
  assumes "list_all (\<lambda>l. length l < max_scan_token) (config_lines pr c)"
  shows "scan_lines max_scan_token False (config_body pr c) = (config_lines pr c, None)"
  unfolding config_body_def
proof (rule scan_written [OF _ _ assms])
  show "list_all one_line (config_lines pr c)"
    by (simp add: config_lines_def config_entry_def go_quote_one_line)
  show "list_all (\<lambda>l. byte (last l) \<noteq> 13) (config_lines pr c)"
    by (simp add: config_lines_def config_entry_def go_quote_def)
qed

lemma config_comment: "config_line (CHR 0x23 # s) c = c"
proof -
  have st: "strip space_seqs (CHR 0x23 # s) = CHR 0x23 # s" by (rule strip_visible) (simp_all add: visible_def)
  have "trim_space (CHR 0x23 # s) = [] \<or> prefix [CHR 0x23] (trim_space (CHR 0x23 # s))"
    using trim_space_prefix [of "CHR 0x23 # s"] unfolding st
    by (cases "trim_space (CHR 0x23 # s)") (simp_all)
  then show ?thesis by (auto simp: config_line_def Let_def)
qed

definition written_fields :: "(rune \<Rightarrow> bool) \<Rightarrow> config \<Rightarrow> config" where
  "written_fields pr c = fold config_line (config_lines pr c) empty_config"

lemma written_fields:
  assumes "list_all plain (cf_token c)"
  shows "cf_token (written_fields pr c) = cf_token c"
    "cf_server_addr (written_fields pr c) = [] \<longleftrightarrow> cf_server_addr c = []"
    "cf_domain (written_fields pr c) = [] \<longleftrightarrow> cf_domain c = []"
  unfolding written_fields_def config_lines_def
  by (simp_all add: config_comment config_line_entry visible_def Let_def go_quote_trim quoted_plain [OF assms] empty_config_def split: option.split)

lemma read_written:
  assumes tok: "parse_token (cf_token c) = Ok info" "trim_space (cf_token c) = cf_token c"
      "chr 10 \<notin> set (cf_token c)" "chr 13 \<notin> set (cf_token c)"
    and c: "c = login_config (cf_token c) info"
    and len: "list_all (\<lambda>l. length l < max_scan_token) (config_lines pr c)"
  shows "read_config False (config_body pr c) = Ok c"
proof -
  note w = written_fields [OF token_plain [OF tok], of pr]
  have f: "fold config_line (config_lines pr c) empty_config = written_fields pr c"
    by (simp add: written_fields_def)
  have "cf_server_addr c \<noteq> []" "cf_domain c \<noteq> []" "cf_token c \<noteq> []"
    using parse_token_names [OF tok(1)] c tok(1)
    by (metis config.select_convs login_config_def, metis config.select_convs login_config_def,
        auto simp: parse_token_def)
  moreover have "relay_of_token (written_fields pr c) info = c"
    using w(1) by (intro config.equality; subst c) (simp_all add: relay_of_token_def login_config_def)
  ultimately show ?thesis
    using tok(1) w by (simp add: read_config_def config_lines_scan [OF len] f)
qed


section \<open>Saving is all or nothing\<close>

text \<open>
  The files of a machine satisfy \<open>W\<close> now and did at every moment; the triples of the system calls
  for such a watched condition.
\<close>

definition watched :: "(files \<Rightarrow> bool) \<Rightarrow> files \<Rightarrow> machine \<Rightarrow> bool" where
  "watched W K m \<longleftrightarrow> m_files m = K \<and> W K \<and> list_all W (m_past m)"

lemma watched_fault: "triple (watched W K) next_fault (\<lambda>_. watched W K)"
  by (rule tripleI) (simp add: next_fault_def watched_def)

lemma watched_now: "triple (watched W K) now_ns (\<lambda>_. watched W K)"
  by (rule tripleI) (simp add: now_ns_def watched_def)

lemma watched_look: "triple (watched W K) (look f) (\<lambda>r m. r = f K \<and> watched W K m)"
  by (rule tripleI) (simp add: look_def watched_def)

lemma watched_change: "W (f K) \<Longrightarrow> triple (watched W K) (change f) (\<lambda>_. watched W (f K))"
  by (rule tripleI) (simp add: change_def set_files_def watched_def)

lemma watched_sys_call:
  assumes "triple (watched W K) p (either (watched W K) S)"
  shows "triple (watched W K) (sys_call p) (either (watched W K) S)"
  unfolding sys_call_def
  by (rule triple_bind [OF watched_fault]) (auto intro: assms triple_return split: option.split)

lemma watched_nothing: "triple (watched W K) touch_nothing (either (watched W K) (\<lambda>_. watched W K))"
  unfolding touch_nothing_def by (auto intro!: watched_sys_call triple_return)

lemma watched_trivial: "\<not> W K \<Longrightarrow> triple (watched W K) p B"
  by (simp add: triple_def watched_def)

text \<open>A condition that leaves a path free to change.\<close>

definition leaves_free :: "string \<Rightarrow> (files \<Rightarrow> bool) \<Rightarrow> bool" where
  "leaves_free q W \<longleftrightarrow> (\<forall>K v. W K \<longrightarrow> W (K(q := v)))"

lemma watched_set:
  assumes "leaves_free q W" "\<And>K. f K = K(q := g K)"
  shows "triple (watched W K) (change f) (\<lambda>_. watched W (K(q := g K)))"
proof (cases "W K")
  case True
  with assms show ?thesis using watched_change [of W f K] by (simp add: leaves_free_def)
qed (rule watched_trivial)

lemma watched_create:
  assumes "K q = None \<Longrightarrow> leaves_free q W"
  shows "triple (watched W K) (create_excl q mode)
    (either (watched W K) (\<lambda>_ m. \<exists>t. K q = None \<and> watched W (K(q \<mapsto> \<lparr>f_data = [], f_mode = mode, f_mtime = t\<rparr>)) m))"
  unfolding create_excl_def
  by (rule watched_sys_call, rule triple_bind [OF watched_look], rule triple_pure)
    (auto intro!: triple_return triple_bind [OF watched_now] triple_bind [OF watched_set [OF assms refl]])

lemma watched_append:
  assumes "leaves_free q W" "K q = Some x"
  shows "triple (watched W K) (append_file q data)
    (either (\<lambda>m. \<exists>y. watched W (K(q \<mapsto> y)) m)
       (\<lambda>_ m. \<exists>y. (f_data y = f_data x @ data \<and> f_mode y = f_mode x) \<and> watched W (K(q \<mapsto> y)) m))"
  unfolding append_file_def
proof (rule triple_bind [OF watched_fault], rule triple_bind [OF watched_now],
    rule triple_bind [OF watched_set [OF assms(1) refl]], rule triple_return)
  fix f t m
  assume "watched W (K(q := map_option (\<lambda>x. x\<lparr>f_data := f_data x @
    (case f of None \<Rightarrow> data | Some n \<Rightarrow> take n data), f_mtime := t\<rparr>) (K q))) m"
  with assms(2) show "either (\<lambda>m. \<exists>y. watched W (K(q \<mapsto> y)) m)
       (\<lambda>_ m. \<exists>y. (f_data y = f_data x @ data \<and> f_mode y = f_mode x) \<and> watched W (K(q \<mapsto> y)) m)
       (case f of None \<Rightarrow> Ok () | Some _ \<Rightarrow> Err Sys_Other) m"
    by (cases f) (auto simp del: fun_upd_apply intro: exI [of _ "x\<lparr>f_data := f_data x @ data, f_mtime := t\<rparr>"])
qed

lemma watched_chmod:
  assumes "leaves_free q W" "K q = Some x"
  shows "triple (watched W K) (chmod_file q mode) (either (watched W K) (\<lambda>_. watched W (K(q \<mapsto> x\<lparr>f_mode := mode\<rparr>))))"
  unfolding chmod_file_def
  using watched_set [OF assms(1) refl, of K "\<lambda>fs. map_option (\<lambda>x. x\<lparr>f_mode := mode\<rparr>) (fs q)"] assms(2)
  by (auto intro!: watched_sys_call triple_bind triple_return)

lemma watched_remove:
  assumes "leaves_free q W"
  shows "triple (watched W K) (remove_file q) (\<lambda>_ m. \<exists>v. watched W (K(q := v)) m)"
proof -
  have same: "watched W K m \<Longrightarrow> \<exists>v. watched W (K(q := v)) m" for m
    by (metis fun_upd_triv)
  show ?thesis
    unfolding remove_file_def sys_call_def
    by (rule triple_bind [OF watched_fault])
      (auto intro!: triple_return triple_bind [OF watched_look] triple_pure
         triple_bind [OF watched_set [OF assms refl]] intro: same split: option.split)
qed


lemma watched_try_names:
  assumes "\<And>q. prefix pre q \<Longrightarrow> K q = None \<Longrightarrow> leaves_free q W"
  shows "triple (watched W K) (try_names pre ns)
    (either (watched W K) (\<lambda>q m. prefix pre q \<and> (\<exists>t. K q = None \<and> watched W (K(q \<mapsto> \<lparr>f_data = [], f_mode = 384, f_mtime = t\<rparr>)) m)))"
proof (induction ns)
  case (Cons n ns)
  show ?case
    unfolding try_names.simps
  proof (rule triple_bind [OF watched_create])
    show "K (pre @ n) = None \<Longrightarrow> leaves_free (pre @ n) W" using assms by simp
  next
    fix r :: "sys_error + unit"
    show "triple (either (watched W K)
        (\<lambda>_ m. \<exists>t. K (pre @ n) = None \<and> watched W (K(pre @ n \<mapsto> \<lparr>f_data = [], f_mode = 384, f_mtime = t\<rparr>)) m) r)
      (case r of Inr _ \<Rightarrow> State_Monad.return (Ok (pre @ n))
       | Inl e \<Rightarrow> if e = Sys_Exists then try_names pre ns else State_Monad.return (Err e))
      (either (watched W K) (\<lambda>q m. prefix pre q \<and> (\<exists>t. K q = None \<and> watched W (K(q \<mapsto> \<lparr>f_data = [], f_mode = 384, f_mtime = t\<rparr>)) m)))"
      using Cons.IH by (cases r) (auto intro!: triple_return simp del: fun_upd_apply)
  qed
qed (auto intro: triple_return)

text \<open>What the names of the temporary files in a directory begin with.\<close>

definition temp_prefix :: "string \<Rightarrow> string \<Rightarrow> string" where
  "temp_prefix dir pre = dir @ (if suffix ''/'' dir then [] else ''/'') @ pre"

lemma watched_temp:
  assumes "\<And>q. prefix (temp_prefix dir pre) q \<Longrightarrow> K q = None \<Longrightarrow> leaves_free q W"
  shows "triple (watched W K) (create_temp dir pre)
    (either (watched W K) (\<lambda>q m. prefix (temp_prefix dir pre) q \<and> (\<exists>t. K q = None \<and> watched W (K(q \<mapsto> \<lparr>f_data = [], f_mode = 384, f_mtime = t\<rparr>)) m)))"
proof -
  have "triple (watched W K) next_names (\<lambda>_. watched W K)"
    by (rule tripleI) (simp add: next_names_def watched_def)
  then show ?thesis
    unfolding create_temp_def temp_prefix_def [symmetric]
    by (rule triple_bind) (rule watched_try_names [OF assms])
qed

lemma watched_rename:
  assumes "W K \<Longrightarrow> W (K(p \<mapsto> x, q := None))" "q \<noteq> p" "K q = Some x"
  shows "triple (watched W K) (rename_file q p) (either (watched W K) (\<lambda>_. watched W (K(p \<mapsto> x, q := None))))"
proof (cases "W K")
  case True
  then show ?thesis
    unfolding rename_file_def
    using assms watched_change [of W "\<lambda>fs. fs(p \<mapsto> x, q := None)" K]
    by (auto intro!: watched_sys_call triple_bind [OF watched_look] triple_pure triple_bind triple_return)
qed (rule watched_trivial)

text \<open>The profile at \<open>p\<close> is the old one or the whole new one.\<close>

definition whole_file :: "string \<Rightarrow> disk_file option \<Rightarrow> bool" where
  "whole_file body f \<longleftrightarrow> (\<exists>x. f = Some x \<and> f_data x = body \<and> f_mode x = 384)"

text \<open>
  Beside that, every file but those with temporary names that were free is as it was: a temporary
  file is created only where there was none.
\<close>

definition old_or_whole :: "string \<Rightarrow> string \<Rightarrow> string \<Rightarrow> files \<Rightarrow> files \<Rightarrow> bool" where
  "old_or_whole pre p body K0 fs \<longleftrightarrow>
     (fs p = K0 p \<or> whole_file body (fs p)) \<and> (\<forall>q. q \<noteq> p \<longrightarrow> fs q = K0 q \<or> K0 q = None \<and> prefix pre q)"

lemma temp_left_free:
  "\<not> prefix pre p \<Longrightarrow> prefix pre q \<Longrightarrow> K0 q = None \<Longrightarrow> leaves_free q (old_or_whole pre p body K0)"
  by (auto simp: leaves_free_def old_or_whole_def)

definition profile_saved :: "string \<Rightarrow> string \<Rightarrow> string \<Rightarrow> files \<Rightarrow> machine \<Rightarrow> bool" where
  "profile_saved pre p body K m \<longleftrightarrow>
     (\<exists>x. f_data x = body \<and> f_mode x = 384 \<and> watched (old_or_whole pre p body K) (K(p \<mapsto> x)) m)"

lemma watched_sync:
  "triple (watched W K) (sync_config_dir goos) (\<lambda>_. watched W K)"
  unfolding sync_config_dir_def
  by (auto intro!: triple_return triple_or_fail [OF watched_nothing])

definition filled :: "string \<Rightarrow> string \<Rightarrow> string \<Rightarrow> files \<Rightarrow> string \<Rightarrow> config_error option \<times> bool \<Rightarrow> machine \<Rightarrow> bool" where
  "filled pre p body K q r m \<longleftrightarrow>
     (if snd r then profile_saved pre p body K m
      else fst r \<noteq> None \<and> (\<exists>v. watched (old_or_whole pre p body K) (K(q := v)) m))"

lemma watched_fill:
  assumes q: "\<not> prefix pre p" "prefix pre q" "K q = None" and K': "K' = K(q \<mapsto> \<lparr>f_data = [], f_mode = 384, f_mtime = t\<rparr>)"
  shows "triple (watched (old_or_whole pre p body K) K') (fill_config goos q p body) (filled pre p body K q)"
proof -
  let ?W = "old_or_whole pre p body K"
  have qp: "q \<noteq> p" using q by auto
  note o = temp_left_free [of pre p q K body, OF q]
  have bad: "watched ?W (K(q := v)) m \<Longrightarrow> filled pre p body K q (Some Config_Io, False) m" for v m
    by (auto simp: filled_def)
  have saved: "triple (watched ?W (K(p \<mapsto> x)))
      (do { e \<leftarrow> sync_config_dir goos; State_Monad.return (e, True) }) (filled pre p body K q)"
    if "f_data x = body" "f_mode x = 384" for x
    by (rule triple_bind [OF watched_sync], rule triple_return) (auto simp: filled_def profile_saved_def that simp del: fun_upd_apply intro!: exI [of _ x])
  have ren: "triple (watched ?W (K(q \<mapsto> x))) (rename_file q p) (either (watched ?W (K(q \<mapsto> x))) (\<lambda>_. watched ?W (K(p \<mapsto> x))))"
    if "f_data x = body" "f_mode x = 384" for x
  proof -
    have "K(q \<mapsto> x, p \<mapsto> x, q := None) = K(p \<mapsto> x)" using q qp by auto
    moreover have "?W (K(p \<mapsto> x))" using that by (simp add: old_or_whole_def whole_file_def)
    ultimately show ?thesis using watched_rename [of ?W "K(q \<mapsto> x)" p x q] qp by simp
  qed
  show ?thesis
    unfolding fill_config_def Let_def K'
    apply (rule triple_or_fail [OF watched_chmod [OF o]], simp, erule bad)
    apply (simp, rule triple_or_fail [OF watched_append [OF o]], simp)
     apply (auto intro: bad)[1]
    apply (simp, rule triple_ex, (rule triple_pure)+)
    apply (rule triple_or_fail [OF watched_nothing], erule bad)
    apply (rule triple_or_fail [OF watched_nothing], erule bad)
    apply (rule triple_or_fail [OF ren], simp, simp, erule bad)
    apply (rule saved)
    apply simp_all
    done
qed


lemma watched_replace:
  assumes pre: "pre = temp_prefix d ''.config-''" "\<not> prefix pre p"
  shows "triple (watched (old_or_whole pre p body K) K) (replace_config goos d p body)
    (\<lambda>r m. if r = None then profile_saved pre p body K m
           else (\<exists>K'. watched (old_or_whole pre p body K) K' m))"
    (is "triple _ _ ?B")
proof -
  let ?W = "old_or_whole pre p body K"
  have clean: "triple (filled pre p body K q r)
      (do { _ \<leftarrow> touch_nothing; if snd r then State_Monad.return (Ok ()) else remove_file q })
      (\<lambda>_ m. ?B (fst r) m)"
    if q: "prefix pre q" "K q = None" for q r
  proof (cases "snd r")
    case True
    have "triple (filled pre p body K q r) touch_nothing (\<lambda>_. profile_saved pre p body K)"
      unfolding filled_def profile_saved_def using True
      by (auto intro!: triple_ex triple_pure triple_post [OF watched_nothing] simp: either_def split: sum.splits)
    then show ?thesis
      using True by (auto intro!: triple_bind triple_return simp: profile_saved_def)
  next
    case False
    then show ?thesis
      unfolding filled_def
      by (auto intro!: triple_pure triple_ex triple_bind [OF triple_ignore [OF watched_nothing]]
          triple_post [OF watched_remove [OF temp_left_free [of pre p q K body, OF pre(2) q]]] simp del: fun_upd_apply)
  qed
  show ?thesis
    unfolding replace_config_def
    apply (rule triple_or_fail [OF watched_temp])
      apply (rule temp_left_free [OF pre(2)], simp add: pre(1), assumption)
     apply auto[1]
    apply (unfold pre(1) [symmetric])
    apply (rule triple_pure, rule triple_ex, rule triple_pure)
    apply (rule triple_bind [OF triple_finally [OF watched_fill [OF pre(2)] clean]])
         apply assumption
        apply assumption
       apply (rule refl)
      apply assumption
     apply assumption
    apply (rule triple_return)
    apply assumption
    done
qed


text \<open>Cleaning a path never makes it longer, so a temporary name is longer than the profile's.\<close>

definition weight :: "string list \<Rightarrow> nat" where
  "weight cs = sum_list (map (\<lambda>c. length c + 1) cs)"

lemma weight_simps [simp]:
  "weight [] = 0" "weight (c # cs) = length c + 1 + weight cs" "weight (xs @ ys) = weight xs + weight ys"
  "weight (rev xs) = weight xs"
  by (simp_all add: weight_def rev_map [symmetric])

lemma join_weight: "length (join_with ''/'' cs) + (if cs = [] then 0 else 1) = weight cs"
  by (induction "''/''" cs rule: join_with.induct) auto

lemma split_weight: "weight (split_on (CHR ''/'') p) = length p + 1"
  using join_weight [of "split_on (CHR ''/'') p"] join_split [of "CHR ''/''" p] by simp

lemma clean_weight: "weight (clean_components rooted acc cs) \<le> weight acc + weight cs"
proof (induction rooted acc cs rule: clean_components.induct)
  case (2 rooted acc c cs)
  show ?case
  proof (cases "c = [] \<or> c = ''.''")
    case False
    show ?thesis
    proof (cases "c = ''..''")
      case True
      with 2 show ?thesis by (cases acc) (auto split: if_splits)
    next
      case False
      with 2 \<open>\<not> (c = [] \<or> c = ''.'')\<close> show ?thesis by simp
    qed
  qed (use 2(1) in auto)
qed simp

lemma clean_path_length: "p \<noteq> [] \<Longrightarrow> length (clean_path p) \<le> length p"
proof -
  assume p: "p \<noteq> []"
  show ?thesis
  proof (cases "prefix ''/'' p")
    case True
    then obtain q where q: "p = CHR ''/'' # q" by (auto simp: prefix_def)
    let ?cs = "clean_components True [] (split_on (CHR ''/'') q)"
    have "weight ?cs \<le> length q + 1" using clean_weight [of True "[]" "split_on (CHR ''/'') q"] split_weight [of q] by simp
    moreover have "clean_path p = ''/'' @ join_with ''/'' ?cs" using True by (simp add: clean_path_def q)
    ultimately show ?thesis using join_weight [of ?cs] q by (auto split: if_splits)
  next
    case False
    let ?cs = "clean_components False [] (split_on (CHR ''/'') p)"
    have "weight ?cs \<le> length p + 1" using clean_weight [of False "[]" "split_on (CHR ''/'') p"] split_weight [of p] by simp
    moreover have "length (clean_path p) = (if join_with ''/'' ?cs = [] then 1 else length (join_with ''/'' ?cs))"
      using False by (simp add: clean_path_def Let_def)
    ultimately show ?thesis using join_weight [of ?cs] p by (cases p) (auto split: if_splits)
  qed
qed

lemma temp_beside_config:
  "\<not> prefix (temp_prefix d ''.config-'') (path_join [d, ''config''])"
proof -
  have "length (path_join [d, ''config'']) \<le> length d + 7"
  proof (cases "d = []")
    case True
    then show ?thesis using clean_path_length [of "''config''"] by (simp add: path_join_def)
  next
    case False
    then show ?thesis using clean_path_length [of "d @ ''/'' @ ''config''"] by (simp add: path_join_def)
  qed
  then show ?thesis by (auto simp: temp_prefix_def dest: prefix_length_le)
qed

lemma triple_save:
  assumes "\<And>e m. watched W K m \<Longrightarrow> B (Some e) m"
    and "triple (watched W K) (replace_config goos d (path_join [d, ''config'']) (config_body pr c)) B"
  shows "triple (watched W K) (save_config pr goos (Ok d) di fi c) B"
  unfolding save_config_def using assms
  by (auto intro!: triple_or_fail [OF watched_nothing] triple_return simp: Let_def split: lookup.split)

lemma watched_save:
  assumes "pre = temp_prefix d ''.config-''" "path = path_join [d, ''config'']"
  shows "triple (watched (old_or_whole pre path (config_body pr c) K) K) (save_config pr goos (Ok d) di fi c)
    (\<lambda>r m. if r = None then profile_saved pre path (config_body pr c) K m
           else (\<exists>K'. watched (old_or_whole pre path (config_body pr c) K) K' m))"
  unfolding assms by (rule triple_save [OF _ watched_replace [OF refl temp_beside_config]]) auto

definition login_body :: "client \<Rightarrow> string \<Rightarrow> server_info \<Rightarrow> string" where
  "login_body cl tok info = config_body (cl_printable cl) (login_config tok info)"

lemma config_path_Ok: "config_path dir = Ok path \<Longrightarrow> \<exists>d. dir = Ok d \<and> path = path_join [d, ''config'']"
  by (auto simp: config_path_def split: sum.splits)

lemma login_run:
  assumes "read_login_token args (cl_stdin cl) = Ok tok" "parse_token tok = Ok info"
    and "config_path (client_dir cl (m_env m)) = Ok path" "m_past m = []"
    and "run_state (cmd_login cl args) m = (r, m')"
  shows "\<exists>d. client_dir cl (m_env m) = Ok d \<and>
    (if r = None then profile_saved (temp_prefix d ''.config-'') path (login_body cl tok info) (m_files m) m'
     else \<exists>K. watched (old_or_whole (temp_prefix d ''.config-'') path (login_body cl tok info) (m_files m)) K m')"
proof -
  obtain d where d: "client_dir cl (m_env m) = Ok d" "path = path_join [d, ''config'']"
    using config_path_Ok [OF assms(3)] by blast
  let ?pre = "temp_prefix d ''.config-''"
  let ?W = "old_or_whole ?pre path (login_body cl tok info) (m_files m)"
  let ?save = "save_config (cl_printable cl) (cl_goos cl) (Ok d) (cl_dir_info cl) (cl_file_info cl) (login_config tok info)"
  obtain e where e: "run_state ?save m = (e, m')" "r = map_option Config_Failed e"
    using assms(1,2,5) d by (auto simp: cmd_login_def get_env_def split: prod.splits)
  have "watched ?W (m_files m) m" using assms(4) by (simp add: watched_def old_or_whole_def)
  with watched_save [OF refl d(2), of "cl_printable cl" "login_config tok info" "m_files m"] e(1)
  have "if e = None then profile_saved ?pre path (login_body cl tok info) (m_files m) m' else (\<exists>K. watched ?W K m')"
    unfolding triple_def login_body_def by (metis fst_conv snd_conv)
  then show ?thesis using d(1) e(2) by simp
qed

text \<open>
  C16: Logging in replaces the profile as a whole or not at all, whatever fails on the way and
  wherever it is interrupted. In every state the files go through, the profile is the old one
  or the new one, complete and accessible to its owner only, and every other file is as it was
  before, but for the temporary files of this login: names \<open>.config-\<close> with a suffix, in the
  profile's directory, which no file had. A login that reports success has put the new profile
  in place and leaves every other file, and no temporary one.
\<close>

theorem login_is_all_or_nothing:
  assumes "read_login_token args (cl_stdin cl) = Ok tok" "parse_token tok = Ok info"
    and "client_dir cl (m_env m) = Ok d" "config_path (Ok d) = Ok path" "m_past m = []"
    and "run_state (cmd_login cl args) m = (r, m')"
  shows "list_all (\<lambda>fs.
        (fs path = m_files m path \<or> whole_file (login_body cl tok info) (fs path)) \<and>
        (\<forall>q. q \<noteq> path \<longrightarrow> fs q = m_files m q \<or>
           m_files m q = None \<and> prefix (d @ (if suffix ''/'' d then [] else ''/'') @ ''.config-'') q))
      (m_files m' # m_past m')
    \<and> (r = None \<longrightarrow> (\<exists>f. whole_file (login_body cl tok info) (Some f) \<and> m_files m' = (m_files m)(path \<mapsto> f)))"
proof -
  have "config_path (client_dir cl (m_env m)) = Ok path" using assms(3,4) by simp
  from login_run [OF assms(1,2) this assms(5,6)] assms(3) show ?thesis
    unfolding temp_prefix_def [symmetric] old_or_whole_def [symmetric]
    by (cases "r = None") (auto simp: profile_saved_def watched_def whole_file_def simp del: fun_upd_apply)
qed

lemma read_login_trimmed: "read_login_token args inp = Ok tok \<Longrightarrow> trim_space tok = tok"
  by (auto simp: read_login_token_def nonblank_def
      split: list.splits stdin.splits option.splits prod.splits sum.splits if_splits)

lemma login_reads_back:
  assumes "read_login_token args (cl_stdin cl) = Ok tok" "parse_token tok = Ok info"
    and "chr 10 \<notin> set tok" "chr 13 \<notin> set tok"
    and "list_all (\<lambda>l. length l < max_scan_token) (config_lines (cl_printable cl) (login_config tok info))"
  shows "read_config False (login_body cl tok info) = Ok (login_config tok info)"
  using read_written [of "login_config tok info" info "cl_printable cl"] assms read_login_trimmed [OF assms(1)]
  by (simp add: login_body_def) (simp add: login_config_def)

text \<open>
  A later command finds the file \<open>f\<close> as its profile, in the directory as \<open>Save\<close> leaves it, and nobody
  replaces the file while it is opened.
\<close>

definition finds_profile :: "client \<Rightarrow> disk_file \<Rightarrow> bool" where
  "finds_profile cl f \<longleftrightarrow>
     (\<exists>dir n. cl_dir_info cl = Found dir \<and> fi_kind dir = Directory \<and> fi_perm dir = 448 \<and>
        (let i = \<lparr>fi_kind = Regular_File, fi_perm = f_mode f, fi_inode = n\<rparr> in
         cl_file_info cl = Found i \<and> cl_file cl = Some \<lparr>op_info = Some i, op_body = f_data f, op_broken = False\<rparr>))"

text \<open>
  C38: What a login that reported success wrote is what later commands load: exactly the relay
  and the token it was given, whatever the relay's names are, provided the token has no line
  break inside it and no line reaches the scanner's limit.
\<close>

theorem login_profile_reads_back:
  assumes "read_login_token args (cl_stdin cl) = Ok tok" "parse_token tok = Ok info"
    and "config_path (client_dir cl (m_env m)) = Ok path" "m_past m = []"
    and "run_state (cmd_login cl args) m = (None, m')"
    and "chr 10 \<notin> set tok" "chr 13 \<notin> set tok"
    and "list_all (\<lambda>l. length l < max_scan_token) (config_lines (cl_printable cl) (login_config tok info))"
    and "client_dir cl' env = client_dir cl (m_env m)" "m_files m' path = Some f" "finds_profile cl' f"
  shows "client_load cl' env = Ok (login_config tok info)"
proof -
  have "f_data f = login_body cl tok info" "f_mode f = 384"
    using login_run [OF assms(1-5)] assms(10) by (auto simp: profile_saved_def watched_def)
  with login_reads_back [OF assms(1,2,6-8)] assms(3,9,11) show ?thesis
    by (auto simp: client_load_def load_config_def check_directory_def check_file_def finds_profile_def Let_def)
qed


section \<open>A login\<close>

definition sample_client :: client where
  "sample_client =
     \<lparr>cl_goos = ''linux'', cl_home = Some ''/home/a'', cl_appdata = None,
      cl_dir_info = Found \<lparr>fi_kind = Directory, fi_perm = 448, fi_inode = 2\<rparr>, cl_file_info = Absent_File,
      cl_file = None, cl_stdin = Piped False [], cl_printable = (\<lambda>_. True), cl_random = (\<lambda>_ _. Some 0),
      cl_updater = sample_updater, cl_policy = None, cl_github = [], cl_cache = None, cl_exe = None,
      cl_pid = 1, cl_stderr_terminal = False\<rparr>"

definition sample_relay_info :: server_info where "sample_relay_info = canonical_info sample_info"

definition login_token :: string where "login_token = sample_token (chr 7)"

lemma login_token_ok:
  "read_login_token [login_token] (cl_stdin cl) = Ok login_token" "parse_token login_token = Ok sample_relay_info"
proof -
  have "trim_space login_token = login_token" unfolding login_token_def by (rule new_token_trim [OF sample_token_minted])
  moreover have "login_token \<noteq> []" by (simp add: login_token_def sample_token_def token_version_current_def)
  ultimately show "read_login_token [login_token] (cl_stdin cl) = Ok login_token"
    by (simp add: read_login_token_def nonblank_def)
  show "parse_token login_token = Ok sample_relay_info"
    unfolding login_token_def sample_relay_info_def
    by (rule parse_token_new [OF sample_token_minted _ sample_info_utf8]) simp
qed

lemma sample_config_path: "config_path (client_dir sample_client [''HOME=/home/a'']) = Ok ''/home/a/.config/ktunnel/config''"
  by code_simp

lemma login_token_visible: "list_all visible login_token"
  by (auto simp: login_token_def sample_token_def token_version_current_def visible_def list_all_iff dest!: b64_encode_chars)

lemma login_token_chars: "chr 10 \<notin> set login_token" "chr 13 \<notin> set login_token"
proof -
  have "\<not> visible (chr 10)" "\<not> visible (chr 13)" by (simp_all add: visible_def)
  then show "chr 10 \<notin> set login_token" "chr 13 \<notin> set login_token"
    using login_token_visible by (metis list_all_iff)+
qed

lemma marshal_sample_length: "length (marshal_v2 (wire_of sample_info)) = 76"
  by (simp add: marshal_v2_def wire_of_def sample_info_def tls_name_of_def trim_space_visible visible_def json_quote_def quote_rune_def
     next_rune_def encode_ascii itoa_def nat_digits.simps)


lemma login_token_plain: "list_all plain login_token"
  by (rule token_plain [OF login_token_ok(2) read_login_trimmed [OF login_token_ok(1)] login_token_chars])

lemma login_token_length: "length login_token = 150"
  using marshal_sample_length
  by (simp add: login_token_def sample_token_def b64_encode_length token_version_current_def)

lemma login_lines_short:
  "list_all (\<lambda>l. length l < max_scan_token)
     (config_lines (cl_printable sample_client) (login_config login_token sample_relay_info))"
proof -
  have "length (go_quote pr login_token) = 152" for pr by (simp add: go_quote_plain [OF login_token_plain] login_token_length)
  then show ?thesis
    by (simp add: config_lines_def config_entry_def login_config_def sample_relay_info_def sample_info_canonical
        go_quote_plain plain_byte token_version_current_def itoa_def nat_digits.simps max_scan_token_def)
qed

theorem login_is_all_or_nothing_witness:
  "\<exists>r m'. run_state (cmd_login sample_client [login_token]) (sample_machine\<lparr>m_env := [''HOME=/home/a'']\<rparr>) = (r, m') \<and>
     list_all (\<lambda>fs.
         (fs ''/home/a/.config/ktunnel/config'' = None \<or>
          whole_file (login_body sample_client login_token sample_relay_info) (fs ''/home/a/.config/ktunnel/config'')) \<and>
         fs ''/b/k'' = m_files sample_machine ''/b/k'')
       (m_files m' # m_past m')"
proof -
  let ?m = "sample_machine\<lparr>m_env := [''HOME=/home/a'']\<rparr>"
  obtain r m' where run: "run_state (cmd_login sample_client [login_token]) ?m = (r, m')"
    by (cases "run_state (cmd_login sample_client [login_token]) ?m")
  have "m_files ?m ''/home/a/.config/ktunnel/config'' = None" "m_past ?m = []"
    "client_dir sample_client (m_env ?m) = Ok ''/home/a/.config/ktunnel''" "m_files ?m ''/b/k'' = m_files sample_machine ''/b/k''"
    "m_files ?m ''/b/k'' \<noteq> None" "''/b/k'' \<noteq> ''/home/a/.config/ktunnel/config''"
    "config_path (Ok ''/home/a/.config/ktunnel'') = Ok ''/home/a/.config/ktunnel/config''"
    by (simp_all add: sample_machine_def) code_simp+
  note m = this
  from login_is_all_or_nothing [OF login_token_ok(1) login_token_ok(2) m(3,7,2) run] m(1,4,5,6) run
  show ?thesis
    by (intro exI [of _ r] exI [of _ m'] conjI) (assumption, elim conjE list.pred_mono_strong, metis)
qed

lemma profile_login_run:
  "fst (run_state (cmd_login sample_client [login_token]) (sample_machine\<lparr>m_env := [''HOME=/home/a'']\<rparr>)) = None"
proof -
  define f where "f = m_files sample_machine"
  have f: "f ''/home/a/.config/ktunnel/.config-1'' = None" by (simp add: f_def sample_machine_def)
  have t: "take 10000 [''1'', ''2''] = [''1'', ''2'']" "\<not> suffix ''/'' ''/home/a/.config/ktunnel''" by (simp, code_simp)
  define net where "net = m_net sample_machine"
  define ex where "ex = m_exec sample_machine"
  have m: "sample_machine\<lparr>m_env := [''HOME=/home/a'']\<rparr> = \<lparr>m_files = f, m_past = [], m_fault = (\<lambda>_. None), m_clk = (\<lambda>_. 0),
      m_names = (\<lambda>i. [''1'', ''2'']), m_net = net, m_sent = [], m_exec = ex, m_env = [''HOME=/home/a'']\<rparr>"
    by (simp add: sample_machine_def f_def net_def ex_def)
  have dir: "client_dir sample_client [''HOME=/home/a''] = Ok ''/home/a/.config/ktunnel''"
    "path_join [''/home/a/.config/ktunnel'', ''config''] = ''/home/a/.config/ktunnel/config''" by code_simp+
  have c: "cl_dir_info sample_client = Found \<lparr>fi_kind = Directory, fi_perm = 448, fi_inode = 2\<rparr>"
    "cl_file_info sample_client = Absent_File" "cl_goos sample_client = ''linux''"
    by (simp_all add: sample_client_def)
  obtain body where body: "config_body (cl_printable sample_client) (login_config login_token sample_relay_info) = body" by blast
  show ?thesis
    unfolding m
    by (simp add: cmd_login_def login_token_ok get_env_def dir c body f t save_config_def replace_config_def fill_config_def
        sync_config_dir_def machine_defs shift_const Let_def)
qed

theorem login_profile_reads_back_witness:
  "\<exists>m' f cl'. run_state (cmd_login sample_client [login_token]) (sample_machine\<lparr>m_env := [''HOME=/home/a'']\<rparr>) = (None, m') \<and>
     m_files m' ''/home/a/.config/ktunnel/config'' = Some f \<and> finds_profile cl' f \<and>
     client_load cl' [''HOME=/home/a''] = Ok (login_config login_token sample_relay_info)"
proof -
  let ?m = "sample_machine\<lparr>m_env := [''HOME=/home/a'']\<rparr>" and ?p = "''/home/a/.config/ktunnel/config''"
  obtain m' where run: "run_state (cmd_login sample_client [login_token]) ?m = (None, m')"
    using profile_login_run by (metis prod.collapse)
  have m: "m_env ?m = [''HOME=/home/a'']" "m_past ?m = []" "config_path (client_dir sample_client (m_env ?m)) = Ok ?p"
    by (simp_all add: sample_machine_def sample_config_path)
  obtain f where f: "m_files m' ?p = Some f"
    using login_run [OF login_token_ok m(3,2) run] by (auto simp: profile_saved_def watched_def)
  let ?i = "\<lparr>fi_kind = Regular_File, fi_perm = f_mode f, fi_inode = 7\<rparr>"
  let ?cl = "sample_client\<lparr>cl_file_info := Found ?i, cl_file := Some \<lparr>op_info = Some ?i, op_body = f_data f, op_broken = False\<rparr>\<rparr>"
  have there: "finds_profile ?cl f" by (simp add: finds_profile_def sample_client_def)
  have "client_dir ?cl [''HOME=/home/a''] = client_dir sample_client (m_env ?m)" using m(1) by (simp add: client_dir_def)
  from login_profile_reads_back [OF login_token_ok m(3,2) run login_token_chars login_lines_short this f there]
  show ?thesis using run f there by blast
qed

end
