(* ===== verification/Cli_Laws.thy ===== *)
theory Cli_Laws
  imports Cli_Tunnel Cli_Profile
begin

text \<open>
  Laws of the client's tunnels: where a tunnel connects, whatever the profile's file says; what a
  command line means, in whatever order it is written; the names that are made up; and how the
  watching loop ends.
\<close>

section \<open>A tunnel goes to the relay of its token\<close>

lemma read_config_relay:
  assumes "read_config broken body = Ok cfg"
  shows "\<exists>info. parse_token (cf_token cfg) = Ok info \<and> cfg = login_config (cf_token cfg) info"
  using assms
  by (auto simp: read_config_def relay_of_token_def login_config_def Let_def
      split: prod.splits option.splits if_splits sum.splits)

lemma load_config_read:
  assumes "load_config goos dir di fi file = Ok cfg"
  shows "\<exists>f. file = Some f \<and> read_config (op_broken f) (op_body f) = Ok cfg"
  using assms by (auto simp: load_config_def split: sum.splits option.splits if_splits)

lemma load_config_checked:
  assumes "load_config goos dir di fi file = Ok cfg" "goos \<noteq> ''windows''"
  shows "\<exists>d i. di = Found d \<and> fi = Found i \<and> fi_kind d = Directory \<and> fi_perm d = 448 \<and>
    fi_kind i = Regular_File \<and> fi_perm i = 384"
  using assms
  by (auto simp: load_config_def check_directory_def check_file_def split: sum.splits option.splits if_splits lookup.splits)

lemma plan_profile:
  assumes "plan_tunnel rnd profile kind args = Ok (cfg, t, verbose)"
  shows "profile = Ok cfg" "cf_token_version cfg = token_version_current"
  using assms
  by (auto simp: plan_tunnel_def Let_def split: prod.splits sum.splits list.splits option.splits if_splits)

lemma prepared:
  assumes "run_state (prepare_tunnel rs t cfg verbose) m = (Ok (d, common, proxy), m')"
  shows "common = frp_common_of cfg (path_join [d, ''ca.pem'']) verbose" "frp_proxy_of t = Some proxy"
    "cf_tls_server_name cfg \<noteq> []" "rs_ca_dir rs = Some d"
  using assms
  by (auto simp: prepare_tunnel_def materialize_relay_ca_def start_service_def Let_def
      split: prod.splits sum.splits option.splits if_splits)

text \<open>
  C10: Whatever the profile's file says, a tunnel of the client connects to the address and port in
  the token itself, presents that token, and has frp verify the relay: TLS is on, the trusted
  certificates are the client's own anchors, the name checked is the valid one in the token, and the
  heartbeats that let the relay cut a tunnel off are on. On Unix the profile was a regular file with mode 0600 in a
  directory with mode 0700.
\<close>

theorem tunnel_goes_to_the_tokens_relay:
  assumes "client_load cl env = profile" "plan_tunnel rnd profile kind args = Ok (cfg, t, verbose)"
    and "run_state (prepare_tunnel rs t cfg verbose) m = (Ok (d, common, proxy), m')"
  shows "\<exists>info. parse_token (cf_token cfg) = Ok info \<and> fc_metadatas common = [(''token'', cf_token cfg)]
    \<and> fc_server_addr common = si_addr info \<and> fc_server_port common = si_port info
    \<and> fc_tls_enable common \<and> fc_trusted_ca_file common = path_join [d, ''ca.pem''] \<and> rs_ca_dir rs = Some d
    \<and> fc_server_name common = si_tls_server_name info \<and> valid_tls_name (si_tls_server_name info)
    \<and> 0 < fc_heartbeat_interval common \<and> fc_heartbeat_interval common < fc_heartbeat_timeout common
    \<and> (cl_goos cl = ''windows'' \<or>
       (\<exists>dir i. cl_dir_info cl = Found dir \<and> cl_file_info cl = Found i \<and> fi_kind dir = Directory \<and>
          fi_perm dir = 448 \<and> fi_kind i = Regular_File \<and> fi_perm i = 384))"
proof -
  have load: "client_load cl env = Ok cfg" and ver: "cf_token_version cfg = token_version_current"
    using assms(1) plan_profile [OF assms(2)] by simp_all
  note p = prepared [OF assms(3)]
  obtain f info where info: "parse_token (cf_token cfg) = Ok info" "cfg = login_config (cf_token cfg) info"
    using load_config_read [of _ _ _ _ _ cfg] read_config_relay load unfolding client_load_def by metis
  have cfg: "cf_server_addr cfg = si_addr info" "cf_server_port cfg = si_port info"
    "cf_tls_server_name cfg = si_tls_server_name info" "cf_token_version cfg = si_token_version info"
    by (subst info(2), simp add: login_config_def)+
  have v2: "parse_v2_server blob = Ok info \<or> parse_v1_server blob = Ok info \<Longrightarrow> parse_v2_server blob = Ok info" for blob
    using ver cfg(4) parse_v1_sound(3) [of blob info] versions_differ by argo
  obtain blob where blob: "parse_v2_server blob = Ok info"
    by (rule parse_token_cases [OF info(1)]) (use v2 in blast)
  have "valid_tls_name (si_tls_server_name info)"
    using parse_v2_sound(1,2) [OF blob] by (simp add: validate_server_info_def split: if_splits)
  moreover have "cl_goos cl \<noteq> ''windows'' \<Longrightarrow> \<exists>dir i. cl_dir_info cl = Found dir \<and> cl_file_info cl = Found i \<and>
      fi_kind dir = Directory \<and> fi_perm dir = 448 \<and> fi_kind i = Regular_File \<and> fi_perm i = 384"
    using load_config_checked load unfolding client_load_def by blast
  ultimately show ?thesis
    using info(1) p(1,4) unfolding frp_common_of_def by (intro exI [of _ info]) (auto simp: cfg)
qed

definition sample_random :: "nat \<Rightarrow> nat \<Rightarrow> nat option" where "sample_random i n = (if n = 0 then None else Some (i mod n))"

definition logged_in_client :: client where
  "logged_in_client = sample_client
     \<lparr>cl_file_info := Found \<lparr>fi_kind = Regular_File, fi_perm = 384, fi_inode = 7\<rparr>,
      cl_file := Some \<lparr>op_info = Some \<lparr>fi_kind = Regular_File, fi_perm = 384, fi_inode = 7\<rparr>,
        op_body = login_body sample_client login_token sample_relay_info, op_broken = False\<rparr>\<rparr>"

definition sample_relay :: relay_side where
  "sample_relay =
     \<lparr>rs_complete = (\<lambda>_. True), rs_source = (\<lambda>_. True), rs_service = (\<lambda>_ _. True), rs_life = (\<lambda>_ _ _. Ended None),
      rs_anchors = ''PEM'', rs_anchors_ok = True, rs_ca_dir = Some ''/tmp/ca1'', rs_interrupted = False, rs_checked = True\<rparr>"

lemma logged_in_load:
  "client_load logged_in_client [''HOME=/home/a''] = Ok (login_config login_token sample_relay_info)"
proof -
  have "config_path (client_dir logged_in_client [''HOME=/home/a'']) = Ok ''/home/a/.config/ktunnel/config''"
    using sample_config_path by (simp add: client_dir_def logged_in_client_def)
  moreover have "read_config False (login_body sample_client login_token sample_relay_info) = Ok (login_config login_token sample_relay_info)"
    unfolding login_body_def
    by (rule read_written [of _ sample_relay_info])
      (use login_token_ok read_login_trimmed login_token_chars login_lines_short in \<open>auto simp: login_config_def\<close>)
  moreover have "cl_dir_info logged_in_client = Found \<lparr>fi_kind = Directory, fi_perm = 448, fi_inode = 2\<rparr>"
    by (simp add: logged_in_client_def sample_client_def)
  ultimately show ?thesis
    by (simp add: client_load_def load_config_def check_directory_def check_file_def)
      (simp add: logged_in_client_def)
qed

theorem tunnel_goes_to_the_tokens_relay_witness:
  "\<exists>t d common proxy m'. plan_tunnel sample_random (client_load logged_in_client [''HOME=/home/a'']) ''http'' [''3000''] =
       Ok (login_config login_token sample_relay_info, t, False) \<and>
     run_state (prepare_tunnel sample_relay t (login_config login_token sample_relay_info) False) sample_machine =
       (Ok (d, common, proxy), m') \<and>
     fc_server_addr common = ''relay.example.com'' \<and> fc_server_name common = ''relay.example.com''"
proof -
  let ?cfg = "login_config login_token sample_relay_info"
  have cur: "cf_token_version ?cfg = token_version_current" "cf_tls_server_name ?cfg \<noteq> []"
    by (simp_all add: login_config_def sample_relay_info_def sample_info_canonical)
  have "random_name sample_random = Some ''amber-falcon-2345''" by code_simp
  moreover have "atoi ''3000'' = Some 3000"
    by (simp add: atoi_def parse_int_def parse_uint_def is_digit_def digit_val_def)
  moreover have "is_flag True ''3000'' = False" by (simp add: is_flag_def)
  moreover have "split_args True value_flags [''3000''] = ([''3000''], [])"
    using calculation(3) by simp
  ultimately obtain t where t: "plan_tunnel sample_random (client_load logged_in_client [''HOME=/home/a'']) ''http'' [''3000''] = Ok (?cfg, t, False)"
    "tn_type t = ''http''"
    by (simp add: plan_tunnel_def logged_in_load cur name_tunnel_def tunnel_vars_def str_var_def bool_var_def Let_def del: split_args.simps)
  have "fst (run_state (materialize_relay_ca ''PEM'' True (Some ''/tmp/ca1'')) sample_machine) =
      Ok (''/tmp/ca1'', path_join [''/tmp/ca1'', ''ca.pem''])"
    by (simp add: materialize_relay_ca_def write_file_def machine_defs sample_machine_def shift_const)
  then obtain m1 where "run_state (materialize_relay_ca ''PEM'' True (Some ''/tmp/ca1'')) sample_machine =
      (Ok (''/tmp/ca1'', path_join [''/tmp/ca1'', ''ca.pem'']), m1)"
    by (metis prod.collapse)
  then obtain d common proxy m' where p: "run_state (prepare_tunnel sample_relay t ?cfg False) sample_machine = (Ok (d, common, proxy), m')"
    using t(2) cur by (simp add: prepare_tunnel_def sample_relay_def start_service_def frp_proxy_of_def Let_def)
  from tunnel_goes_to_the_tokens_relay [OF refl t(1) p]
  have "fc_server_addr common = ''relay.example.com'' \<and> fc_server_name common = ''relay.example.com''"
    using login_token_ok(2) by (auto simp: login_config_def sample_relay_info_def sample_info_canonical)
  with t(1) p show ?thesis by blast
qed

section \<open>Arguments in any order\<close>

text \<open>
  The port may stand anywhere among the options: as long as the options before it are complete,
  a command line means the same as with the port in front.
\<close>

theorem port_anywhere:
  assumes "balanced True value_flags before" "fst (split_args True value_flags before) = []"
    and "\<not> is_flag True port"
  shows "plan_tunnel rnd profile kind (before @ port # after) = plan_tunnel rnd profile kind (port # before @ after)"
proof -
  have "split_args True value_flags (before @ port # after) =
      (port # fst (split_args True value_flags after), snd (split_args True value_flags (before @ after)))"
    using split_args_anywhere [OF assms(1,3)] assms(2) by simp
  moreover have "split_args True value_flags (port # before @ after) =
      (port # fst (split_args True value_flags after), snd (split_args True value_flags (before @ after)))"
    using split_args_append [OF assms(1), of after] assms(2,3) by (simp add: split_beta)
  ultimately show ?thesis unfolding plan_tunnel_def by (simp only:)
qed

definition sample_profile :: "config_error + config" where
  "sample_profile = Ok (login_config login_token sample_relay_info)"

theorem port_anywhere_witness:
  "plan_tunnel sample_random sample_profile ''http'' [''--name'', ''myapp'', ''-V'', ''3000'', ''--host=h''] =
   plan_tunnel sample_random sample_profile ''http'' [''3000'', ''--name'', ''myapp'', ''-V'', ''--host=h'']"
proof -
  have "balanced True value_flags [''--name'', ''myapp'', ''-V'']"
    "fst (split_args True value_flags [''--name'', ''myapp'', ''-V'']) = []" "\<not> is_flag True ''3000''"
    by code_simp+
  from port_anywhere [OF this, of sample_random sample_profile "''http''" "[''--host=h'']"]
  show ?thesis unfolding append.simps .
qed

section \<open>Names that are made up\<close>

definition lower_word :: "string \<Rightarrow> bool" where
  "lower_word w \<longleftrightarrow> w \<noteq> [] \<and> length w \<le> 8 \<and> list_all lower_alnum w"

lemma word_lists: "list_all lower_word adjectives" "list_all lower_word nouns" "list_all lower_alnum hex_digit_chars"
  by code_simp+

definition keeps_bounds :: "(nat \<Rightarrow> nat \<Rightarrow> nat option) \<Rightarrow> bool" where
  "keeps_bounds rnd \<longleftrightarrow> (\<forall>i n v. rnd i n = Some v \<longrightarrow> v < n)"

lemma pick_in: "keeps_bounds rnd \<Longrightarrow> pick rnd i xs = Some x \<Longrightarrow> x \<in> set xs"
  by (auto simp: pick_def keeps_bounds_def)

lemma those_Some: "those ys = Some xs \<Longrightarrow> ys = map Some xs"
  by (induction ys arbitrary: xs) (auto split: option.splits)

text \<open>
  A made-up name is an adjective, a noun and four hexadecimal digits joined by hyphens. It
  always is a subdomain the server accepts and never the portal's, provided the random source
  stays below the bounds it is given.
\<close>

theorem random_name_is_acceptable:
  assumes "keeps_bounds rnd" "random_name rnd = Some name"
  shows "(\<exists>adj noun digits. adj \<in> set adjectives \<and> noun \<in> set nouns \<and> length digits = 4 \<and>
      set digits \<subseteq> set hex_digit_chars \<and> name = adj @ ''-'' @ noun @ ''-'' @ digits)
    \<and> subdomain_re name \<and> name \<noteq> ''ktunnel''"
proof -
  obtain adj noun digits where p: "pick rnd 0 adjectives = Some adj" "pick rnd 1 nouns = Some noun"
    "those (map (\<lambda>i. pick rnd (2 + i) hex_digit_chars) [0..<4]) = Some digits"
    and name: "name = adj @ ''-'' @ noun @ ''-'' @ digits"
    using assms(2) unfolding random_name_def by (auto split: option.splits)
  have mem: "adj \<in> set adjectives" "noun \<in> set nouns" by (rule pick_in [OF assms(1) p(1)], rule pick_in [OF assms(1) p(2)])
  have ds: "map (\<lambda>i. pick rnd (2 + i) hex_digit_chars) [0..<4] = map Some digits" by (rule those_Some [OF p(3)])
  then have len: "length digits = 4" by (metis length_map length_upt diff_zero)
  have sub: "set digits \<subseteq> set hex_digit_chars"
  proof
    fix x assume "x \<in> set digits"
    then have "Some x \<in> set (map (\<lambda>i. pick rnd (2 + i) hex_digit_chars) [0..<4])" unfolding ds by simp
    then show "x \<in> set hex_digit_chars" using pick_in [OF assms(1)] by (metis (no_types, lifting) imageE set_map)
  qed
  have w: "lower_word adj" "lower_word noun" "list_all lower_alnum digits"
    using mem sub word_lists by (auto simp: list_all_iff)
  obtain a as where a: "adj = a # as" using w(1) by (cases adj) (auto simp: lower_word_def)
  have "subdomain_re name"
    using w len unfolding name a subdomain_re_def lower_word_def
    by (auto simp: butlast_append list_all_iff dest: in_set_butlastD)
  moreover have "name \<noteq> ''ktunnel''"
  proof
    assume "name = ''ktunnel''"
    then have "CHR ''-'' \<in> set ''ktunnel''" using name by (metis in_set_conv_decomp append_Cons append_Nil)
    then show False by simp
  qed
  ultimately show ?thesis using mem len sub name by blast
qed

theorem random_name_is_acceptable_witness:
  "\<exists>name. random_name sample_random = Some name \<and> subdomain_re name \<and> name \<noteq> ''ktunnel''"
proof -
  have "keeps_bounds sample_random" by (simp add: keeps_bounds_def sample_random_def)
  moreover have "random_name sample_random = Some ''amber-falcon-2345''" by code_simp
  ultimately show ?thesis using random_name_is_acceptable by blast
qed


section \<open>How the watching loop ends\<close>

lemma await_end_unfold: "await_end ev i = (case ev i of Ended _ \<Rightarrow> Some i | Tick _ _ \<Rightarrow> await_end ev (Suc i))"
  by (rule await_end.simps)

lemma await_end_returns: "ev j = Ended e \<Longrightarrow> i \<le> j \<Longrightarrow> \<exists>k. await_end ev i = Some k"
  by (induction "j - i" arbitrary: i)
    (subst await_end_unfold, simp add: not_less_eq_eq [symmetric],
     subst await_end_unfold, auto split: watch_event.split)

lemma await_end_Some:
  assumes "await_end ev i = Some k"
  shows "i \<le> k \<and> (\<exists>e. ev k = Ended e)"
proof (rule await_end.raw_induct [where P = "\<lambda>ev i k. i \<le> k \<and> (\<exists>e. ev k = Ended e)", OF _ assms])
  fix rec :: "(nat \<Rightarrow> watch_event) \<Rightarrow> nat \<Rightarrow> nat option" and ev i k
  assume IH: "\<And>ev i k. rec ev i = Some k \<Longrightarrow> i \<le> k \<and> (\<exists>e. ev k = Ended e)"
    and r: "(case ev i of Ended _ \<Rightarrow> Some i | Tick _ _ \<Rightarrow> rec ev (Suc i)) = Some k"
  show "i \<le> k \<and> (\<exists>e. ev k = Ended e)"
    using r IH [of ev "Suc i" k] by (auto split: watch_event.splits)
qed

text \<open>A tick that shows the proxy running at a time, and one that shows neither that nor an error.\<close>

definition running_at :: "(nat \<Rightarrow> watch_event) \<Rightarrow> nat \<Rightarrow> int \<Rightarrow> bool" where
  "running_at ev i t \<longleftrightarrow> ev i = Tick (Some Phase_Running) t"

definition away_at :: "(nat \<Rightarrow> watch_event) \<Rightarrow> nat \<Rightarrow> int \<Rightarrow> bool" where
  "away_at ev i t \<longleftrightarrow> ev i = Tick None t \<or> ev i = Tick (Some Phase_Other) t"

lemma watch_running:
  "running_at ev i t \<Longrightarrow> watch ev ready announced calls lr i =
     (if \<not> announced \<and> ready then watch ev ready True (Suc calls) t (Suc i) else watch ev ready announced calls t (Suc i))"
  by (subst watch.simps) (simp add: running_at_def start_error_def)

lemma watch_away:
  "away_at ev i t \<Longrightarrow> watch ev ready announced calls lr i =
     (if announced \<and> lost_after < t - lr then map_option (\<lambda>j. (Connection_Lost, calls, j)) (await_end ev (Suc i))
      else watch ev ready announced calls lr (Suc i))"
  by (subst watch.simps) (auto simp add: away_at_def start_error_def)

lemma watch_lost:
  assumes "\<And>n. i \<le> n \<Longrightarrow> n \<le> k \<Longrightarrow> \<exists>t. away_at ev n t" "i \<le> k"
    and "away_at ev k t" "lost_after < t - lr" "ev j = Ended e" "k < j"
  shows "\<exists>l. watch ev ready True calls lr i = Some (Connection_Lost, calls, l)"
  using assms(1,2)
proof (induction "k - i" arbitrary: i)
  case 0
  then have "i = k" by simp
  with await_end_returns [of ev j e "Suc i", OF assms(5)] assms(3,4,6) show ?case by (auto simp: watch_away)
next
  case (Suc d)
  obtain u where u: "away_at ev i u" using Suc(3,4) by blast
  have "\<exists>l. watch ev ready True calls lr (Suc i) = Some (Connection_Lost, calls, l)"
    using Suc by (intro Suc(1)) auto
  then show ?case
    using await_end_returns [of ev j e "Suc i", OF assms(5)] u Suc(2,4) assms(6) by (auto simp: watch_away)
qed


text \<open>
  The tunnel last seen running at \<open>t0\<close> is lost before event \<open>j\<close>: from event \<open>m\<close> on it is away until a
  tick more than fifteen seconds later.
\<close>

definition lost_from :: "(nat \<Rightarrow> watch_event) \<Rightarrow> nat \<Rightarrow> int \<Rightarrow> nat \<Rightarrow> bool" where
  "lost_from ev m t0 j \<longleftrightarrow>
     (\<exists>k t. m \<le> k \<and> k < j \<and> away_at ev k t \<and> lost_after < t - t0 \<and> (\<forall>n. m \<le> n \<and> n \<le> k \<longrightarrow> (\<exists>u. away_at ev n u)))"

lemma lost_from_away: "away_at ev i t \<Longrightarrow> lost_from ev (Suc i) t0 j \<Longrightarrow> lost_from ev i t0 j"
  unfolding lost_from_def by (metis Suc_leD le_antisym not_less_eq_eq)

lemma watch_refused:
  assumes "ev k = Tick (Some (Phase_Start_Err msg)) t" "ev j = Ended e" "k < j"
    and "i \<le> k" "\<forall>n. i \<le> n \<and> n < k \<longrightarrow> (\<exists>u. running_at ev n u \<or> away_at ev n u)"
    and "\<forall>m u. i \<le> m \<and> m < k \<and> running_at ev m u \<longrightarrow> \<not> lost_from ev (Suc m) u k"
    and "announced \<longrightarrow> \<not> lost_from ev i lr k"
  shows "\<exists>c l. watch ev True announced calls lr i = Some (Proxy_Refused (trim_prefix ''start proxy error: '' msg), c, l)"
  using assms(4-7)
proof (induction "k - i" arbitrary: i announced calls lr)
  case 0
  then have "i = k" by simp
  moreover obtain l where "await_end ev (Suc k) = Some l"
    using await_end_returns [of ev j e "Suc k", OF assms(2)] assms(3) by auto
  ultimately show ?case by (subst watch.simps) (simp add: assms(1) start_error_def)
next
  case (Suc d)
  then have later: "d = k - Suc i" "Suc i \<le> k" "\<forall>n. Suc i \<le> n \<and> n < k \<longrightarrow> (\<exists>u. running_at ev n u \<or> away_at ev n u)"
    "\<forall>m u. Suc i \<le> m \<and> m < k \<and> running_at ev m u \<longrightarrow> \<not> lost_from ev (Suc m) u k" by auto
  obtain u where "running_at ev i u \<or> away_at ev i u" using Suc(2-4) by fastforce
  then show ?case
  proof
    assume run: "running_at ev i u"
    then have "\<not> lost_from ev (Suc i) u k" using Suc(2,5) by auto
    then show ?thesis using Suc(1) [OF later, of True] by (auto simp: watch_running [OF run])
  next
    assume away: "away_at ev i u"
    then have "announced \<longrightarrow> \<not> lost_from ev (Suc i) lr k" using Suc(6) lost_from_away by blast
    moreover have "announced \<longrightarrow> \<not> lost_after < u - lr"
      using Suc(2,6) away unfolding lost_from_def by (metis Suc_le_eq later(2) le_antisym order_refl)
    ultimately show ?thesis using Suc(1) [OF later] by (auto simp: watch_away [OF away])
  qed
qed

text \<open>
  C39: A tunnel that is lost or refused comes to an end, provided frp's client ends after it is
  cancelled. Lost: once it was seen running, if no later tick sees it running or refused and the
  clock passes fifteen seconds, \<open>Run\<close> returns with the message that the connection was lost.
  Refused: at the first tick that shows a start error, if the tunnel was not lost before, \<open>Run\<close>
  returns with that error.
\<close>

theorem lost_tunnel_ends:
  assumes "ev j = Ended e" "k < j"
  shows "(i < k \<and> running_at ev i t0 \<and> (\<forall>n. i < n \<and> n \<le> k \<longrightarrow> (\<exists>u. away_at ev n u)) \<and>
      away_at ev k t \<and> lost_after < t - t0 \<longrightarrow>
        (\<exists>l. watch ev True announced (if announced then 1 else 0) lr i = Some (Connection_Lost, 1, l))) \<and>
    (ev k = Tick (Some (Phase_Start_Err msg)) t \<and> (\<forall>n<k. \<exists>u. running_at ev n u \<or> away_at ev n u) \<and>
      (\<forall>m u. m < k \<and> running_at ev m u \<longrightarrow> \<not> lost_from ev (Suc m) u k) \<longrightarrow>
        (\<exists>calls l. watch ev True False 0 lr 0 =
           Some (Proxy_Refused (trim_prefix ''start proxy error: '' msg), calls, l)))"
proof (intro conjI impI; elim conjE)
  assume i: "i < k" "running_at ev i t0" "\<forall>n. i < n \<and> n \<le> k \<longrightarrow> (\<exists>u. away_at ev n u)"
    "away_at ev k t" "lost_after < t - t0"
  have "\<exists>l. watch ev True True 1 t0 (Suc i) = Some (Connection_Lost, 1, l)"
    using i(1,3) by (intro watch_lost [OF _ _ i(4,5) assms]) auto
  then show "\<exists>l. watch ev True announced (if announced then 1 else 0) lr i = Some (Connection_Lost, 1, l)"
    by (cases announced) (auto simp: watch_running [OF i(2)])
next
  assume "ev k = Tick (Some (Phase_Start_Err msg)) t" "\<forall>n<k. \<exists>u. running_at ev n u \<or> away_at ev n u"
    "\<forall>m u. m < k \<and> running_at ev m u \<longrightarrow> \<not> lost_from ev (Suc m) u k"
  from watch_refused [OF this(1) assms, of 0 False] this(2,3)
  show "\<exists>calls l. watch ev True False 0 lr 0 =
      Some (Proxy_Refused (trim_prefix ''start proxy error: '' msg), calls, l)" by auto
qed

text \<open>
  Why the loop ended: the invariant over the rest of the run. \<open>lr\<close> is the time of the last
  running tick when the tunnel was announced.
\<close>

definition ended_well :: "(nat \<Rightarrow> watch_event) \<Rightarrow> bool \<Rightarrow> nat \<Rightarrow> int \<Rightarrow> nat \<Rightarrow> tunnel_end \<times> nat \<times> nat \<Rightarrow> bool" where
  "ended_well ev announced calls lr i r \<longleftrightarrow>
     (case r of (why, calls', j) \<Rightarrow>
        i \<le> j \<and> (\<exists>e. ev j = Ended e) \<and> (calls \<le> calls' \<and> (if announced then calls' = calls else calls' \<le> Suc calls)) \<and>
        (calls < calls' \<longrightarrow> (\<exists>m t. i \<le> m \<and> m < j \<and> running_at ev m t)) \<and>
        (case why of
           Client_Ended e \<Rightarrow> ev j = Ended e
         | Proxy_Refused msg \<Rightarrow>
             (\<exists>k msg' t. i \<le> k \<and> k < j \<and> ev k = Tick (Some (Phase_Start_Err msg')) t \<and>
                msg = trim_prefix ''start proxy error: '' msg')
         | Connection_Lost \<Rightarrow>
             announced \<and> lost_from ev i lr j \<or>
             (\<exists>m t0. i \<le> m \<and> running_at ev m t0 \<and> lost_from ev (Suc m) t0 j)))"

lemma ended_step:
  assumes "ended_well ev announced calls lr (Suc i) r" "away_at ev i t"
  shows "ended_well ev announced calls lr i r"
proof -
  obtain why c j where r: "r = (why, c, j)" by (cases r)
  have "i \<le> j" "\<exists>e. ev j = Ended e" "calls \<le> c" "if announced then c = calls else c \<le> Suc calls"
    using assms(1) by (simp_all add: ended_well_def r)
  moreover have "calls < c \<Longrightarrow> \<exists>m t. i \<le> m \<and> m < j \<and> running_at ev m t"
    using assms(1) by (auto simp: ended_well_def r dest: Suc_leD)
  moreover have "why = Connection_Lost \<Longrightarrow> announced \<and> lost_from ev i lr j \<or>
      (\<exists>m t0. i \<le> m \<and> running_at ev m t0 \<and> lost_from ev (Suc m) t0 j)"
    using assms(1) lost_from_away [OF assms(2)] by (auto simp: ended_well_def r dest: Suc_leD)
  moreover have "why = Client_Ended e \<Longrightarrow> ev j = Ended e" for e
    using assms(1) by (auto simp: ended_well_def r)
  moreover have "why = Proxy_Refused msg \<Longrightarrow> \<exists>k msg' t. i \<le> k \<and> k < j \<and> ev k = Tick (Some (Phase_Start_Err msg')) t \<and>
      msg = trim_prefix ''start proxy error: '' msg'" for msg
    using assms(1) by (auto simp: ended_well_def r dest: Suc_leD)
  ultimately show ?thesis unfolding ended_well_def r by (cases why) simp_all
qed

lemma ended_running:
  assumes "ended_well ev True calls' t (Suc i) r" "running_at ev i t"
    and "calls' = (if announced then calls else Suc calls)"
  shows "ended_well ev announced calls lr i r"
proof -
  obtain why c j where r: "r = (why, c, j)" by (cases r)
  have "i \<le> j" "\<exists>e. ev j = Ended e" "calls \<le> c" "if announced then c = calls else c \<le> Suc calls"
    using assms(1,3) by (auto simp: ended_well_def r split: if_splits)
  moreover have "calls < c \<Longrightarrow> \<exists>m t. i \<le> m \<and> m < j \<and> running_at ev m t"
    using assms(1,2) by (auto simp: ended_well_def r Suc_le_eq)
  moreover have "why = Connection_Lost \<Longrightarrow> \<exists>m t0. i \<le> m \<and> running_at ev m t0 \<and> lost_from ev (Suc m) t0 j"
    using assms(1,2) by (auto simp: ended_well_def r dest: Suc_leD)
  moreover have "why = Client_Ended e \<Longrightarrow> ev j = Ended e" for e
    using assms(1) by (auto simp: ended_well_def r)
  moreover have "why = Proxy_Refused msg \<Longrightarrow> \<exists>k msg' t. i \<le> k \<and> k < j \<and> ev k = Tick (Some (Phase_Start_Err msg')) t \<and>
      msg = trim_prefix ''start proxy error: '' msg'" for msg
    using assms(1) by (auto simp: ended_well_def r dest: Suc_leD)
  ultimately show ?thesis unfolding ended_well_def r by (cases why) simp_all
qed

lemma watch_ended_well:
  assumes "watch ev True announced calls lr i = Some r"
  shows "ended_well ev announced calls lr i r"
proof (rule watch.raw_induct [where P = "\<lambda>ev ready announced calls lr i r. ready \<longrightarrow> ended_well ev announced calls lr i r", OF _ assms, THEN mp])
  fix rec ev ready announced calls lr i r
  assume IH: "\<And>ev ready announced calls lr i r. rec ev ready announced calls lr i = Some r \<Longrightarrow>
      ready \<longrightarrow> ended_well ev announced calls lr i r"
    and body: "(case ev i of
        Ended e \<Rightarrow> Some (Client_Ended e, calls, i)
      | Tick st now \<Rightarrow>
          if start_error st \<noteq> None then
            map_option (\<lambda>j. (Proxy_Refused (trim_prefix ''start proxy error: '' (the (start_error st))), calls, j))
              (await_end ev (Suc i))
          else if st = Some Phase_Running then
            (if \<not> announced \<and> ready then rec ev ready True (Suc calls) now (Suc i)
             else rec ev ready announced calls now (Suc i))
          else if announced \<and> lost_after < now - lr then
            map_option (\<lambda>j. (Connection_Lost, calls, j)) (await_end ev (Suc i))
          else rec ev ready announced calls lr (Suc i)) = Some r"
  show "ready \<longrightarrow> ended_well ev announced calls lr i r"
  proof
    assume ready
    show "ended_well ev announced calls lr i r"
    proof (cases "ev i")
      case (Ended e)
      then show ?thesis using body by (auto simp: ended_well_def)
    next
      case (Tick st now)
      consider (err) msg where "st = Some (Phase_Start_Err msg)" | (run) "st = Some Phase_Running" | (away) "away_at ev i now" "st = None \<or> st = Some Phase_Other"
        using Tick by (cases st rule: option.exhaust) (auto simp: away_at_def intro: phase.exhaust)
      then show ?thesis
      proof cases
        case err
        then obtain j where "await_end ev (Suc i) = Some j" "r = (Proxy_Refused (trim_prefix ''start proxy error: '' msg), calls, j)"
          using body Tick by (auto simp: start_error_def)
        then show ?thesis using await_end_Some [of ev "Suc i" j] err Tick by (auto simp: ended_well_def)
      next
        case run
        then have "rec ev ready True (if announced then calls else Suc calls) now (Suc i) = Some r"
          using body Tick \<open>ready\<close> by (auto simp: start_error_def split: if_splits)
        with IH \<open>ready\<close> have "ended_well ev True (if announced then calls else Suc calls) now (Suc i) r" by blast
        then show ?thesis by (rule ended_running) (simp_all add: running_at_def Tick run)
      next
        case away
        show ?thesis
        proof (cases "announced \<and> lost_after < now - lr")
          case True
          then obtain j where j: "await_end ev (Suc i) = Some j" "r = (Connection_Lost, calls, j)"
            using body Tick away(2) by (auto simp: start_error_def)
          then have "lost_from ev i lr j"
            using await_end_Some [OF j(1)] True away(1) unfolding lost_from_def by (metis Suc_le_lessD le_antisym order_refl)
          then show ?thesis using await_end_Some [OF j(1)] j(2) True by (auto simp: ended_well_def)
        next
          case False
          then have "rec ev ready announced calls lr (Suc i) = Some r"
            using body Tick away(2) by (auto simp: start_error_def split: if_splits)
          with IH \<open>ready\<close> show ?thesis by (intro ended_step [OF _ away(1)]) blast
        qed
      qed
    qed
  qed
qed simp


text \<open>
  C40: A tunnel ends for a reason only: frp's client ended by itself with that error, a tick showed
  that the relay refused the proxy, or the tunnel had been running at one tick and stayed away
  at every tick until more than fifteen seconds later. It always waits for frp's client to
  end, and announces the tunnel at most once, and only if a tick showed it running.
\<close>

theorem tunnel_ends_for_a_reason:
  assumes "watch ev True False 0 lr 0 = Some (why, calls, j)"
  shows "calls \<le> 1 \<and> (calls = 1 \<longrightarrow> (\<exists>m t. m < j \<and> running_at ev m t)) \<and> (\<exists>e. ev j = Ended e) \<and>
    (case why of
       Client_Ended e \<Rightarrow> ev j = Ended e
     | Proxy_Refused msg \<Rightarrow>
         (\<exists>k msg' t. k < j \<and> ev k = Tick (Some (Phase_Start_Err msg')) t \<and> msg = trim_prefix ''start proxy error: '' msg')
     | Connection_Lost \<Rightarrow>
         (\<exists>m t0 k t. m < k \<and> k < j \<and> running_at ev m t0 \<and> away_at ev k t \<and> lost_after < t - t0 \<and>
            (\<forall>n. m < n \<and> n \<le> k \<longrightarrow> (\<exists>u. away_at ev n u))))"
proof -
  have w: "ended_well ev False 0 lr 0 (why, calls, j)" by (rule watch_ended_well [OF assms])
  then have "calls \<le> 1" "calls = 1 \<longrightarrow> (\<exists>m t. m < j \<and> running_at ev m t)" "\<exists>e. ev j = Ended e"
    by (simp_all add: ended_well_def)
  moreover have "\<exists>m t0 k t. m < k \<and> k < j \<and> running_at ev m t0 \<and> away_at ev k t \<and> lost_after < t - t0 \<and>
      (\<forall>n. m < n \<and> n \<le> k \<longrightarrow> (\<exists>u. away_at ev n u))" if why: "why = Connection_Lost"
  proof -
    obtain m t0 where m: "running_at ev m t0" "lost_from ev (Suc m) t0 j" using w by (auto simp: ended_well_def why)
    then show ?thesis unfolding lost_from_def Suc_le_eq by blast
  qed
  ultimately show ?thesis using w by (cases why) (auto simp: ended_well_def)
qed


definition sample_life :: "nat \<Rightarrow> watch_event" where
  "sample_life n =
     (if n = 0 then Tick (Some Phase_Running) 5 else if n = 1 then Tick None (5 + 15000000001) else Ended None)"

definition sample_refusal :: "nat \<Rightarrow> watch_event" where
  "sample_refusal n =
     (if n = 0 then Tick None 5 else if n = 1 then Tick (Some (Phase_Start_Err ''taken'')) 6 else Ended None)"

theorem lost_tunnel_ends_witness:
  "(\<exists>l. watch sample_life True False 0 0 0 = Some (Connection_Lost, 1, l)) \<and>
   (\<exists>calls l. watch sample_refusal True False 0 0 0 =
      Some (Proxy_Refused (trim_prefix ''start proxy error: '' ''taken''), calls, l))"
proof
  have lost: "running_at sample_life 0 5" "away_at sample_life 1 (5 + 15000000001)"
    "lost_after < 5 + 15000000001 - 5" "sample_life 2 = Ended None"
    by (simp_all add: running_at_def away_at_def sample_life_def lost_after_def)
  moreover have "\<forall>n. 0 < n \<and> n \<le> 1 \<longrightarrow> (\<exists>u. away_at sample_life n u)" using lost(2) by (auto simp: le_Suc_eq)
  ultimately show "\<exists>l. watch sample_life True False 0 0 0 = Some (Connection_Lost, 1, l)"
    using lost_tunnel_ends [of sample_life 2 None 1 0 5 "5 + 15000000001" False] by simp
  have "sample_refusal 2 = Ended None" "sample_refusal 1 = Tick (Some (Phase_Start_Err ''taken'')) 6"
    "away_at sample_refusal 0 5" "\<not> running_at sample_refusal 0 u" for u
    by (simp_all add: sample_refusal_def away_at_def running_at_def)
  then show "\<exists>calls l. watch sample_refusal True False 0 0 0 =
      Some (Proxy_Refused (trim_prefix ''start proxy error: '' ''taken''), calls, l)"
    using lost_tunnel_ends [of sample_refusal 2 None 1 0 0 6 False 0 "''taken''"] by auto
qed

theorem tunnel_ends_for_a_reason_witness:
  "\<exists>calls j. watch sample_life True False 0 0 0 = Some (Connection_Lost, calls, j) \<and> calls = 1 \<and>
     (\<exists>m t. m < j \<and> running_at sample_life m t)"
proof -
  have "await_end sample_life 2 = Some 2" by (subst await_end_unfold) (simp add: sample_life_def)
  then have "watch sample_life True False 0 0 0 = Some (Connection_Lost, 1, 2)"
    using watch_running [of sample_life 0 5] watch_away [of sample_life 1 15000000006]
    by (simp add: running_at_def away_at_def sample_life_def lost_after_def numeral_2_eq_2)
  with tunnel_ends_for_a_reason [OF this] show ?thesis by blast
qed

end
