(* ===== verification/Cli_Ends.thy ===== *)
theory Cli_Ends
  imports Cli_Laws
begin

text \<open>
  Which commands of the client come back: all of them, but a tunnel only once frp's client
  ends. Running for ever is characterised exactly, apart from what the commands do.
\<close>

lemma watch_returns:
  assumes "ev j = Ended e" "i \<le> j"
  shows "\<exists>r. watch ev ready announced calls lr i = Some r"
  using assms(2)
proof (induction "j - i" arbitrary: i announced calls lr)
  case 0
  then show ?case using assms(1) by (subst watch.simps) simp
next
  case (Suc k)
  then have "\<exists>r. watch ev ready a c l (Suc i) = Some r" for a c l by simp
  moreover have "\<exists>l. await_end ev (Suc i) = Some l"
    using await_end_returns [of ev j e "Suc i", OF assms(1)] Suc(2) by simp
  ultimately show ?case by (subst watch.simps) (auto split: watch_event.split)
qed

lemma watch_none_iff: "watch ev True False 0 lr 0 = None \<longleftrightarrow> (\<forall>j e. ev j \<noteq> Ended e)"
proof
  show "\<forall>j e. ev j \<noteq> Ended e" if "watch ev True False 0 lr 0 = None"
    using that watch_returns [of ev _ _ 0 True False 0 lr] by auto
  show "watch ev True False 0 lr 0 = None" if "\<forall>j e. ev j \<noteq> Ended e"
  proof (rule ccontr)
    assume "watch ev True False 0 lr 0 \<noteq> None"
    then obtain why calls j where w: "watch ev True False 0 lr 0 = Some (why, calls, j)" by auto
    then have "ended_well ev False 0 lr 0 (why, calls, j)" by (rule watch_ended_well)
    with that show False by (auto simp: ended_well_def)
  qed
qed

lemma run_tunnel_none_iff:
  "run_tunnel rs t cfg verbose on_ready m = None \<longleftrightarrow>
     (\<exists>d common proxy m'. run_state (prepare_tunnel rs t cfg verbose) m = (Ok (d, common, proxy), m') \<and>
        (\<forall>j e. rs_life rs common proxy j \<noteq> Ended e))"
  by (auto simp: run_tunnel_def watch_none_iff split: prod.splits sum.splits)

text \<open>
  C18: Every command of the client comes back, whatever its arguments, the profile, the files and
  the network are, with one exception: a tunnel whose arguments and profile are good and whose
  preparation succeeds runs exactly as long as frp's client does. In particular it ends
  when frp's client does, refused or lost or not, and nothing else keeps it.
\<close>

theorem commands_return:
  "run_client cl rs args m = None \<longleftrightarrow>
     (\<exists>kind rest cfg t verbose d common proxy m'.
        command_of args = Do_Tunnel kind rest \<and>
        plan_tunnel (cl_random cl) (client_load cl (m_env m)) kind rest = Ok (cfg, t, verbose) \<and>
        run_state (prepare_tunnel rs t cfg verbose) m = (Ok (d, common, proxy), m') \<and>
        (\<forall>j e. rs_life rs common proxy j \<noteq> Ended e))"
proof (cases "command_of args")
  case (Do_Tunnel kind rest)
  have "cmd_tunnel cl rs kind rest m = None \<longleftrightarrow>
      (\<exists>cfg t verbose. plan_tunnel (cl_random cl) (client_load cl (m_env m)) kind rest = Ok (cfg, t, verbose) \<and>
         run_tunnel rs t cfg verbose (background_check cl rs) m = None)"
    by (auto simp: cmd_tunnel_def split: sum.splits)
  with Do_Tunnel show ?thesis by (simp add: run_client_def run_tunnel_none_iff)
qed (simp_all add: run_client_def)

end
