(* ===== verification/Kt_Gate.thy ===== *)
theory Kt_Gate
  imports Kt_Plugin Kt_Accounts
begin

text \<open>
  What the plugin guarantees to the relay: who gets in, what an accepted login carries,
  which requests open a tunnel, and that sessions that were killed or revoked are cut off
  whatever happens in between.
\<close>

section \<open>Texts\<close>

lemma valid_metas_iff:
  "valid_metas ms acc \<longleftrightarrow>
     (\<forall>(k, v) \<in> set ms. bounded_text k max_meta_key_bytes False \<and> bounded_text v max_meta_value_bytes True) \<and>
     (ms = [] \<or> acc + sum_list (map (\<lambda>(k, v). length k + length v) ms) \<le> max_meta_bytes)"
proof (induction ms arbitrary: acc)
  case (Cons kv ms)
  obtain k v where kv: "kv = (k, v)" by (cases kv)
  show ?case
    by (cases "ms = []") (auto simp: kv Let_def Cons.IH)
qed simp

text \<open>
  Whether the plugin accepts a client's metadata does not depend on the order in which
  the range over the Go map visits it: with the early exits of the loop, the answer is that
  every key and value is bounded, free of control characters, and all of them together stay
  within 16 KiB.
\<close>

theorem valid_user_info_any_order:
  assumes "mset ms = mset (ui_metas u)"
  shows "valid_user_info (u\<lparr>ui_metas := ms\<rparr>) = valid_user_info u \<and>
    (valid_user_info u \<longleftrightarrow>
       bounded_text (ui_user u) 256 True \<and> bounded_text (ui_run_id u) 256 True \<and> length (ui_metas u) \<le> 32 \<and>
       (\<forall>(k, v) \<in> set (ui_metas u). bounded_text k 64 False \<and> bounded_text v 8192 True) \<and>
       sum_list (map (\<lambda>(k, v). length k + length v) (ui_metas u)) \<le> 16384)"
proof -
  have "sum_list (map f ms) = sum_list (map f (ui_metas u))" for f :: "_ \<Rightarrow> nat"
    using assms by (metis mset_map sum_mset_sum_list)
  moreover have "set ms = set (ui_metas u)" using assms by (rule mset_eq_setD)
  moreover have "length ms = length (ui_metas u)" using assms by (rule mset_eq_length)
  ultimately show ?thesis
    by (auto simp: valid_user_info_def valid_metas_iff max_user_bytes_def max_run_id_bytes_def
        max_meta_entries_def max_meta_key_bytes_def max_meta_value_bytes_def max_meta_bytes_def)
qed

theorem valid_user_info_any_order_witness:
  "valid_user_info \<lparr>ui_user = ''a'', ui_metas = [(''y'', ''2''), (''x'', ''1'')], ui_run_id = []\<rparr> =
   valid_user_info \<lparr>ui_user = ''a'', ui_metas = [(''x'', ''1''), (''y'', ''2'')], ui_run_id = []\<rparr>"
  using valid_user_info_any_order [of "[(''y'', ''2''), (''x'', ''1'')]"
      "\<lparr>ui_user = ''a'', ui_metas = [(''x'', ''1''), (''y'', ''2'')], ui_run_id = []\<rparr>"]
  by simp

lemma lower_alnum_visible: "lower_alnum c \<Longrightarrow> ascii c \<and> ldh_rune (byte c) \<and> c \<noteq> CHR ''-''"
  by (auto simp: lower_alnum_def ascii_def ldh_rune_def)

text \<open>
  The pattern accepts exactly the DNS labels in lower case: 1 to 63 letters, digits and
  hyphens, with no hyphen at either end. Every accepted subdomain is a label that the token
  format would accept too, has no dot, and lowering it again leaves it as it is.
\<close>

theorem subdomain_re_labels:
  "(subdomain_re s \<longleftrightarrow>
     1 \<le> length s \<and> length s \<le> 63 \<and> list_all (\<lambda>c. lower_alnum c \<or> c = CHR ''-'') s \<and>
     hd s \<noteq> CHR ''-'' \<and> last s \<noteq> CHR ''-'') \<and>
   (subdomain_re s \<longrightarrow> valid_label s \<and> CHR ''.'' \<notin> set s \<and> to_lower uc s = s)"
proof
  show iff: "subdomain_re s \<longleftrightarrow>
     1 \<le> length s \<and> length s \<le> 63 \<and> list_all (\<lambda>c. lower_alnum c \<or> c = CHR ''-'') s \<and>
     hd s \<noteq> CHR ''-'' \<and> last s \<noteq> CHR ''-''"
  proof (cases s)
    case (Cons c t)
    show ?thesis
    proof (cases t rule: rev_cases)
      case Nil
      then show ?thesis by (auto simp: Cons subdomain_re_def dest: lower_alnum_visible)
    next
      case (snoc m e)
      then show ?thesis by (auto simp: Cons subdomain_re_def dest: lower_alnum_visible)
    qed
  qed (simp add: subdomain_re_def)
  show "subdomain_re s \<longrightarrow> valid_label s \<and> CHR ''.'' \<notin> set s \<and> to_lower uc s = s"
  proof
    assume "subdomain_re s"
    with iff have s: "s \<noteq> []" "length s \<le> 63" "hd s \<noteq> CHR ''-''" "last s \<noteq> CHR ''-''"
      and all: "\<forall>c \<in> set s. lower_alnum c \<or> c = CHR ''-''" by (auto simp: list_all_iff)
    from all have asc: "list_all ascii s"
      by (auto simp: list_all_iff ascii_def lower_alnum_def)
    have "list_all ldh_rune (runes s)"
    proof -
      have "ldh_rune (byte c)" if "c \<in> set s" for c
      proof -
        have "lower_alnum c \<or> c = CHR ''-''" using all that by blast
        then show ?thesis using lower_alnum_visible [of c] by (elim disjE) (blast, simp add: ldh_rune_def)
      qed
      then show ?thesis unfolding runes_ascii [OF asc] by (simp add: list_all_iff)
    qed
    moreover have "CHR ''.'' \<notin> set s" using all by (auto simp: lower_alnum_def)
    moreover have "map (\<lambda>c. chr (lower_ascii (byte c))) s = map id s"
      using all by (intro map_cong refl) (auto simp: lower_ascii_def lower_alnum_def)
    ultimately show "valid_label s \<and> CHR ''.'' \<notin> set s \<and> to_lower uc s = s"
      using s by (simp add: valid_label_def to_lower_ascii [OF asc] not_less)
  qed
qed

theorem subdomain_re_labels_witness:
  "valid_label ''a-1'' \<and> \<not> subdomain_re ''-a'' \<and> \<not> subdomain_re ''a-''"
  using subdomain_re_labels [of "''a-1''"] subdomain_re_labels [of "''-a''"] subdomain_re_labels [of "''a-''"]
  by (auto simp: lower_alnum_def)

section \<open>Sessions\<close>

definition answers :: "session_row \<Rightarrow> db \<Rightarrow> bool" where
  "answers s d \<longleftrightarrow>
     sr_killed s \<noteq> 1 \<and> sr_ended_at s \<in> {None, Some zero_time} \<and>
     tr_revoked_at (the_token (sr_token_id s) d) \<in> {None, Some zero_time} \<and>
     ur_disabled (the_user (sr_user_id s) d) \<noteq> 1"

definition named_session :: "user_info \<Rightarrow> int" where
  "named_session u = parse_int_value (meta meta_session (ui_metas u))"

lemma scan_session_parts:
  "s_id (scan_session (s, u, t)) = sr_id s" "s_user_id (scan_session (s, u, t)) = sr_user_id s"
  "s_token_id (scan_session (s, u, t)) = sr_token_id s"
  "s_killed (scan_session (s, u, t)) \<longleftrightarrow> sr_killed s = 1"
  "s_ended_at (scan_session (s, u, t)) \<noteq> zero_time \<longleftrightarrow> sr_ended_at s \<notin> {None, Some zero_time}"
  by (auto simp: scan_session_def ts_def split: option.split)

lemma session_of_wf:
  assumes "wf_db d"
  shows "session_of u fs d =
    (if meta meta_session (ui_metas u) = [] \<or> fs 0 then Err Session_Unknown
     else case row sr_id (named_session u) (sessions d) of
       None \<Rightarrow> Err Session_Unknown
     | Some s \<Rightarrow>
         if sr_killed s = 1 \<or> sr_ended_at s \<notin> {None, Some zero_time} then Err Session_Gone
         else if fs 1 \<or> tr_revoked_at (the_token (sr_token_id s) d) \<notin> {None, Some zero_time} then Err Token_Gone
         else if fs 2 \<or> ur_disabled (the_user (sr_user_id s) d) = 1 then Err Account_Gone
         else Ok (scan_session (s, the_user (sr_user_id s) d, the_token (sr_token_id s) d)))"
proof (cases "row sr_id (named_session u) (sessions d)")
  case None
  then show ?thesis
    by (simp add: session_of_def Let_def session_by_id_wf [OF assms] flip: named_session_def)
next
  case (Some s)
  then have s: "s \<in> set (sessions d)" by (auto dest: row_SomeD)
  have tk: "token_by_id (sr_token_id s) b d =
      (if b then Err (Sql Fault)
       else Ok (scan_token (the_token (sr_token_id s) d, the_user (tr_user_id (the_token (sr_token_id s) d)) d)))" for b
    by (simp add: token_by_id_wf [OF assms] scan_session_parts wf_reference(4) [OF assms s])
  have us: "user_by_id (sr_user_id s) b d =
      (if b then Err (Sql Fault) else Ok (scan_user (the_user (sr_user_id s) d)))" for b
    by (simp add: user_by_id_wf [OF assms] scan_session_parts wf_reference(3) [OF assms s])
  have dis: "u_disabled (scan_user x) \<longleftrightarrow> ur_disabled x = 1" for x
    by (simp add: scan_user_def)
  show ?thesis
    by (auto simp: session_of_def Let_def session_by_id_wf [OF assms] Some tk us dis scan_session_parts
        token_active_scan simp flip: named_session_def simp del: One_nat_def)
qed

lemma session_of_Ok:
  assumes "wf_db d" "session_of u fs d = Ok sess"
  obtains s where "row sr_id (named_session u) (sessions d) = Some s" "answers s d"
    "s_id sess = sr_id s" "sr_id s = named_session u" "s_user_id sess = sr_user_id s"
  using assms(2)
  by (auto simp: session_of_wf [OF assms(1)] answers_def scan_session_parts dest: row_SomeD
      split: if_splits option.splits)

section \<open>Requests as runs\<close>

lemma authenticate_ok_row:
  assumes "wf_db d" "authenticate p n1 n2 fs d = (Ok (tok, u), d1)"
  obtains t where "row tr_id (t_id tok) (tokens d) = Some t" "tr_hash t = hash_token p" "tr_user_id t = u_id u"
    "d1 = note_use (t_id tok) n2 (fs 3) d" "tok = scan_token (t, the_user (tr_user_id t) d)"
    "u = scan_user (the_user (tr_user_id t) d)" "ur_id (the_user (tr_user_id t) d) = tr_user_id t"
    "usable_token t n1 d \<or> fs 1" "tr_revoked_at t \<in> {None, Some zero_time}"
proof -
  from assms(2) have c: "check_token p n1 fs d = Ok (tok, u)" and d1: "d1 = note_use (t_id tok) n2 (fs 3) d"
    by (auto simp: authenticate_def split: sum.splits prod.splits)
  from c obtain t where t: "row tr_hash (hash_token p) (tokens d) = Some t"
    "tok = scan_token (t, the_user (tr_user_id t) d)" "u = scan_user (the_user (tr_user_id t) d)"
    "tr_revoked_at t \<in> {None, Some zero_time}" "usable_token t n1 d \<or> fs 1"
    by (auto simp: check_token_wf [OF assms(1)] usable_token_def split: if_splits option.splits)
  note r = token_row_by_hash [OF assms(1) t(1)]
  have "ur_id (the_user (tr_user_id t) d) = tr_user_id t" using r(2) by (auto dest: row_SomeD)
  moreover have "tr_hash t = hash_token p" using t(1) by (auto dest: row_SomeD)
  moreover have "t_id tok = tr_id t" by (simp add: t(2) scan_token_id)
  moreover have "u_id u = ur_id (the_user (tr_user_id t) d)" by (simp add: t(3) scan_user_def)
  ultimately show ?thesis
    by (intro that [of t]) (use r(1) t d1 in simp_all)
qed

lemma note_use_row:
  "row tr_id i (tokens d) = Some t \<Longrightarrow>
   \<exists>t'. row tr_id i (tokens (note_use i n fail d)) = Some t' \<and> tr_user_id t' = tr_user_id t"
  by (auto simp: note_use_def update_tokens_def row_upd)

lemma run_login:
  assumes "wf_db d"
  shows "runs store_step d (snd (login raw clk fs d))"
proof -
  have ok: "runs store_step d (snd (create_session (u_id u) (t_id tok) h os a c n gs d1))"
    if auth: "authenticate p n1 n2 fs d = (Ok (tok, u), d1)" for p n1 n2 tok u d1 h os a c n gs
  proof -
    from authenticate_ok_row [OF assms auth] obtain t where
      t: "row tr_id (t_id tok) (tokens d) = Some t" "tr_user_id t = u_id u" "d1 = note_use (t_id tok) n2 (fs 3) d"
      by blast
    from note_use_row [OF t(1)] t obtain t' where "row tr_id (t_id tok) (tokens d1) = Some t'" "tr_user_id t' = u_id u"
      by metis
    then have "runs store_step d1 (snd (create_session (u_id u) (t_id tok) h os a c n gs d1))"
      by (rule run_create_session)
    moreover have "runs store_step d d1" using run_authenticate [of d p n1 n2 fs] auth by simp
    ultimately show ?thesis by (blast intro: runs_trans)
  qed
  have err: "runs store_step d d1" if "authenticate p n1 n2 fs d = (r, d1)" for p n1 n2 r d1
    using run_authenticate [of d p n1 n2 fs] that by simp
  have ok1: "runs store_step d d2"
    if "authenticate p n1 n2 fs d = (Ok (tok, u), d1)" "create_session (u_id u) (t_id tok) h os a c n gs d1 = (r, d2)"
    for p n1 n2 tok u d1 h os a c n gs r d2
    using ok [OF that(1), of h os a c n gs] that(2) by simp
  show ?thesis
    by (auto simp: login_def Let_def
        split: option.split sum.split prod.split store_error.split
        intro!: runs_refl intro: err ok1 runs_trans [OF _ run_audit])
qed

lemma run_new_proxy: "runs store_step d (snd (new_proxy uc raw clk fs d))"
proof -
  have t: "runs store_step d (snd (touch_session i r n fail d))" for i r n fail
    by (rule run_sessions)
  have a: "runs store_step d d2"
    if "admit_proxy sid run nm ty sub port n gs (snd (touch_session i r m fail d)) = (res, d2)"
    for sid run nm ty sub port n gs i r m fail res d2
    using runs_trans [OF t run_proxies(1)] that by (metis snd_conv)
  show ?thesis
    by (auto simp: new_proxy_def Let_def split: option.split sum.split prod.split store_error.split
        intro!: runs_refl intro: t a runs_trans [OF a run_audit])
qed

lemma run_close_proxy: "runs store_step d (snd (close_proxy raw clk fs d))"
  by (auto simp: close_proxy_def Let_def split: option.split sum.split
      intro!: runs_refl runs_trans [OF _ run_audit] run_proxies)

lemma run_ping: "runs store_step d (snd (ping raw clk fs d))"
  by (auto simp: ping_def split: option.split sum.split intro!: runs_refl run_sessions)

section \<open>The plugin contracts\<close>

lemma run_serve_http:
  assumes "wf_db d"
  shows "runs store_step d (snd (serve_http uc http_method body clk fs d))"
  by (auto simp: serve_http_def Let_def runs_refl split: option.split prod.split)
    (metis assms run_login run_new_proxy run_ping run_close_proxy runs_refl snd_conv)+

text \<open>
  Whatever bytes arrive at the plugin, with any clock and any failing statements, the
  request is a run of the store: it leaves the database well formed and coherent. A request
  that is not a \<open>POST\<close>, that does not decode or that names no operation is answered with
  405 or 400 and changes nothing.
\<close>

theorem serve_http_sound:
  assumes "wf_db d" "coherent d" "serve_http uc http_method body clk fs d = (answer, d')"
  shows "runs store_step d d' \<and> wf_db d' \<and> coherent d' \<and>
    (http_method \<noteq> ''POST'' \<longrightarrow> answer = Http_Error 405) \<and>
    (http_method = ''POST'' \<and> decode_request body = None \<longrightarrow> answer = Http_Error 400) \<and>
    (\<forall>code. answer = Http_Error code \<longrightarrow> d' = d)"
proof -
  have run: "runs store_step d d'" using run_serve_http [OF assms(1)] assms(3) by (metis snd_conv)
  have "store_inv d'" by (rule store.runs_inv [OF run]) (simp add: store_inv_def assms(1,2))
  with run show ?thesis using assms(3)
    by (auto simp: store_inv_def serve_http_def Let_def split: if_splits option.splits prod.splits)
qed

theorem serve_http_sound_witness:
  "serve_http id ''GET'' [] (\<lambda>_. 0) (\<lambda>_. True) sample_db = (Http_Error 405, sample_db)"
proof -
  obtain answer d' where s: "serve_http id ''GET'' [] (\<lambda>_. 0) (\<lambda>_. True) sample_db = (answer, d')" by fastforce
  from serve_http_sound [OF wf_sample sample_coherent s] have "answer = Http_Error 405" "d' = sample_db"
    by simp_all
  with s show ?thesis by simp
qed

section \<open>Opening a tunnel\<close>

lemma leases_audit [simp]: "leases (audit_event uid act det n fail d) = leases d"
  by (simp add: audit_event_def insert_audit_def leases_def)

lemma leases_touch [simp]: "leases (snd (touch_session i r n fail d)) = leases d"
  by (simp add: touch_session_def update_sessions_def leases_def)

lemma touch_row:
  assumes "row sr_id i (sessions d) = Some s"
  shows "\<exists>s'. row sr_id i (sessions (snd (touch_session j r n fail d))) = Some s' \<and>
    sr_user_id s' = sr_user_id s \<and> sr_token_id s' = sr_token_id s"
  using assms by (auto simp: touch_session_def update_sessions_def row_upd)

lemma name_allowed_touch [simp]:
  "name_allowed typ sub port uid (snd (touch_session i r n fail d)) = name_allowed typ sub port uid d"
  by (simp add: touch_session_def update_sessions_def name_allowed_def port_range_of_def)

lemma check_proxy_Ok:
  assumes "check_proxy uc c = Ok c'"
  obtains "np_proxy_type c = ''http''" "np_custom_domains c = []" "subdomain_re (to_lower uc (np_subdomain c))"
      "to_lower uc (np_subdomain c) \<noteq> ''ktunnel''" "c' = c\<lparr>np_subdomain := to_lower uc (np_subdomain c)\<rparr>"
  | "np_proxy_type c = ''tcp''" "c' = c"
  using assms by (auto simp: check_proxy_def Let_def split: if_splits)

lemma new_proxy_cases:
  assumes "new_proxy uc raw clk fs d = (resp, d')"
  obtains why where "resp = reject why" "d' = d"
  | c sess d1 where "decode_new_proxy raw = Some c" "session_of (np_user c) fs d = Ok sess"
      "d1 = snd (touch_session (s_id sess) (ui_run_id (np_user c)) (clk 0) (fs 3) d)"
      "rs_reject resp" "leases d' = leases d"
  | c c' sess d1 adm d2 where "decode_new_proxy raw = Some c" "session_of (np_user c) fs d = Ok sess"
      "check_proxy uc c = Ok c'"
      "d1 = snd (touch_session (s_id sess) (ui_run_id (np_user c)) (clk 0) (fs 3) d)"
      "admit_proxy (s_id sess) (ui_run_id (np_user c')) (np_proxy_name c') (np_proxy_type c')
         (np_subdomain c') (np_remote_port c') (clk 1) (\<lambda>i. fs (i + 4)) d1 = (Ok adm, d2)"
      "resp = unchange" "leases d' = leases d2"
proof -
  show ?thesis
  proof (cases "decode_new_proxy raw")
    case None
    then show ?thesis using assms that(1) by (auto simp: new_proxy_def)
  next
    case (Some c)
    show ?thesis
    proof (cases "\<not> valid_user_info (np_user c) \<or> \<not> bounded_text (np_proxy_name c) max_proxy_name_bytes False \<or>
             \<not> bounded_text (np_proxy_type c) max_proxy_type_bytes False \<or> \<not> bounded_text (np_subdomain c) 63 True")
      case True
      then show ?thesis using assms that(1) Some by (auto simp: new_proxy_def)
    next
      case False
      let ?d1 = "\<lambda>sess. snd (touch_session (s_id sess) (ui_run_id (np_user c)) (clk 0) (fs 3) d)"
      show ?thesis
      proof (cases "session_of (np_user c) fs d")
        case (Inl why)
        then show ?thesis using assms that(1) Some False by (auto simp: new_proxy_def)
      next
        case (Inr sess)
        show ?thesis
        proof (cases "check_proxy uc c")
          case (Inl why)
          with assms Some False Inr have "resp = reject why" "d' = ?d1 sess" by (auto simp: new_proxy_def Let_def)
          then show ?thesis by (intro that(2) [OF Some Inr refl]) (simp_all add: reject_def)
        next
          case ok: (Inr c')
          obtain r d2 where adm: "admit_proxy (s_id sess) (ui_run_id (np_user c')) (np_proxy_name c') (np_proxy_type c')
             (np_subdomain c') (np_remote_port c') (clk 1) (\<lambda>i. fs (i + 4)) (?d1 sess) = (r, d2)" by fastforce
          show ?thesis
          proof (cases r)
            case (Inl e)
            with adm have d2: "d2 = ?d1 sess" by (auto dest: admit_proxy_error)
            from assms Some False Inr ok adm Inl have "rs_reject resp" "d' = d2"
              by (auto simp: new_proxy_def Let_def reject_def split: store_error.splits)
            with d2 show ?thesis by (intro that(2) [OF Some Inr refl]) simp_all
          next
            case a: (Inr adm)
            from adm assms Some False Inr ok a have "resp = unchange" "leases d' = leases d2"
              by (auto simp: new_proxy_def Let_def)
            then show ?thesis by (rule that(3) [OF Some Inr ok refl adm [unfolded a]])
          qed
        qed
      qed
    qed
  qed
qed

lemma wf_touch [wf_intros]: "wf_db d \<Longrightarrow> wf_db (snd (touch_session i r n fail d))"
  by (auto simp: touch_session_def intro!: wf_sessions_steps [unfolded touch_def])

section \<open>Sample requests\<close>

text \<open>Bob asks for a tunnel on \<open>APP\<close>, the name he has reserved; a session of alice sends a heartbeat.\<close>

definition sample_user_info :: "string \<Rightarrow> user_info" where
  "sample_user_info i = \<lparr>ui_user = [], ui_metas = [(''ktunnel_session'', i)], ui_run_id = []\<rparr>"

definition sample_user_json :: "string \<Rightarrow> json" where
  "sample_user_json i = JObj [(''metas'', JObj [(''ktunnel_session'', JStr i)])]"

definition sample_open :: json where
  "sample_open = JObj [(''user'', sample_user_json ''3''), (''proxy_name'', JStr ''w''),
     (''proxy_type'', JStr ''http''), (''subdomain'', JStr ''APP'')]"

definition sample_ping :: json where
  "sample_ping = JObj [(''user'', sample_user_json ''1'')]"

lemmas fold_simps = equal_fold_def next_rune_def fold_rune_def lower_ascii_def

lemma decode_sample_user:
  "store_struct store_user_field (sample_user_json i) no_user = Some (sample_user_info i)"
  by (simp add: sample_user_json_def store_struct_def store_user_field_def store_str_map_def store_string_def
      no_user_def sample_user_info_def fold_simps)

lemma decode_sample_open:
  "decode_new_proxy (Some sample_open) =
     Some \<lparr>np_user = sample_user_info ''3'', np_proxy_name = ''w'', np_proxy_type = ''http'', np_subdomain = ''APP'',
           np_custom_domains = [], np_remote_port = 0\<rparr>"
  by (simp add: decode_new_proxy_def sample_open_def store_struct_def [of store_proxy_field] store_proxy_field_def
      decode_sample_user store_string_def fold_simps)

lemma decode_sample_ping:
  "decode_user_only (Some sample_ping) = Some \<lparr>uo_user = sample_user_info ''1'', uo_proxy_name = []\<rparr>"
  by (simp add: decode_user_only_def sample_ping_def store_struct_def [of store_user_only_field]
      store_user_only_field_def decode_sample_user fold_simps)

lemma named_sample: "named_session (sample_user_info ''3'') = 3" "named_session (sample_user_info ''1'') = 1"
  by (simp_all add: named_session_def sample_user_info_def meta_def meta_session_def parse_int_value_def
      parse_int_def parse_uint_def is_digit_def digit_val_def)

lemma bounded_sample [simp]:
  "bounded_text [] n True" "bounded_text ''w'' 256 False" "bounded_text ''http'' 32 False" "bounded_text ''APP'' 63 True"
  by (simp_all add: bounded_text_def next_rune_def is_control_def)

lemma valid_sample_user: "valid_user_info (sample_user_info ''3'')"
  by (simp add: valid_user_info_def sample_user_info_def max_meta_entries_def max_meta_key_bytes_def
      max_meta_value_bytes_def max_meta_bytes_def bounded_text_def next_rune_def is_control_def)

lemma sample_session_of: "session_of (sample_user_info ''3'') (\<lambda>_. False) sample_db =
    Ok (scan_session (sample_session 3 2, sample_user 2 ''bob'' 5, sample_token_row 2 ''bob''))"
proof -
  have "meta meta_session (ui_metas (sample_user_info ''3'')) \<noteq> []"
    by (simp add: sample_user_info_def meta_def meta_session_def)
  moreover have "row sr_id 3 (sessions sample_db) = Some (sample_session 3 2)"
    by (simp add: sample_session_def)
  moreover have "the_user 2 sample_db = sample_user 2 ''bob'' 5" "the_token 2 sample_db = sample_token_row 2 ''bob''"
    by (simp_all add: the_user_def the_token_def sample_rows)
  moreover have "sr_user_id (sample_session 3 2) = 2" "sr_token_id (sample_session 3 2) = 2"
    "sr_killed (sample_session 3 2) = 0" "live (sample_session 3 2)"
    "tr_revoked_at (sample_token_row 2 ''bob'') = None" "ur_disabled (sample_user 2 ''bob'' 5) = 0"
    by (simp_all add: sample_rows)
  ultimately show ?thesis by (simp add: session_of_wf [OF wf_sample] named_sample del: sample_parts)
qed

lemma sample_admissible:
  "admissible 3 ''http'' ''app'' 0 n (snd (touch_session 3 [] m False sample_db))"
  by (simp add: touch_session_def update_sessions_def admission_simps sample_rows Let_def)

lemma sample_opened:
  "\<exists>d'. new_proxy id (Some sample_open) clk (\<lambda>_. False) sample_db = (unchange, d')"
proof -
  let ?d1 = "snd (touch_session 3 [] (clk 0) False sample_db)"
  have wf1: "wf_db ?d1" by (intro wf_intros wf_sample)
  have "admit_proxy 3 [] ''w'' ''http'' ''app'' 0 (clk 1) (\<lambda>_. False) ?d1 =
     (Ok \<lparr>takeover_session_id = sql_max (map pr_session_id (holders (resource ''http'' ''app'' 0) ?d1))\<rparr>,
      admitted 3 [] ''w'' ''http'' ''app'' 0 (clk 1) ?d1)"
    by (simp add: admit_proxy_ok admit_result_iff [OF wf1] sample_admissible statements_ok_def)
  moreover have "to_lower id ''APP'' = ''app''"
    by (simp add: to_lower_def ascii_def lower_ascii_def char_of_eq_iff)
  then have "check_proxy id \<lparr>np_user = sample_user_info ''3'', np_proxy_name = ''w'', np_proxy_type = ''http'',
      np_subdomain = ''APP'', np_custom_domains = [], np_remote_port = 0\<rparr> =
    Ok \<lparr>np_user = sample_user_info ''3'', np_proxy_name = ''w'', np_proxy_type = ''http'',
      np_subdomain = ''app'', np_custom_domains = [], np_remote_port = 0\<rparr>"
    by (simp add: check_proxy_def Let_def subdomain_re_def lower_alnum_def)
  ultimately show ?thesis
    by (simp add: new_proxy_def decode_sample_open valid_sample_user max_proxy_name_bytes_def
        max_proxy_type_bytes_def sample_session_of Let_def)
      (simp add: sample_user_info_def scan_session_parts sample_session_def)
qed

text \<open>
  C14: The plugin lets frps open a tunnel only for a session the store still vouches for
  and under a name the policy allows: an http tunnel under the lower-case form of a valid
  label that is not the portal's and not reserved by another user, with no custom domain; a
  tcp tunnel on a port of the range. The leases after an accepted request are the granted
  ones; a rejected request changes no lease.
\<close>

theorem new_proxy_grants:
  assumes "wf_db d" "new_proxy uc raw clk fs d = (resp, d')"
  shows "(rs_reject resp \<longrightarrow> leases d' = leases d) \<and>
    (\<not> rs_reject resp \<longrightarrow> (\<exists>c s sub. decode_new_proxy raw = Some c \<and>
       row sr_id (named_session (np_user c)) (sessions d) = Some s \<and> answers s d \<and>
       (np_proxy_type c = ''http'' \<and> np_custom_domains c = [] \<and> sub = to_lower uc (np_subdomain c) \<and>
          subdomain_re sub \<and> sub \<noteq> ''ktunnel'' \<or>
        np_proxy_type c = ''tcp'' \<and> sub = np_subdomain c) \<and>
       name_allowed (np_proxy_type c) sub (np_remote_port c) (sr_user_id s) d \<and>
       leases d' = grant \<lparr>le_session = sr_id s, le_user = sr_user_id s, le_name = np_proxy_name c,
         le_type = np_proxy_type c, le_subdomain = sub, le_port = np_remote_port c\<rparr> (leases d)))"
  using assms(2)
proof (cases rule: new_proxy_cases)
  case (1 why)
  then show ?thesis by (simp add: reject_def)
next
  case (2 c sess d1)
  then show ?thesis by simp
next
  case (3 c c' sess d1 adm d2)
  from session_of_Ok [OF assms(1) 3(2)] obtain s where s:
    "row sr_id (named_session (np_user c)) (sessions d) = Some s" "answers s d" "s_id sess = sr_id s"
    "sr_id s = named_session (np_user c)" "s_user_id sess = sr_user_id s" by blast
  have wf1: "wf_db d1" unfolding 3(4) by (intro wf_intros assms(1))
  note ok = admit_proxy_okD [OF wf1 3(5)]
  have row: "row sr_id (sr_id s) (sessions d) = Some s" using s(1,4) by simp
  have user: "sr_user_id (the_session (s_id sess) d1) = sr_user_id s"
    using touch_row [OF row, of "s_id sess" "ui_run_id (np_user c)" "clk 0" "fs 3"]
    by (auto simp: the_session_def s(3) 3(4))
  have ls: "leases d' = grant \<lparr>le_session = sr_id s, le_user = sr_user_id s, le_name = np_proxy_name c',
         le_type = np_proxy_type c', le_subdomain = np_subdomain c', le_port = np_remote_port c'\<rparr> (leases d)"
    unfolding 3(7) ok(2) leases_admitted user by (simp add: s(3) 3(4))
  have allowed: "name_allowed (np_proxy_type c') (np_subdomain c') (np_remote_port c') (sr_user_id s) d"
    using admissibleD(3) [OF ok(1)] unfolding user by (simp add: 3(4))
  have "\<not> rs_reject resp" by (simp add: 3(6) unchange_def)
  moreover from 3(3) have "\<exists>sub. (np_proxy_type c = ''http'' \<and> np_custom_domains c = [] \<and>
      sub = to_lower uc (np_subdomain c) \<and> subdomain_re sub \<and> sub \<noteq> ''ktunnel'' \<or>
      np_proxy_type c = ''tcp'' \<and> sub = np_subdomain c) \<and>
      c' = c\<lparr>np_subdomain := sub\<rparr>"
    by (rule check_proxy_Ok) auto
  then obtain sub where sub: "np_proxy_type c = ''http'' \<and> np_custom_domains c = [] \<and>
      sub = to_lower uc (np_subdomain c) \<and> subdomain_re sub \<and> sub \<noteq> ''ktunnel'' \<or>
      np_proxy_type c = ''tcp'' \<and> sub = np_subdomain c" "c' = c\<lparr>np_subdomain := sub\<rparr>" by blast
  ultimately show ?thesis using s(1,2) 3(1) ls allowed sub(1)
    by (intro conjI impI exI [of _ c] exI [of _ s] exI [of _ sub]) (simp_all add: sub(2))
qed

theorem new_proxy_grants_witness:
  "\<exists>d'. new_proxy id (Some sample_open) (\<lambda>_. 400) (\<lambda>_. False) sample_db = (unchange, d') \<and>
     \<lparr>le_session = 3, le_user = 2, le_name = ''w'', le_type = ''http'', le_subdomain = ''app'', le_port = 0\<rparr>
       \<in> set (leases d')"
proof -
  obtain d' where d': "new_proxy id (Some sample_open) (\<lambda>_. 400) (\<lambda>_. False) sample_db = (unchange, d')"
    using sample_opened by blast
  have "to_lower id ''APP'' = ''app''"
    by (simp add: to_lower_def ascii_def lower_ascii_def char_of_eq_iff)
  then have "leases d' = grant \<lparr>le_session = 3, le_user = 2, le_name = ''w'', le_type = ''http'',
      le_subdomain = ''app'', le_port = 0\<rparr> (leases sample_db)"
    using new_proxy_grants [OF wf_sample d']
    by (simp add: unchange_def decode_sample_open named_sample sample_session_def)
  with d' show ?thesis by (auto simp: grant_def)
qed

section \<open>Cutting off\<close>

text \<open>A session that is killed, or whose token is revoked, is refused in every later state.\<close>

lemma dead_session_refused:
  assumes "store_inv d" "runs store_step d d'" "row sr_id i (sessions d) = Some s"
    and "sr_killed s = 1 \<or> (\<exists>r. tr_revoked_at (the_token (sr_token_id s) d) = Some r \<and> r \<noteq> zero_time)"
    and "named_session u = i"
  shows "\<exists>why. session_of u fs d' = Err why"
proof -
  note later = store.runs_rel [OF assms(2,1)]
  have wf': "wf_db d'" using store.runs_inv [OF assms(2,1)] by (simp add: store_inv_def)
  from later_session [OF later assms(3)] obtain s' where
    s': "row sr_id i (sessions d') = Some s'" "session_le s s'" .
  have "s \<in> set (sessions d)" using assms(3) by (auto dest: row_SomeD)
  then have "row tr_id (sr_token_id s) (tokens d) = Some (the_token (sr_token_id s) d)"
    using assms(1) by (intro wf_reference(4)) (simp_all add: store_inv_def)
  from later_token [OF later this] obtain t' where
    t': "row tr_id (sr_token_id s) (tokens d') = Some t'" "token_le (the_token (sr_token_id s) d) t'" .
  have tk: "the_token (sr_token_id s) d' = t'" by (simp add: the_token_def t'(1))
  have same: "sr_token_id s' = sr_token_id s" using s'(2) by (simp add: session_le_def)
  have dead: "sr_killed s' = 1 \<or> tr_revoked_at t' \<notin> {None, Some zero_time}"
    using assms(4) s'(2) t'(2) by (auto simp: session_le_def token_le_def)
  show ?thesis
    using dead s'(1) assms(5) by (auto simp: session_of_wf [OF wf'] same tk split: option.splits)
qed

lemma refused_requests:
  assumes "\<And>u. named_session u = i \<Longrightarrow> \<exists>why. session_of u fs d = Err why"
  shows "(\<forall>c. decode_user_only raw = Some c \<and> named_session (uo_user c) = i \<longrightarrow> (\<exists>why. ping raw clk fs d = (reject why, d))) \<and>
    (\<forall>c. decode_new_proxy raw = Some c \<and> named_session (np_user c) = i \<longrightarrow> (\<exists>why. new_proxy uc raw clk fs d = (reject why, d)))"
proof -
  have "\<exists>why. ping raw clk fs d = (reject why, d)"
    if "decode_user_only raw = Some c" "named_session (uo_user c) = i" for c
    using assms [OF that(2)] that(1) by (auto simp: ping_def)
  moreover have "\<exists>why. new_proxy uc raw clk fs d = (reject why, d)"
    if "decode_new_proxy raw = Some c" "named_session (np_user c) = i" for c
    using assms [OF that(2)] that(1) by (auto simp: new_proxy_def)
  ultimately show ?thesis by blast
qed

text \<open>
  Once a session is killed or its token revoked, it is cut off for good: in every later
  state of the store, whatever ran in between, each heartbeat and each request for a tunnel
  that names the session is rejected, and the heartbeat is not recorded.
\<close>

theorem dead_session_is_cut_off:
  assumes "wf_db d" "coherent d" "runs store_step d d'"
    and "row sr_id i (sessions d) = Some s"
    and "sr_killed s = 1 \<or> (\<exists>r. tr_revoked_at (the_token (sr_token_id s) d) = Some r \<and> r \<noteq> zero_time)"
  shows "(\<forall>c. decode_user_only raw = Some c \<and> named_session (uo_user c) = i \<longrightarrow>
       (\<exists>why. ping raw clk fs d' = (reject why, d'))) \<and>
    (\<forall>c. decode_new_proxy raw = Some c \<and> named_session (np_user c) = i \<longrightarrow>
       (\<exists>why. new_proxy uc raw clk fs d' = (reject why, d')))"
  using assms by (intro refused_requests dead_session_refused) (simp_all add: store_inv_def)

theorem dead_session_is_cut_off_witness:
  "\<exists>why. ping (Some sample_ping) (\<lambda>_. 400) (\<lambda>_. False) (kick_rows 1 700 (kill_rows (\<lambda>s. sr_id s = 1) sample_db)) =
     (reject why, kick_rows 1 700 (kill_rows (\<lambda>s. sr_id s = 1) sample_db))"
proof -
  let ?d = "kill_rows (\<lambda>s. sr_id s = 1) sample_db"
  have "store_inv ?d" by (rule step_inv [OF st_kill sample_inv])
  moreover have "row sr_id 1 (sessions ?d) = Some ((sample_session 1 1)\<lparr>sr_killed := 1\<rparr>)"
    by (simp add: kill_rows_def update_sessions_def sample_rows)
  ultimately show ?thesis
    using dead_session_is_cut_off [of ?d "kick_rows 1 700 ?d" 1 "(sample_session 1 1)\<lparr>sr_killed := 1\<rparr>"
        "Some sample_ping" "\<lambda>_. 400" "\<lambda>_. False"]
    by (simp add: store_inv_def runs_one st_kick decode_sample_ping named_sample)
qed

section \<open>Logging in\<close>

lemma create_session_row:
  assumes "wf_db d" "create_session uid tid h os a c n fs d = (Ok sess, d')"
  shows "\<exists>s. row sr_id (next_id sr_id (sessions d)) (sessions d') = Some s \<and> s_id sess = next_id sr_id (sessions d) \<and>
    sr_user_id s = uid \<and> sr_token_id s = tid \<and> live s \<and> sr_killed s = 0 \<and>
    d' = d\<lparr>sessions := sessions d @ [s]\<rparr> \<and> wf_db d'"
proof -
  let ?r = "\<lparr>sr_id = 0, sr_user_id = uid, sr_token_id = tid, sr_run_id = [], sr_hostname = h, sr_os = os,
     sr_arch = a, sr_client_addr = c, sr_started_at = n, sr_last_seen_at = n, sr_ended_at = None, sr_killed = 0\<rparr>"
  from assms(2) obtain i where ins: "insert_session ?r d = Ok (i, d')" and by_id: "session_by_id i (fs 1) d' = Ok sess"
    by (auto simp: create_session_def attempt_def split: if_splits sum.splits)
  from ins have i: "i = next_id sr_id (sessions d)" and d': "d' = d\<lparr>sessions := sessions d @ [?r\<lparr>sr_id := i\<rparr>]\<rparr>"
    by (auto simp: insert_session_def Let_def split: if_splits)
  have wf': "wf_db d'" by (rule wf_insert_session [OF assms(1) ins]) simp
  have row: "row sr_id i (sessions d') = Some (?r\<lparr>sr_id := i\<rparr>)"
    using row_insert [of sr_id "?r\<lparr>sr_id := i\<rparr>" "sessions d"] by (simp add: d' i)
  with by_id have "s_id sess = i"
    by (auto simp: session_by_id_wf [OF wf'] scan_session_parts split: if_splits)
  with row d' wf' show ?thesis by (simp add: i)
qed

lemma create_session_ok:
  assumes "wf_db d" "user_exists uid d" "row tr_id tid (tokens d) \<noteq> None"
  shows "\<exists>sess d'. create_session uid tid h os a c n (\<lambda>_. False) d = (Ok sess, d')"
proof -
  let ?r = "\<lparr>sr_id = 0, sr_user_id = uid, sr_token_id = tid, sr_run_id = [], sr_hostname = h, sr_os = os,
     sr_arch = a, sr_client_addr = c, sr_started_at = n, sr_last_seen_at = n, sr_ended_at = None, sr_killed = 0\<rparr>"
  obtain i d' where ins: "insert_session ?r d = Ok (i, d')" using assms(2,3) by (simp add: insert_session_def Let_def)
  then have i: "i = next_id sr_id (sessions d)" and d': "d' = d\<lparr>sessions := sessions d @ [?r\<lparr>sr_id := i\<rparr>]\<rparr>"
    by (auto simp: insert_session_def Let_def split: if_splits)
  have wf': "wf_db d'" by (rule wf_insert_session [OF assms(1) ins]) simp
  have "row sr_id i (sessions d') = Some (?r\<lparr>sr_id := i\<rparr>)"
    using row_insert [of sr_id "?r\<lparr>sr_id := i\<rparr>" "sessions d"] by (simp add: d' i)
  then show ?thesis by (simp add: create_session_def attempt_def ins session_by_id_wf [OF wf'])
qed

lemma login_accepted:
  assumes "login raw clk fs d = (resp, d')" "\<not> rs_reject resp"
  obtains content metas tok u d1 sess d2 det where
    "decode_login raw = Some content" "metas_of_login content = Some metas"
    "authenticate (meta meta_token metas) (clk 0) (clk 1) fs d = (Ok (tok, u), d1)"
    "create_session (u_id u) (t_id tok) (str_of (map_of content ''hostname'')) (str_of (map_of content ''os''))
       (str_of (map_of content ''arch'')) (str_of (map_of content ''client_address'')) (clk 2) (\<lambda>i. fs (i + 4)) d1
       = (Ok sess, d2)"
    "rs_content resp = Some (AList.update ''metas''
       (JObj (map (\<lambda>(k, v). (k, JStr v)) (stamped_metas metas sess u)))
       (AList.update ''user'' (JStr (u_name u)) content))"
    "d' = audit_event (u_id u) ''login'' det (clk 3) (fs 6) d2"
  using assms
  by (auto simp: login_def Let_def reject_def
      split: option.splits if_splits prod.splits sum.splits store_error.splits)

lemma map_of_JStr: "map_of (map (\<lambda>(k, v). (k, JStr v)) m) k = map_option JStr (map_of m k)"
  by (induction m) auto

lemma note_use_users [simp]: "users (note_use i n fail d) = users d" "sessions (note_use i n fail d) = sessions d"
  by (simp_all add: note_use_def update_tokens_def)

lemma wf_note_use [wf_intros]: "wf_db d \<Longrightarrow> wf_db (note_use i n fail d)"
  by (simp add: note_use_def wf_tokens_steps)

text \<open>What an accepted login did, with what it found on the way.\<close>

lemma login_stamped:
  assumes "wf_db d" "login raw clk (\<lambda>_. False) d = (resp, d')" "\<not> rs_reject resp"
    and "next_id sr_id (sessions d) \<le> max_int64"
  shows "\<exists>sent presented tok u d1 content metas t s.
    decode_login raw = Some sent \<and> metas_of_login sent = Some presented \<and>
    authenticate (meta meta_token presented) (clk 0) (clk 1) (\<lambda>_. False) d = (Ok (tok, u), d1) \<and> t_id tok = tr_id t \<and>
    tr_hash t = hash_token (meta meta_token presented) \<and>
    rs_content resp = Some content \<and> map_of content ''metas'' = Some (JObj metas) \<and>
    t \<in> set (tokens d) \<and> usable_token t (clk 0) d \<and>
    map_of content ''user'' = Some (JStr (ur_name (the_user (tr_user_id t) d))) \<and>
    map_of metas ''ktunnel_session'' = Some (JStr (itoa (sr_id s))) \<and>
    map_of metas ''ktunnel_user'' = Some (JStr (ur_name (the_user (tr_user_id t) d))) \<and>
    map_of metas ''token'' = None \<and>
    sr_id s = next_id sr_id (sessions d) \<and> sessions d' = sessions d @ [s] \<and>
    sr_user_id s = tr_user_id t \<and> sr_token_id s = tr_id t \<and> live s \<and> sr_killed s = 0 \<and>
    (\<forall>u. meta meta_session (ui_metas u) = itoa (sr_id s) \<longrightarrow> (\<exists>x. session_of u (\<lambda>_. False) d' = Ok x \<and> s_id x = sr_id s))"
  using assms(2,3)
proof (cases rule: login_accepted)
  case l: (1 content metas tok u d1 sess d2 det)
  from authenticate_ok_row [OF assms(1) l(3)] obtain t where t:
    "row tr_id (t_id tok) (tokens d) = Some t" "tr_user_id t = u_id u" "d1 = note_use (t_id tok) (clk 1) False d"
    "u = scan_user (the_user (tr_user_id t) d)" "usable_token t (clk 0) d"
    "tr_hash t = hash_token (meta meta_token metas)" by blast
  have wf1: "wf_db d1" unfolding t(3) by (intro wf_intros assms(1))
  have ses1: "sessions d1 = sessions d" by (simp add: t(3))
  from create_session_row [OF wf1 l(4)] obtain s where s:
    "row sr_id (next_id sr_id (sessions d)) (sessions d2) = Some s" "s_id sess = next_id sr_id (sessions d)"
    "sr_user_id s = u_id u" "sr_token_id s = t_id tok" "live s" "sr_killed s = 0"
    "d2 = d1\<lparr>sessions := sessions d @ [s]\<rparr>" "wf_db d2"
    by (auto simp: ses1)
  have sid: "sr_id s = next_id sr_id (sessions d)" using s(1) by (auto dest: row_SomeD)
  have tid: "t_id tok = tr_id t" "t \<in> set (tokens d)" using t(1) by (auto dest: row_SomeD)
  have nm: "u_name u = ur_name (the_user (tr_user_id t) d)" by (simp add: t(4) scan_user_def)
  have d': "sessions d' = sessions d @ [s]" "tokens d' = tokens d1" "users d' = users d"
    by (simp_all add: l(6) audit_event_def insert_audit_def s(7)) (simp add: t(3))
  have wf': "wf_db d'" using wf_insert_audit [OF s(8)] by (simp add: l(6) audit_event_def)
  have echo: "\<exists>y. session_of x (\<lambda>_. False) d' = Ok y \<and> s_id y = sr_id s" if "meta meta_session (ui_metas x) = itoa (sr_id s)" for x
  proof -
    have "0 \<le> sr_id s" using next_id_pos [of sr_id "sessions d"] by (simp add: sid)
    then have "atoi (itoa (sr_id s)) = Some (sr_id s)"
      using assms(4) by (intro decimal.dec_enc) (simp add: int64_def sid)
    then have nm: "named_session x = sr_id s" using atoi_value by (simp add: named_session_def that)
    have row: "row sr_id (sr_id s) (sessions d') = Some s"
      using s(1) by (simp add: d'(1) sid s(7))
    obtain t' where t': "row tr_id (tr_id t) (tokens d1) = Some t'" "tr_revoked_at t' = tr_revoked_at t"
      using t(1) tid by (auto simp: t(3) note_use_def update_tokens_def row_upd)
    have "the_token (sr_token_id s) d' = t'" by (simp add: the_token_def d' s(4) tid t')
    moreover have "the_user (sr_user_id s) d' = the_user (tr_user_id t) d"
      by (simp add: the_user_def d' s(3) t(2))
    ultimately show ?thesis
      using that t(5) s(5,6) t'(2)
      by (simp add: session_of_wf [OF wf'] nm row usable_token_def scan_session_parts)
  qed
  have "map_of (stamped_metas metas sess u) ''ktunnel_session'' = Some (itoa (sr_id s))"
    "map_of (stamped_metas metas sess u) ''ktunnel_user'' = Some (u_name u)"
    "map_of (stamped_metas metas sess u) ''token'' = None"
    by (simp_all add: stamped_metas_def delete_conv update_conv meta_token_def meta_session_def meta_user_def
        s(2) sid)
  then show ?thesis
    using l(1-3,5) t(5,6) tid s(3-6) sid d'(1) echo t(2) nm
    by (intro exI [of _ content] exI [of _ metas] exI [of _ tok] exI [of _ u] exI [of _ d1] exI [of _ "AList.update ''metas''
       (JObj (map (\<lambda>(k, v). (k, JStr v)) (stamped_metas metas sess u)))
       (AList.update ''user'' (JStr (u_name u)) content)"]
       exI [of _ "map (\<lambda>(k, v). (k, JStr v)) (stamped_metas metas sess u)"] exI [of _ t] exI [of _ s])
      (simp add: update_conv map_of_JStr)
qed

text \<open>
  C27: An accepted login is stamped with identities the client cannot choose. The text under
  \<open>token\<close> in the metadata it presented is, by its hash, a usable token of the database; frps is
  told the name of that token's owner and the number of a new live session of that user on that
  token, whatever user name or session the client sent, and the token itself is not passed on. A
  later operation that echoes the stamp is recognised as that session.
\<close>

theorem login_stamps_identity:
  assumes "wf_db d" "login raw clk (\<lambda>_. False) d = (resp, d')" "\<not> rs_reject resp"
    and "next_id sr_id (sessions d) \<le> max_int64"
  shows "\<exists>sent presented content metas t s.
    decode_login raw = Some sent \<and> metas_of_login sent = Some presented \<and>
    tr_hash t = hash_token (meta meta_token presented) \<and>
    rs_content resp = Some content \<and> map_of content ''metas'' = Some (JObj metas) \<and>
    t \<in> set (tokens d) \<and> usable_token t (clk 0) d \<and>
    map_of content ''user'' = Some (JStr (ur_name (the_user (tr_user_id t) d))) \<and>
    map_of metas ''ktunnel_session'' = Some (JStr (itoa (sr_id s))) \<and>
    map_of metas ''ktunnel_user'' = Some (JStr (ur_name (the_user (tr_user_id t) d))) \<and>
    map_of metas ''token'' = None \<and>
    sr_id s = next_id sr_id (sessions d) \<and> sessions d' = sessions d @ [s] \<and>
    sr_user_id s = tr_user_id t \<and> sr_token_id s = tr_id t \<and> live s \<and> sr_killed s = 0 \<and>
    (\<forall>u. meta meta_session (ui_metas u) = itoa (sr_id s) \<longrightarrow> (\<exists>x. session_of u (\<lambda>_. False) d' = Ok x \<and> s_id x = sr_id s))"
  using login_stamped [OF assms] by (elim exE conjE) (intro exI conjI)

definition sample_login :: json where
  "sample_login = JObj [(''user'', JStr ''root''), (''metas'', JObj [(''token'', JStr ''alice-token''),
     (''ktunnel_session'', JStr ''3'')])]"

definition sample_content :: "(string \<times> json) list" where
  "sample_content = [(''user'', JStr ''root''),
     (''metas'', JObj [(''token'', JStr ''alice-token''), (''ktunnel_session'', JStr ''3'')])]"

lemma sample_login_content: "decode_login (Some sample_login) = Some sample_content"
  by (simp add: decode_login_def sample_login_def sample_content_def obj_map_def)

lemma sample_login_metas: "metas_of_login sample_content = Some [(''token'', ''alice-token''), (''ktunnel_session'', ''3'')]"
  by (simp add: sample_content_def metas_of_login_def obj_map_def Let_def max_meta_entries_def max_meta_key_bytes_def
      max_meta_value_bytes_def max_meta_bytes_def bounded_text_def next_rune_def is_control_def)

lemma sample_content_fields: "k \<notin> {''user'', ''metas''} \<Longrightarrow> map_of sample_content k = None" "length sample_content = 2"
  by (simp_all add: sample_content_def)

text \<open>Alice logs in and asks for bob's session; she is given a new one of her own.\<close>

theorem login_stamps_identity_witness:
  "\<exists>resp d' s. login (Some sample_login) (\<lambda>i. 500) (\<lambda>_. False) sample_db = (resp, d') \<and> \<not> rs_reject resp \<and>
     sessions d' = sessions sample_db @ [s] \<and> sr_id s = 4 \<and> live s"
proof -
  let ?t = "sample_token_row 1 (hash_token ''alice-token'')" and ?u = "sample_user 1 ''alice'' 1"
  have u: "the_user 1 sample_db = ?u" by (simp add: the_user_def sample_user_def)
  have auth: "authenticate ''alice-token'' 500 500 (\<lambda>_. False) sample_db =
      (Ok (scan_token (?t, ?u), scan_user ?u), note_use 1 500 False sample_db)"
    by (simp add: authenticate_def check_token_wf [OF wf_sample])
      (simp add: sample_token_row_def u scan_token_id, simp add: sample_user_def)
  let ?d1 = "note_use 1 500 False sample_db"
  have wf1: "wf_db ?d1" by (intro wf_intros wf_sample)
  have "\<exists>sess d2. create_session 1 1 [] [] [] [] 500 (\<lambda>_. False) ?d1 = (Ok sess, d2)"
    by (simp add: create_session_def attempt_def insert_session_def user_exists_def note_use_def update_tokens_def
        session_by_id_def session_join_def sample_rows next_id_def)
  then obtain sess d2 where sess: "create_session 1 1 [] [] [] [] 500 (\<lambda>_. False) ?d1 = (Ok sess, d2)" by blast
  have ids: "u_id (scan_user ?u) = 1" "t_id (scan_token (?t, ?u)) = 1"
    by (simp_all add: scan_user_def scan_token_id sample_user_def sample_token_row_def)
  have bt: "bounded_text ''alice-token'' max_token_bytes False"
    by (simp add: bounded_text_def max_token_bytes_def next_rune_def is_control_def)
  have "\<exists>resp d'. login (Some sample_login) (\<lambda>i. 500) (\<lambda>_. False) sample_db = (resp, d') \<and> \<not> rs_reject resp"
    by (simp add: login_def sample_login_content sample_login_metas sample_content_fields login_limits_def login_field_ok_def max_top_level_fields_def meta_def
        meta_token_def bt auth ids str_of_def sess Let_def)
  then obtain resp d' where l: "login (Some sample_login) (\<lambda>i. 500) (\<lambda>_. False) sample_db = (resp, d')"
    "\<not> rs_reject resp" by blast
  have nx: "next_id sr_id (sessions sample_db) = 4" by (simp add: next_id_def sample_session_def)
  have "(4::int) \<le> max_int64" by simp
  note stamp = login_stamps_identity [OF wf_sample l, unfolded nx, OF this]
  have "\<exists>s. sr_id s = 4 \<and> sessions d' = sessions sample_db @ [s] \<and> live s"
    using stamp by (elim exE conjE) (intro exI conjI)
  with l show ?thesis by blast
qed

end
