(* ===== verification/Cli_Login.thy ===== *)
theory Cli_Login
  imports Cli_Laws Kt_Gate
begin

text \<open>
  Where the two programs meet: the configuration a client derives from its token, carried by frp as
  the metadata of a login, and what the server's plugin makes of it.
\<close>

section \<open>The text of a token\<close>

lemma new_token_visible:
  assumes "new_token info rnd = Ok (tok, hash, p)"
  shows "tok \<noteq> [] \<and> list_all visible tok"
proof -
  obtain blob secret where t: "encode_v2 info = Ok blob"
    "tok = join_with ''.'' [token_version_current, blob, b64_encode secret]"
    using token_parts [OF assms] by metis
  obtain x where x: "blob = b64_encode x" using encode_v2_blob [OF t(1)] by blast
  show ?thesis
    by (auto simp: t(2) x token_version_current_def visible_def list_all_iff dest!: b64_encode_chars)
qed

lemma visible_no_control: "list_all visible s \<Longrightarrow> \<not> list_ex is_control (runes s)"
proof -
  assume a: "list_all visible s"
  then have "list_all ascii s" using visible_ascii by (auto simp: list_all_iff)
  with a show ?thesis by (auto simp: runes_ascii list_ex_iff list_all_iff is_control_def visible_def)
qed

lemma new_token_bounded:
  assumes "new_token info rnd = Ok (tok, hash, p)" "length tok \<le> n"
  shows "bounded_text tok n e"
  using new_token_visible [OF assms(1)] visible_no_control assms(2) by (auto simp: bounded_text_def)

section \<open>The login\<close>

lemma carried_metas:
  assumes "map_of content ''metas'' = Some (JObj [(''token'', JStr tok)])" "bounded_text tok max_token_bytes False"
  shows "metas_of_login content = Some [(''token'', tok)]"
proof -
  have k: "bounded_text ''token'' max_meta_key_bytes False"
    by (simp add: bounded_text_def max_meta_key_bytes_def next_rune_def is_control_def)
  have v: "bounded_text tok max_meta_value_bytes True" "length tok \<le> 8192"
    using assms(2) by (simp_all add: bounded_text_def max_token_bytes_def max_meta_value_bytes_def)
  show ?thesis
    using v(2) by (simp add: metas_of_login_def assms(1) obj_map_def max_meta_entries_def k v(1) max_meta_bytes_def)
qed

lemma usable_login_accepted:
  assumes "wf_db d" "decode_login raw = Some content" "length content \<le> max_top_level_fields"
    and "list_all (login_field_ok content) login_limits" "metas_of_login content = Some metas"
    and "bounded_text (meta meta_token metas) max_token_bytes False"
    and "t \<in> set (tokens d)" "tr_hash t = hash_token (meta meta_token metas)" "usable_token t (clk 0) d"
  shows "\<not> rs_reject (fst (login raw clk (\<lambda>_. False) d)) \<and>
    authenticate (meta meta_token metas) (clk 0) (clk 1) (\<lambda>_. False) d =
      (Ok (scan_token (t, the_user (tr_user_id t) d), scan_user (the_user (tr_user_id t) d)), note_use (tr_id t) (clk 1) False d)"
proof -
  let ?u = "the_user (tr_user_id t) d" and ?d1 = "note_use (tr_id t) (clk 1) False d"
  have distinct: "distinct (map tr_hash (tokens d))" using assms(1) by (simp add: wf_db_def wf_unique_def)
  then have hash: "row tr_hash (hash_token (meta meta_token metas)) (tokens d) = Some t"
    using assms(7,8) by (simp add: row_eq_Some_iff)
  have auth: "authenticate (meta meta_token metas) (clk 0) (clk 1) (\<lambda>_. False) d =
      (Ok (scan_token (t, ?u), scan_user ?u), ?d1)"
    using assms(9) by (auto simp: authenticate_def check_token_wf [OF assms(1)] hash usable_token_def scan_token_id)
  note r = token_row_by_hash [OF assms(1) hash]
  have "u_id (scan_user ?u) = tr_user_id t" using r(2) by (auto simp: scan_user_def dest: row_SomeD)
  moreover have "user_exists (tr_user_id t) ?d1" using r(2) by (simp add: user_exists_def)
  moreover have "row tr_id (tr_id t) (tokens ?d1) \<noteq> None"
    using r(1) by (simp add: note_use_def update_tokens_def row_upd)
  moreover have "wf_db ?d1" by (intro wf_intros assms(1))
  ultimately obtain sess d2 where "create_session (u_id (scan_user ?u)) (t_id (scan_token (t, ?u)))
      (str_of (map_of content ''hostname'')) (str_of (map_of content ''os'')) (str_of (map_of content ''arch''))
      (str_of (map_of content ''client_address'')) (clk 2) (\<lambda>_. False) ?d1 = (Ok sess, d2)"
    using create_session_ok by (metis scan_token_id(1))
  moreover have "meta meta_token metas \<noteq> []" using assms(6) by (auto simp: bounded_text_def)
  ultimately show ?thesis
    using assms(2-6) by (simp add: login_def Let_def auth del: One_nat_def)
qed


text \<open>
  What frp's client sends for a configuration (frp is not under \<open>src/\<close>): the login has the configured
  metadata under \<open>metas\<close>, and its other fields are of the usual kind and size.
\<close>

definition carries :: "frp_common \<Rightarrow> json option \<Rightarrow> bool" where
  "carries c raw \<longleftrightarrow>
     (case decode_login raw of
        None \<Rightarrow> False
      | Some content \<Rightarrow>
          length content \<le> max_top_level_fields \<and> list_all (login_field_ok content) login_limits \<and>
          map_of content ''metas'' = Some (JObj (map (\<lambda>(k, v). (k, JStr v)) (fc_metadatas c))))"

lemma issued_token_kept:
  assumes "store_inv d" "issue_token uid label (Some secret) n fs d = (Ok (tok, issued), d1)" "runs store_step d1 d2"
  obtains info hash p t where "new_token info (Some secret) = Ok (tok, hash, p)" "store_inv d2"
    "row tr_id (t_id issued) (tokens d2) = Some t" "tr_hash t = hash_token tok" "tr_user_id t = uid"
proof -
  have wf: "wf_db d" using assms(1) by (simp add: store_inv_def)
  from issue_token_row [OF wf assms(2)] obtain info t where t:
    "new_token info (Some secret) = Ok (tok, tr_hash t, tr_prefix t)" "d1 = d\<lparr>tokens := tokens d @ [t]\<rparr>"
    "tr_id t = next_id tr_id (tokens d)" "tr_user_id t = uid" "issued = scan_token (t, the_user uid d)" by metis
  have inv1: "store_inv d1"
    using store.runs_inv [OF run_issue_token [of d uid label "Some secret" n fs] assms(1)] by (simp add: assms(2))
  have "row tr_id (t_id issued) (tokens d1) = Some t"
    using row_insert [of tr_id t "tokens d"] t(3) by (simp add: t(2,5) scan_token_id)
  then obtain t' where t': "row tr_id (t_id issued) (tokens d2) = Some t'" "token_le t t'"
    using later_token [OF store.runs_rel [OF assms(3) inv1]] by blast
  moreover have "tr_hash t = hash_token tok" using t(1) by (auto elim: token_parts)
  ultimately show ?thesis
    using that [OF t(1) store.runs_inv [OF assms(3) inv1]] t(4) by (simp add: token_le_def)
qed

text \<open>
  C11: The two programs agree on a token. Whatever happened to the database since a token was issued, as long
  as the token is usable there, a client that logs in with the configuration it derives from the token
  is accepted, if its request carries that configuration's metadata. It gets a new
  live session of the token's user on that token, the relay is told that user's name, and every
  operation that echoes the session is recognised as that session.
\<close>

theorem client_and_plugin_agree:
  assumes "store_inv d" "issue_token uid label (Some secret) n fs d = (Ok (tok, issued), d1)" "runs store_step d1 d2"
    and "usable_token (the_token (t_id issued) d2) (clk 0) d2" "length tok \<le> 8192"
    and "parse_token tok = Ok info" "carries (frp_common_of (login_config tok info) ca verbose) raw"
    and "next_id sr_id (sessions d2) \<le> max_int64" "login raw clk (\<lambda>_. False) d2 = (resp, d3)"
  shows "\<not> rs_reject resp \<and>
    (\<exists>content s. rs_content resp = Some content \<and>
       map_of content ''user'' = Some (JStr (ur_name (the_user uid d2))) \<and>
       sessions d3 = sessions d2 @ [s] \<and> sr_user_id s = uid \<and> sr_token_id s = t_id issued \<and>
       live s \<and> sr_killed s = 0 \<and>
       (\<forall>u. meta meta_session (ui_metas u) = itoa (sr_id s) \<longrightarrow> (\<exists>x. session_of u (\<lambda>_. False) d3 = Ok x \<and> s_id x = sr_id s)))"
proof -
  from issued_token_kept [OF assms(1-3)] obtain i h p t where t: "new_token i (Some secret) = Ok (tok, h, p)"
    "store_inv d2" "row tr_id (t_id issued) (tokens d2) = Some t" "tr_hash t = hash_token tok" "tr_user_id t = uid" .
  have wf: "wf_db d2" using t(2) by (simp add: store_inv_def)
  have m: "fc_metadatas (frp_common_of (login_config tok info) ca verbose) = [(''token'', tok)]"
    by (simp add: frp_common_of_def login_config_def)
  obtain content where c: "decode_login raw = Some content" "length content \<le> max_top_level_fields"
    "list_all (login_field_ok content) login_limits" "map_of content ''metas'' = Some (JObj [(''token'', JStr tok)])"
    using assms(7) by (auto simp: carries_def m split: option.splits)
  have b: "bounded_text tok max_token_bytes False"
    using new_token_bounded [OF t(1)] assms(5) by (simp add: max_token_bytes_def)
  note metas = carried_metas [OF c(4) b]
  have tok: "meta meta_token [(''token'', tok)] = tok" by (simp add: meta_def meta_token_def)
  have ids: "t \<in> set (tokens d2)" "tr_id t = t_id issued" using t(3) by (auto dest: row_SomeD)
  have us: "usable_token t (clk 0) d2" using assms(4) t(3) by (simp add: the_token_def)
  note acc = usable_login_accepted [where clk = clk, OF wf c(1-3) metas, unfolded tok, OF b ids(1) t(4) us]
  have ok: "\<not> rs_reject resp" using acc assms(9) by simp
  have same: "t2 = t" if "t2 \<in> set (tokens d2)" "tr_id t2 = t_id issued" for t2
    using t(3) that wf wf_rows by (metis option.inject)
  from login_stamped [OF wf assms(9) ok assms(8)] obtain sent presented tk u dx content' t2 s where st:
    "decode_login raw = Some sent" "metas_of_login sent = Some presented"
    "authenticate (meta meta_token presented) (clk 0) (clk 1) (\<lambda>_. False) d2 = (Ok (tk, u), dx)" "t_id tk = tr_id t2"
    "rs_content resp = Some content'" "t2 \<in> set (tokens d2)"
    "map_of content' ''user'' = Some (JStr (ur_name (the_user (tr_user_id t2) d2)))"
    "sessions d3 = sessions d2 @ [s]" "sr_user_id s = tr_user_id t2" "sr_token_id s = tr_id t2" "live s" "sr_killed s = 0"
    "\<forall>u. meta meta_session (ui_metas u) = itoa (sr_id s) \<longrightarrow> (\<exists>x. session_of u (\<lambda>_. False) d3 = Ok x \<and> s_id x = sr_id s)"
    by (elim exE conjE) (rule that; assumption)
  have "meta meta_token presented = tok" using st(1,2) c(1) metas tok by simp
  with st(3,4) acc have "t2 = t" by (intro same [OF st(6)]) (simp add: scan_token_id ids)
  with st ok show ?thesis by (intro conjI exI [of _ content'] exI [of _ s]) (simp_all add: t(5) ids)
qed


section \<open>An example\<close>

lemma fresh_token_usable:
  assumes "wf_db d" "issue_token uid label (Some secret) n fs d = (Ok (tok, issued), d1)"
    and "ur_disabled (the_user uid d) = 0" "0 \<le> now"
  shows "usable_token (the_token (t_id issued) d1) now d1"
proof -
  from issue_token_row [OF assms(1,2)] obtain t where t: "d1 = d\<lparr>tokens := tokens d @ [t]\<rparr>"
    "tr_id t = next_id tr_id (tokens d)" "tr_user_id t = uid" "tr_revoked_at t = None" "tr_kicked_until t = 0"
    "issued = scan_token (t, the_user uid d)" by metis
  have "the_token (t_id issued) d1 = t"
    using row_insert [of tr_id t "tokens d"] t(2) by (simp add: the_token_def t(1,6) scan_token_id)
  then show ?thesis using assms(3,4) by (simp add: usable_token_def t(3-5)) (simp add: t(1) the_user_def)
qed

lemma relay_inv: "store_inv relay_db"
  using wf_relay by (simp add: store_inv_def coherent_def relay_db_def put_setting_def)

lemma relay_issue:
  "\<exists>issued d1. issue_token 2 [] (Some (replicate 32 (chr 7))) 100 (\<lambda>_. False) relay_db = (Ok (login_token, issued), d1) \<and>
     sessions d1 = [] \<and> usable_token (the_token (t_id issued) d1) 500 d1"
proof -
  have "\<exists>issued d1. issue_token 2 [] (Some (replicate 32 (chr 7))) 100 (\<lambda>_. False) relay_db = (Ok (login_token, issued), d1)"
    using relay_issues unfolding login_token_def by blast
  then obtain issued d1 where
    i: "issue_token 2 [] (Some (replicate 32 (chr 7))) 100 (\<lambda>_. False) relay_db = (Ok (login_token, issued), d1)" by blast
  have "ur_disabled (the_user 2 relay_db) = 0" by (simp add: the_user_def sample_user_def)
  then have "usable_token (the_token (t_id issued) d1) 500 d1" by (intro fresh_token_usable [OF wf_relay i]) simp_all
  moreover obtain t where "d1 = relay_db\<lparr>tokens := tokens relay_db @ [t]\<rparr>" using issue_token_row [OF wf_relay i] by metis
  then have "sessions d1 = []" by (simp add: relay_db_def put_setting_def)
  ultimately show ?thesis using i by blast
qed

theorem client_and_plugin_agree_witness:
  "\<exists>issued d1 resp d3 s. issue_token 2 [] (Some (replicate 32 (chr 7))) 100 (\<lambda>_. False) relay_db = (Ok (login_token, issued), d1) \<and>
     login (Some (JObj [(''metas'', JObj [(''token'', JStr login_token)])])) (\<lambda>_. 500) (\<lambda>_. False) d1 = (resp, d3) \<and>
     \<not> rs_reject resp \<and> sessions d3 = [s] \<and> sr_user_id s = 2 \<and> live s"
proof -
  let ?raw = "Some (JObj [(''metas'', JObj [(''token'', JStr login_token)])])"
  obtain issued d1 where i: "issue_token 2 [] (Some (replicate 32 (chr 7))) 100 (\<lambda>_. False) relay_db = (Ok (login_token, issued), d1)"
    "sessions d1 = []" "usable_token (the_token (t_id issued) d1) 500 d1"
    using relay_issue by blast
  obtain resp d3 where l: "login ?raw (\<lambda>_. 500) (\<lambda>_. False) d1 = (resp, d3)" by (rule prod.exhaust)
  have "carries (frp_common_of (login_config login_token sample_relay_info) [] False) ?raw"
    by (simp add: carries_def decode_login_def obj_map_def max_top_level_fields_def login_limits_def login_field_ok_def
        frp_common_of_def login_config_def)
  moreover have "length login_token \<le> 8192" by (simp add: login_token_length)
  moreover have "next_id sr_id (sessions d1) \<le> max_int64" by (simp add: i(2) next_id_def)
  ultimately have "\<not> rs_reject resp" "\<exists>s. sessions d3 = sessions d1 @ [s] \<and> sr_user_id s = 2 \<and> live s"
    using client_and_plugin_agree [OF relay_inv i(1) runs_refl i(3) _ login_token_ok(2) _ _ l] by blast+
  then have "\<not> rs_reject resp \<and> (\<exists>s. sessions d3 = [s] \<and> sr_user_id s = 2 \<and> live s)" by (simp add: i(2))
  with i(1) l show ?thesis by blast
qed

end
