(* ===== verification/Ktd_Commands.thy ===== *)
theory Ktd_Commands
  imports Web_Portal Go_Flag Go_Lines
begin

text \<open>
  The commands of the server program that work on the database (\<open>cmd/ktunneld/main.go\<close>). As in
  \<open>Kt_Plugin\<close>, the clock is read in the order \<open>clk 0, clk 1, ...\<close>, \<open>fs i\<close> is the failure of the
  \<open>i\<close>-th statement, and every command returns what it prints, or an error, and the database it
  leaves. A table is printed through \<open>text/tabwriter\<close> and is kept as its cells; dates are
  formatted in the local time zone by an argument, and the order in which a range visits a map is
  an argument too.
\<close>

section \<open>What a command finds and prints\<close>

datatype printed = Line string | Table "string list list"

datatype daemon_error =
    Usage string | Unknown_Subcommand string string | Db_Not_Opened | Bad_Flags flag_error
  | User_Failed string store_error | Token_Failed string store_error | Reservation_Failed string store_error
  | Session_Failed int store_error | No_Live_Tunnel string | Store_Call store_error
  | Secret_Unreadable | Password_Refused change_error | Server_And_Domain_Needed
  | Bad_Listen_Address string string | Bad_Listen_Port string string | Not_Loopback string
  | Dashboard_Failed setup_error | Listener_Failed string | Unknown_Daemon_Command string

type_synonym command_result = "(daemon_error + printed list) \<times> db"

text \<open>
  Standard input of the password prompt: a terminal, with what was typed and whether reading it
  failed, or a stream of bytes.
\<close>

datatype secret_input = Typed string bool | Stream string

record surroundings =
  dn_env :: "string list"
  dn_opens :: "string \<Rightarrow> bool"
  dn_clk :: "nat \<Rightarrow> int"
  dn_faults :: "nat \<Rightarrow> bool"
  dn_now_ns :: int
  dn_random :: "string option"
  dn_secret :: secret_input
  dn_gen :: "string \<Rightarrow> string option"
  dn_fold :: "rune \<Rightarrow> rune"
  dn_printable :: "rune \<Rightarrow> bool"
  dn_order :: "(string \<times> string) list \<Rightarrow> (string \<times> string) list"
  dn_day :: "int \<Rightarrow> string"

text \<open>Where the database is, whether it opens there, and then the command on the opened database\<close>

definition db_path :: "string list \<Rightarrow> string" where
  "db_path env = (let v = getenv env ''KTUNNELD_DB'' in if v \<noteq> [] then v else ''ktunneld.db'')"

definition open_store :: "surroundings \<Rightarrow> bool" where
  "open_store su = dn_opens su (db_path (dn_env su))"

definition with_store :: "surroundings \<Rightarrow> (db \<Rightarrow> command_result) \<Rightarrow> db \<Rightarrow> command_result" where
  "with_store su k d = (if open_store su then k (open_db d) else (Err Db_Not_Opened, d))"

definition read_secret :: "secret_input \<Rightarrow> string option" where
  "read_secret inp =
     (case inp of
        Typed v failed \<Rightarrow> if failed then None else Some (trim_space v)
      | Stream s \<Rightarrow> if s = [] then None else Some (trim_space (takeWhile (\<lambda>c. c \<noteq> chr 10) s)))"

text \<open>\<open>agoOrNever\<close>\<close>

definition ago_or_never :: "int \<Rightarrow> int \<Rightarrow> string" where
  "ago_or_never now t =
     (if t = zero_time then ''never''
      else
        let d = round_second (now - t * second) in
        if d < 60 then itoa d @ ''s''
        else if d < 3600 then itoa (d div 60) @ ''m''
        else if d < 48 * 3600 then itoa (d div 3600) @ ''h'' @ itoa (d div 60 mod 60) @ ''m''
        else itoa (d div 86400) @ ''d'')"

definition daemon_value_flags :: "string list" where
  "daemon_value_flags = [''-max'', ''--max'', ''-label'', ''--label'']"

definition split_admin_args :: "string list \<Rightarrow> string list \<times> string list" where
  "split_admin_args args = split_args False daemon_value_flags args"

definition int_of_flag :: "flag_vars \<Rightarrow> string \<Rightarrow> int" where
  "int_of_flag vars x = (case vars x of FInt n \<Rightarrow> n | _ \<Rightarrow> 0)"

definition str_of_flag :: "flag_vars \<Rightarrow> string \<Rightarrow> string" where
  "str_of_flag vars x = (case vars x of FStr s \<Rightarrow> s | _ \<Rightarrow> [])"

definition bool_of_flag :: "flag_vars \<Rightarrow> string \<Rightarrow> bool" where
  "bool_of_flag vars x = (case vars x of FBool b \<Rightarrow> b | _ \<Rightarrow> False)"

section \<open>admin\<close>

definition admin_usage :: string where "admin_usage = ''usage: ktunneld admin set-password | set-server''"

definition admin_set_password :: "surroundings \<Rightarrow> db \<Rightarrow> command_result" where
  "admin_set_password su d =
     (case read_secret (dn_secret su) of
        None \<Rightarrow> (Err Secret_Unreadable, d)
      | Some pw \<Rightarrow>
          (case set_admin_password (dn_gen su) pw (dn_faults su) d of
             (Inl e, d1) \<Rightarrow> (Err (Password_Refused e), d1)
           | (Inr _, d1) \<Rightarrow>
               (Ok [Line ''dashboard password updated''],
                audit_event 0 ''admin.password'' ''changed via cli'' (dn_clk su 0) (dn_faults su 4) d1)))"

definition set_server_names :: flag_names where
  "set_server_names = [(''server'', ''server''), (''port'', ''port''), (''domain'', ''domain'')]"

definition set_server_vars :: flag_vars where
  "set_server_vars = (\<lambda>_. FStr [])(''port'' := FInt 7000)"

definition admin_set_server :: "surroundings \<Rightarrow> string list \<Rightarrow> db \<Rightarrow> command_result" where
  "admin_set_server su args d =
     (case parse_flags set_server_names set_server_vars args of
        Inl e \<Rightarrow> (Err (Bad_Flags e), d)
      | Inr (vars, _) \<Rightarrow>
          let addr = str_of_flag vars ''server''; domain = str_of_flag vars ''domain''; port = int_of_flag vars ''port'' in
          if addr = [] \<or> domain = [] then (Err Server_And_Domain_Needed, d)
          else
            (case set_settings (dn_order su (server_settings \<lparr>si_addr = addr, si_port = port, si_domain = domain,
                    si_tls_server_name = [], si_token_version = []\<rparr>)) (dn_faults su) d of
               (Inl e, d1) \<Rightarrow> (Err (Store_Call e), d1)
             | (Inr _, d1) \<Rightarrow>
                 (Ok [Line (''tokens will point at '' @ addr @ '':'' @ itoa port @ '' (*.'' @ domain @ '')'')], d1)))"

definition cmd_admin :: "surroundings \<Rightarrow> string list \<Rightarrow> db \<Rightarrow> command_result" where
  "cmd_admin su args d =
     (case args of
        [] \<Rightarrow> (Err (Usage admin_usage), d)
      | sub # rest \<Rightarrow>
          with_store su (\<lambda>d.
            if sub = ''set-password'' then admin_set_password su d
            else if sub = ''set-server'' then admin_set_server su rest d
            else (Err (Unknown_Subcommand ''admin'' sub), d)) d)"

section \<open>user\<close>

definition user_usage :: string where
  "user_usage = ''usage: ktunneld user add <name> [--max N] | ls | disable <name> | enable <name>''"

definition user_add :: "surroundings \<Rightarrow> string list \<Rightarrow> db \<Rightarrow> command_result" where
  "user_add su args d =
     (case split_admin_args args of
        (pos, flags) \<Rightarrow>
          (case parse_flags [(''max'', ''max'')] ((\<lambda>_. FStr [])(''max'' := FInt 5)) flags of
             Inl e \<Rightarrow> (Err (Bad_Flags e), d)
           | Inr (vars, _) \<Rightarrow>
               (case pos of
                  [name] \<Rightarrow>
                    (case create_user name (int_of_flag vars ''max'') (dn_clk su 0) (dn_faults su) d of
                       (Inl e, d1) \<Rightarrow> (Err (Store_Call e), d1)
                     | (Inr u, d1) \<Rightarrow>
                         (Ok [Line (''created user '' @ u_name u @ '' (id '' @ itoa (u_id u) @ '', max '' @
                                itoa (u_max_tunnels u) @ '' tunnels)'')],
                          audit_event (u_id u) ''user.create'' ''via cli'' (dn_clk su 1) (dn_faults su 2) d1))
                | _ \<Rightarrow> (Err (Usage ''usage: ktunneld user add <name> [--max N]''), d))))"

definition user_ls :: "surroundings \<Rightarrow> db \<Rightarrow> command_result" where
  "user_ls su d =
     (case all_users (dn_faults su 0) d of
        Inl e \<Rightarrow> (Err (Store_Call e), d)
      | Inr us \<Rightarrow>
          (Ok [Table ([''ID'', ''NAME'', ''LIMIT'', ''STATUS'', ''CREATED''] #
             map (\<lambda>u. [itoa (u_id u), u_name u, itoa (u_max_tunnels u),
                       if u_disabled u then ''disabled'' else ''active'', dn_day su (u_created_at u)]) us)], d))"

definition user_enable :: "surroundings \<Rightarrow> bool \<Rightarrow> string list \<Rightarrow> db \<Rightarrow> command_result" where
  "user_enable su enable args d =
     (let verb = (if enable then ''enable'' else ''disable'') in
      case args of
        [name] \<Rightarrow>
          (case user_by_name name (dn_faults su 0) d of
             Inl e \<Rightarrow> (Err (User_Failed name e), d)
           | Inr u \<Rightarrow>
               (case set_user_disabled (u_id u) (\<not> enable) (dn_faults su 1) d of
                  (Inl e, d1) \<Rightarrow> (Err (Store_Call e), d1)
                | (Inr _, d1) \<Rightarrow>
                    (Ok [Line (u_name u @ '' '' @ verb @ ''d'')],
                     audit_event (u_id u) (''user.'' @ verb) ''via cli'' (dn_clk su 0) (dn_faults su 2) d1)))
      | _ \<Rightarrow> (Err (Usage (''usage: ktunneld user '' @ verb @ '' <name>'')), d))"

definition cmd_user :: "surroundings \<Rightarrow> string list \<Rightarrow> db \<Rightarrow> command_result" where
  "cmd_user su args d =
     (case args of
        [] \<Rightarrow> (Err (Usage user_usage), d)
      | sub # rest \<Rightarrow>
          with_store su (\<lambda>d.
            if sub = ''add'' then user_add su rest d
            else if sub = ''ls'' then user_ls su d
            else if sub = ''disable'' then user_enable su False rest d
            else if sub = ''enable'' then user_enable su True rest d
            else (Err (Unknown_Subcommand ''user'' sub), d)) d)"

section \<open>token\<close>

definition token_usage :: string where
  "token_usage = ''usage: ktunneld token issue <user> [--label L] | ls [user] | revoke <prefix>''"

definition issued_lines :: "user \<Rightarrow> token \<Rightarrow> string \<Rightarrow> printed list" where
  "issued_lines u tok plaintext =
     [Line [], Line (''Token for '' @ u_name u @ '' ('' @ t_label tok @ '') '' @ encode_rune 0x2014 @
        '' shown once, store it now:''), Line [], Line (''  '' @ plaintext), Line [], Line ''On their machine:'', Line [],
      Line (''  ktunnel login '' @ plaintext), Line []]"

text \<open>The statements of the token commands: the user, then what the store does, then the audit.\<close>

definition token_issue_cmd :: "surroundings \<Rightarrow> string list \<Rightarrow> db \<Rightarrow> command_result" where
  "token_issue_cmd su args d =
     (case split_admin_args args of
        (pos, flags) \<Rightarrow>
          (case parse_flags [(''label'', ''label'')] (\<lambda>_. FStr []) flags of
             Inl e \<Rightarrow> (Err (Bad_Flags e), d)
           | Inr (vars, _) \<Rightarrow>
               (case pos of
                  [name] \<Rightarrow>
                    (case user_by_name name (dn_faults su 0) d of
                       Inl e \<Rightarrow> (Err (User_Failed name e), d)
                     | Inr u \<Rightarrow>
                         (case issue_token (u_id u) (str_of_flag vars ''label'') (dn_random su) (dn_clk su 0)
                                 (\<lambda>i. dn_faults su (i + 1)) d of
                            (Inl e, d1) \<Rightarrow> (Err (Store_Call e), d1)
                          | (Inr (plaintext, tok), d1) \<Rightarrow>
                              (Ok (issued_lines u tok plaintext),
                               audit_event (u_id u) ''token.issue'' (t_label tok @ '' ('' @ t_prefix tok @ '') via cli'')
                                 (dn_clk su 1) (dn_faults su 6) d1)))
                | _ \<Rightarrow> (Err (Usage ''usage: ktunneld token issue <user> [--label L]''), d))))"

definition token_row_cells :: "surroundings \<Rightarrow> token \<Rightarrow> string list" where
  "token_row_cells su t =
     [t_prefix t @ encode_rune 0x2026, t_user_name t, t_label t, dn_day su (t_created_at t),
      ago_or_never (dn_now_ns su) (t_last_used_at t),
      if token_active t then ''active'' else ''revoked '' @ dn_day su (t_revoked_at t)]"

definition token_ls_cmd :: "surroundings \<Rightarrow> string list \<Rightarrow> db \<Rightarrow> command_result" where
  "token_ls_cmd su args d =
     (case (case args of
              [] \<Rightarrow> Ok 0
            | name # _ \<Rightarrow>
                (case user_by_name name (dn_faults su 0) d of Inl e \<Rightarrow> Err (User_Failed name e) | Inr u \<Rightarrow> Ok (u_id u))) of
        Inl e \<Rightarrow> (Err e, d)
      | Inr uid \<Rightarrow>
          (case tokens_of uid (dn_faults su 1) d of
             Inl e \<Rightarrow> (Err (Store_Call e), d)
           | Inr toks \<Rightarrow>
               (Ok [Table ([''PREFIX'', ''USER'', ''LABEL'', ''CREATED'', ''LAST USED'', ''STATUS''] #
                  map (token_row_cells su) toks)], d)))"

definition token_revoke_cmd :: "surroundings \<Rightarrow> string list \<Rightarrow> db \<Rightarrow> command_result" where
  "token_revoke_cmd su args d =
     (case args of
        [p] \<Rightarrow>
          (case token_by_prefix p (dn_faults su 0) d of
             Inl e \<Rightarrow> (Err (Token_Failed p e), d)
           | Inr tok \<Rightarrow>
               (case revoke_token (t_id tok) (dn_clk su 0) (\<lambda>i. dn_faults su (i + 1)) d of
                  (Inl e, d1) \<Rightarrow> (Err (Store_Call e), d1)
                | (Inr _, d1) \<Rightarrow>
                    (Ok [Line (''revoked '' @ t_user_name tok @ CHR 0x27 # ''s token '' @ go_quote (dn_printable su) (t_label tok) @
                           '' - live sessions drop within 30s'')],
                     audit_event (t_user_id tok) ''token.revoke'' (t_label tok @ '' ('' @ t_prefix tok @ '') via cli'')
                       (dn_clk su 1) (dn_faults su 3) d1)))
      | _ \<Rightarrow> (Err (Usage ''usage: ktunneld token revoke <prefix>''), d))"

definition cmd_token :: "surroundings \<Rightarrow> string list \<Rightarrow> db \<Rightarrow> command_result" where
  "cmd_token su args d =
     (case args of
        [] \<Rightarrow> (Err (Usage token_usage), d)
      | sub # rest \<Rightarrow>
          with_store su (\<lambda>d.
            if sub = ''issue'' then token_issue_cmd su rest d
            else if sub = ''ls'' then token_ls_cmd su rest d
            else if sub = ''revoke'' then token_revoke_cmd su rest d
            else (Err (Unknown_Subcommand ''token'' sub), d)) d)"

section \<open>reserve, release\<close>

definition reserve_usage :: string where
  "reserve_usage = ''usage: ktunneld reserve <subdomain> <user>   |   ktunneld reserve ls''"

definition reserve_ls :: "surroundings \<Rightarrow> db \<Rightarrow> command_result" where
  "reserve_ls su d =
     (case reservations_of 0 (dn_faults su 0) d of
        Inl e \<Rightarrow> (Err (Store_Call e), d)
      | Inr rs \<Rightarrow>
          (Ok [Table ([''SUBDOMAIN'', ''USER'', ''SINCE''] #
             map (\<lambda>r. [r_subdomain r, r_user_name r, dn_day su (r_created_at r)]) rs)], d))"

definition cmd_reserve :: "surroundings \<Rightarrow> string list \<Rightarrow> db \<Rightarrow> command_result" where
  "cmd_reserve su args =
     with_store su (\<lambda>d.
       if args = [''ls''] \<or> args = [] then reserve_ls su d
       else
         (case args of
            [sub, name] \<Rightarrow>
              (case user_by_name name (dn_faults su 0) d of
                 Inl e \<Rightarrow> (Err (User_Failed name e), d)
               | Inr u \<Rightarrow>
                   (case reserve (dn_fold su) sub (u_id u) (dn_clk su 0) (dn_faults su 1) d of
                      (Inl e, d1) \<Rightarrow> (Err (Store_Call e), d1)
                    | (Inr _, d1) \<Rightarrow>
                        (Ok [Line (sub @ '' is now reserved for '' @ u_name u)],
                         audit_event (u_id u) ''reserve'' sub (dn_clk su 1) (dn_faults su 2) d1)))
          | _ \<Rightarrow> (Err (Usage reserve_usage), d)))"

definition cmd_release :: "surroundings \<Rightarrow> string list \<Rightarrow> db \<Rightarrow> command_result" where
  "cmd_release su args d =
     (case args of
        [sub] \<Rightarrow>
          with_store su (\<lambda>d.
            case reservation_by_name (dn_fold su) sub (dn_faults su 0) d of
              Inl e \<Rightarrow> (Err (Reservation_Failed sub e), d)
            | Inr r \<Rightarrow>
                (case release (dn_fold su) sub (dn_faults su 1) d of
                   (Inl e, d1) \<Rightarrow> (Err (Store_Call e), d1)
                 | (Inr _, d1) \<Rightarrow>
                     (Ok [Line (''released '' @ sub)],
                      audit_event (r_user_id r) ''release'' sub (dn_clk su 0) (dn_faults su 2) d1))) d
      | _ \<Rightarrow> (Err (Usage ''usage: ktunneld release <subdomain>''), d))"

section \<open>ls, kill\<close>

definition session_cells :: "surroundings \<Rightarrow> session \<Rightarrow> string list" where
  "session_cells su s =
     [itoa (s_id s), s_user_name s, s_hostname s @ '' ('' @ s_os s @ ''/'' @ s_arch s @ '')'', s_client_addr s,
      s_token_label s, ago_or_never (dn_now_ns su) (s_started_at s), ago_or_never (dn_now_ns su) (s_last_seen_at s)]"

definition tunnel_cells :: "surroundings \<Rightarrow> server_info \<Rightarrow> proxy \<Rightarrow> string list" where
  "tunnel_cells su info p =
     [if p_type p = ''tcp'' then si_addr info @ '':'' @ itoa (p_remote_port p)
      else ''https://'' @ p_subdomain p @ ''.'' @ si_domain info,
      p_user_name p, itoa (p_session_id p), ago_or_never (dn_now_ns su) (p_started_at p)]"

definition no_server :: server_info where
  "no_server = \<lparr>si_addr = [], si_port = 0, si_domain = [], si_tls_server_name = [], si_token_version = []\<rparr>"

definition cmd_ls :: "surroundings \<Rightarrow> db \<Rightarrow> command_result" where
  "cmd_ls su =
     with_store su (\<lambda>d.
       let info = or_else (server_info_of (dn_faults su) d) no_server in
       case active_proxies (dn_faults su 3) d of
         Inl e \<Rightarrow> (Err (Store_Call e), d)
       | Inr ps \<Rightarrow>
           (case active_sessions (dn_clk su 0) (dn_faults su 4) d of
              Inl e \<Rightarrow> (Err (Store_Call e), d)
            | Inr ss \<Rightarrow>
                (Ok [Table ([''SESSION'', ''USER'', ''HOST'', ''FROM'', ''TOKEN'', ''UP'', ''SEEN''] # map (session_cells su) ss @
                   [[], [''TUNNEL'', ''USER'', ''SESSION'', ''UP'']] @ map (tunnel_cells su info) ps @
                   (if ss = [] \<and> ps = [] then [[''(nothing connected)'']] else []))], d)))"

text \<open>Which session \<open>kill\<close> means: the number, or the holder of the subdomain when it is no number.\<close>

definition kill_target :: "surroundings \<Rightarrow> string \<Rightarrow> db \<Rightarrow> daemon_error + session" where
  "kill_target su arg d =
     (case parse_int arg of
        (i, None) \<Rightarrow>
          (case session_by_id i (dn_faults su 0) d of Inl e \<Rightarrow> Err (Session_Failed i e) | Inr s \<Rightarrow> Ok s)
      | (_, Some _) \<Rightarrow>
          (case session_by_subdomain arg (dn_faults su) d of Inl _ \<Rightarrow> Err (No_Live_Tunnel arg) | Inr s \<Rightarrow> Ok s))"

definition cmd_kill :: "surroundings \<Rightarrow> string list \<Rightarrow> db \<Rightarrow> command_result" where
  "cmd_kill su args d =
     (case args of
        [arg] \<Rightarrow>
          with_store su (\<lambda>d.
            case kill_target su arg d of
              Inl e \<Rightarrow> (Err e, d)
            | Inr s \<Rightarrow>
                (case kill_session (s_id s) (dn_clk su 0) (\<lambda>i. dn_faults su (i + 2)) d of
                   (Inl e, d1) \<Rightarrow> (Err (Store_Call e), d1)
                 | (Inr _, d1) \<Rightarrow>
                     (Ok [Line (''session '' @ itoa (s_id s) @ '' ('' @ s_user_name s @ ''@'' @ s_hostname s @
                            '') will drop at its next heartbeat ('' @ encode_rune 0x2264 @ ''30s)'')],
                      audit_event (s_user_id s) ''session.kill'' (s_hostname s @ '' ('' @ s_client_addr s @ '') via cli'')
                        (dn_clk su 1) (dn_faults su 4) d1))) d
      | _ \<Rightarrow> (Err (Usage ''usage: ktunneld kill <session-id | subdomain>''), d))"

section \<open>All commands\<close>

text \<open>The commands but \<open>serve\<close>, which is in \<open>Ktd_Serve\<close>: \<open>None\<close> where another word stands.\<close>

definition run_admin_command :: "surroundings \<Rightarrow> string list \<Rightarrow> db \<Rightarrow> command_result option" where
  "run_admin_command su args d =
     (case args of
        [] \<Rightarrow> None
      | cmd # rest \<Rightarrow>
          if cmd = ''admin'' then Some (cmd_admin su rest d)
          else if cmd = ''user'' then Some (cmd_user su rest d)
          else if cmd = ''token'' then Some (cmd_token su rest d)
          else if cmd = ''reserve'' then Some (cmd_reserve su rest d)
          else if cmd = ''release'' then Some (cmd_release su rest d)
          else if cmd = ''ls'' then Some (cmd_ls su d)
          else if cmd = ''kill'' then Some (cmd_kill su rest d)
          else None)"

end
