(* ===== verification/Ktd_Serve.thy ===== *)
theory Ktd_Serve
  imports Ktd_Commands Web_Effect
begin

text \<open>
  The server itself (\<open>cmdServe\<close> in \<open>cmd/ktunneld/main.go\<close>): its flags and the addresses it may
  listen on, the settings it writes at its start, its two HTTP servers, and the daemon as a
  machine whose steps are the requests frps and browsers send, the sweep of every minute, the
  commands an administrator runs beside it, and a restart.
\<close>

section \<open>Where it listens\<close>

definition validate_listen_address :: "string \<Rightarrow> string \<Rightarrow> bool \<Rightarrow> daemon_error option" where
  "validate_listen_address name addr allow_public =
     (case split_host_port addr of
        None \<Rightarrow> Some (Bad_Listen_Address name addr)
      | Some (host, port) \<Rightarrow>
          (case atoi port of
             None \<Rightarrow> Some (Bad_Listen_Port name port)
           | Some n \<Rightarrow>
               if n < 1 \<or> 65535 < n then Some (Bad_Listen_Port name port)
               else if allow_public then None
               else (case parse_ip host of
                       None \<Rightarrow> Some (Not_Loopback name)
                     | Some ip \<Rightarrow> if \<not> is_loopback ip then Some (Not_Loopback name) else None)))"

text \<open>The limits of both HTTP servers, in nanoseconds and bytes\<close>

record http_server =
  hv_addr :: string
  hv_read_header_timeout :: int
  hv_read_timeout :: int
  hv_write_timeout :: int
  hv_idle_timeout :: int
  hv_max_header_bytes :: nat

definition new_http_server :: "string \<Rightarrow> http_server" where
  "new_http_server addr =
     \<lparr>hv_addr = addr, hv_read_header_timeout = 5 * second, hv_read_timeout = 15 * second,
      hv_write_timeout = 30 * second, hv_idle_timeout = 60 * second, hv_max_header_bytes = 16384\<rparr>"

section \<open>Starting\<close>

definition serve_names :: flag_names where
  "serve_names =
     map (\<lambda>n. (n, n)) [''web'', ''web-host'', ''plugin'', ''allow-public-listeners'', ''server'', ''port'', ''domain'', ''tcp-range'']"

definition serve_vars :: flag_vars where
  "serve_vars =
     (\<lambda>_. FStr [])(''web'' := FStr ''127.0.0.1:7600'', ''plugin'' := FStr ''127.0.0.1:7601'',
       ''allow-public-listeners'' := FBool False, ''port'' := FInt 0)"

text \<open>
  The settings the flags replace: the relay's address, port and domain, when an address or a
  domain is given, and the range of ports. The failure numbers are those of the statements.
\<close>

definition replaced_info :: "string \<Rightarrow> int \<Rightarrow> string \<Rightarrow> server_info \<Rightarrow> server_info" where
  "replaced_info addr port domain info =
     info\<lparr>si_addr := (if addr \<noteq> [] then addr else si_addr info),
          si_port := (if port \<noteq> 0 then port else si_port info),
          si_domain := (if domain \<noteq> [] then domain else si_domain info)\<rparr>"

definition store_relay :: "surroundings \<Rightarrow> flag_vars \<Rightarrow> db \<Rightarrow> (store_error + unit) \<times> db" where
  "store_relay su vars d =
     (let addr = str_of_flag vars ''server''; domain = str_of_flag vars ''domain'' in
      if addr \<noteq> [] \<or> domain \<noteq> [] then
        set_settings
          (dn_order su (server_settings
             (replaced_info addr (int_of_flag vars ''port'') domain (or_else (server_info_of (dn_faults su) d) no_server))))
          (\<lambda>i. dn_faults su (i + 3)) d
      else (Ok (), d))"

definition store_range :: "surroundings \<Rightarrow> flag_vars \<Rightarrow> db \<Rightarrow> (store_error + unit) \<times> db" where
  "store_range su vars d =
     (if str_of_flag vars ''tcp-range'' \<noteq> [] then
        set_setting ''tcp_port_range'' (str_of_flag vars ''tcp-range'') (dn_faults su 6) d
      else (Ok (), d))"

text \<open>
  \<open>cmdServe\<close> up to the first request: the dashboard, and the two HTTP servers. \<open>lib\<close>, \<open>dummy\<close> and
  \<open>key\<close> are what the portal takes from elsewhere.
\<close>

definition start_daemon ::
    "surroundings \<Rightarrow> server \<Rightarrow> string option \<Rightarrow> string option \<Rightarrow> string list \<Rightarrow> db \<Rightarrow>
     (daemon_error + server \<times> portal \<times> http_server \<times> http_server) \<times> db" where
  "start_daemon su lib dummy key args d =
     (case parse_flags serve_names serve_vars args of
        Inl e \<Rightarrow> (Err (Bad_Flags e), d)
      | Inr (vars, _) \<Rightarrow>
          let web_addr = str_of_flag vars ''web''; plugin_addr = str_of_flag vars ''plugin'';
              public = bool_of_flag vars ''allow-public-listeners''
          in case validate_listen_address ''web'' web_addr public of
               Some e \<Rightarrow> (Err e, d)
             | None \<Rightarrow>
                 (case validate_listen_address ''plugin'' plugin_addr public of
                    Some e \<Rightarrow> (Err e, d)
                  | None \<Rightarrow>
                      if \<not> open_store su then (Err Db_Not_Opened, d)
                      else
                        let d0 = open_db d in
                        (case new_server lib (str_of_flag vars ''web-host'') default_networks dummy key of
                           Inl e \<Rightarrow> (Err (Dashboard_Failed e), d0)
                         | Inr (sv, portal) \<Rightarrow>
                             (case store_relay su vars d0 of
                                (Inl e, d1) \<Rightarrow> (Err (Store_Call e), d1)
                              | (Inr _, d1) \<Rightarrow>
                                  (case store_range su vars d1 of
                                     (Inl e, d2) \<Rightarrow> (Err (Store_Call e), d2)
                                   | (Inr _, d2) \<Rightarrow>
                                       (Ok (sv, portal, new_http_server plugin_addr, new_http_server web_addr), d2))))))"

section \<open>Serving\<close>

text \<open>
  The plugin's HTTP server: \<open>POST /frp\<close>, and \<open>GET /healthz\<close>, which also answers \<open>HEAD\<close>. \<open>path\<close> is the
  path of the request as it was sent. Go's \<open>ServeMux\<close> sends a client with an uncleaned path to
  the clean one (\<open>CONNECT\<close> apart), and compares the segments of the path with their escapes resolved.
\<close>

datatype mux_answer = Mux_Plugin http_answer | Mux_Healthy | Mux_Moved string | Mux_Status nat

definition mux_clean :: "string \<Rightarrow> string" where
  "mux_clean path =
     (let rooted = (if prefix ''/'' path then path else ''/'' @ path);
          clean = clean_path rooted
      in if suffix ''/'' rooted \<and> clean \<noteq> ''/'' then clean @ ''/'' else clean)"

definition mux_segments :: "string \<Rightarrow> string list" where
  "mux_segments path =
     map (\<lambda>s. case unescape_path s of None \<Rightarrow> s | Some t \<Rightarrow> t) (split_on (CHR ''/'') (drop 1 path))"

definition plugin_mux ::
    "(rune \<Rightarrow> rune) \<Rightarrow> string \<Rightarrow> string \<Rightarrow> string \<Rightarrow> (nat \<Rightarrow> int) \<Rightarrow> (nat \<Rightarrow> bool) \<Rightarrow> db \<Rightarrow> mux_answer \<times> db" where
  "plugin_mux uc http_method path body clk fs d =
     (if http_method \<noteq> ''CONNECT'' \<and> mux_clean path \<noteq> path then (Mux_Moved (mux_clean path), d)
      else if mux_segments path = [''frp''] then
        (if http_method = ''POST''
         then (case serve_http uc http_method body clk fs d of (a, d') \<Rightarrow> (Mux_Plugin a, d'))
         else (Mux_Status 405, d))
      else if mux_segments path = [''healthz''] then
        (if http_method = ''GET'' \<or> http_method = ''HEAD'' then (Mux_Healthy, d) else (Mux_Status 405, d))
      else (Mux_Status 404, d))"

text \<open>
  One thing that happens to a running daemon, whose state is its server, its database and the
  portal's tables. Requests are taken one at a time: the database has a single connection and
  serves one transaction after another, and the portal's tables are behind a mutex. Another start
  either replaces the server, with the same library underneath, or fails beside it.
\<close>

type_synonym daemon = "server \<times> db \<times> portal"

inductive daemon_step :: "daemon \<Rightarrow> daemon \<Rightarrow> bool" where
  ds_plugin: "daemon_step (sv, d, p) (sv, snd (plugin_mux uc http_method path body clk fs d), p)"
| ds_portal: "run_state (handle sv r) w = (reply, w') \<Longrightarrow> w_db w = d \<Longrightarrow> w_portal w = p \<Longrightarrow>
    daemon_step (sv, d, p) (sv, w_db w', w_portal w')"
| ds_sweep: "daemon_step (sv, d, p) (sv, snd (expire_stale_sessions n1 n2 fs d), p)"
| ds_command: "run_admin_command su args d = Some (r, d') \<Longrightarrow> daemon_step (sv, d, p) (sv, d', p)"
| ds_restart: "start_daemon su lib dummy key args d = (Ok (sv', p', plug, dash), d') \<Longrightarrow>
    sv_order lib = sv_order sv \<Longrightarrow> daemon_step (sv, d, p) (sv', d', p')"
| ds_failed_start: "start_daemon su lib dummy key args d = (Err e, d') \<Longrightarrow> daemon_step (sv, d, p) (sv, d', p)"

inductive_cases daemon_stepE: "daemon_step s t"

section \<open>The program\<close>

text \<open>
  \<open>cmdServe\<close> as a whole: it is refused at its start, or serves until a signal stops it or one of
  its two listeners fails.
\<close>

inductive serves ::
    "surroundings \<Rightarrow> server \<Rightarrow> string option \<Rightarrow> string option \<Rightarrow> string list \<Rightarrow> db \<Rightarrow> daemon_error option \<Rightarrow> db \<Rightarrow> bool" where
  sv_refused: "start_daemon su lib dummy key args d = (Err e, d') \<Longrightarrow> serves su lib dummy key args d (Some e) d'"
| sv_stopped: "start_daemon su lib dummy key args d = (Ok (sv, p, plug, dash), d1) \<Longrightarrow>
    runs daemon_step (sv, d1, p) (sv', d2, p') \<Longrightarrow> serves su lib dummy key args d None d2"
| sv_failed: "start_daemon su lib dummy key args d = (Ok (sv, p, plug, dash), d1) \<Longrightarrow>
    runs daemon_step (sv, d1, p) (sv', d2, p') \<Longrightarrow> addr \<in> {hv_addr plug, hv_addr dash} \<Longrightarrow>
    serves su lib dummy key args d (Some (Listener_Failed addr)) d2"

text \<open>\<open>run\<close>: one call of \<open>ktunneld\<close>, with the error it reports\<close>

definition prints_only :: "string list \<Rightarrow> bool" where
  "prints_only args \<longleftrightarrow>
     (case args of [] \<Rightarrow> True | cmd # _ \<Rightarrow> cmd \<in> {''version'', ''-v'', ''--version'', ''help'', ''-h'', ''--help''})"

inductive ktunneld ::
    "surroundings \<Rightarrow> server \<Rightarrow> string option \<Rightarrow> string option \<Rightarrow> string list \<Rightarrow> db \<Rightarrow> daemon_error option \<Rightarrow> db \<Rightarrow> bool" where
  kt_serve: "serves su lib dummy key args d e d' \<Longrightarrow> ktunneld su lib dummy key (''serve'' # args) d e d'"
| kt_command: "run_admin_command su args d = Some (r, d') \<Longrightarrow>
    ktunneld su lib dummy key args d (case r of Inl e \<Rightarrow> Some e | Inr _ \<Rightarrow> None) d'"
| kt_prints: "prints_only args \<Longrightarrow> ktunneld su lib dummy key args d None d"
| kt_unknown: "run_admin_command su (cmd # args) d = None \<Longrightarrow> \<not> prints_only (cmd # args) \<Longrightarrow> cmd \<noteq> ''serve'' \<Longrightarrow>
    ktunneld su lib dummy key (cmd # args) d (Some (Unknown_Daemon_Command cmd)) d"

inductive_cases servesE: "serves su lib dummy key args d e d'"
inductive_cases ktunneldE: "ktunneld su lib dummy key args d e d'"

end
