(* ===== verification/Ktd_Laws.thy ===== *)
theory Ktd_Laws
  imports Ktd_Serve Kt_Gate
begin

text \<open>
  Laws of the server program: every command is a run of the store, the daemon as a whole keeps
  the invariants of its database and of its tables in memory whatever happens to it, it
  listens on the loopback addresses only unless told otherwise, and a command to disconnect
  a session holds against every later request of the client.
\<close>

section \<open>Commands are runs\<close>

lemma run_audited:
  "runs store_step d d1 \<Longrightarrow> runs store_step d (audit_event uid action detail n fail d1)"
  by (rule runs_trans [OF _ run_audit])

lemma run_admin_password: "runs store_step d (snd (set_admin_password gen pw fs d))"
  by (auto simp: set_admin_password_def split: sum.split prod.split intro: runs_refl)
    (metis op_runs snd_conv)+

lemma run_with_store:
  assumes "\<And>d. runs store_step d (snd (k d))"
  shows "runs store_step d (snd (with_store su k d))"
  using runs_trans [OF run1 [OF st_open] assms, of d] by (simp add: with_store_def runs_refl)

text \<open>The database an operation left is reached by a run.\<close>

lemma op_results:
  "set_admin_password gen pw fs d = (r1, d1) \<Longrightarrow> runs store_step d d1"
  "set_settings kvs fs d = (r2, d1) \<Longrightarrow> runs store_step d d1"
  "set_setting k v fail d = (r2, d1) \<Longrightarrow> runs store_step d d1"
  "create_user name q n fs d = (r3, d1) \<Longrightarrow> runs store_step d d1"
  "set_user_disabled i b fail d = (r2, d1) \<Longrightarrow> runs store_step d d1"
  "issue_token uid label rnd n fs d = (r4, d1) \<Longrightarrow> runs store_step d d1"
  "revoke_token i n fs d = (r2, d1) \<Longrightarrow> runs store_step d d1"
  "reserve uc sub uid n fail d = (r2, d1) \<Longrightarrow> runs store_step d d1"
  "release uc sub fail d = (r2, d1) \<Longrightarrow> runs store_step d d1"
  "kill_session i n fs d = (r2, d1) \<Longrightarrow> runs store_step d d1"
  using run_admin_password [of d] op_runs by (metis snd_conv)+

lemmas command_splits = option.split list.split sum.split prod.split

lemma run_admin_parts:
  "runs store_step d (snd (admin_set_password su d))"
  "runs store_step d (snd (admin_set_server su rest d))"
  by (auto simp: admin_set_password_def admin_set_server_def Let_def split: command_splits
      intro!: runs_refl run_audited dest: op_results)

lemma run_admin: "runs store_step d (snd (cmd_admin su args d))"
  by (cases args) (simp_all add: cmd_admin_def run_with_store run_admin_parts runs_refl)

lemma run_user_parts:
  "runs store_step d (snd (user_add su rest d))"
  "runs store_step d (snd (user_ls su d))"
  "runs store_step d (snd (user_enable su b rest d))"
  unfolding user_add_def user_ls_def user_enable_def
  by (auto simp: Let_def split: command_splits intro!: runs_refl run_audited dest: op_results)

lemma run_user: "runs store_step d (snd (cmd_user su args d))"
  by (cases args) (simp_all add: cmd_user_def run_with_store run_user_parts runs_refl)

lemma run_token_parts:
  "runs store_step d (snd (token_issue_cmd su rest d))"
  "runs store_step d (snd (token_ls_cmd su rest d))"
  "runs store_step d (snd (token_revoke_cmd su rest d))"
  unfolding token_issue_cmd_def token_ls_cmd_def token_revoke_cmd_def
  by (auto simp: Let_def split: command_splits intro!: runs_refl run_audited dest: op_results)

lemma run_token: "runs store_step d (snd (cmd_token su args d))"
  by (cases args) (simp_all add: cmd_token_def run_with_store run_token_parts runs_refl)

lemma run_reserve: "runs store_step d (snd (cmd_reserve su args d))"
  by (auto simp: cmd_reserve_def reserve_ls_def split: command_splits
      intro!: run_with_store runs_refl run_audited dest: op_results)

lemma run_release: "runs store_step d (snd (cmd_release su args d))"
  by (auto simp: cmd_release_def split: command_splits
      intro!: run_with_store runs_refl run_audited dest: op_results)

lemma run_ls: "runs store_step d (snd (cmd_ls su d))"
  by (auto simp: cmd_ls_def Let_def split: command_splits intro!: run_with_store runs_refl)

lemma run_kill: "runs store_step d (snd (cmd_kill su args d))"
  by (auto simp: cmd_kill_def split: command_splits
      intro!: run_with_store runs_refl run_audited dest: op_results)

lemmas command_runs = run_admin run_user run_token run_reserve run_release run_ls run_kill

lemma run_command: "run_admin_command su args d = Some (r, d') \<Longrightarrow> runs store_step d d'"
  unfolding run_admin_command_def using command_runs
  by (auto split: list.splits if_splits) (metis snd_conv)+

lemma run_store_relay: "runs store_step d (snd (store_relay su vars d))"
  by (simp add: store_relay_def Let_def op_runs runs_refl)

lemma run_start: "runs store_step d (snd (start_daemon su lib dummy key args d))"
proof -
  have relay: "store_relay su vars d0 = (r, d1) \<Longrightarrow> runs store_step d0 d1" for vars d0 r d1
    using run_store_relay [of d0 su vars] by simp
  have range: "store_range su vars d0 = (r, d1) \<Longrightarrow> runs store_step d0 d1" for vars d0 r d1
    unfolding store_range_def by (auto split: if_splits intro: op_results runs_refl)
  show ?thesis
    by (auto simp: start_daemon_def Let_def split: command_splits
        intro!: runs_refl run1 [OF st_open]
        dest!: relay range intro: runs_trans [OF run1 [OF st_open]] runs_trans [OF runs_trans [OF run1 [OF st_open]]])
qed

section \<open>The daemon as a machine\<close>

lemma run_plugin_mux:
  "wf_db d \<Longrightarrow> runs store_step d (snd (plugin_mux uc http_method path body clk fs d))"
  using run_serve_http [of d uc http_method body clk fs]
  by (auto simp: plugin_mux_def runs_refl split: prod.split)

fun daemon_inv :: "daemon \<Rightarrow> bool" where
  "daemon_inv (sv, d, p) \<longleftrightarrow> permutes_entries (sv_order sv) \<and> store_inv d \<and> portal_inv p"

fun daemon_later :: "daemon \<Rightarrow> daemon \<Rightarrow> bool" where
  "daemon_later (sv, d, p) (sv', d', p') \<longleftrightarrow> runs store_step d d'"

lemma new_server_parts:
  "new_server lib host cidrs dummy key = Ok (sv, p) \<Longrightarrow> sv_order sv = sv_order lib \<and> p = new_portal"
  by (auto simp: new_server_def split: sum.splits option.splits)

lemma start_parts:
  "start_daemon su lib dummy key args d = (Ok (sv, p, plug, dash), d') \<Longrightarrow> sv_order sv = sv_order lib \<and> p = new_portal"
  by (auto simp: start_daemon_def Let_def dest!: new_server_parts split: sum.splits prod.splits option.splits if_splits)

text \<open>Each step moves the database by a run of the store, and keeps the portal's tables.\<close>

lemma daemon_step_keeps:
  assumes "daemon_inv s" "daemon_step s t"
  shows "daemon_inv t \<and> daemon_later s t"
  using assms(2,1)
proof (induction rule: daemon_step.induct)
  case (ds_plugin sv d p uc http_method path body clk fs)
  then have "runs store_step d (snd (plugin_mux uc http_method path body clk fs d))"
    by (simp add: store_inv_def run_plugin_mux)
  with ds_plugin show ?case by (simp add: store.runs_inv)
next
  case (ds_portal sv r w reply w' d p)
  then have "sound w w'" using state_io_relD [OF sound.eff_handle ds_portal(1)] by simp
  with ds_portal show ?case by (auto simp: sound_def intro: portal_machine.runs_inv store.runs_inv)
next
  case (ds_sweep sv d p n1 n2 fs)
  then show ?case using run_sessions(4) [of d n1 n2 fs] by (simp add: store.runs_inv)
next
  case (ds_command su args d r d' sv p)
  then show ?case using run_command [OF ds_command(1)] by (simp add: store.runs_inv)
next
  case (ds_restart su lib dummy key args d sv' p' plug dash d' sv p)
  then show ?case
    using run_start [of d su lib dummy key args] start_parts [OF ds_restart(1)] by (simp add: store.runs_inv portal_inv_new)
next
  case (ds_failed_start su lib dummy key args d e d' sv p)
  then show ?case using run_start [of d su lib dummy key args] by (simp add: store.runs_inv)
qed

interpretation daemon: monotone_machine daemon_step daemon_inv daemon_later
proof
  show "daemon_inv t" if "daemon_inv s" "daemon_step s t" for s t
    using daemon_step_keeps [OF that] by simp
  show "daemon_later s s" for s by (cases s) (simp add: runs_refl)
  show "daemon_later s u" if "daemon_later s t" "daemon_later t u" for s t u
    using that by (cases s; cases t; cases u) (auto intro: runs_trans)
  show "daemon_later s t" if "daemon_inv s" "daemon_step s t" for s t
    using daemon_step_keeps [OF that] by simp
qed

text \<open>
  C4: Whatever happens to the daemon, in whatever order: requests of frps with any bytes, requests of
  browsers, sweeps, administrators' commands beside it, restarts with other flags, and
  statements that fail anywhere. The database stays well formed and coherent, nothing recorded is taken
  back, and the portal's tables stay bounded.
\<close>

theorem daemon_keeps_its_invariants:
  assumes "runs daemon_step (sv, d, p) (sv', d', p')"
    and "permutes_entries (sv_order sv)" "store_inv d" "portal_inv p"
  shows "wf_db d' \<and> coherent d' \<and> later d d' \<and> portal_inv p'"
proof -
  have i: "daemon_inv (sv, d, p)" using assms(2-4) by simp
  have "daemon_inv (sv', d', p')" by (rule daemon.runs_inv [OF assms(1) i])
  moreover have "runs store_step d d'" using daemon.runs_rel [OF assms(1) i] by simp
  ultimately show ?thesis using store.runs_rel assms(3) by (auto simp: store_inv_def)
qed

theorem daemon_keeps_its_invariants_witness:
  "\<exists>d' p'. runs daemon_step (sample_server, sample_db, new_portal) (sample_server, d', p') \<and>
     d' = snd (expire_stale_sessions 900 901 (\<lambda>_. False) (snd (plugin_mux id ''POST'' ''/frp'' ''{}'' (\<lambda>_. 500) (\<lambda>_. False) sample_db))) \<and>
     coherent d' \<and> portal_inv p'"
proof -
  let ?d1 = "snd (plugin_mux id ''POST'' ''/frp'' ''{}'' (\<lambda>_. 500) (\<lambda>_. False) sample_db)"
  have run: "runs daemon_step (sample_server, sample_db, new_portal)
      (sample_server, snd (expire_stale_sessions 900 901 (\<lambda>_. False) ?d1), new_portal)"
    by (rule runs_step [OF runs_one]) (rule ds_plugin, rule ds_sweep)
  from daemon_keeps_its_invariants [OF run sample_order sample_inv portal_inv_new] run
  show ?thesis by blast
qed

text \<open>So does every call of the program, whatever its arguments and however it ends.\<close>

lemma serves_runs:
  assumes "serves su lib dummy key args d e d'" "permutes_entries (sv_order lib)" "store_inv d"
  shows "runs store_step d d'"
proof -
  have served: "runs store_step d d2"
    if start: "start_daemon su lib dummy key args d = (Ok (sv, p, plug, dash), d1)"
      and run: "runs daemon_step (sv, d1, p) (sv', d2, p')" for sv p plug dash d1 sv' d2 p'
  proof -
    have first: "runs store_step d d1" using run_start [of d su lib dummy key args] start by simp
    have "daemon_inv (sv, d1, p)"
      using start_parts [OF start] assms(2) store.runs_inv [OF first assms(3)] by (simp add: portal_inv_new)
    from daemon.runs_rel [OF run this] first show ?thesis by (auto intro: runs_trans)
  qed
  from assms(1) show ?thesis
    by (cases rule: servesE) (use run_start [of d su lib dummy key args] served in auto)
qed

theorem ktunneld_keeps_the_database:
  assumes "ktunneld su lib dummy key args d e d'" "permutes_entries (sv_order lib)" "store_inv d"
  shows "runs store_step d d' \<and> store_inv d' \<and> later d d'"
proof -
  have run: "runs store_step d d'"
    using assms(1)
    by (cases rule: ktunneldE) (auto intro: serves_runs [OF _ assms(2,3)] run_command runs_refl)
  with store.runs_inv [OF run assms(3)] store.runs_rel [OF run assms(3)] show ?thesis by blast
qed

section \<open>Disconnecting a session\<close>

lemma kick_rows_sessions [simp]: "sessions (kick_rows i until d) = sessions d"
  by (simp add: kick_rows_def update_tokens_def split: list.split)

lemma killed_row:
  assumes "wf_db d" "kill_session i n fs d = (Ok (), d')"
  shows "\<exists>s. row sr_id i (sessions d') = Some s \<and> sr_killed s = 1"
proof -
  have live: "filter (\<lambda>s. sr_id s = i \<and> live s) (sessions d) \<noteq> []"
    and d': "d' = kick_rows i (n + kick_cooldown) (kill_rows (\<lambda>s. sr_id s = i) d)"
    using assms(2) by (auto simp: kill_session_def Let_def split: if_splits)
  then obtain s where "s \<in> set (sessions d)" "sr_id s = i" "live s" by (auto simp: filter_empty_conv)
  moreover from this have "row sr_id i (sessions d) = Some s"
    using assms(1) by (simp add: row_eq_Some_iff wf_db_def wf_keys_def)
  ultimately show ?thesis by (auto simp: d' kill_rows_def update_sessions_def row_upd)
qed

lemma audit_sessions [simp]: "sessions (audit_event uid action detail n fail d) = sessions d"
  by (simp add: audit_event_def insert_audit_def)

lemma kill_target_cases:
  assumes "wf_db d" "kill_target su arg d = Ok s"
  shows "parse_int arg = (s_id s, None) \<or>
    snd (parse_int arg) \<noteq> None \<and> (\<exists>q \<in> set (proxies d). active q \<and> pr_subdomain q = arg \<and> pr_session_id q = s_id s)"
proof -
  have found: "session_by_id i b d = Ok s \<Longrightarrow> s_id s = i" for i b
    by (auto simp: session_by_id_wf [OF assms(1)] scan_session_parts dest: row_SomeD split: if_splits option.splits)
  then show ?thesis
    using assms(2)
    by (auto simp: kill_target_def session_by_subdomain_def query_row_def first_row_def read_db_def
        split: prod.splits option.splits sum.splits list.splits if_splits)
       (metis (mono_tags, lifting) filter_eq_Cons_iff in_set_conv_decomp map_eq_Cons_conv)+
qed

text \<open>
  C12: A session an administrator disconnects stays disconnected. The command means the session with the number,
  or, when the argument is no number, the session with an active tunnel on that subdomain; once it
  reports success, every later heartbeat and tunnel request that names the session is rejected and
  changes nothing, whatever happened to the daemon in between, restarts included.
\<close>

theorem kill_command_disconnects:
  assumes "store_inv d" "cmd_kill su [arg] d = (Ok out, d1)"
    and "runs daemon_step (sv, d1, p) (sv', d2, p')" "permutes_entries (sv_order sv)" "portal_inv p"
  shows "\<exists>s. kill_target su arg (open_db d) = Ok s \<and>
    (parse_int arg = (s_id s, None) \<or>
     snd (parse_int arg) \<noteq> None \<and>
       (\<exists>q \<in> set (proxies d). active q \<and> pr_subdomain q = arg \<and> pr_session_id q = s_id s)) \<and>
    (\<forall>c. decode_user_only raw = Some c \<and> named_session (uo_user c) = s_id s \<longrightarrow>
       (\<exists>why. ping raw clk fs d2 = (reject why, d2))) \<and>
    (\<forall>c. decode_new_proxy raw = Some c \<and> named_session (np_user c) = s_id s \<longrightarrow>
       (\<exists>why. new_proxy uc raw clk fs d2 = (reject why, d2)))"
proof -
  have inv0: "store_inv (open_db d)" by (rule step_inv [OF st_open assms(1)])
  then have wf0: "wf_db (open_db d)" by (simp add: store_inv_def)
  obtain s dk where t: "kill_target su arg (open_db d) = Ok s"
    and k: "kill_session (s_id s) (dn_clk su 0) (\<lambda>i. dn_faults su (i + 2)) (open_db d) = (Ok (), dk)"
    and d1: "sessions d1 = sessions dk" "runs store_step dk d1"
    using assms(2) by (auto simp: cmd_kill_def with_store_def run_audit split: if_splits sum.splits prod.splits)
  obtain r where r: "row sr_id (s_id s) (sessions d1) = Some r" "sr_killed r = 1"
    using killed_row [OF wf0 k] d1(1) by auto
  have inv1: "store_inv d1" using run_kill [of d su "[arg]"] assms(1,2) by (auto intro: store.runs_inv)
  have run: "runs store_step d1 d2"
    using daemon.runs_rel [OF assms(3)] inv1 assms(4,5) by simp
  have "\<exists>why. session_of u fs d2 = Err why" if "named_session u = s_id s" for u
    by (rule dead_session_refused [OF inv1 run r(1) _ that]) (simp add: r(2))
  from refused_requests [where raw = raw and clk = clk and uc = uc, OF this] kill_target_cases [OF wf0 t] t
  show ?thesis by (intro exI [of _ s]) (simp add: open_db_def)
qed

definition sample_admin :: surroundings where
  "sample_admin =
     \<lparr>dn_env = [], dn_opens = (\<lambda>_. True), dn_clk = (\<lambda>_. 400), dn_faults = (\<lambda>_. False), dn_now_ns = 400 * second,
      dn_random = Some (replicate 32 (chr 7)), dn_secret = Typed ''secret-word'' False, dn_gen = (\<lambda>pw. Some (''h:'' @ pw)),
      dn_fold = id, dn_printable = (\<lambda>_. True), dn_order = id, dn_day = (\<lambda>_. ''2025-01-01'')\<rparr>"

lemma sample_kill: "\<exists>out d1. cmd_kill sample_admin [''1''] sample_db = (Ok out, d1)"
proof -
  have wf: "wf_db (open_db sample_db)" by (rule wf_open [OF wf_sample])
  have p: "parse_int ''1'' = (1, None)" by (simp add: parse_int_def parse_uint_def is_digit_def digit_val_def)
  have rows: "sessions (open_db sample_db) = sessions sample_db" by (simp add: open_db_def)
  have r: "row sr_id 1 (sessions sample_db) = Some (sample_session 1 1)" by (simp add: sample_rows)
  have t: "session_by_id 1 False (open_db sample_db) =
      Ok (scan_session (sample_session 1 1, the_user 1 (open_db sample_db), the_token 1 (open_db sample_db)))"
    by (simp add: session_by_id_wf [OF wf] rows r) (simp add: sample_session_def)
  have "filter (\<lambda>s. sr_id s = 1 \<and> live s) (sessions sample_db) \<noteq> []"
    by (simp add: sample_rows)
  then show ?thesis
    by (simp add: cmd_kill_def with_store_def open_store_def kill_target_def p t sample_admin_def kill_session_def rows scan_session_parts Let_def)
      (simp add: sample_session_def)
qed

theorem kill_command_disconnects_witness:
  "\<exists>out d1. cmd_kill sample_admin [''1''] sample_db = (Ok out, d1) \<and>
     (\<exists>why. ping (Some sample_ping) (\<lambda>_. 500) (\<lambda>_. False) d1 = (reject why, d1))"
proof -
  obtain out d1 where k: "cmd_kill sample_admin [''1''] sample_db = (Ok out, d1)" using sample_kill by blast
  have "parse_int ''1'' = (1, None)" by (simp add: parse_int_def parse_uint_def is_digit_def digit_val_def)
  with kill_command_disconnects [where raw = "Some sample_ping" and clk = "\<lambda>_. 500" and fs = "\<lambda>_. False" and uc = id,
      OF sample_inv k runs_refl [of daemon_step "(sample_server, d1, new_portal)"] sample_order portal_inv_new]
  have "\<exists>why. ping (Some sample_ping) (\<lambda>_. 500) (\<lambda>_. False) d1 = (reject why, d1)"
    by (auto simp: decode_sample_ping named_sample)
  with k show ?thesis by blast
qed

section \<open>Listening\<close>

definition loopback_address :: "string \<Rightarrow> bool" where
  "loopback_address addr \<longleftrightarrow>
     (\<exists>host port n ip. split_host_port addr = Some (host, port) \<and> atoi port = Some n \<and> 1 \<le> n \<and> n \<le> 65535 \<and>
        parse_ip host = Some ip \<and> is_loopback ip)"

lemma validate_loopback: "validate_listen_address name addr False = None \<longleftrightarrow> loopback_address addr"
  by (auto simp: validate_listen_address_def loopback_address_def split: option.splits prod.splits if_splits)

text \<open>
  C37: Unless the flag for public listeners is given, the daemon starts only when both its addresses
  are loopback IP addresses with a port from 1 to 65535, and then listens on them with all its
  limits set; an address it refuses is refused before the database is touched.
\<close>

theorem listeners_are_loopback:
  assumes "parse_flags serve_names serve_vars args = Ok (vars, rest)"
    and "bool_of_flag vars ''allow-public-listeners'' = False"
    and "start_daemon su lib dummy key args d = (res, d')"
  shows "if loopback_address (str_of_flag vars ''web'') \<and> loopback_address (str_of_flag vars ''plugin'')
    then \<forall>sv p plug dash. res = Ok (sv, p, plug, dash) \<longrightarrow>
           hv_addr plug = str_of_flag vars ''plugin'' \<and> hv_addr dash = str_of_flag vars ''web'' \<and>
           0 < hv_read_header_timeout plug \<and> hv_read_header_timeout plug \<le> hv_read_timeout plug \<and>
           dash = plug\<lparr>hv_addr := hv_addr dash\<rparr>
    else \<not> is_ok res \<and> d' = d"
proof (cases "loopback_address (str_of_flag vars ''web'') \<and> loopback_address (str_of_flag vars ''plugin'')")
  case True
  then have "validate_listen_address ''web'' (str_of_flag vars ''web'') False = None"
    "validate_listen_address ''plugin'' (str_of_flag vars ''plugin'') False = None"
    by (simp_all add: validate_loopback)
  with assms True show ?thesis
    by (auto simp: start_daemon_def Let_def new_http_server_def second_def split: if_splits sum.splits prod.splits)
next
  case False
  then obtain name e where "validate_listen_address ''web'' (str_of_flag vars ''web'') False = Some e \<or>
      validate_listen_address ''web'' (str_of_flag vars ''web'') False = None \<and>
      validate_listen_address ''plugin'' (str_of_flag vars ''plugin'') False = Some e"
    using validate_loopback [of "''web''" "str_of_flag vars ''web''"] validate_loopback [of "''plugin''" "str_of_flag vars ''plugin''"]
    by (cases "validate_listen_address ''web'' (str_of_flag vars ''web'') False";
        cases "validate_listen_address ''plugin'' (str_of_flag vars ''plugin'') False") auto
  then have "is_ok res = False \<and> d' = d"
    using assms by (elim disjE conjE) (auto simp: start_daemon_def Let_def)
  then show ?thesis unfolding if_not_P [OF False] by blast
qed

lemma public_address: "\<not> loopback_address ''0.0.0.0:80''"
proof -
  have "split_host_port ''0.0.0.0:80'' = Some (''0.0.0.0'', ''80'')" by code_simp
  moreover have "parse_ip ''0.0.0.0'' = Some (ipv4_mapped [0, 0, 0, 0])"
    by (simp add: parse_ip_def ipv4_fields_def ip_octet_def parse_uint_def is_digit_def digit_val_def)
  moreover have "\<not> is_loopback (ipv4_mapped [0, 0, 0, 0])" by code_simp
  ultimately show ?thesis by (simp add: loopback_address_def)
qed

theorem listeners_are_loopback_witness:
  "\<not> is_ok (fst (start_daemon sample_admin sample_server (Some ''h'') (Some ''k'') [''--web=0.0.0.0:80''] sample_db)) \<and>
   snd (start_daemon sample_admin sample_server (Some ''h'') (Some ''k'') [''--web=0.0.0.0:80''] sample_db) = sample_db"
proof -
  let ?vars = "serve_vars(''web'' := FStr ''0.0.0.0:80'')"
  have "parse_flags serve_names serve_vars [''--web=0.0.0.0:80''] = Ok (?vars, [])"
    by (simp add: serve_names_def serve_vars_def split_flag_def set_flag_def)
  moreover have "bool_of_flag ?vars ''allow-public-listeners'' = False" "str_of_flag ?vars ''web'' = ''0.0.0.0:80''"
    by (simp_all add: bool_of_flag_def str_of_flag_def serve_vars_def)
  ultimately show ?thesis
    using listeners_are_loopback [OF _ _ prod.collapse [symmetric]] public_address by fastforce
qed

end
