(* ===== verification/Ktd_Outcome.thy ===== *)
theory Ktd_Outcome
  imports Ktd_Laws
begin

text \<open>
  What an administrator can rely on when a command of the server program ends: a revoked token is
  cut off for good, whatever the running daemon does afterwards, and a command that reports an error
  has left the database as it was.
\<close>

section \<open>Revoking a token\<close>

lemma refused_login:
  assumes "\<And>n1 n2. \<exists>e. authenticate plain n1 n2 fs d = (Err e, d)"
    and "decode_login raw = Some content" "metas_of_login content = Some metas" "meta meta_token metas = plain"
  shows "\<exists>why. login raw clk fs d = (reject why, d)"
proof -
  obtain e where "authenticate plain (clk 0) (clk 1) fs d = (Err e, d)" using assms(1) by blast
  with assms(2-4) show ?thesis by (cases e) (auto simp: login_def Let_def)
qed

lemma revoke_command_run:
  assumes "token_revoke_cmd su [p] d = (Ok out, d1)" "wf_db d"
  obtains t where "filter (\<lambda>t. like (p @ ''%'') (tr_prefix t)) (tokens d) = [t]" "tr_revoked_at t = None"
    "row tr_id (tr_id t) (tokens d1) = Some (t\<lparr>tr_revoked_at := Some (dn_clk su 0)\<rparr>)"
proof -
  from assms(1) obtain tok d0 where tok: "token_by_prefix p (dn_faults su 0) d = Ok tok"
    and r: "revoke_token (t_id tok) (dn_clk su 0) (\<lambda>i. dn_faults su (i + 1)) d = (Ok (), d0)"
    and d1: "tokens d1 = tokens d0"
    by (auto simp: token_revoke_cmd_def audit_event_def insert_audit_def split: sum.splits prod.splits)
  from tok obtain t where t: "filter (\<lambda>t. like (p @ ''%'') (tr_prefix t)) (tokens d) = [t]" "t_id tok = tr_id t"
    by (auto simp: token_by_prefix_def token_join_wf [OF assms(2)] scan_token_id split: if_splits list.splits)
  then have "t \<in> set (tokens d)" by (metis filter_eq_Cons_iff in_set_conv_decomp)
  then have row: "row tr_id (tr_id t) (tokens d) = Some t" using assms(2) by (simp add: wf_rows)
  have "filter (\<lambda>u. tr_id u = tr_id t \<and> tr_revoked_at u = None) (tokens d) =
      filter (\<lambda>u. tr_revoked_at u = None) (filter (\<lambda>u. tr_id u = tr_id t) (tokens d))" by simp
  also have "\<dots> = (if tr_revoked_at t = None then [t] else [])"
    unfolding wf_filter(3) [OF assms(2)] row by simp
  finally have "filter (\<lambda>u. tr_id u = tr_id t \<and> tr_revoked_at u = None) (tokens d) =
      (if tr_revoked_at t = None then [t] else [])" .
  with r t(2) have fresh: "tr_revoked_at t = None"
    and d0: "tokens d0 = tokens (revoke_rows (\<lambda>u. tr_id u = tr_id t) (dn_clk su 0) d)"
    by (auto simp: revoke_token_def revoke_where_def Let_def kill_rows_def update_sessions_def split: if_splits)
  show ?thesis
    by (rule that [OF t(1) fresh]) (simp add: d1 d0 revoke_rows_row row fresh)
qed

text \<open>
  C13: A token an administrator revokes is dead at once and for good. The command means the only
  token whose prefix matches, which was not revoked before; once it reports success, in every later state
  of the daemon, restarts included, a login that presents the token is rejected, and so is every
  heartbeat and tunnel request of every session on it. None of them changes anything.
\<close>

theorem revoke_command_cuts_off:
  assumes "store_inv d" "cmd_token su [''revoke'', p] d = (Ok out, d1)" "dn_clk su 0 \<noteq> zero_time"
    and "runs daemon_step (sv, d1, q) (sv', d2, q')" "permutes_entries (sv_order sv)" "portal_inv q"
  shows "\<exists>t. filter (\<lambda>t. like (p @ ''%'') (tr_prefix t)) (tokens d) = [t] \<and> tr_revoked_at t = None \<and>
    (\<forall>content metas. decode_login raw = Some content \<and> metas_of_login content = Some metas \<and>
       hash_token (meta meta_token metas) = tr_hash t \<longrightarrow> (\<exists>why. login raw clk fs d2 = (reject why, d2))) \<and>
    (\<forall>s \<in> set (sessions d2). sr_token_id s = tr_id t \<longrightarrow>
       (\<forall>c. decode_user_only raw = Some c \<and> named_session (uo_user c) = sr_id s \<longrightarrow>
          (\<exists>why. ping raw clk fs d2 = (reject why, d2))) \<and>
       (\<forall>c. decode_new_proxy raw = Some c \<and> named_session (np_user c) = sr_id s \<longrightarrow>
          (\<exists>why. new_proxy uc raw clk fs d2 = (reject why, d2))))"
proof -
  have cmd: "token_revoke_cmd su [p] (open_db d) = (Ok out, d1)"
    using assms(2) by (simp add: cmd_token_def with_store_def split: if_splits)
  have "store_inv (open_db d)" by (rule step_inv [OF st_open assms(1)])
  then have wf: "wf_db (open_db d)" by (simp add: store_inv_def)
  obtain t where t: "filter (\<lambda>t. like (p @ ''%'') (tr_prefix t)) (tokens (open_db d)) = [t]" "tr_revoked_at t = None"
    "row tr_id (tr_id t) (tokens d1) = Some (t\<lparr>tr_revoked_at := Some (dn_clk su 0)\<rparr>)" (is "_ = Some ?t")
    by (rule revoke_command_run [OF cmd wf])
  have inv1: "store_inv d1" using run_token [of d su "[''revoke'', p]"] assms(1,2) by (auto intro: store.runs_inv)
  have run: "runs store_step d1 d2" using daemon.runs_rel [OF assms(4)] inv1 assms(5,6) by simp
  have inv2: "store_inv d2" by (rule store.runs_inv [OF run inv1])
  then have wf2: "wf_db d2" by (simp add: store_inv_def)
  have auth: "\<exists>e. authenticate plain n1 n2 fs d2 = (Err e, d2)" if "hash_token plain = tr_hash t" for plain n1 n2
    using revoked_token_stays_dead [OF _ _ t(3) _ assms(3) run, of plain n1 n2 fs] inv1 that
    by (auto simp: store_inv_def)
  obtain t' where t': "row tr_id (tr_id t) (tokens d2) = Some t'" "token_le ?t t'"
    using later_token [OF store.runs_rel [OF run inv1] t(3)] .
  have "\<exists>why. session_of u fs d2 = Err why"
    if s: "s \<in> set (sessions d2)" "sr_token_id s = tr_id t" "named_session u = sr_id s" for s u
  proof (rule dead_session_refused [OF inv2 runs_refl _ _ s(3)])
    show "row sr_id (sr_id s) (sessions d2) = Some s" using s(1) wf2 by (simp add: wf_rows)
    show "sr_killed s = 1 \<or> (\<exists>r. tr_revoked_at (the_token (sr_token_id s) d2) = Some r \<and> r \<noteq> zero_time)"
      using t' assms(3) by (simp add: s(2) the_token_def token_le_def)
  qed
  then have "(\<forall>c. decode_user_only raw = Some c \<and> named_session (uo_user c) = sr_id s \<longrightarrow>
          (\<exists>why. ping raw clk fs d2 = (reject why, d2))) \<and>
       (\<forall>c. decode_new_proxy raw = Some c \<and> named_session (np_user c) = sr_id s \<longrightarrow>
          (\<exists>why. new_proxy uc raw clk fs d2 = (reject why, d2)))"
    if "s \<in> set (sessions d2)" "sr_token_id s = tr_id t" for s
    using that by (intro refused_requests) blast
  moreover have "\<exists>why. login raw clk fs d2 = (reject why, d2)"
    if "decode_login raw = Some content" "metas_of_login content = Some metas" "hash_token (meta meta_token metas) = tr_hash t"
    for content metas
    by (rule refused_login [OF auth [OF that(3)] that(1,2) refl])
  ultimately show ?thesis using t(1,2) by (intro exI [of _ t]) (auto simp: open_db_def)
qed

text \<open>The sample database with two tokens that differ in their prefixes.\<close>

definition two_tokens :: db where
  "two_tokens = sample_db\<lparr>tokens := [sample_token_row 1 (hash_token ''alice-token''),
     (sample_token_row 2 ''bob'')\<lparr>tr_prefix := ''XyZ_9876''\<rparr>]\<rparr>"

lemma two_tokens_inv: "store_inv two_tokens"
proof -
  have "hash_token ''alice-token'' \<noteq> ''bob''" using hash_token_length [of "''alice-token''"] by auto
  then have "wf_db two_tokens"
    by (simp add: two_tokens_def wf_parts user_exists_def unique_active_def sample_rows)
  moreover have "coherent two_tokens" using sample_coherent by (simp add: coherent_def two_tokens_def)
  ultimately show ?thesis by (simp add: store_inv_def)
qed

lemma two_tokens_match:
  "filter (\<lambda>t. like ''abC%'' (tr_prefix t)) (tokens two_tokens) = [sample_token_row 1 (hash_token ''alice-token'')]"
  by (simp add: two_tokens_def sample_token_row_def lower_ascii_def)

lemma two_tokens_revoke: "\<exists>out d1. cmd_token sample_admin [''revoke'', ''abC''] two_tokens = (Ok out, d1)"
proof -
  have wf: "wf_db (open_db two_tokens)" using two_tokens_inv by (simp add: store_inv_def wf_open)
  have "tokens (open_db two_tokens) = tokens two_tokens" by (simp add: open_db_def)
  then have "token_by_prefix ''abC'' False (open_db two_tokens) =
      Ok (scan_token (sample_token_row 1 (hash_token ''alice-token''), the_user 1 (open_db two_tokens)))"
    using two_tokens_match by (simp add: token_by_prefix_def token_join_wf [OF wf]) (simp add: sample_token_row_def)
  then show ?thesis
    by (simp add: cmd_token_def with_store_def open_store_def token_revoke_cmd_def sample_admin_def revoke_token_def revoke_where_def
        Let_def scan_token_id)
      (simp add: two_tokens_def open_db_def sample_token_row_def)
qed

theorem revoke_command_cuts_off_witness:
  "\<exists>out d1. cmd_token sample_admin [''revoke'', ''abC''] two_tokens = (Ok out, d1) \<and>
     (\<exists>why. ping (Some sample_ping) (\<lambda>_. 500) (\<lambda>_. False) d1 = (reject why, d1)) \<and>
     (\<exists>why. login (Some sample_login) (\<lambda>_. 500) (\<lambda>_. False) d1 = (reject why, d1))"
proof -
  obtain out d1 where r: "cmd_token sample_admin [''revoke'', ''abC''] two_tokens = (Ok out, d1)"
    using two_tokens_revoke by blast
  have c: "dn_clk sample_admin 0 \<noteq> zero_time" by (simp add: sample_admin_def zero_time_def)
  note law = revoke_command_cuts_off [where clk = "\<lambda>_. 500" and fs = "\<lambda>_. False" and uc = id,
      OF two_tokens_inv r c runs_refl [of daemon_step "(sample_server, d1, new_portal)"] sample_order portal_inv_new]
  let ?t = "sample_token_row 1 (hash_token ''alice-token'')"
  have t: "tr_hash ?t = hash_token ''alice-token''" "tr_id ?t = 1" by (simp_all add: sample_token_row_def)
  moreover have "meta meta_token [(''token'', ''alice-token''), (''ktunnel_session'', ''3'')] = ''alice-token''"
    by (simp add: meta_def meta_token_def)
  moreover note law [of "Some sample_login"] two_tokens_match
  ultimately have login: "\<exists>why. login (Some sample_login) (\<lambda>_. 500) (\<lambda>_. False) d1 = (reject why, d1)"
    using sample_login_content sample_login_metas by auto
  have "runs store_step two_tokens d1" using run_token [of two_tokens sample_admin "[''revoke'', ''abC'']"] r by simp
  then have "later two_tokens d1" by (rule store.runs_rel [OF _ two_tokens_inv])
  moreover have "row sr_id 1 (sessions two_tokens) = Some (sample_session 1 1)" by (simp add: two_tokens_def sample_session_def)
  ultimately obtain s where s: "row sr_id 1 (sessions d1) = Some s" "session_le (sample_session 1 1) s" by (rule later_session)
  then have "s \<in> set (sessions d1)" "sr_id s = 1" "sr_token_id s = 1"
    by (auto simp: session_le_def sample_session_def dest: row_SomeD)
  moreover note law [of "Some sample_ping"] two_tokens_match
  ultimately have "\<exists>why. ping (Some sample_ping) (\<lambda>_. 500) (\<lambda>_. False) d1 = (reject why, d1)"
    using t(2) by (auto simp: decode_sample_ping named_sample)
  with r login show ?thesis by blast
qed

section \<open>Errors\<close>

text \<open>Every operation of a command that fails without a failing statement has changed nothing.\<close>

lemma set_settings_total: "fst (set_settings kvs (\<lambda>_. False) d) = Ok ()"
  by (induction kvs arbitrary: d) (auto simp: set_setting_def)

lemma admin_password_nothing: "set_admin_password gen pw (\<lambda>_. False) d = (Err e, d') \<Longrightarrow> d' = d"
  by (auto simp: set_admin_password_def set_admin_web_password_def Let_def split: sum.splits)

lemma create_user_nothing: "create_user name q n (\<lambda>_. False) d = (Err e, d') \<Longrightarrow> d' = d"
  by (auto simp: create_user_def Let_def attempt_def insert_user_def user_by_id_def query_row_def first_row_def
      split: sum.splits sql_error.splits if_splits list.splits)

lemma issue_token_nothing:
  assumes "issue_token uid label rnd n (\<lambda>_. False) d = (Err e, d')"
  shows "d' = d"
proof -
  have "token_join (\<lambda>t. tr_id t = i) d1 \<noteq> []" if ins: "insert_token r d = Ok (i, d1)" for r i d1
  proof -
    from ins have d1: "d1 = d\<lparr>tokens := tokens d @ [r\<lparr>tr_id := i\<rparr>]\<rparr>" and "user_exists (tr_user_id r) d"
      by (auto simp: insert_token_def Let_def split: if_splits)
    then have "filter (\<lambda>u. ur_id u = tr_user_id r) (users d) \<noteq> []"
      by (auto simp: user_exists_iff filter_empty_conv)
    then show ?thesis by (simp add: token_join_def d1)
  qed
  then show ?thesis
    using assms
    by (auto simp: issue_token_def Let_def attempt_def token_by_id_def query_row_def first_row_def
        split: sum.splits prod.splits list.splits)
qed

lemma revoke_token_nothing: "revoke_token i n (\<lambda>_. False) d = (Err e, d') \<Longrightarrow> d' = d"
  by (auto simp: revoke_token_def revoke_where_def revoke_rows_def update_tokens_def Let_def filter_empty_conv
      upd_none split: if_splits)

lemma kill_session_nothing: "kill_session i n (\<lambda>_. False) d = (Err e, d') \<Longrightarrow> d' = d"
  by (auto simp: kill_session_def kill_rows_def update_sessions_def Let_def filter_empty_conv upd_none split: if_splits)

lemma other_nothing:
  "set_user_disabled i b False d = (Err e, d') \<Longrightarrow> d' = d"
  "reserve uc sub uid n False d = (Err e, d') \<Longrightarrow> d' = d"
  "release uc sub False d = (Err e, d') \<Longrightarrow> d' = d"
  "set_setting k v False d = (Err e, d') \<Longrightarrow> d' = d"
  by (auto simp: set_user_disabled_def reserve_def release_def set_setting_def Let_def attempt_def
      split: sum.splits sql_error.splits if_splits)

lemmas op_nothing = admin_password_nothing create_user_nothing issue_token_nothing revoke_token_nothing
  kill_session_nothing other_nothing

definition no_trace :: "command_result \<Rightarrow> db \<Rightarrow> bool" where
  "no_trace r d \<longleftrightarrow> (is_ok (fst r) \<or> snd r = d)"

lemma no_trace_parts:
  assumes "dn_faults su = (\<lambda>_. False)"
  shows "no_trace (admin_set_password su d) d" "no_trace (admin_set_server su rest d) d"
    "no_trace (user_add su rest d) d" "no_trace (user_ls su d) d" "no_trace (user_enable su b rest d) d"
    "no_trace (token_issue_cmd su rest d) d" "no_trace (token_ls_cmd su rest d) d" "no_trace (token_revoke_cmd su rest d) d"
    "no_trace (reserve_ls su d) d"
  using assms set_settings_total
  unfolding no_trace_def admin_set_password_def admin_set_server_def user_add_def user_ls_def user_enable_def
    token_issue_cmd_def token_ls_cmd_def token_revoke_cmd_def reserve_ls_def
  by (auto simp: Let_def split: command_splits dest: op_nothing) (metis fst_conv is_ok_simps Inl_Inr_False)+

lemma with_store_error: "with_store su k d = (Err e, d') \<Longrightarrow> d' = d \<or> k (open_db d) = (Err e, d')"
  by (auto simp: with_store_def split: if_splits)

lemma no_trace_error: "f d = (Err e, d') \<Longrightarrow> no_trace (f d) d \<Longrightarrow> d' = d"
  by (simp add: no_trace_def)

lemma command_errors:
  assumes "dn_faults su = (\<lambda>_. False)"
  shows "cmd_admin su args d = (Err e, d') \<Longrightarrow> d' = d \<or> d' = open_db d"
    "cmd_user su args d = (Err e, d') \<Longrightarrow> d' = d \<or> d' = open_db d"
    "cmd_token su args d = (Err e, d') \<Longrightarrow> d' = d \<or> d' = open_db d"
    "cmd_reserve su args d = (Err e, d') \<Longrightarrow> d' = d \<or> d' = open_db d"
    "cmd_release su args d = (Err e, d') \<Longrightarrow> d' = d \<or> d' = open_db d"
    "cmd_ls su d = (Err e, d') \<Longrightarrow> d' = d \<or> d' = open_db d"
    "cmd_kill su args d = (Err e, d') \<Longrightarrow> d' = d \<or> d' = open_db d"
proof -
  note parts = no_trace_parts [OF assms]
  note quiet = parts [THEN no_trace_error [rotated]]
  show "cmd_admin su args d = (Err e, d') \<Longrightarrow> d' = d \<or> d' = open_db d"
    by (cases args) (auto simp: cmd_admin_def dest!: with_store_error split: if_splits dest: quiet)
  show "cmd_user su args d = (Err e, d') \<Longrightarrow> d' = d \<or> d' = open_db d"
    by (cases args) (auto simp: cmd_user_def dest!: with_store_error split: if_splits dest: quiet)
  show "cmd_token su args d = (Err e, d') \<Longrightarrow> d' = d \<or> d' = open_db d"
    by (cases args) (auto simp: cmd_token_def dest!: with_store_error split: if_splits dest: quiet)
  show "cmd_reserve su args d = (Err e, d') \<Longrightarrow> d' = d \<or> d' = open_db d"
    using assms by (auto simp: cmd_reserve_def dest!: with_store_error
        split: if_splits list.splits sum.splits prod.splits dest: quiet op_nothing)
  show "cmd_release su args d = (Err e, d') \<Longrightarrow> d' = d \<or> d' = open_db d"
    using assms by (auto simp: cmd_release_def split: list.splits dest!: with_store_error)
      (auto split: sum.splits prod.splits dest: op_nothing)
  show "cmd_ls su d = (Err e, d') \<Longrightarrow> d' = d \<or> d' = open_db d"
    by (auto simp: cmd_ls_def Let_def dest!: with_store_error split: sum.splits)
  show "cmd_kill su args d = (Err e, d') \<Longrightarrow> d' = d \<or> d' = open_db d"
    using assms by (auto simp: cmd_kill_def split: list.splits dest!: with_store_error)
      (auto split: sum.splits prod.splits dest: op_nothing)
qed

lemma start_errors:
  assumes "dn_faults su = (\<lambda>_. False)" "start_daemon su lib dummy key args d = (Err e, d')"
  shows "d' \<in> {d, open_db d}"
proof -
  have relay: "store_relay su vars d0 = (Err x, d1) \<Longrightarrow> False"
    and range: "store_range su vars d0 = (Err x, d1) \<Longrightarrow> False" for vars d0 x d1
    using assms(1) set_settings_total
    by (auto simp: store_relay_def store_range_def set_setting_def Let_def split: if_splits) (metis fst_conv Inl_Inr_False)+
  then show ?thesis
    using assms(2) unfolding start_daemon_def Let_def
    by (auto split: sum.splits option.splits prod.splits if_splits dest: relay range)
qed

text \<open>
  C17: As long as every statement runs, a call of \<open>ktunneld\<close> that reports an error has not touched the
  database, the audit log included, whatever was wrong with the arguments, the user, the token, the name
  or the session: it was found before anything was written. (Opening the database may install an index
  that was missing.) The one exception is a daemon that served and then lost a listener.
\<close>

theorem failed_commands_change_nothing:
  assumes "dn_faults su = (\<lambda>_. False)" "ktunneld su lib dummy key args d (Some e) d'"
    and "\<And>addr. e \<noteq> Listener_Failed addr"
  shows "d' \<in> {d, open_db d}"
  using assms(2)
proof (cases rule: ktunneld.cases)
  case kt_serve
  from kt_serve(2) show ?thesis by (cases rule: servesE) (use assms(1,3) start_errors in blast)+
next
  case (kt_command r)
  then have "run_admin_command su args d = Some (Err e, d')" by (auto split: sum.splits)
  then show ?thesis
    using command_errors [OF assms(1)] unfolding run_admin_command_def by (auto split: list.splits if_splits)
qed auto

lemma sample_unknown: "\<exists>d'. run_admin_command sample_admin [''user'', ''disable'', ''zoe''] sample_db =
    Some (Err (User_Failed ''zoe'' Not_Found), d')"
  by (simp add: run_admin_command_def cmd_user_def with_store_def open_store_def user_enable_def Let_def sample_admin_def
      user_by_name_def open_db_def) (simp add: sample_user_def)

theorem failed_commands_change_nothing_witness:
  "\<exists>d'. ktunneld sample_admin sample_server None None [''user'', ''disable'', ''zoe''] sample_db
       (Some (User_Failed ''zoe'' Not_Found)) d' \<and> d' \<in> {sample_db, open_db sample_db}"
proof -
  have f: "dn_faults sample_admin = (\<lambda>_. False)" by (simp add: sample_admin_def)
  obtain d' where "run_admin_command sample_admin [''user'', ''disable'', ''zoe''] sample_db =
      Some (Err (User_Failed ''zoe'' Not_Found), d')" using sample_unknown by blast
  from kt_command [OF this, of sample_server None None]
  have k: "ktunneld sample_admin sample_server None None [''user'', ''disable'', ''zoe''] sample_db
      (Some (User_Failed ''zoe'' Not_Found)) d'" by simp
  with failed_commands_change_nothing [OF f k] show ?thesis by blast
qed

end
