(* ===== verification/Spec2Isabelle.thy ===== *)
theory Spec2Isabelle
  imports Web_Laws Upd_Lock Cli_Ends Cli_Login Ktd_Outcome
begin

text \<open>
  ktunnel, a self-hosted tunnel service: a verification library.

  The program. \<open>ktunneld\<close> is the control plane beside frp's server (frps): frps asks its plugin
  (\<open>internal/plugin\<close>) about every login, tunnel and heartbeat; administrators and users work with
  its web portal (\<open>internal/web\<close>) or with its own commands (\<open>cmd/ktunneld\<close>); all of them share one
  SQLite database (\<open>internal/store\<close>). \<open>ktunnel\<close> (\<open>cmd/ktunnel\<close>) is the client: it keeps a profile with a
  personal token, opens tunnels through frp's client library, and updates itself from GitHub
  releases. The token carries the relay's address, so the two programs meet in it.

  The theories, from the bottom up. \<open>Prelude\<close> has results (\<open>Ok\<close>, \<open>Err\<close>), lists of rows, and the
  interfaces: \<open>codec\<close> and \<open>codec_chain\<close> (an encoder with its decoder), \<open>keyed_table\<close> (a table
  with a primary key), \<open>invariant_machine\<close> and \<open>monotone_machine\<close> (a step relation with an invariant,
  and with a relation all its runs respect). \<open>Go_*\<close> model the standard library as far as it is
  called, strings being byte strings: \<open>Go_Utf8\<close>, \<open>Go_Strings\<close>, \<open>Go_Strconv\<close>, \<open>Go_Json\<close>,
  \<open>Go_Base64\<close>, \<open>Go_Sha256\<close> (over 32-bit words), \<open>Go_Net\<close> and \<open>Go_Http\<close> (addresses, networks,
  URLs), \<open>Go_Lines\<close> (\<open>bufio.Scanner\<close>, paths) and \<open>Go_Flag\<close> (\<open>flag\<close>, with \<open>splitArgs\<close>).

  The server. \<open>Kt_Token\<close> is \<open>internal/store/token.go\<close>: the token is a chain of codecs. \<open>Kt_Db\<close>
  is the database of \<open>store.go\<close>, a record with one list of rows per table, and the SQL statements
  with their constraints; \<open>Kt_Store\<close> is every method of \<open>Store\<close>, and \<open>Kt_Admit\<close> is \<open>AdmitProxy\<close>
  with its specification as a grant of leases. \<open>Kt_Run\<close> is the step relation of the store, the
  invariant \<open>store_inv\<close> and the relation \<open>later\<close> (nothing final is undone); \<open>Kt_Auth\<close> and
  \<open>Kt_Accounts\<close> are the laws of tokens, sessions, passwords and reservations over its runs.
  \<open>Kt_Plugin\<close> is \<open>internal/plugin/handler.go\<close>, \<open>Kt_Gate\<close> its laws, \<open>Kt_Text\<close> the texts of errors.
  \<open>Web_Session\<close>, \<open>Web_Csrf\<close> and \<open>Web_Portal\<close> are \<open>internal/web/server.go\<close>: the tables in memory,
  the checks of a request, and the handlers as programs of a state monad over memory, database,
  clock, faults and random bytes. \<open>Web_Limit\<close> has the bounds, \<open>Web_Effect\<close> the interfaces that say
  what a program of that monad may do (\<open>effect\<close> and its extensions, interpreted as soundness and
  as confinement to a user), \<open>Web_Guard\<close> and \<open>Web_Laws\<close> who may do what. \<open>Ktd_Commands\<close> and \<open>Ktd_Serve\<close>
  are \<open>cmd/ktunneld/main.go\<close>; the step relation \<open>daemon_step\<close> puts plugin, portal, sweeper, commands and
  restarts side by side, and \<open>ktunneld\<close> is one call of the program; \<open>Ktd_Laws\<close> shows what holds of
  their runs, and \<open>Ktd_Outcome\<close> what an administrator can rely on when a command has ended, with
  success or with an error.

  The client. \<open>Upd_Release\<close>, \<open>Upd_Install\<close> and \<open>Upd_Passive\<close> are \<open>cmd/ktunnel/update.go\<close>: versions,
  sums, requests; the installation over a modelled disk on which every call may fail, with all
  states the disk went through recorded; the daily check. \<open>Upd_Laws\<close>, \<open>Upd_Safe\<close> (triples over these
  programs) and \<open>Upd_Lock\<close> (the lock file as a step relation of many processes) hold the laws.
  \<open>Cli_Config\<close> is \<open>config.go\<close> and \<open>names.go\<close>, \<open>Cli_Client\<close> and \<open>Cli_Tunnel\<close> are \<open>main.go\<close>,
  \<open>tunnel.go\<close> and \<open>relay_tls.go\<close>; \<open>Cli_Profile\<close> and \<open>Cli_Laws\<close> hold the laws of the profile, of command
  lines and of the loop that watches a tunnel, and \<open>Cli_Ends\<close> shows which commands end. \<open>Cli_Login\<close> puts the
  client's configuration before the server's plugin, and this theory goes from the daemon's flags
  to the client's connection.

  What the lemmas show. Round trips: tokens, JSON, base64, numbers, the profile, the login form's
  token, the daemon's flags up to the client's connection, an issued token up to the session it
  opens. Invariants: the database under every interleaving, the portal's tables, the whole daemon,
  the update lock while no lock file is old. Refinement: an admission is a grant of leases. Functional behaviour on every branch: authentication, admission, login, expiry,
  passwords, versions, sums. Safety: revoked tokens and killed sessions stay out, requests need
  a session and change only their user's rows, the GitHub token goes to the chosen address only, updates and
  logins are all or nothing, a tunnel goes to the relay of the token, listeners are on
  loopback, a reserved name is kept from other users' http tunnels until it is released. Errors: a denial is
  true of the database (but for some that say a resource is in use), and a failed command of the server
  changes nothing.
  Bounds: table sizes and login attempts. Termination: a lost or refused tunnel ends, and every command of the
  client ends unless frp's client never does.

  Loops and bounds. Every function is total except the two loops that wait for frp (\<open>watch\<close> and
  \<open>await_end\<close>, \<open>partial_function\<close>), for which returning is a theorem. Loops over a fixed count
  (redirects, attempts for the lock, the 40 bits of a root) recurse on that count. Integers are unbounded
  where Go's cannot overflow and checked against the 64-bit range where text is parsed; the clock is
  in nanoseconds in the portal, the client and the updater, and in seconds in the store.

  Parameters. What is not the program's own code is an argument: random sources, clocks and
  failing statements (as streams), the Unicode tables beyond ASCII, \<open>bcrypt\<close>, the texts of the
  SQL driver, the order in which a map is ranged over, what Lstat, Open and Stat answer for the
  profile, the network and the runs of a new binary (as streams), \<open>gh\<close>, and frp's client library
  (\<open>relay_side\<close>: whether it accepts a configuration, and its events).

  Not modelled. The SQLite engine (locking, journals), \<open>net/http\<close>'s goroutines and the graceful
  shutdown, both \<open>main\<close> functions, signals (an interrupt is an argument), log lines, usage texts, HTML templates and static
  files, constant response headers, \<open>tabwriter\<close>'s layout and date formats, the two embedded certificates
  (data). Requests to the daemon are steps one after another: the store has one connection and
  the portal's tables one mutex; what happens between the statements of two concurrent operations
  is in the step relation of the store.
\<close>

section \<open>From the daemon's flags to the client's connection\<close>

lemma server_info_settings: "settings d = settings d' \<Longrightarrow> server_info_of fs d = server_info_of fs d'"
  by (simp add: server_info_of_def setting_def)

text \<open>A range over a map visits every entry once.\<close>

definition visits_all :: "surroundings \<Rightarrow> bool" where
  "visits_all su \<longleftrightarrow> (\<forall>kvs. mset (dn_order su kvs) = mset kvs)"

lemma store_relay_reads_back:
  assumes "dn_faults su = (\<lambda>_. False)" "visits_all su"
    and "str_of_flag vars ''server'' \<noteq> []" "str_of_flag vars ''domain'' \<noteq> []"
    and "1 \<le> int_of_flag vars ''port''" "int_of_flag vars ''port'' \<le> max_int64"
    and "store_relay su vars d = (r, d1)"
  shows "server_info_of (\<lambda>_. False) d1 =
    Ok \<lparr>si_addr = str_of_flag vars ''server'', si_port = int_of_flag vars ''port'',
        si_domain = str_of_flag vars ''domain'', si_tls_server_name = [], si_token_version = []\<rparr>"
proof -
  let ?info = "replaced_info (str_of_flag vars ''server'') (int_of_flag vars ''port'') (str_of_flag vars ''domain'')
    (or_else (server_info_of (dn_faults su) d) no_server)"
  have "d1 = snd (set_settings (dn_order su (server_settings ?info)) (\<lambda>_. False) d)"
    using assms(1,3,7) by (simp add: store_relay_def Let_def)
  moreover have "si_addr ?info = str_of_flag vars ''server''" "si_port ?info = int_of_flag vars ''port''"
    "si_domain ?info = str_of_flag vars ''domain''"
    using assms(3-5) by (simp_all add: replaced_info_def)
  ultimately show ?thesis
    using server_info_any_order [of "dn_order su (server_settings ?info)" ?info d] assms(2-6)
    by (simp add: visits_all_def)
qed

text \<open>
  Half of a relay is not kept. While no relay is configured, a start with only an address or only a
  domain writes the other one empty, because \<open>ServerInfo\<close> answers with nothing at all then. So two
  starts that give one each end unconfigured, with the address of the first one gone.
\<close>

lemma store_half_a_relay:
  assumes "dn_faults su = (\<lambda>_. False)" "visits_all su" "server_info_of (\<lambda>_. False) d = Err e"
    and "(str_of_flag vars ''server'' = []) \<noteq> (str_of_flag vars ''domain'' = [])"
    and "store_relay su vars d = (r, d1)"
  shows "settings d1 ''server_addr'' = Some (str_of_flag vars ''server'')"
    "server_info_of (\<lambda>_. False) d1 = Err Server_Not_Configured"
proof -
  let ?info = "replaced_info (str_of_flag vars ''server'') (int_of_flag vars ''port'') (str_of_flag vars ''domain'') no_server"
  have "d1 = snd (set_settings (dn_order su (server_settings ?info)) (\<lambda>_. False) d)"
    using assms(1,3-5) by (auto simp: store_relay_def Let_def or_else_def)
  moreover have "mset (dn_order su (server_settings ?info)) = mset (server_settings ?info)"
    using assms(2) by (simp add: visits_all_def)
  ultimately show "settings d1 ''server_addr'' = Some (str_of_flag vars ''server'')"
    "server_info_of (\<lambda>_. False) d1 = Err Server_Not_Configured"
    using stored_settings [of "dn_order su (server_settings ?info)" ?info d] assms(4)
    by (auto simp: replaced_info_def no_server_def server_info_of_def setting_def read_db_def or_else_def Let_def)
qed

theorem relay_given_in_two_starts_is_lost:
  assumes "dn_faults su = (\<lambda>_. False)" "visits_all su" "server_info_of (\<lambda>_. False) d = Err e"
    and "str_of_flag vars ''server'' \<noteq> []" "str_of_flag vars ''domain'' = []" "store_relay su vars d = (r, d1)"
    and "dn_faults su' = (\<lambda>_. False)" "visits_all su'"
    and "str_of_flag vars' ''server'' = []" "str_of_flag vars' ''domain'' \<noteq> []" "store_relay su' vars' d1 = (r', d2)"
  shows "settings d1 ''server_addr'' = Some (str_of_flag vars ''server'') \<and> settings d2 ''server_addr'' = Some [] \<and>
    server_info_of (\<lambda>_. False) d2 = Err Server_Not_Configured"
proof -
  note first = store_half_a_relay [OF assms(1-3) _ assms(6)]
  note second = store_half_a_relay [OF assms(7,8) first(2) _ assms(11)]
  show ?thesis using first second assms(4,5,9,10) by simp
qed

lemma start_stores_relay:
  assumes "start_daemon su lib dummy key args d = (Ok started, d')"
    and "parse_flags serve_names serve_vars args = Ok (vars, rest)"
  obtains r d1 where "store_relay su vars (open_db d) = (r, d1)"
    "\<And>k. k \<noteq> ''tcp_port_range'' \<Longrightarrow> settings d' k = settings d1 k"
  using assms
  by (auto simp: start_daemon_def store_range_def set_setting_def put_setting_def Let_def
      split: option.splits sum.splits prod.splits if_splits)

lemma server_info_without_range:
  "(\<And>k. k \<noteq> ''tcp_port_range'' \<Longrightarrow> settings d' k = settings d k) \<Longrightarrow> server_info_of fs d' = server_info_of fs d"
  by (simp add: server_info_of_def setting_def)

text \<open>
  C9: What the administrator tells the daemon is where the clients go. After \<open>ktunneld serve\<close> was
  given an address, a port and a domain, every token issued while the settings stay as they are
  makes a client connect to that address and port, present that token, have the relay's
  certificate checked against that address, and show its http tunnels under that domain.
\<close>

theorem flags_reach_the_client:
  assumes "start_daemon su lib dummy key args d = (Ok started, d1)" "dn_faults su = (\<lambda>_. False)"
    and "visits_all su" "parse_flags serve_names serve_vars args = Ok (vars, rest)"
    and "str_of_flag vars ''server'' = addr" "addr \<noteq> []" "str_of_flag vars ''domain'' = domain" "domain \<noteq> []"
    and "int_of_flag vars ''port'' = port" "1 \<le> port" "port \<le> 65535"
    and "utf8_valid (trim_space addr)" "utf8_valid (trim_space domain)"
    and "settings d2 = settings d1" "wf_db d2" "length secret = 32"
    and "issue_token uid label (Some secret) n (\<lambda>_. False) d2 = (Ok (tok, issued), d3)"
  shows "\<exists>info. parse_token tok = Ok info \<and>
    (\<forall>ca verbose. let c = frp_common_of (login_config tok info) ca verbose in
       fc_server_addr c = trim_space addr \<and> fc_server_port c = port \<and> fc_server_name c = trim_space addr \<and>
       fc_tls_enable c \<and> fc_metadatas c = [(''token'', tok)]) \<and>
    (\<forall>t. tn_type t = ''http'' \<longrightarrow>
       public_url t (login_config tok info) = ''https://'' @ tn_name t @ ''.'' @ trim_space domain)"
proof -
  let ?info = "\<lparr>si_addr = addr, si_port = port, si_domain = domain, si_tls_server_name = [], si_token_version = []\<rparr>"
  obtain r dr where relay: "store_relay su vars (open_db d) = (r, dr)"
    "\<And>k. k \<noteq> ''tcp_port_range'' \<Longrightarrow> settings d1 k = settings dr k"
    using start_stores_relay [OF assms(1,4)] by blast
  have "server_info_of (\<lambda>_. False) d2 = server_info_of (\<lambda>_. False) dr"
    using relay(2) assms(14) by (intro server_info_without_range) simp
  also have "\<dots> = Ok ?info"
    using store_relay_reads_back [OF assms(2,3) _ _ _ _ relay(1)] assms(5-11) by simp
  finally have info: "server_info_of (\<lambda>_. False) d2 = Ok ?info" .
  obtain hash p where new: "new_token ?info (Some secret) = Ok (tok, hash, p)"
    using issue_token_row [OF assms(15,17)] info by (metis Inr_inject)
  have "utf8_info ?info" using assms(12,13) by (simp add: utf8_info_def tls_name_of_def)
  then have "parse_token tok = Ok (canonical_info ?info)" by (rule parse_token_new [OF new assms(16)])
  then show ?thesis
    by (intro exI [of _ "canonical_info ?info"])
      (simp add: frp_common_of_def login_config_def canonical_info_def tls_name_of_def public_url_def Let_def)
qed

definition relay_args :: "string list" where
  "relay_args = [''--server=relay.example.com'', ''--domain=example.com'', ''--port=7000'']"

definition relay_vars :: flag_vars where
  "relay_vars = serve_vars(''server'' := FStr ''relay.example.com'', ''domain'' := FStr ''example.com'', ''port'' := FInt 7000)"

definition fresh_db :: db where
  "fresh_db = sample_db\<lparr>tokens := [], sessions := [], proxies := []\<rparr>"

lemma relay_flags: "parse_flags serve_names serve_vars relay_args = Ok (relay_vars, [])"
proof -
  have "parse_int0 ''7000'' = Some 7000"
    by (simp add: parse_int0_def parse_uint0_def base_prefix_def any_digit_def is_digit_def digit_val_def)
  then show ?thesis
    by (simp add: serve_names_def serve_vars_def relay_args_def relay_vars_def split_flag_def set_flag_def)
qed

lemma default_addresses: "loopback_address ''127.0.0.1:7600''" "loopback_address ''127.0.0.1:7601''"
proof -
  have "split_host_port ''127.0.0.1:7600'' = Some (''127.0.0.1'', ''7600'')"
    "split_host_port ''127.0.0.1:7601'' = Some (''127.0.0.1'', ''7601'')" by code_simp+
  moreover have "parse_ip ''127.0.0.1'' = Some (ipv4_mapped [127, 0, 0, 1])"
    by (simp add: parse_ip_def ipv4_fields_def ip_octet_def parse_uint_def is_digit_def digit_val_def)
  moreover have "is_loopback (ipv4_mapped [127, 0, 0, 1])" by code_simp
  moreover have "atoi ''7600'' = Some 7600" "atoi ''7601'' = Some 7601"
    by (simp_all add: atoi_def parse_int_def parse_uint_def is_digit_def digit_val_def)
  ultimately show "loopback_address ''127.0.0.1:7600''" "loopback_address ''127.0.0.1:7601''"
    by (simp_all add: loopback_address_def)
qed

lemma sample_networks: "\<exists>nets. parse_trusted default_networks = Some nets"
proof -
  have "parse_ip ''127.0.0.0'' = Some (ipv4_mapped [127, 0, 0, 0])"
    by (simp add: parse_ip_def ipv4_fields_def ip_octet_def parse_uint_def is_digit_def digit_val_def)
  then have "parse_cidr ''127.0.0.0/8'' \<noteq> None"
    by (simp add: parse_cidr_def parse_uint_def is_digit_def digit_val_def)
  moreover have "parse_ip ''::1'' \<noteq> None"
    by (simp add: parse_ip_def ipv6_def ip6_loop.simps is_hex_def hex_val_def ip6_finish_def Let_def)
  then have "parse_cidr ''::1/128'' \<noteq> None"
    by (auto simp: parse_cidr_def parse_uint_def is_digit_def digit_val_def)
  moreover have "trim_space ''127.0.0.0/8'' = ''127.0.0.0/8''" "trim_space ''::1/128'' = ''::1/128''"
    by (simp_all add: trim_space_visible visible_def)
  ultimately show ?thesis by (auto simp: default_networks_def)
qed

lemma sample_new_server: "\<exists>sv p. new_server sample_server [] default_networks (Some ''h'') (Some ''k'') = Ok (sv, p)"
  using sample_networks by (auto simp: new_server_def normalize_configured_host_def)


lemma sample_start:
  "\<exists>started d1. start_daemon sample_admin sample_server (Some ''h'') (Some ''k'') relay_args fresh_db = (Ok started, d1) \<and>
     tokens d1 = [] \<and> users d1 = users sample_db"
proof -
  have v: "validate_listen_address ''web'' ''127.0.0.1:7600'' False = None"
    "validate_listen_address ''plugin'' ''127.0.0.1:7601'' False = None"
    using default_addresses by (simp_all add: validate_loopback)
  have f: "str_of_flag relay_vars ''web'' = ''127.0.0.1:7600''" "str_of_flag relay_vars ''plugin'' = ''127.0.0.1:7601''"
    "bool_of_flag relay_vars ''allow-public-listeners'' = False" "str_of_flag relay_vars ''web-host'' = []"
    "str_of_flag relay_vars ''tcp-range'' = []"
    by (simp_all add: relay_vars_def serve_vars_def str_of_flag_def bool_of_flag_def)
  have a: "open_store sample_admin" "dn_faults sample_admin = (\<lambda>_. False)" "dn_order sample_admin = id"
    by (simp_all add: sample_admin_def open_store_def)
  have same: "tokens (snd (set_settings kvs (\<lambda>_. False) d)) = tokens d" "users (snd (set_settings kvs (\<lambda>_. False) d)) = users d"
    for kvs d by (induction kvs arbitrary: d) (auto simp: set_setting_def put_setting_def)
  let ?dr = "snd (store_relay sample_admin relay_vars (open_db fresh_db))"
  have db: "tokens (open_db fresh_db) = []" "users (open_db fresh_db) = users sample_db"
    by (simp_all add: open_db_def fresh_db_def)
  have "fst (store_relay sample_admin relay_vars (open_db fresh_db)) = Ok ()"
    using set_settings_ok by (simp add: store_relay_def a Let_def)
  moreover have "tokens ?dr = []" "users ?dr = users sample_db"
    using db by (simp_all add: store_relay_def a Let_def same)
  ultimately obtain dr where relay: "store_relay sample_admin relay_vars (open_db fresh_db) = (Ok (), dr)"
    and parts: "tokens dr = []" "users dr = users sample_db"
    by (metis prod.collapse)
  obtain sv p where new: "new_server sample_server [] default_networks (Some ''h'') (Some ''k'') = Ok (sv, p)"
    using sample_new_server by blast
  have "start_daemon sample_admin sample_server (Some ''h'') (Some ''k'') relay_args fresh_db =
      (Ok (sv, p, new_http_server ''127.0.0.1:7601'', new_http_server ''127.0.0.1:7600''), dr)"
    unfolding start_daemon_def relay_flags sum.case prod.case Let_def f v option.case new store_range_def
    by (simp add: a relay)
  with parts show ?thesis by blast
qed

theorem flags_reach_the_client_witness:
  "\<exists>d2 tok issued d3. issue_token 2 [] (Some (replicate 32 (chr 7))) 100 (\<lambda>_. False) d2 = (Ok (tok, issued), d3) \<and>
     (\<exists>info. parse_token tok = Ok info \<and>
       fc_server_addr (frp_common_of (login_config tok info) ''ca.pem'' False) = ''relay.example.com'')"
proof -
  obtain started d1 where start: "start_daemon sample_admin sample_server (Some ''h'') (Some ''k'') relay_args fresh_db = (Ok started, d1)"
    and d1: "tokens d1 = []" "users d1 = users sample_db"
    using sample_start by blast
  have flags: "str_of_flag relay_vars ''server'' = ''relay.example.com''" "str_of_flag relay_vars ''domain'' = ''example.com''"
    "int_of_flag relay_vars ''port'' = 7000"
    by (simp_all add: relay_vars_def serve_vars_def str_of_flag_def int_of_flag_def)
  have adm: "dn_faults sample_admin = (\<lambda>_. False)" "visits_all sample_admin" by (simp_all add: sample_admin_def visits_all_def)
  have utf8: "utf8_valid (trim_space ''relay.example.com'')" "utf8_valid (trim_space ''example.com'')"
    by (simp_all add: trim_space_visible visible_def next_rune_def)
  obtain r dr where relay: "store_relay sample_admin relay_vars (open_db fresh_db) = (r, dr)"
    "\<And>k. k \<noteq> ''tcp_port_range'' \<Longrightarrow> settings d1 k = settings dr k"
    using start_stores_relay [OF start relay_flags] by blast
  have info: "server_info_of (\<lambda>_. False) d1 = Ok sample_info"
    using server_info_without_range [OF relay(2)] store_relay_reads_back [OF adm _ _ _ _ relay(1)] flags
    by (simp add: sample_info_def)
  have wf: "wf_db d1"
  proof -
    have "store_inv fresh_db"
      by (simp add: store_inv_def coherent_def fresh_db_def wf_parts user_exists_def unique_active_def sample_rows)
    moreover have "runs store_step fresh_db d1"
      using run_start [of fresh_db sample_admin sample_server "Some ''h''" "Some ''k''" relay_args] start by simp
    ultimately show ?thesis using store.runs_inv by (auto simp: store_inv_def)
  qed
  have "\<exists>issued d3. issue_token 2 [] (Some (replicate 32 (chr 7))) 100 (\<lambda>_. False) d1 = (Ok (sample_token (chr 7), issued), d3)"
    by (simp add: issue_token_def info sample_token_minted Let_def attempt_def insert_token_def d1
        user_exists_def next_id_def token_by_id_def token_join_def sample_user_def)
  then obtain issued d3 where issue: "issue_token 2 [] (Some (replicate 32 (chr 7))) 100 (\<lambda>_. False) d1 = (Ok (sample_token (chr 7), issued), d3)"
    by blast
  have "\<exists>info. parse_token (sample_token (chr 7)) = Ok info \<and>
      fc_server_addr (frp_common_of (login_config (sample_token (chr 7)) info) ''ca.pem'' False) = trim_space ''relay.example.com''"
    using flags_reach_the_client [OF start adm relay_flags flags(1) _ flags(2) _ flags(3) _ _ utf8 refl wf _ issue]
    by (auto simp: Let_def)
  with issue show ?thesis by (simp add: trim_space_visible visible_def) blast
qed

end
